(* ===== verification/Prelude.thy ===== *)
theory Prelude
  imports Main "HOL-Library.Word" "HOL-Library.List_Lexorder" "HOL-Library.Char_ord"
begin

text \<open>
  The vocabulary every other theory of the development shares: the exceptions of the
  services as one datatype, results as a sum of an exception and a value, the two ways
  the services read rows (\<^theory_text>\<open>scalar_one_or_none\<close> and \<open>order_by ... desc limit 1\<close>),
  time, UUIDs, JSON values, and the little of Python's \<open>str\<close> that the source uses.

  A Python \<open>str\<close> is represented by its UTF-8 bytes, as a HOL \<^typ>\<open>string\<close>
  (a HOL \<^typ>\<open>char\<close> is one byte). Byte-wise comparison of UTF-8 agrees with Python's
  comparison by code point, and concatenation and prefix tests agree as well; the
  length that Python counts is \<open>py_len\<close> below.
\<close>

named_theorems result_simps \<open>rewrite rules for results, row selection and guards\<close>

section \<open>Exceptions and results\<close>

datatype exn =
    DeploymentGateError string
  | DeploymentPolicyError string
  | ApprovalValidationError string
  | IdentityAuthorityError string
  | NotificationValidationError string
  | SupervisorError string
  | ResourceAuthorityError string
  | BackupAuthorityError string
  | GitHubVerificationError string
  | DeploymentCliError string
  | ValueError string
  | IntegrityError
  | SQLAlchemyError
  | MultipleResultsFound
  | NoResultFound
  | OtherException string

type_synonym 'a result = "exn + 'a"

definition bindE :: "'a result \<Rightarrow> ('a \<Rightarrow> 'b result) \<Rightarrow> 'b result" where
  "bindE m k = (case m of Inl e \<Rightarrow> Inl e | Inr x \<Rightarrow> k x)"

lemma bindE_Inl [simp]: "bindE (Inl e) k = Inl e"
  by (simp add: bindE_def)

lemma bindE_Inr [simp]: "bindE (Inr x) k = k x"
  by (simp add: bindE_def)

lemma bindE_eq_Inr [result_simps]: "bindE m k = Inr y \<longleftrightarrow> (\<exists>x. m = Inr x \<and> k x = Inr y)"
  by (simp add: bindE_def split: sum.splits)

lemma bindE_eq_Inl [result_simps]:
  "bindE m k = Inl e \<longleftrightarrow> m = Inl e \<or> (\<exists>x. m = Inr x \<and> k x = Inl e)"
  by (auto simp: bindE_def split: sum.splits)

lemma bindE_assoc: "bindE (bindE m k) h = bindE m (\<lambda>x. bindE (k x) h)"
  by (simp add: bindE_def split: sum.splits)

lemma if_Inl_eq_Inr [result_simps]: "(if c then Inl e else k) = Inr y \<longleftrightarrow> \<not> c \<and> k = Inr y"
  by auto

text \<open>
  The shape of a successful operation: which branch was taken and what each step returned. As
  rewrite rules these keep the branches apart, where splitting a case under a quantifier does not.
\<close>

named_theorems branch_simps \<open>rewrite rules for the branches of a successful operation\<close>

lemma if_eq_Inr [branch_simps]:
  "(if c then a else b) = Inr y \<longleftrightarrow> c \<and> a = Inr y \<or> \<not> c \<and> b = Inr y"
  by auto

lemma case_option_eq_Inr [branch_simps]:
  "(case x of None \<Rightarrow> a | Some z \<Rightarrow> f z) = Inr y \<longleftrightarrow>
     x = None \<and> a = Inr y \<or> (\<exists>z. x = Some z \<and> f z = Inr y)"
  by (cases x) auto

lemma case_prod_eq_Inr [branch_simps]:
  "(case p of (a, b) \<Rightarrow> f a b) = Inr y \<longleftrightarrow> (\<exists>a b. p = (a, b) \<and> f a b = Inr y)"
  by (cases p) auto

lemma case_sum_eq_Inr [branch_simps]:
  "(case x of Inl e \<Rightarrow> f e | Inr z \<Rightarrow> g z) = Inr y \<longleftrightarrow>
     (\<exists>e. x = Inl e \<and> f e = Inr y) \<or> (\<exists>z. x = Inr z \<and> g z = Inr y)"
  by (cases x) auto

declare bindE_eq_Inr [branch_simps]

text \<open>\<open>try: ... except IntegrityError: ...\<close>\<close>

definition on_integrity_error :: "'a result \<Rightarrow> 'a result \<Rightarrow> 'a result" where
  "on_integrity_error m handler =
     (case m of Inl e \<Rightarrow> if e = IntegrityError then handler else m | Inr x \<Rightarrow> m)"

lemma on_integrity_error_ok [branch_simps]:
  "on_integrity_error m h = Inr x \<longleftrightarrow> m = Inr x \<or> m = Inl IntegrityError \<and> h = Inr x"
  by (auto simp: on_integrity_error_def split: sum.splits)

definition is_ok :: "'a result \<Rightarrow> bool" where
  "is_ok r = (case r of Inl _ \<Rightarrow> False | Inr _ \<Rightarrow> True)"

lemma is_ok_simps [simp]: "is_ok (Inr x)" "\<not> is_ok (Inl e)"
  by (simp_all add: is_ok_def)

lemma is_ok_iff: "is_ok r \<longleftrightarrow> (\<exists>x. r = Inr x)"
  by (cases r) simp_all

section \<open>Reading rows\<close>

text \<open>
  \<open>db.execute(select(T).where(P)).scalar_one_or_none()\<close> returns the only row that
  satisfies the condition, \<open>None\<close> if there is none, and raises if there are several.
\<close>

definition scalar_one_or_none :: "('r \<Rightarrow> bool) \<Rightarrow> 'r list \<Rightarrow> 'r option result" where
  "scalar_one_or_none P rows =
     (case filter P rows of [] \<Rightarrow> Inr None | [r] \<Rightarrow> Inr (Some r) | _ \<Rightarrow> Inl MultipleResultsFound)"

definition scalar_one :: "('r \<Rightarrow> bool) \<Rightarrow> 'r list \<Rightarrow> 'r result" where
  "scalar_one P rows =
     (case filter P rows of [] \<Rightarrow> Inl NoResultFound | [r] \<Rightarrow> Inr r | _ \<Rightarrow> Inl MultipleResultsFound)"

lemma scalar_one_or_none_None [result_simps]:
  "scalar_one_or_none P rows = Inr None \<longleftrightarrow> (\<forall>r \<in> set rows. \<not> P r)"
proof -
  have "scalar_one_or_none P rows = Inr None \<longleftrightarrow> filter P rows = []"
    by (auto simp: scalar_one_or_none_def split: list.splits)
  then show ?thesis by (simp add: filter_empty_conv)
qed

lemma scalar_one_or_none_Some [result_simps]:
  "scalar_one_or_none P rows = Inr (Some r) \<longleftrightarrow> filter P rows = [r]"
  by (auto simp: scalar_one_or_none_def split: list.splits)

lemma scalar_one_eq [result_simps]: "scalar_one P rows = Inr r \<longleftrightarrow> filter P rows = [r]"
  by (auto simp: scalar_one_def split: list.splits)

lemma filter_singletonD: "filter P rows = [r] \<Longrightarrow> r \<in> set rows \<and> P r"
  by (metis filter_set list.set_intros(1) mem_Collect_eq set_filter)

lemma filter_ConsD: "filter P rows = r # rs \<Longrightarrow> r \<in> set rows \<and> P r"
  by (metis filter_set list.set_intros(1) mem_Collect_eq set_filter)

lemma filter_singleton_unique: "filter P rows = [r] \<Longrightarrow> s \<in> set rows \<Longrightarrow> P s \<Longrightarrow> s = r"
  by (metis (mono_tags, lifting) filter_set list.set(1) mem_Collect_eq set_filter set_ConsD
      empty_iff)

text \<open>Rows with pairwise different keys: at most one matches, so the read cannot raise.\<close>

lemma distinct_key_filter:
  assumes "distinct (map key rows)" and "r \<in> set rows"
  shows "filter (\<lambda>s. key s = key r) rows = [r]"
  using assms
proof (induction rows)
  case Nil
  then show ?case by simp
next
  case (Cons a rows)
  show ?case
  proof (cases "a = r")
    case True
    with Cons.prems(1) have "\<forall>s \<in> set rows. key s \<noteq> key r" by auto (metis rev_image_eqI)
    with True show ?thesis by (simp add: filter_empty_conv)
  next
    case False
    with Cons.prems have "r \<in> set rows" and "key a \<noteq> key r" by auto
    with Cons show ?thesis by simp
  qed
qed

lemma distinct_key_scalar:
  assumes "distinct (map key rows)"
  shows "\<exists>x. scalar_one_or_none (\<lambda>s. key s = k) rows = Inr x"
proof (cases "\<exists>r \<in> set rows. key r = k")
  case True
  then obtain r where "r \<in> set rows" "key r = k" by blast
  with distinct_key_filter [OF assms] have "filter (\<lambda>s. key s = k) rows = [r]" by auto
  then show ?thesis by (simp add: scalar_one_or_none_def)
next
  case False
  then have "scalar_one_or_none (\<lambda>s. key s = k) rows = Inr None"
    by (simp add: result_simps)
  then show ?thesis ..
qed

text \<open>
  \<open>order_by(key.desc()).limit(1)\<close>: a row with the greatest key. SQL leaves open which
  one when several have it; the model takes the first such row of the table.
\<close>

fun latest_by :: "('r \<Rightarrow> 'k::linorder) \<Rightarrow> 'r list \<Rightarrow> 'r option" where
  "latest_by key [] = None"
| "latest_by key (r # rows) =
     (case latest_by key rows of
        None \<Rightarrow> Some r
      | Some s \<Rightarrow> (if key r < key s then Some s else Some r))"

lemma latest_by_None [simp]: "latest_by key rows = None \<longleftrightarrow> rows = []"
  by (cases rows) (auto split: option.splits)

lemma latest_by_Some:
  "latest_by key rows = Some r \<Longrightarrow> r \<in> set rows \<and> (\<forall>s \<in> set rows. key s \<le> key r)"
proof (induction rows arbitrary: r)
  case Nil
  then show ?case by simp
next
  case (Cons a rows)
  then show ?case
    by (force split: option.splits if_splits)
qed

lemma latest_by_snoc:
  assumes "\<forall>s \<in> set rows. key s < key r"
  shows "latest_by key (rows @ [r]) = Some r"
  using assms by (induction rows) auto

section \<open>Time, identifiers, JSON\<close>

text \<open>
  An instant is a number of microseconds since the epoch (the resolution of Python's
  \<open>datetime\<close> and of PostgreSQL's \<open>timestamptz\<close>). A \<open>datetime\<close> object is aware or
  naive; columns declared \<open>DateTime(timezone=True)\<close> are always aware.
\<close>

type_synonym instant = int

datatype pytime = Aware instant | Naive instant

definition seconds :: "int \<Rightarrow> int" where
  "seconds n = n * 1000000"

definition minutes :: "int \<Rightarrow> int" where
  "minutes n = seconds (60 * n)"

type_synonym uuid = "128 word"

text \<open>
  JSON values. \<open>JTime t\<close> is a JSON string that is the ISO text of the instant \<open>t\<close>
  (what \<open>isoformat\<close> writes and \<open>fromisoformat\<close> accepts); \<open>JStr\<close> is any other
  string, on which \<open>fromisoformat\<close> raises \<open>ValueError\<close>. \<open>JUuid u\<close> is the text
  \<open>str(u)\<close>; \<open>JFloat n\<close> is a float, in
  units of a billionth (only a clock reading is written as one). Objects list their keys in ascending order, as PostgreSQL's JSONB does,
  so that equality of Python dictionaries is equality of the lists.
\<close>

datatype json =
    JNull
  | JBool bool
  | JNum int
  | JFloat int
  | JStr string
  | JTime pytime
  | JUuid uuid
  | JList "json list"
  | JObj "(string \<times> json) list"

type_synonym dict = "(string \<times> json) list"

definition mk_dict :: "(string \<times> json) list \<Rightarrow> dict" where
  "mk_dict kvs = sort_key fst kvs"

lemma map_of_mk_dict [simp]:
  assumes "distinct (map fst kvs)"
  shows "map_of (mk_dict kvs) = map_of kvs"
proof -
  have "set (mk_dict kvs) = set kvs"
    by (simp add: mk_dict_def)
  moreover have "distinct (map fst (mk_dict kvs))"
    using assms by (metis distinct_map distinct_sort set_sort mk_dict_def)
  ultimately show ?thesis
    using assms by (metis map_of_inject_set)
qed

text \<open>\<open>datetime.fromisoformat(d[k])\<close>: KeyError, TypeError and ValueError are \<open>None\<close>.\<close>

definition iso_field :: "string \<Rightarrow> dict \<Rightarrow> pytime option" where
  "iso_field k d = (case map_of d k of Some (JTime t) \<Rightarrow> Some t | _ \<Rightarrow> None)"

definition str_field :: "string \<Rightarrow> dict \<Rightarrow> string option" where
  "str_field k d = (case map_of d k of Some (JStr s) \<Rightarrow> Some s | _ \<Rightarrow> None)"

section \<open>Strings\<close>

text \<open>Python's \<open>len\<close>: the bytes that do not continue a UTF-8 sequence.\<close>

definition utf8_continuation :: "char \<Rightarrow> bool" where
  "utf8_continuation c \<longleftrightarrow> 128 \<le> (of_char c :: nat) \<and> (of_char c :: nat) < 192"

definition py_len :: "string \<Rightarrow> nat" where
  "py_len s = length (filter (\<lambda>c. \<not> utf8_continuation c) s)"

lemma py_len_le: "py_len s \<le> length s"
  by (simp add: py_len_def)

definition starts_with :: "string \<Rightarrow> string \<Rightarrow> bool" where
  "starts_with p s \<longleftrightarrow> take (length p) s = p"

lemma starts_with_iff: "starts_with p s \<longleftrightarrow> (\<exists>t. s = p @ t)"
  unfolding starts_with_def by (metis append_eq_conv_conj append_take_drop_id)

definition ends_with :: "string \<Rightarrow> string \<Rightarrow> bool" where
  "ends_with q s \<longleftrightarrow> length q \<le> length s \<and> drop (length s - length q) s = q"

lemma ends_with_iff: "ends_with q s \<longleftrightarrow> (\<exists>t. s = t @ q)"
proof
  assume "ends_with q s"
  then have "s = take (length s - length q) s @ q"
    unfolding ends_with_def by (metis append_take_drop_id)
  then show "\<exists>t. s = t @ q" ..
next
  assume "\<exists>t. s = t @ q"
  then show "ends_with q s" by (auto simp: ends_with_def)
qed

definition hex_chars :: string where
  "hex_chars = ''0123456789abcdef''"

definition is_hex :: "char \<Rightarrow> bool" where
  "is_hex c \<longleftrightarrow> c \<in> set hex_chars"

text \<open>\<open>not x\<close> for an optional string: \<open>None\<close> and the empty string are false.\<close>

definition falsy :: "string option \<Rightarrow> bool" where
  "falsy x = (case x of None \<Rightarrow> True | Some s \<Rightarrow> s = [])"

lemma falsy_simps [simp]: "falsy None" "falsy (Some s) \<longleftrightarrow> s = []"
  by (simp_all add: falsy_def)

lemma not_falsy_iff: "\<not> falsy x \<longleftrightarrow> (\<exists>s. x = Some s \<and> s \<noteq> [])"
  by (cases x) simp_all

text \<open>The numbers Python prints with \<open>str\<close>.\<close>

fun nat_digits :: "nat \<Rightarrow> string" where
  "nat_digits n =
     (if n < 10 then [char_of (48 + n)] else nat_digits (n div 10) @ [char_of (48 + n mod 10)])"

declare nat_digits.simps [simp del]

definition int_str :: "int \<Rightarrow> string" where
  "int_str i = (if i < 0 then ''-'' @ nat_digits (nat (- i)) else nat_digits (nat i))"

end
