(* ===== verification/Patterns.thy ===== *)
theory Patterns
  imports Prelude
begin

text \<open>
  The regular expressions of \<^verbatim>\<open>app/services/deployment_policy.py\<close> (lines 6-11) and
  \<^verbatim>\<open>app/services/approval_service.py\<close> (lines 24-29), all used with \<open>fullmatch\<close>.
  Each appears twice: as the expression of the source over a small syntax with a
  matching relation (\<open>matches\<close>), and as an executable predicate on the string, which is
  what the models of the services call. The two are proved to agree.
\<close>

section \<open>Regular expressions\<close>

datatype regex =
    Chars string                      \<comment> \<open>a character class\<close>
  | Lit string
  | Seq regex regex
  | Rep regex nat "nat option"        \<comment> \<open>\<open>r{lo,hi}\<close>; \<open>None\<close> is no upper bound\<close>

inductive matches :: "regex \<Rightarrow> string \<Rightarrow> bool" where
  chars: "c \<in> set cs \<Longrightarrow> matches (Chars cs) [c]"
| lit: "matches (Lit s) s"
| seq: "matches r s \<Longrightarrow> matches q t \<Longrightarrow> matches (Seq r q) (s @ t)"
| rep: "lo \<le> length ss \<Longrightarrow> (case hi of None \<Rightarrow> True | Some h \<Rightarrow> length ss \<le> h) \<Longrightarrow>
    (\<And>s. s \<in> set ss \<Longrightarrow> matches r s) \<Longrightarrow> matches (Rep r lo hi) (concat ss)"

inductive_simps matches_Chars [simp]: "matches (Chars cs) s"
inductive_simps matches_Lit [simp]: "matches (Lit t) s"
inductive_simps matches_Seq: "matches (Seq r q) s"
inductive_simps matches_Rep: "matches (Rep r lo hi) s"

lemma matches_Seq_Chars:
  "matches (Seq (Chars cs) q) s \<longleftrightarrow> (\<exists>c t. s = c # t \<and> c \<in> set cs \<and> matches q t)"
  by (auto simp: matches_Seq) (metis append_Cons append_Nil)

lemma matches_Seq_Lit: "matches (Seq (Lit l) q) s \<longleftrightarrow> (\<exists>t. s = l @ t \<and> matches q t)"
  by (auto simp: matches_Seq)

definition in_class :: "string \<Rightarrow> string \<Rightarrow> bool" where
  "in_class cs s \<longleftrightarrow> list_all (\<lambda>c. c \<in> set cs) s"

lemma in_class_simps [simp]:
  "in_class cs []" "in_class cs (c # s) \<longleftrightarrow> c \<in> set cs \<and> in_class cs s"
  "in_class cs (s @ t) \<longleftrightarrow> in_class cs s \<and> in_class cs t"
  by (simp_all add: in_class_def)

lemma in_classD: "in_class cs s \<Longrightarrow> c \<in> set s \<Longrightarrow> c \<in> set cs"
  by (auto simp: in_class_def list_all_iff)

lemma concat_singletons:
  "(\<And>s. s \<in> set ss \<Longrightarrow> \<exists>c. s = [c] \<and> c \<in> set cs) \<Longrightarrow> in_class cs (concat ss) \<and> length (concat ss) = length ss"
  by (induction ss) fastforce+

text \<open>A repeated class: its bounds on the length, and every character in the class.\<close>

lemma matches_Rep_Chars:
  "matches (Rep (Chars cs) lo hi) s \<longleftrightarrow>
     in_class cs s \<and> lo \<le> length s \<and> (case hi of None \<Rightarrow> True | Some h \<Rightarrow> length s \<le> h)"
  (is "?L \<longleftrightarrow> ?R")
proof
  assume ?L
  then obtain ss where "s = concat ss" "lo \<le> length ss"
    "case hi of None \<Rightarrow> True | Some h \<Rightarrow> length ss \<le> h"
    and ss: "\<And>t. t \<in> set ss \<Longrightarrow> \<exists>c. t = [c] \<and> c \<in> set cs"
    by (auto simp: matches_Rep)
  with concat_singletons [of ss cs, OF ss] show ?R by (auto split: option.splits)
next
  assume R: ?R
  let ?ss = "map (\<lambda>c. [c]) s"
  have "matches (Rep (Chars cs) lo hi) (concat ?ss)"
    by (rule matches.rep) (use R in \<open>auto simp: in_class_def list_all_iff split: option.splits\<close>)
  moreover have "concat ?ss = s" by (induction s) auto
  ultimately show ?L by simp
qed

section \<open>The patterns\<close>

definition alnum_chars :: string where
  "alnum_chars = ''ABCDEFGHIJKLMNOPQRSTUVWXYZabcdefghijklmnopqrstuvwxyz0123456789''"

definition image_chars :: string where
  "image_chars = alnum_chars @ ''._/:-''"

definition repository_chars :: string where
  "repository_chars = alnum_chars @ ''_.-''"

definition key_chars :: string where
  "key_chars = alnum_chars @ ''_.:-''"

definition SHA_REGEX :: regex where
  "SHA_REGEX = Rep (Chars hex_chars) 40 (Some 40)"

definition FINGERPRINT_REGEX :: regex where
  "FINGERPRINT_REGEX = Rep (Chars hex_chars) 64 (Some 64)"

definition DIGEST_REGEX :: regex where
  "DIGEST_REGEX = Seq (Lit ''sha256:'') (Rep (Chars hex_chars) 64 (Some 64))"

definition IMMUTABLE_IMAGE_REGEX :: regex where
  "IMMUTABLE_IMAGE_REGEX =
     Seq (Chars alnum_chars)
       (Seq (Rep (Chars image_chars) 0 None)
         (Seq (Lit ''@sha256:'') (Rep (Chars hex_chars) 64 (Some 64))))"

definition REPOSITORY_REGEX :: regex where
  "REPOSITORY_REGEX =
     Seq (Chars alnum_chars) (Seq (Rep (Chars repository_chars) 0 (Some 99))
       (Seq (Lit ''/'')
         (Seq (Chars alnum_chars) (Rep (Chars repository_chars) 0 (Some 99)))))"

definition IDEMPOTENCY_KEY_REGEX :: regex where
  "IDEMPOTENCY_KEY_REGEX = Rep (Chars key_chars) 1 (Some 200)"

definition SHA_PATTERN :: "string \<Rightarrow> bool" where
  "SHA_PATTERN s \<longleftrightarrow> length s = 40 \<and> in_class hex_chars s"

definition FINGERPRINT_PATTERN :: "string \<Rightarrow> bool" where
  "FINGERPRINT_PATTERN s \<longleftrightarrow> length s = 64 \<and> in_class hex_chars s"

definition DIGEST_PATTERN :: "string \<Rightarrow> bool" where
  "DIGEST_PATTERN s \<longleftrightarrow> starts_with ''sha256:'' s \<and> FINGERPRINT_PATTERN (drop 7 s)"

definition IMMUTABLE_IMAGE_PATTERN :: "string \<Rightarrow> bool" where
  "IMMUTABLE_IMAGE_PATTERN s \<longleftrightarrow>
     (let name = takeWhile (\<lambda>c. c \<noteq> CHR ''@'') s; rest = dropWhile (\<lambda>c. c \<noteq> CHR ''@'') s in
      name \<noteq> [] \<and> hd name \<in> set alnum_chars \<and> in_class image_chars (tl name) \<and>
      rest \<noteq> [] \<and> DIGEST_PATTERN (tl rest))"

definition repository_segment :: "string \<Rightarrow> bool" where
  "repository_segment s \<longleftrightarrow>
     s \<noteq> [] \<and> hd s \<in> set alnum_chars \<and> length s \<le> 100 \<and> in_class repository_chars (tl s)"

definition REPOSITORY_PATTERN :: "string \<Rightarrow> bool" where
  "REPOSITORY_PATTERN s \<longleftrightarrow>
     (let name = takeWhile (\<lambda>c. c \<noteq> CHR ''/'') s; rest = dropWhile (\<lambda>c. c \<noteq> CHR ''/'') s in
      repository_segment name \<and> rest \<noteq> [] \<and> repository_segment (tl rest))"

definition IDEMPOTENCY_KEY_PATTERN :: "string \<Rightarrow> bool" where
  "IDEMPOTENCY_KEY_PATTERN s \<longleftrightarrow>
     1 \<le> length s \<and> length s \<le> 200 \<and> in_class key_chars s"

text \<open>\<open>s.rsplit("@", 1)[1]\<close> for a string that holds an at sign.\<close>

definition after_last_at :: "string \<Rightarrow> string" where
  "after_last_at s = rev (takeWhile (\<lambda>c. c \<noteq> CHR ''@'') (rev s))"

section \<open>The predicates decide the patterns\<close>

lemma SHA_matches: "matches SHA_REGEX s \<longleftrightarrow> SHA_PATTERN s"
  by (auto simp: SHA_REGEX_def SHA_PATTERN_def matches_Rep_Chars)

lemma FINGERPRINT_matches: "matches FINGERPRINT_REGEX s \<longleftrightarrow> FINGERPRINT_PATTERN s"
  by (auto simp: FINGERPRINT_REGEX_def FINGERPRINT_PATTERN_def matches_Rep_Chars)

lemma DIGEST_PATTERN_iff: "DIGEST_PATTERN s \<longleftrightarrow> (\<exists>h. s = ''sha256:'' @ h \<and> FINGERPRINT_PATTERN h)"
  by (auto simp: DIGEST_PATTERN_def starts_with_iff)

lemma DIGEST_matches: "matches DIGEST_REGEX s \<longleftrightarrow> DIGEST_PATTERN s"
  by (auto simp: DIGEST_REGEX_def DIGEST_PATTERN_iff matches_Seq
      FINGERPRINT_matches [unfolded FINGERPRINT_REGEX_def])

lemma IDEMPOTENCY_KEY_matches: "matches IDEMPOTENCY_KEY_REGEX s \<longleftrightarrow> IDEMPOTENCY_KEY_PATTERN s"
  by (auto simp: IDEMPOTENCY_KEY_REGEX_def IDEMPOTENCY_KEY_PATTERN_def matches_Rep_Chars
      simp del: append_Cons append_Nil)

text \<open>A string splits in one way at the first occurrence of a character the prefix lacks.\<close>

lemma split_at_char:
  assumes "c \<notin> set p"
  shows "takeWhile (\<lambda>x. x \<noteq> c) (p @ c # q) = p" and "dropWhile (\<lambda>x. x \<noteq> c) (p @ c # q) = c # q"
  using assms by (induction p) auto

lemma drop_at_char:
  "dropWhile (\<lambda>x. x \<noteq> c) s \<noteq> [] \<Longrightarrow>
     s = takeWhile (\<lambda>x. x \<noteq> c) s @ c # tl (dropWhile (\<lambda>x. x \<noteq> c) s)"
  by (induction s) auto

lemma class_lacks: "in_class cs s \<Longrightarrow> c \<notin> set cs \<Longrightarrow> c \<notin> set s"
  by (auto dest: in_classD)

lemma IMMUTABLE_IMAGE_iff:
  "IMMUTABLE_IMAGE_PATTERN s \<longleftrightarrow>
     (\<exists>a p d. s = (a # p) @ CHR ''@'' # d \<and> a \<in> set alnum_chars \<and>
        in_class image_chars p \<and> DIGEST_PATTERN d)"
  (is "?L \<longleftrightarrow> ?R")
proof
  assume L: ?L
  let ?p = "takeWhile (\<lambda>c. c \<noteq> CHR ''@'') s" and ?r = "dropWhile (\<lambda>c. c \<noteq> CHR ''@'') s"
  from L have "?p \<noteq> []" "?r \<noteq> []" by (auto simp: IMMUTABLE_IMAGE_PATTERN_def Let_def)
  then have "s = (hd ?p # tl ?p) @ CHR ''@'' # tl ?r"
    using drop_at_char [of "CHR ''@''" s] by simp
  with L show ?R unfolding IMMUTABLE_IMAGE_PATTERN_def Let_def by blast
next
  assume ?R
  then obtain a p d where s: "s = (a # p) @ CHR ''@'' # d" and a: "a \<in> set alnum_chars"
    and p: "in_class image_chars p" and d: "DIGEST_PATTERN d" by blast
  have "CHR ''@'' \<notin> set image_chars" and at: "CHR ''@'' \<notin> set alnum_chars"
    by (simp_all add: image_chars_def alnum_chars_def)
  with p have "CHR ''@'' \<notin> set p" by (blast dest: class_lacks)
  moreover have "a \<noteq> CHR ''@''" using a at by auto
  ultimately have "CHR ''@'' \<notin> set (a # p)" by simp
  from split_at_char [OF this, of d] a p d show ?L
    unfolding s IMMUTABLE_IMAGE_PATTERN_def Let_def by simp
qed

lemma matches_digest_tail:
  "matches (Seq (Lit ''@sha256:'') (Rep (Chars hex_chars) 64 (Some 64))) t \<longleftrightarrow>
     (\<exists>d. t = CHR ''@'' # d \<and> DIGEST_PATTERN d)"
  by (auto simp: matches_Seq_Lit DIGEST_PATTERN_iff FINGERPRINT_matches [unfolded FINGERPRINT_REGEX_def])

lemma IMMUTABLE_IMAGE_matches: "matches IMMUTABLE_IMAGE_REGEX s \<longleftrightarrow> IMMUTABLE_IMAGE_PATTERN s"
  unfolding IMMUTABLE_IMAGE_REGEX_def IMMUTABLE_IMAGE_iff matches_Seq_Chars
  by (subst matches_Seq, subst matches_digest_tail, subst matches_Rep_Chars) (simp; metis)

lemma repository_segment_iff:
  "repository_segment s \<longleftrightarrow> (\<exists>c t. s = c # t \<and> c \<in> set alnum_chars \<and>
     in_class repository_chars t \<and> length t \<le> 99)"
  by (cases s) (auto simp: repository_segment_def)

lemma repository_segment_no_slash: "repository_segment s \<Longrightarrow> CHR ''/'' \<notin> set s"
proof -
  assume "repository_segment s"
  then obtain c t where "s = c # t" "c \<in> set alnum_chars" "in_class repository_chars t"
    by (auto simp: repository_segment_iff)
  moreover have "CHR ''/'' \<notin> set repository_chars" "CHR ''/'' \<notin> set alnum_chars"
    by (simp_all add: repository_chars_def alnum_chars_def)
  ultimately show ?thesis by (auto dest: in_classD)
qed

lemma REPOSITORY_PATTERN_iff:
  "REPOSITORY_PATTERN s \<longleftrightarrow>
     (\<exists>p q. s = p @ CHR ''/'' # q \<and> repository_segment p \<and> repository_segment q)"
  (is "?L \<longleftrightarrow> ?R")
proof
  assume L: ?L
  then show ?R
    using drop_at_char [of "CHR ''/''" s] unfolding REPOSITORY_PATTERN_def Let_def by metis
next
  assume ?R
  then show ?L
    by (auto simp: REPOSITORY_PATTERN_def Let_def split_at_char repository_segment_no_slash)
qed

lemma REPOSITORY_matches: "matches REPOSITORY_REGEX s \<longleftrightarrow> REPOSITORY_PATTERN s"
proof -
  have "matches REPOSITORY_REGEX s \<longleftrightarrow> (\<exists>c t u v. s = c # t @ CHR ''/'' # u # v \<and>
      c \<in> set alnum_chars \<and> in_class repository_chars t \<and> length t \<le> 99 \<and>
      u \<in> set alnum_chars \<and> in_class repository_chars v \<and> length v \<le> 99)"
    unfolding REPOSITORY_REGEX_def matches_Seq_Chars
    by (subst matches_Seq) (simp add: matches_Seq_Lit matches_Seq_Chars matches_Rep_Chars, blast)
  also have "\<dots> \<longleftrightarrow> REPOSITORY_PATTERN s"
    unfolding REPOSITORY_PATTERN_iff repository_segment_iff
    by (intro iffI; elim exE conjE; hypsubst) (rule exI, rule exI, auto)+
  finally show ?thesis .
qed

text \<open>The digest an immutable image reference ends with is the text after its last at sign.\<close>

lemma DIGEST_no_at: "DIGEST_PATTERN d \<Longrightarrow> CHR ''@'' \<notin> set d"
proof -
  assume "DIGEST_PATTERN d"
  then obtain h where d: "d = ''sha256:'' @ h" and "in_class hex_chars h"
    by (auto simp: DIGEST_PATTERN_iff FINGERPRINT_PATTERN_def)
  moreover have "CHR ''@'' \<notin> set hex_chars" by (simp add: hex_chars_def)
  ultimately show ?thesis using class_lacks [of hex_chars h "CHR ''@''"] by simp
qed

lemma after_last_at_append: "CHR ''@'' \<notin> set d \<Longrightarrow> after_last_at (p @ CHR ''@'' # d) = d"
  by (simp add: after_last_at_def split_at_char(1))

lemma IMMUTABLE_IMAGE_digest: "IMMUTABLE_IMAGE_PATTERN s \<Longrightarrow> DIGEST_PATTERN (after_last_at s)"
proof -
  assume "IMMUTABLE_IMAGE_PATTERN s"
  then obtain p d where "s = p @ CHR ''@'' # d" "DIGEST_PATTERN d"
    unfolding IMMUTABLE_IMAGE_iff by blast
  then show ?thesis by (simp add: after_last_at_append DIGEST_no_at)
qed

end
