(* ===== verification/Sha256.thy ===== *)
theory Sha256
  imports Patterns
begin

text \<open>
  SHA-256 (FIPS 180-4) of a byte string, and its \<open>hexdigest()\<close>: the fingerprints of
  identities, of execution intents and of tenant and subject identifiers are all computed
  with it. The definition is executable; the lemma the services rely on is that a digest
  always is 64 lower-case hexadecimal digits.
\<close>

unbundle bit_operations_syntax

type_synonym w32 = "32 word"

definition SHA256_K :: "w32 list" where
  "SHA256_K =
    [1116352408, 1899447441, 3049323471, 3921009573, 961987163, 1508970993,
     2453635748, 2870763221, 3624381080, 310598401, 607225278, 1426881987,
     1925078388, 2162078206, 2614888103, 3248222580, 3835390401, 4022224774,
     264347078, 604807628, 770255983, 1249150122, 1555081692, 1996064986,
     2554220882, 2821834349, 2952996808, 3210313671, 3336571891, 3584528711,
     113926993, 338241895, 666307205, 773529912, 1294757372, 1396182291,
     1695183700, 1986661051, 2177026350, 2456956037, 2730485921, 2820302411,
     3259730800, 3345764771, 3516065817, 3600352804, 4094571909, 275423344,
     430227734, 506948616, 659060556, 883997877, 958139571, 1322822218,
     1537002063, 1747873779, 1955562222, 2024104815, 2227730452, 2361852424,
     2428436474, 2756734187, 3204031479, 3329325298]"

definition SHA256_H0 :: "w32 list" where
  "SHA256_H0 = [1779033703, 3144134277, 1013904242, 2773480762, 1359893119, 2600822924, 528734635, 1541459225]"

definition sha_pad :: "int list \<Rightarrow> int list" where
  "sha_pad bytes =
     (let n = length bytes; bits = 8 * int n in
      bytes @ [128] @ replicate ((119 - n mod 64) mod 64) 0 @
      map (\<lambda>i. (bits div 256 ^ i) mod 256) [7, 6, 5, 4, 3, 2, 1, 0])"

fun words_of_bytes :: "int list \<Rightarrow> w32 list" where
  "words_of_bytes (a # b # c # d # bs) =
     word_of_int (((a * 256 + b) * 256 + c) * 256 + d) # words_of_bytes bs"
| "words_of_bytes _ = []"

definition small_sigma0 :: "w32 \<Rightarrow> w32" where
  "small_sigma0 x = word_rotr 7 x XOR word_rotr 18 x XOR drop_bit 3 x"

definition small_sigma1 :: "w32 \<Rightarrow> w32" where
  "small_sigma1 x = word_rotr 17 x XOR word_rotr 19 x XOR drop_bit 10 x"

definition big_sigma0 :: "w32 \<Rightarrow> w32" where
  "big_sigma0 x = word_rotr 2 x XOR word_rotr 13 x XOR word_rotr 22 x"

definition big_sigma1 :: "w32 \<Rightarrow> w32" where
  "big_sigma1 x = word_rotr 6 x XOR word_rotr 11 x XOR word_rotr 25 x"

fun sha_schedule :: "nat \<Rightarrow> w32 list \<Rightarrow> w32 list" where
  "sha_schedule 0 ws = ws"
| "sha_schedule (Suc n) ws =
     (let t = length ws in
      sha_schedule n (ws @ [small_sigma1 (ws ! (t - 2)) + ws ! (t - 7) +
        small_sigma0 (ws ! (t - 15)) + ws ! (t - 16)]))"

type_synonym sha_state = "w32 \<times> w32 \<times> w32 \<times> w32 \<times> w32 \<times> w32 \<times> w32 \<times> w32"

fun sha_round :: "sha_state \<Rightarrow> w32 \<times> w32 \<Rightarrow> sha_state" where
  "sha_round (a, b, c, d, e, f, g, h) (k, w) =
     (let t1 = h + big_sigma1 e + ((e AND f) XOR (NOT e AND g)) + k + w;
          t2 = big_sigma0 a + ((a AND b) XOR (a AND c) XOR (b AND c))
      in (t1 + t2, a, b, c, d + t1, e, f, g))"

fun sha_add :: "sha_state \<Rightarrow> sha_state \<Rightarrow> sha_state" where
  "sha_add (a, b, c, d, e, f, g, h) (a', b', c', d', e', f', g', h') =
     (a + a', b + b', c + c', d + d', e + e', f + f', g + g', h + h')"

definition sha_block :: "sha_state \<Rightarrow> w32 list \<Rightarrow> sha_state" where
  "sha_block s ws = sha_add s (foldl sha_round s (zip SHA256_K (sha_schedule 48 ws)))"

fun sha_blocks :: "nat \<Rightarrow> sha_state \<Rightarrow> w32 list \<Rightarrow> sha_state" where
  "sha_blocks 0 s ws = s"
| "sha_blocks (Suc n) s ws = sha_blocks n (sha_block s (take 16 ws)) (drop 16 ws)"

definition hex_digit :: "int \<Rightarrow> char" where
  "hex_digit n = hex_chars ! nat (n mod 16)"

text \<open>The \<open>k\<close> low hexadecimal digits of \<open>n\<close>, most significant first.\<close>

fun hex_fixed :: "nat \<Rightarrow> int \<Rightarrow> string" where
  "hex_fixed 0 n = []"
| "hex_fixed (Suc k) n = hex_fixed k (n div 16) @ [hex_digit n]"

fun hex_state :: "sha_state \<Rightarrow> string" where
  "hex_state (a, b, c, d, e, f, g, h) =
     concat (map (\<lambda>w. hex_fixed 8 (uint w)) [a, b, c, d, e, f, g, h])"

definition sha256_hexdigest :: "string \<Rightarrow> string" where
  "sha256_hexdigest s =
     (let ws = words_of_bytes (sha_pad (map of_char s))
      in hex_state (sha_blocks (length ws div 16)
           (SHA256_H0 ! 0, SHA256_H0 ! 1, SHA256_H0 ! 2, SHA256_H0 ! 3,
            SHA256_H0 ! 4, SHA256_H0 ! 5, SHA256_H0 ! 6, SHA256_H0 ! 7) ws))"

lemma length_hex_fixed [simp]: "length (hex_fixed k n) = k"
  by (induction k arbitrary: n) simp_all

lemma hex_digit_in: "hex_digit n \<in> set hex_chars"
proof -
  have "nat (n mod 16) < length hex_chars" by (simp add: hex_chars_def)
  then show ?thesis unfolding hex_digit_def by (rule nth_mem)
qed

lemma hex_fixed_in_class [simp]: "in_class hex_chars (hex_fixed k n)"
  by (induction k arbitrary: n) (simp_all add: hex_digit_in)

lemma FINGERPRINT_hex_state: "FINGERPRINT_PATTERN (hex_state s)"
  by (cases s rule: hex_state.cases) (simp add: FINGERPRINT_PATTERN_def)

theorem FINGERPRINT_sha256 [simp]: "FINGERPRINT_PATTERN (sha256_hexdigest s)"
  by (simp add: sha256_hexdigest_def Let_def FINGERPRINT_hex_state)

end
