(* ===== verification/Uuid.thy ===== *)
theory Uuid
  imports Sha256
begin

text \<open>
  The text of a UUID: \<open>str(u)\<close>, 32 hexadecimal digits in groups of 8, 4, 4, 4 and 12, and the
  constructor \<open>UUID(hex=...)\<close> on such a text. Reading back what was printed gives the UUID, so the
  printed text identifies it.
\<close>

definition hex_value :: "char \<Rightarrow> nat" where
  "hex_value c =
     (let n = of_char c :: nat in
      if 48 \<le> n \<and> n \<le> 57 then n - 48
      else if 97 \<le> n \<and> n \<le> 102 then n - 87
      else if 65 \<le> n \<and> n \<le> 70 then n - 55
      else 0)"

definition hex_number :: "string \<Rightarrow> int" where
  "hex_number s = foldl (\<lambda>n c. 16 * n + int (hex_value c)) 0 s"

definition uuid_hex :: "uuid \<Rightarrow> string" where
  "uuid_hex u = hex_fixed 32 (uint u)"

definition uuid_str :: "uuid \<Rightarrow> string" where
  "uuid_str u =
     (let h = uuid_hex u in
      take 8 h @ ''-'' @ take 4 (drop 8 h) @ ''-'' @ take 4 (drop 12 h) @ ''-'' @
      take 4 (drop 16 h) @ ''-'' @ drop 20 h)"

text \<open>\<open>UUID(text)\<close> for a text without braces or a URN prefix: the hyphens are dropped.\<close>

definition uuid_of_text :: "string \<Rightarrow> uuid option" where
  "uuid_of_text s =
     (let h = filter (\<lambda>c. c \<noteq> CHR ''-'') s in
      if length h = 32 \<and> list_all (\<lambda>c. c \<in> set (hex_chars @ ''ABCDEF'')) h
      then Some (word_of_int (hex_number h)) else None)"


section \<open>Round trip\<close>

lemma hex_value_digit [simp]: "0 \<le> n \<Longrightarrow> n < 16 \<Longrightarrow> hex_value (hex_chars ! nat n) = nat n"
proof -
  assume "0 \<le> n" "n < 16"
  moreover have "list_all (\<lambda>k. hex_value (hex_chars ! k) = k) [0..<16]"
    by code_simp
  ultimately show ?thesis by (auto simp: list_all_iff)
qed

lemma hex_number_snoc: "hex_number (s @ [c]) = 16 * hex_number s + int (hex_value c)"
  by (simp add: hex_number_def)

lemma hex_number_fixed: "hex_number (hex_fixed k n) = n mod 16 ^ k"
proof (induction k arbitrary: n)
  case 0
  then show ?case by (simp add: hex_number_def)
next
  case (Suc k)
  have "hex_value (hex_digit n) = nat (n mod 16)" by (simp add: hex_digit_def)
  then have "hex_number (hex_fixed (Suc k) n) = 16 * (n div 16 mod 16 ^ k) + n mod 16"
    using Suc by (simp add: hex_number_snoc)
  also have "\<dots> = n mod (16 * 16 ^ k)" by (simp add: zmod_zmult2_eq)
  finally show ?case by simp
qed

lemma hex_no_hyphen: "in_class hex_chars s \<Longrightarrow> filter (\<lambda>c. c \<noteq> CHR ''-'') s = s"
  using class_lacks [of hex_chars s "CHR ''-''"] by (auto simp: hex_chars_def intro: filter_True)

lemma in_class_take: "in_class cs s \<Longrightarrow> in_class cs (take n s)"
  by (auto simp: in_class_def list_all_iff dest: in_set_takeD)

lemma in_class_drop: "in_class cs s \<Longrightarrow> in_class cs (drop n s)"
  by (auto simp: in_class_def list_all_iff dest: in_set_dropD)

lemma take_drop_groups:
  "take 8 h @ take 4 (drop 8 h) @ take 4 (drop 12 h) @ take 4 (drop 16 h) @ drop 20 h = h"
proof -
  have "take 4 (drop 16 h) @ drop 20 h = drop 16 h"
    using append_take_drop_id [of 4 "drop 16 h"] by simp
  moreover have "take 4 (drop 12 h) @ drop 16 h = drop 12 h"
    using append_take_drop_id [of 4 "drop 12 h"] by simp
  moreover have "take 4 (drop 8 h) @ drop 12 h = drop 8 h"
    using append_take_drop_id [of 4 "drop 8 h"] by simp
  ultimately show ?thesis by simp
qed

lemma uuid_str_digits: "filter (\<lambda>c. c \<noteq> CHR ''-'') (uuid_str u) = uuid_hex u"
proof -
  have "in_class hex_chars (uuid_hex u)" by (simp add: uuid_hex_def)
  then show ?thesis
    using take_drop_groups [of "uuid_hex u"]
    by (simp add: uuid_str_def Let_def hex_no_hyphen in_class_take in_class_drop)
qed

lemma uuid_round_trip [simp]: "uuid_of_text (uuid_str u) = Some u"
proof -
  have "in_class hex_chars (uuid_hex u)" by (simp add: uuid_hex_def)
  then have "list_all (\<lambda>c. c \<in> set (hex_chars @ ''ABCDEF'')) (uuid_hex u)"
    by (auto simp: in_class_def list_all_iff)
  moreover have "hex_number (uuid_hex u) = uint u mod 16 ^ 32"
    by (simp add: uuid_hex_def hex_number_fixed)
  moreover have "uint u mod 16 ^ 32 = uint u"
    using uint_lt2p [of u] by (simp add: mod_pos_pos_trivial)
  ultimately show ?thesis
    by (simp add: uuid_of_text_def uuid_str_digits Let_def) (simp add: uuid_hex_def)
qed

lemma uuid_str_inject [simp]: "uuid_str u = uuid_str v \<longleftrightarrow> u = v"
  by (metis option.inject uuid_round_trip)

lemma length_uuid_str [simp]: "length (uuid_str u) = 36"
  by (simp add: uuid_str_def uuid_hex_def Let_def)

end
