(* ===== verification/Policy.thy ===== *)
theory Policy
  imports Patterns "HOL-Library.Sublist"
begin

text \<open>
  \<^verbatim>\<open>app/services/deployment_policy.py\<close>: the health schema, the migration-risk
  classification, the validation of artifacts and service sets, the seven-sample resource
  window and the transition table of the deployment state machine. All of it is pure.
\<close>

section \<open>Health schema\<close>

definition APPROVED_PRODUCTION_SERVICES :: "string set" where
  "APPROVED_PRODUCTION_SERVICES = {''api'', ''feishu-worker''}"

definition required_health_checks :: "string list \<Rightarrow> string set" where
  "required_health_checks services =
     {''artifact_digest'', ''revision_sha'', ''migration'', ''smoke'', ''critical_regression'',
      ''verification_within_timeout''} \<union>
     (if ''api'' \<in> set services
      then {''api.alive'', ''api.ready'', ''api.live'', ''api.http'', ''api.dependency.db''} else {}) \<union>
     (if ''feishu-worker'' \<in> set services
      then {''feishu-worker.alive'', ''feishu-worker.ready'', ''feishu-worker.live'',
            ''feishu-worker.connected''} else {})"

type_synonym checks = "(string \<times> bool) list"

definition health_checks_are_complete :: "string list \<Rightarrow> checks \<Rightarrow> bool" where
  "health_checks_are_complete services health_checks \<longleftrightarrow>
     set (map fst health_checks) = required_health_checks services \<and>
     list_all snd health_checks"

section \<open>Migration risk\<close>

datatype migration_risk = NONE | LOW | MEDIUM | HIGH

text \<open>The risks are ordered by severity, so that monotonicity can be stated.\<close>

fun risk_level :: "migration_risk \<Rightarrow> nat" where
  "risk_level NONE = 0"
| "risk_level LOW = 1"
| "risk_level MEDIUM = 2"
| "risk_level HIGH = 3"

lemma risk_level_inject: "risk_level a = risk_level b \<longleftrightarrow> a = b"
  by (cases a; cases b) simp_all

instantiation migration_risk :: linorder
begin

definition less_eq_migration_risk :: "migration_risk \<Rightarrow> migration_risk \<Rightarrow> bool" where
  "a \<le> b \<longleftrightarrow> risk_level a \<le> risk_level b"

definition less_migration_risk :: "migration_risk \<Rightarrow> migration_risk \<Rightarrow> bool" where
  "a < b \<longleftrightarrow> risk_level a < risk_level b"

instance
  by standard (auto simp: less_eq_migration_risk_def less_migration_risk_def risk_level_inject)

end

definition LOW_MIGRATION_CHANGES :: "string set" where
  "LOW_MIGRATION_CHANGES =
     {''add_table'', ''add_nullable_column'', ''add_nonblocking_index'',
      ''add_constraint_not_valid''}"

definition MEDIUM_MIGRATION_CHANGES :: "string set" where
  "MEDIUM_MIGRATION_CHANGES =
     {''reversible_data_backfill'', ''reversible_column_type'', ''validated_constraint'',
      ''blocking_index''}"

definition HIGH_MIGRATION_CHANGES :: "string set" where
  "HIGH_MIGRATION_CHANGES =
     {''drop_table'', ''drop_column'', ''destructive_data_change'', ''irreversible_change'',
      ''breaking_type_change'', ''exclusive_lock'', ''set_not_null_with_rewrite''}"

definition classify_migration_risk :: "string list \<Rightarrow> migration_risk" where
  "classify_migration_risk changes =
     (if changes = [] then NONE
      else if set changes \<inter> HIGH_MIGRATION_CHANGES \<noteq> {} then HIGH
      else if \<not> set changes \<subseteq> LOW_MIGRATION_CHANGES \<union> MEDIUM_MIGRATION_CHANGES then HIGH
      else if set changes \<inter> MEDIUM_MIGRATION_CHANGES \<noteq> {} then MEDIUM
      else LOW)"

definition risk_value :: "migration_risk \<Rightarrow> string" where
  "risk_value r =
     (case r of NONE \<Rightarrow> ''NONE'' | LOW \<Rightarrow> ''LOW'' | MEDIUM \<Rightarrow> ''MEDIUM'' | HIGH \<Rightarrow> ''HIGH'')"

text \<open>The \<open>StrEnum\<close> constructor \<open>MigrationRisk(value)\<close>.\<close>

definition risk_of_value :: "string \<Rightarrow> migration_risk result" where
  "risk_of_value s =
     (if s = ''NONE'' then Inr NONE else if s = ''LOW'' then Inr LOW
      else if s = ''MEDIUM'' then Inr MEDIUM else if s = ''HIGH'' then Inr HIGH
      else Inl (ValueError ''MigrationRisk''))"

lemma risk_of_value_risk_value [simp]: "risk_of_value (risk_value r) = Inr r"
  by (cases r) (simp_all add: risk_value_def risk_of_value_def)

definition validate_migration_plan ::
  "migration_risk \<Rightarrow> string option \<Rightarrow> string option \<Rightarrow> unit result" where
  "validate_migration_plan risk migration_revision rollback_runbook_ref =
     (if risk = HIGH then Inl (DeploymentPolicyError ''HIGH migration risk is prohibited'')
      else if risk = MEDIUM \<and> (falsy migration_revision \<or> falsy rollback_runbook_ref)
      then Inl (DeploymentPolicyError ''MEDIUM migration requires revision and rollback runbook'')
      else Inr ())"

lemma validate_migration_plan_ok [result_simps]:
  "validate_migration_plan risk mig runbook = Inr u \<longleftrightarrow>
     risk \<noteq> HIGH \<and> (risk = MEDIUM \<longrightarrow> \<not> falsy mig \<and> \<not> falsy runbook)"
  by (auto simp: validate_migration_plan_def)

section \<open>Artifacts and service sets\<close>

definition validate_immutable_artifact :: "string \<Rightarrow> string \<Rightarrow> unit result" where
  "validate_immutable_artifact digest image_reference =
     (if \<not> DIGEST_PATTERN digest then Inl (DeploymentPolicyError ''invalid artifact digest'')
      else if \<not> IMMUTABLE_IMAGE_PATTERN image_reference
      then Inl (DeploymentPolicyError ''mutable image reference is forbidden'')
      else if after_last_at image_reference \<noteq> digest
      then Inl (DeploymentPolicyError ''image reference digest mismatch'')
      else Inr ())"

lemma validate_immutable_artifact_ok [result_simps]:
  "validate_immutable_artifact d i = Inr u \<longleftrightarrow>
     DIGEST_PATTERN d \<and> IMMUTABLE_IMAGE_PATTERN i \<and> after_last_at i = d"
  by (auto simp: validate_immutable_artifact_def)

definition validate_service_set :: "string list \<Rightarrow> string list result" where
  "validate_service_set services =
     (let normalized = sort (remdups services) in
      if normalized = [] \<or> length normalized \<noteq> length services
      then Inl (DeploymentPolicyError ''service set must be non-empty and unique'')
      else if \<not> set normalized \<subseteq> APPROVED_PRODUCTION_SERVICES
      then Inl (DeploymentPolicyError ''service is outside approved allowlist'')
      else Inr normalized)"

lemma validate_service_set_ok:
  "validate_service_set services = Inr ss \<longleftrightarrow>
     services \<noteq> [] \<and> distinct services \<and> set services \<subseteq> APPROVED_PRODUCTION_SERVICES \<and>
     ss = sort services"
proof -
  have "length (sort (remdups services)) = length services \<longleftrightarrow> distinct services"
    by (metis distinct_card length_remdups_card_conv length_sort card_distinct)
  then show ?thesis
    by (auto simp: validate_service_set_def Let_def distinct_remdups_id)
      (metis length_0_conv length_sort remdups_eq_nil_iff)+
qed

section \<open>Resource window\<close>

text \<open>
  A metric is an integer, or something whose Python type is not \<open>int\<close> (a float, a
  \<open>bool\<close>, \<open>None\<close>): the code tests for it before it compares anything.
\<close>

datatype metric = Int_metric int | Not_int

fun malformed_metric :: "metric \<Rightarrow> bool" where
  "malformed_metric (Int_metric v) = (v < 0)"
| "malformed_metric Not_int = True"

fun metric_value :: "metric \<Rightarrow> int" where
  "metric_value (Int_metric v) = v"
| "metric_value Not_int = 0"

record resource_sample =
  elapsed_ms :: metric
  mem_available_bytes :: metric
  swap_free_bytes :: metric
  root_free_bytes :: metric
  docker_free_bytes :: metric

record resource_gate_result =
  rg_passed :: bool
  rg_reason :: string
  rg_median :: "int option"
  rg_minimum :: "int option"

definition evaluate_resource_window :: "resource_sample list \<Rightarrow> resource_gate_result" where
  "evaluate_resource_window samples =
     (if length samples \<noteq> 7 then \<lparr>rg_passed = False, rg_reason = ''sample_count'',
          rg_median = None, rg_minimum = None\<rparr>
      else
        let metrics = map elapsed_ms samples @
              concat (map (\<lambda>s. [mem_available_bytes s, swap_free_bytes s, root_free_bytes s,
                docker_free_bytes s]) samples);
            fail = (\<lambda>reason. \<lparr>rg_passed = False, rg_reason = reason, rg_median = None,
                rg_minimum = None\<rparr>) in
        if list_ex malformed_metric metrics then fail ''malformed_metric''
        else
          let elapsed = map (\<lambda>s. metric_value (elapsed_ms s)) samples in
          if elapsed ! 0 > 1000 then fail ''first_sample_not_immediate''
          else
            let intervals = map (\<lambda>(l, r). r - l) (zip elapsed (tl elapsed)) in
            if list_ex (\<lambda>i. i < 4000 \<or> i > 6000) intervals then fail ''sample_interval''
            else if last elapsed < 28000 \<or> last elapsed > 32000 then fail ''sample_span''
            else
              let memory = sort (map (\<lambda>s. metric_value (mem_available_bytes s)) samples);
                  med = memory ! 3; mini = memory ! 0;
                  verdict = (\<lambda>ok reason. \<lparr>rg_passed = ok, rg_reason = reason,
                    rg_median = Some med, rg_minimum = Some mini\<rparr>) in
              if med < 1073741824 then verdict False ''median_memory''
              else if mini < 1006632960 then verdict False ''minimum_memory''
              else if list_ex (\<lambda>s. metric_value (swap_free_bytes s) < 1342177280) samples
              then verdict False ''swap''
              else if list_ex (\<lambda>s. metric_value (root_free_bytes s) < 5368709120) samples
              then verdict False ''root_filesystem''
              else if list_ex (\<lambda>s. metric_value (docker_free_bytes s) < 5368709120) samples
              then verdict False ''docker_filesystem''
              else verdict True ''passed'')"

text \<open>An order statistic of a sorted list counts the elements above a bound.\<close>

lemma sorted_filter_ge: "sorted xs \<Longrightarrow> filter (\<lambda>x. c \<le> x) xs = dropWhile (\<lambda>x. x < c) xs" for c :: int
proof (induction xs)
  case Nil
  then show ?case by simp
next
  case (Cons x xs)
  show ?case
  proof (cases "x < c")
    case True
    with Cons show ?thesis by simp
  next
    case False
    with Cons.prems have "\<forall>y \<in> set (x # xs). c \<le> y" by auto
    with False show ?thesis by (simp add: filter_True)
  qed
qed

lemma sorted_nth_ge:
  fixes c :: int
  assumes "sorted xs" and "n < length xs"
  shows "c \<le> xs ! n \<longleftrightarrow> length xs - n \<le> length (filter (\<lambda>x. c \<le> x) xs)"
proof -
  let ?k = "length (takeWhile (\<lambda>x. x < c) xs)"
  have "length (takeWhile (\<lambda>x. x < c) xs @ dropWhile (\<lambda>x. x < c) xs) = length xs"
    by (simp only: takeWhile_dropWhile_id)
  then have "?k + length (dropWhile (\<lambda>x. x < c) xs) = length xs"
    by (simp only: length_append)
  then have len: "length (filter (\<lambda>x. c \<le> x) xs) = length xs - ?k"
    unfolding sorted_filter_ge [OF assms(1)] by linarith
  have "c \<le> xs ! n \<longleftrightarrow> ?k \<le> n"
  proof
    assume "c \<le> xs ! n"
    show "?k \<le> n"
    proof (rule ccontr)
      assume "\<not> ?k \<le> n"
      then have "xs ! n \<in> set (takeWhile (\<lambda>x. x < c) xs)"
        by (metis not_le nth_mem takeWhile_nth)
      then have "xs ! n < c" by (auto dest: set_takeWhileD)
      with \<open>c \<le> xs ! n\<close> show False by simp
    qed
  next
    assume "?k \<le> n"
    then have "?k < length xs" using assms(2) by simp
    then have "c \<le> xs ! ?k" using nth_length_takeWhile by fastforce
    also have "xs ! ?k \<le> xs ! n" using assms \<open>?k \<le> n\<close> by (intro sorted_nth_mono) auto
    finally show "c \<le> xs ! n" .
  qed
  also have "\<dots> \<longleftrightarrow> length xs - n \<le> length xs - ?k" using assms(2) by auto
  finally show ?thesis by (simp add: len)
qed

lemma filter_sort_length: "length (filter P (sort xs)) = length (filter P xs)"
  by (simp add: filter_sort)

definition memory_of :: "resource_sample \<Rightarrow> int" where
  "memory_of s = metric_value (mem_available_bytes s)"

definition elapsed_of :: "resource_sample \<Rightarrow> int" where
  "elapsed_of s = metric_value (elapsed_ms s)"

definition well_formed_sample :: "resource_sample \<Rightarrow> bool" where
  "well_formed_sample s \<longleftrightarrow>
     \<not> malformed_metric (elapsed_ms s) \<and> \<not> malformed_metric (mem_available_bytes s) \<and>
     \<not> malformed_metric (swap_free_bytes s) \<and> \<not> malformed_metric (root_free_bytes s) \<and>
     \<not> malformed_metric (docker_free_bytes s)"

lemma intervals_iff:
  "list_ex (\<lambda>i. i < 4000 \<or> i > 6000) (map (\<lambda>(l, r). r - l) (zip es (tl es))) \<longleftrightarrow>
     (\<exists>k. Suc k < length es \<and> \<not> (4000 \<le> es ! Suc k - es ! k \<and> es ! Suc k - es ! k \<le> 6000))"
  for es :: "int list"
proof -
  let ?ds = "map (\<lambda>(l, r). r - l) (zip es (tl es))"
  have len: "length ?ds = length es - 1" by simp
  have nth: "?ds ! k = es ! Suc k - es ! k" if "k < length es - 1" for k
    using that by (simp add: nth_tl)
  have "k < length es - 1 \<longleftrightarrow> Suc k < length es" for k by auto
  then show ?thesis
    unfolding list_ex_length len using nth by (metis not_le)
qed

definition steady :: "resource_sample list \<Rightarrow> bool" where
  "steady samples \<longleftrightarrow> (\<forall>k < 6. 4000 \<le> elapsed_of (samples ! Suc k) - elapsed_of (samples ! k) \<and>
     elapsed_of (samples ! Suc k) - elapsed_of (samples ! k) \<le> 6000)"

lemma steady_iff:
  "steady samples \<longleftrightarrow>
     list_all (\<lambda>k. 4000 \<le> elapsed_of (samples ! Suc k) - elapsed_of (samples ! k) \<and>
        elapsed_of (samples ! Suc k) - elapsed_of (samples ! k) \<le> 6000) [0..<6]"
  by (auto simp: steady_def list_all_iff)

lemma window_passed:
  "rg_passed (evaluate_resource_window samples) \<longleftrightarrow>
     length samples = 7 \<and> list_all well_formed_sample samples \<and>
     elapsed_of (samples ! 0) \<le> 1000 \<and>
     steady samples \<and>
     28000 \<le> elapsed_of (samples ! 6) \<and> elapsed_of (samples ! 6) \<le> 32000 \<and>
     4 \<le> length (filter (\<lambda>s. 1073741824 \<le> memory_of s) samples) \<and>
     list_all (\<lambda>s. 1006632960 \<le> memory_of s \<and> 1342177280 \<le> metric_value (swap_free_bytes s) \<and>
       5368709120 \<le> metric_value (root_free_bytes s) \<and>
       5368709120 \<le> metric_value (docker_free_bytes s)) samples"
proof (cases "length samples = 7")
  case False
  then show ?thesis by (simp add: evaluate_resource_window_def)
next
  case True
  let ?es = "map elapsed_of samples" and ?ms = "sort (map memory_of samples)"
  have malformed: "list_ex malformed_metric (map elapsed_ms samples @
      concat (map (\<lambda>s. [mem_available_bytes s, swap_free_bytes s, root_free_bytes s,
        docker_free_bytes s]) samples)) \<longleftrightarrow> \<not> list_all well_formed_sample samples"
    by (auto simp: list_ex_iff list_all_iff well_formed_sample_def)
  have gaps: "(\<exists>k. Suc k < length ?es \<and> \<not> (4000 \<le> ?es ! Suc k - ?es ! k \<and> ?es ! Suc k - ?es ! k \<le> 6000))
      \<longleftrightarrow> \<not> steady samples"
    using True by (auto simp: steady_def)
  have ends: "?es ! 0 = elapsed_of (samples ! 0)" "last ?es = elapsed_of (samples ! 6)"
    using True by (simp_all add: last_conv_nth flip: length_greater_0_conv)
  have median: "?ms ! 3 < 1073741824 \<longleftrightarrow> \<not> 4 \<le> length (filter (\<lambda>s. 1073741824 \<le> memory_of s) samples)"
    using sorted_nth_ge [of ?ms 3 1073741824] True
    by (simp add: filter_sort_length filter_map o_def) linarith
  have least: "?ms ! 0 < 1006632960 \<longleftrightarrow> \<not> list_all (\<lambda>s. 1006632960 \<le> memory_of s) samples"
  proof -
    have "?ms ! 0 \<in> set ?ms" using True by (intro nth_mem) simp
    moreover have "\<forall>x \<in> set ?ms. ?ms ! 0 \<le> x"
    proof
      fix x assume "x \<in> set ?ms"
      then obtain j where "j < length ?ms" "x = ?ms ! j" by (metis in_set_conv_nth)
      then show "?ms ! 0 \<le> x" by (simp only: sorted_nth_mono sorted_sort le0)
    qed
    ultimately have "?ms ! 0 < 1006632960 \<longleftrightarrow> (\<exists>x \<in> set ?ms. x < 1006632960)"
      by fastforce
    then show ?thesis by (auto simp: list_all_iff not_le)
  qed
  have eqs: "map (\<lambda>s. metric_value (elapsed_ms s)) samples = ?es"
      "map (\<lambda>s. metric_value (mem_available_bytes s)) samples = map memory_of samples"
    by (simp_all add: elapsed_of_def memory_of_def)
  show ?thesis
    using True
    unfolding evaluate_resource_window_def Let_def eqs malformed intervals_iff gaps ends median least
    by (simp add: list_ex_iff list_all_iff not_less memory_of_def not_le split del: if_split cong: if_cong)
      (force simp: not_less not_le)
qed

section \<open>The transition table\<close>

definition INITIAL_STATE :: string where
  "INITIAL_STATE = ''__initial__''"

definition DEPLOYMENT_TRANSITIONS :: "(string \<times> string list) list" where
  "DEPLOYMENT_TRANSITIONS =
    [(INITIAL_STATE, [''INTENT_CREATED'']),
     (''INTENT_CREATED'', [''ARTIFACT_RECORDED'']),
     (''ARTIFACT_RECORDED'', [''STAGING_DEPLOYING'']),
     (''STAGING_DEPLOYING'', [''STAGING_VALIDATED'', ''STAGING_FAILED'']),
     (''STAGING_VALIDATED'', [''PRODUCTION_APPROVAL_PENDING'', ''ROLLBACK_APPROVAL_PENDING'']),
     (''PRODUCTION_APPROVAL_PENDING'', [''PRODUCTION_DEPLOYING'']),
     (''PRODUCTION_DEPLOYING'', [''PRODUCTION_HEALTHY'', ''PRODUCTION_FAILED'']),
     (''ROLLBACK_APPROVAL_PENDING'', [''ROLLBACK_DEPLOYING'']),
     (''ROLLBACK_DEPLOYING'', [''ROLLED_BACK'', ''ROLLBACK_FAILED''])]"

definition successors :: "string \<Rightarrow> string list" where
  "successors key = (case map_of DEPLOYMENT_TRANSITIONS key of None \<Rightarrow> [] | Some ss \<Rightarrow> ss)"

definition state_key :: "string option \<Rightarrow> string" where
  "state_key from_state = (case from_state of None \<Rightarrow> INITIAL_STATE | Some s \<Rightarrow> s)"

definition require_transition :: "string option \<Rightarrow> string \<Rightarrow> unit result" where
  "require_transition from_state to_state =
     (if to_state \<notin> set (successors (state_key from_state))
      then Inl (DeploymentPolicyError
        (''illegal deployment transition: '' @ state_key from_state @ '' -> '' @ to_state))
      else Inr ())"

definition legal :: "string option \<Rightarrow> string \<Rightarrow> bool" where
  "legal from_state to_state \<longleftrightarrow> to_state \<in> set (successors (state_key from_state))"

lemma require_transition_ok [result_simps]: "require_transition f t = Inr u \<longleftrightarrow> legal f t"
  by (auto simp: require_transition_def legal_def)

text \<open>The table as a relation: the pairs of states that \<^const>\<open>require_transition\<close> lets pass.\<close>

lemma legal_iff:
  "legal f t \<longleftrightarrow>
     (f = None \<or> f = Some INITIAL_STATE) \<and> t = ''INTENT_CREATED'' \<or>
     f = Some ''INTENT_CREATED'' \<and> t = ''ARTIFACT_RECORDED'' \<or>
     f = Some ''ARTIFACT_RECORDED'' \<and> t = ''STAGING_DEPLOYING'' \<or>
     f = Some ''STAGING_DEPLOYING'' \<and> (t = ''STAGING_VALIDATED'' \<or> t = ''STAGING_FAILED'') \<or>
     f = Some ''STAGING_VALIDATED'' \<and>
       (t = ''PRODUCTION_APPROVAL_PENDING'' \<or> t = ''ROLLBACK_APPROVAL_PENDING'') \<or>
     f = Some ''PRODUCTION_APPROVAL_PENDING'' \<and> t = ''PRODUCTION_DEPLOYING'' \<or>
     f = Some ''PRODUCTION_DEPLOYING'' \<and> (t = ''PRODUCTION_HEALTHY'' \<or> t = ''PRODUCTION_FAILED'') \<or>
     f = Some ''ROLLBACK_APPROVAL_PENDING'' \<and> t = ''ROLLBACK_DEPLOYING'' \<or>
     f = Some ''ROLLBACK_DEPLOYING'' \<and> (t = ''ROLLED_BACK'' \<or> t = ''ROLLBACK_FAILED'')"
  by (cases f) (auto simp: legal_def state_key_def successors_def DEPLOYMENT_TRANSITIONS_def INITIAL_STATE_def)

fun legal_from :: "string option \<Rightarrow> string list \<Rightarrow> bool" where
  "legal_from f [] = True"
| "legal_from f (t # ts) = (legal f t \<and> legal_from (Some t) ts)"

definition last_state :: "string option \<Rightarrow> string list \<Rightarrow> string option" where
  "last_state f ts = (if ts = [] then f else Some (last ts))"

lemma legal_from_snoc: "legal_from f (ts @ [t]) \<longleftrightarrow> legal_from f ts \<and> legal (last_state f ts) t"
  by (induction ts arbitrary: f) (auto simp: last_state_def)

lemma last_state_simps [simp]: "last_state f [] = f" "last_state f (ts @ [t]) = Some t"
  by (simp_all add: last_state_def)

text \<open>How many transitions a deployment has made when it is in a state.\<close>

definition stage :: "string option \<Rightarrow> nat" where
  "stage f =
     (case f of None \<Rightarrow> 0
      | Some s \<Rightarrow>
          if s = ''INTENT_CREATED'' then 1 else if s = ''ARTIFACT_RECORDED'' then 2
          else if s = ''STAGING_DEPLOYING'' then 3
          else if s = ''STAGING_VALIDATED'' \<or> s = ''STAGING_FAILED'' then 4
          else if s = ''PRODUCTION_APPROVAL_PENDING'' \<or> s = ''ROLLBACK_APPROVAL_PENDING'' then 5
          else if s = ''PRODUCTION_DEPLOYING'' \<or> s = ''ROLLBACK_DEPLOYING'' then 6
          else if s = INITIAL_STATE then 0 else 7)"

lemma legal_stage: "legal f t \<Longrightarrow> stage (Some t) = Suc (stage f)"
  unfolding legal_iff by (elim disjE conjE) (simp_all add: stage_def INITIAL_STATE_def)

lemma legal_from_stage: "legal_from None ts \<Longrightarrow> stage (last_state None ts) = length ts"
proof (induction ts rule: rev_induct)
  case Nil
  then show ?case by (simp add: stage_def)
next
  case (snoc t ts)
  then have "stage (Some t) = Suc (stage (last_state None ts))"
    by (intro legal_stage) (simp add: legal_from_snoc)
  with snoc show ?case by (simp add: legal_from_snoc)
qed

lemma stage_le_7: "stage f \<le> 7"
  by (auto simp: stage_def split: option.splits)

section \<open>The complete histories\<close>

definition COMPLETE_HISTORIES :: "string list list" where
  "COMPLETE_HISTORIES =
     (let staging = [''INTENT_CREATED'', ''ARTIFACT_RECORDED'', ''STAGING_DEPLOYING''];
          production = staging @ [''STAGING_VALIDATED'', ''PRODUCTION_APPROVAL_PENDING'',
            ''PRODUCTION_DEPLOYING''];
          rollback = staging @ [''STAGING_VALIDATED'', ''ROLLBACK_APPROVAL_PENDING'',
            ''ROLLBACK_DEPLOYING''] in
      [staging @ [''STAGING_FAILED''], production @ [''PRODUCTION_HEALTHY''],
       production @ [''PRODUCTION_FAILED''], rollback @ [''ROLLED_BACK''],
       rollback @ [''ROLLBACK_FAILED'']])"

lemma histories_closed:
  "list_all (\<lambda>ts. list_all (\<lambda>t. list_ex (prefix (ts @ [t])) COMPLETE_HISTORIES)
     (successors (state_key (last_state None ts)))) (concat (map prefixes COMPLETE_HISTORIES))"
  by code_simp

lemma legal_histories_step:
  assumes "\<exists>p \<in> set COMPLETE_HISTORIES. prefix ts p" and "legal (last_state None ts) t"
  shows "\<exists>p \<in> set COMPLETE_HISTORIES. prefix (ts @ [t]) p"
  using assms histories_closed by (auto simp: list_all_iff list_ex_iff legal_def)

lemma legal_from_prefix: "legal_from f (ts @ us) \<Longrightarrow> legal_from f ts"
  by (induction ts arbitrary: f) auto

lemma legal_histories: "legal_from None ts \<longleftrightarrow> (\<exists>p \<in> set COMPLETE_HISTORIES. prefix ts p)"
proof
  assume "legal_from None ts"
  then show "\<exists>p \<in> set COMPLETE_HISTORIES. prefix ts p"
  proof (induction ts rule: rev_induct)
    case Nil
    show ?case by (rule bexI [of _ "hd COMPLETE_HISTORIES"]) (simp_all add: COMPLETE_HISTORIES_def Let_def)
  next
    case (snoc t ts)
    then show ?case by (simp add: legal_from_snoc legal_histories_step)
  qed
next
  have "list_all (legal_from None) COMPLETE_HISTORIES"
    by (simp add: COMPLETE_HISTORIES_def Let_def legal_iff)
  moreover assume "\<exists>p \<in> set COMPLETE_HISTORIES. prefix ts p"
  ultimately show "legal_from None ts"
    by (auto simp: list_all_iff prefix_def intro: legal_from_prefix)
qed

section \<open>Properties\<close>

text \<open>C30. The resource gate passes exactly the windows the rule describes: seven well-formed
  samples, the first within a second, consecutive ones four to six seconds apart and spanning 28
  to 32 seconds, at least four of them (the median) with a gibibyte of memory, and none below the
  floors for memory, swap, root and Docker file systems.\<close>

theorem resource_window_exact:
  "rg_passed (evaluate_resource_window samples) \<longleftrightarrow>
     length samples = 7 \<and> list_all well_formed_sample samples \<and>
     elapsed_of (samples ! 0) \<le> 1000 \<and>
     list_all (\<lambda>k. 4000 \<le> elapsed_of (samples ! Suc k) - elapsed_of (samples ! k) \<and>
        elapsed_of (samples ! Suc k) - elapsed_of (samples ! k) \<le> 6000) [0..<6] \<and>
     28000 \<le> elapsed_of (samples ! 6) \<and> elapsed_of (samples ! 6) \<le> 32000 \<and>
     4 \<le> length (filter (\<lambda>s. 1073741824 \<le> memory_of s) samples) \<and>
     list_all (\<lambda>s. 1006632960 \<le> memory_of s \<and> 1342177280 \<le> metric_value (swap_free_bytes s) \<and>
       5368709120 \<le> metric_value (root_free_bytes s) \<and>
       5368709120 \<le> metric_value (docker_free_bytes s)) samples"
  unfolding window_passed steady_iff ..

text \<open>The transition table admits exactly the beginnings of five complete histories; in
  particular a deployment makes at most seven transitions and never leaves an outcome.\<close>

theorem complete_histories: "legal_from None ts \<longleftrightarrow> (\<exists>p \<in> set COMPLETE_HISTORIES. prefix ts p)"
  by (rule legal_histories)

text \<open>A migration plan never becomes less risky by adding a change: the classification is
  monotone in the set of changes, and any change nobody classified is HIGH.\<close>

theorem classify_monotone:
  assumes "set changes \<subseteq> set further"
  shows "classify_migration_risk changes \<le> classify_migration_risk further \<and>
    (\<not> set further \<subseteq> LOW_MIGRATION_CHANGES \<union> MEDIUM_MIGRATION_CHANGES \<longrightarrow> classify_migration_risk further = HIGH)"
proof -
  have le: "NONE \<le> r" "LOW \<le> MEDIUM" "r \<le> HIGH" "r \<le> r" "LOW \<le> HIGH" for r
    by (cases r; simp add: less_eq_migration_risk_def)+
  have disjoint: "x \<in> HIGH_MIGRATION_CHANGES \<Longrightarrow> x \<notin> LOW_MIGRATION_CHANGES \<union> MEDIUM_MIGRATION_CHANGES" for x
    by (auto simp: HIGH_MIGRATION_CHANGES_def LOW_MIGRATION_CHANGES_def MEDIUM_MIGRATION_CHANGES_def)
  show ?thesis
    using assms disjoint unfolding classify_migration_risk_def by (auto simp: le)
qed

lemma classify_monotone_witness:
  "classify_migration_risk [''add_table''] \<le> classify_migration_risk [''add_table'', ''unheard_of''] \<and>
   classify_migration_risk [''add_table'', ''unheard_of''] = HIGH"
  using classify_monotone [of "[''add_table'']" "[''add_table'', ''unheard_of'']"]
  by (auto simp: LOW_MIGRATION_CHANGES_def MEDIUM_MIGRATION_CHANGES_def)

text \<open>An artifact is accepted exactly when its image reference is a registry name, an at sign
  and the very digest: a tag or another digest can never be deployed under it.\<close>

theorem immutable_artifact_exact:
  "is_ok (validate_immutable_artifact digest image_reference) \<longleftrightarrow>
     (\<exists>a p. image_reference = (a # p) @ CHR ''@'' # digest \<and> a \<in> set alnum_chars \<and>
        in_class image_chars p \<and> DIGEST_PATTERN digest)"
proof -
  have "is_ok (validate_immutable_artifact digest image_reference) \<longleftrightarrow> DIGEST_PATTERN digest \<and>
      IMMUTABLE_IMAGE_PATTERN image_reference \<and> after_last_at image_reference = digest"
    by (auto simp: is_ok_iff validate_immutable_artifact_ok)
  also have "\<dots> \<longleftrightarrow> (\<exists>a p. image_reference = (a # p) @ CHR ''@'' # digest \<and> a \<in> set alnum_chars \<and>
        in_class image_chars p \<and> DIGEST_PATTERN digest)"
    using after_last_at_append [OF DIGEST_no_at] unfolding IMMUTABLE_IMAGE_iff by metis
  finally show ?thesis .
qed

end
