(* ===== verification/Tables.thy ===== *)
theory Tables
  imports Policy Sha256
begin

text \<open>
  The rows of the PostgreSQL schema \<^verbatim>\<open>core\<close>, one record per mapped class of
  \<^verbatim>\<open>app/models/core.py\<close>, with the columns of the class, and for each table the
  predicate its \<^verbatim>\<open>CheckConstraint\<close>s impose on a row. Field names carry a prefix
  for their table, since HOL record fields are global names.

  A column that is \<open>nullable=True\<close> has an \<open>option\<close> type. A \<open>CHECK\<close> rejects a
  row when its condition is false, not when it is unknown: the one constraint where the
  difference shows is written with SQL's three-valued connectives.
\<close>

section \<open>Three-valued conditions and column types\<close>

type_synonym tri = "bool option"

definition sql_and :: "tri \<Rightarrow> tri \<Rightarrow> tri" where
  "sql_and a b =
     (if a = Some False \<or> b = Some False then Some False
      else if a = None \<or> b = None then None else Some True)"

definition sql_or :: "tri \<Rightarrow> tri \<Rightarrow> tri" where
  "sql_or a b =
     (if a = Some True \<or> b = Some True then Some True
      else if a = None \<or> b = None then None else Some False)"

definition check_passes :: "tri \<Rightarrow> bool" where
  "check_passes c \<longleftrightarrow> c \<noteq> Some False"

text \<open>\<open>String(n)\<close>, \<open>Integer\<close> and \<open>BigInteger\<close> columns reject what does not fit.\<close>

definition varchar :: "nat \<Rightarrow> string \<Rightarrow> bool" where
  "varchar n s \<longleftrightarrow> py_len s \<le> n"

definition varchar_opt :: "nat \<Rightarrow> string option \<Rightarrow> bool" where
  "varchar_opt n x = (case x of None \<Rightarrow> True | Some s \<Rightarrow> varchar n s)"

definition int4 :: "int \<Rightarrow> bool" where
  "int4 i \<longleftrightarrow> - 2147483648 \<le> i \<and> i < 2147483648"

definition int4_opt :: "int option \<Rightarrow> bool" where
  "int4_opt x = (case x of None \<Rightarrow> True | Some i \<Rightarrow> int4 i)"

definition int8 :: "int \<Rightarrow> bool" where
  "int8 i \<longleftrightarrow> - 9223372036854775808 \<le> i \<and> i < 9223372036854775808"

definition int8_opt :: "int option \<Rightarrow> bool" where
  "int8_opt x = (case x of None \<Rightarrow> True | Some i \<Rightarrow> int8 i)"

lemma varchar_pattern: "length s \<le> n \<Longrightarrow> varchar n s"
  unfolding varchar_def using py_len_le [of s] by simp

lemma varchar_fingerprint: "FINGERPRINT_PATTERN s \<Longrightarrow> varchar 64 s"
  by (simp add: varchar_pattern FINGERPRINT_PATTERN_def)

lemma varchar_sha: "SHA_PATTERN s \<Longrightarrow> varchar 40 s"
  by (simp add: varchar_pattern SHA_PATTERN_def)

lemma varchar_digest: "DIGEST_PATTERN s \<Longrightarrow> varchar 71 s"
  by (auto simp: varchar_pattern DIGEST_PATTERN_iff FINGERPRINT_PATTERN_def)

section \<open>Users, principals, external identities, raw inputs\<close>

record user =
  u_id :: uuid
  u_display_name :: string
  u_timezone :: string
  u_locale :: string
  u_default_units :: dict
  u_privacy_settings :: dict
  u_created_at :: instant
  u_updated_at :: instant

record external_identity =
  x_id :: uuid
  x_provider :: string
  x_tenant_fingerprint :: string
  x_subject_fingerprint :: string
  x_principal_id :: uuid
  x_mapping_version :: int
  x_valid_from :: instant
  x_valid_to :: "instant option"
  x_audit_event_id :: uuid

definition external_identity_checks :: "external_identity \<Rightarrow> bool" where
  "external_identity_checks x \<longleftrightarrow>
     x_mapping_version x > 0 \<and>
     (case x_valid_to x of None \<Rightarrow> True | Some t \<Rightarrow> t > x_valid_from x)"

record principal =
  p_id :: uuid
  p_principal_type :: string
  p_user_id :: "uuid option"
  p_identity_key :: string
  p_created_at :: instant

definition principal_checks :: "principal \<Rightarrow> bool" where
  "principal_checks p \<longleftrightarrow>
     p_principal_type p \<in> {''HUMAN'', ''SERVICE'', ''EXECUTOR''} \<and>
     (p_principal_type p = ''HUMAN'' \<and> p_user_id p \<noteq> None \<or>
      p_principal_type p \<in> {''SERVICE'', ''EXECUTOR''} \<and> p_user_id p = None)"

record raw_input =
  r_id :: uuid
  r_user_id :: uuid
  r_channel_code :: string
  r_external_message_id :: "string option"
  r_input_type :: string
  r_text_content :: "string option"
  r_received_at :: instant
  r_processing_status :: string
  r_metadata :: dict
  r_created_at :: instant

section \<open>Approval requests and decisions\<close>

record approval_request =
  q_id :: uuid
  q_user_id :: uuid
  q_action_code :: string
  q_repository :: string
  q_pull_request_number :: "int option"
  q_target_sha :: string
  q_target_environment :: string
  q_deployment_id :: "uuid option"
  q_artifact_digest :: "string option"
  q_idempotency_key :: string
  q_requested_at :: instant
  q_expires_at :: instant
  q_card_message_id :: "string option"

text \<open>
  The condition of the constraint \<open>deployment_binding\<close>, with SQL's logic: the pattern
  match on a null digest is unknown.
\<close>

definition deployment_binding_condition :: "uuid option \<Rightarrow> string option \<Rightarrow> tri" where
  "deployment_binding_condition dep digest =
     sql_or (sql_and (Some (dep = None)) (Some (digest = None)))
       (sql_and (Some (dep \<noteq> None)) (map_option DIGEST_PATTERN digest))"

definition approval_request_checks :: "approval_request \<Rightarrow> bool" where
  "approval_request_checks q \<longleftrightarrow>
     q_action_code q \<in> {''development_plan'', ''merge_pr'', ''production_deploy'',
       ''rollback_production''} \<and>
     q_target_environment q \<in> {''development'', ''staging'', ''production''} \<and>
     SHA_PATTERN (q_target_sha q) \<and>
     (case q_pull_request_number q of None \<Rightarrow> True | Some n \<Rightarrow> n > 0) \<and>
     q_expires_at q > q_requested_at q \<and>
     (q_action_code q = ''development_plan'' \<and> q_target_environment q = ''development'' \<or>
      q_action_code q = ''merge_pr'' \<and> q_target_environment q = ''staging'' \<and>
        q_pull_request_number q \<noteq> None \<or>
      q_action_code q \<in> {''production_deploy'', ''rollback_production''} \<and>
        q_target_environment q = ''production'') \<and>
     check_passes (deployment_binding_condition (q_deployment_id q) (q_artifact_digest q))"

record approval_decision =
  d_id :: uuid
  d_request_id :: uuid
  d_decision_code :: string
  d_actor_user_id :: uuid
  d_actor_external_identity_id :: "uuid option"
  d_approver_identity_fingerprint :: string
  d_feishu_event_id :: string
  d_decided_at :: instant

definition approval_decision_checks :: "approval_decision \<Rightarrow> bool" where
  "approval_decision_checks d \<longleftrightarrow>
     d_decision_code d \<in> {''approved'', ''rejected''} \<and>
     FINGERPRINT_PATTERN (d_approver_identity_fingerprint d)"

section \<open>Deployment records\<close>

record deployment_intent =
  di_id :: uuid
  di_user_id :: uuid
  di_requester_principal_id :: uuid
  di_requester_external_identity_id :: uuid
  di_intent_kind :: string
  di_action_code :: string
  di_repository :: string
  di_target_sha :: string
  di_target_environment :: string
  di_artifact_digest :: string
  di_requested_by_identity_fingerprint :: string
  di_service_set :: "string list"
  di_migration_risk :: string
  di_migration_revision :: "string option"
  di_rollback_runbook_ref :: "string option"
  di_config_fingerprint :: string
  di_idempotency_key :: string
  di_created_at :: instant

definition deployment_intent_checks :: "deployment_intent \<Rightarrow> bool" where
  "deployment_intent_checks i \<longleftrightarrow>
     di_intent_kind i \<in> {''deploy'', ''rollback''} \<and>
     di_action_code i \<in> {''production_deploy'', ''rollback_production''} \<and>
     (di_intent_kind i = ''deploy'' \<and> di_action_code i = ''production_deploy'' \<or>
      di_intent_kind i = ''rollback'' \<and> di_action_code i = ''rollback_production'') \<and>
     di_target_environment i = ''production'' \<and>
     SHA_PATTERN (di_target_sha i) \<and>
     DIGEST_PATTERN (di_artifact_digest i) \<and>
     FINGERPRINT_PATTERN (di_requested_by_identity_fingerprint i) \<and>
     DIGEST_PATTERN (di_config_fingerprint i) \<and>
     di_migration_risk i \<in> {''NONE'', ''LOW'', ''MEDIUM'', ''HIGH''} \<and>
     (di_migration_risk i \<noteq> ''MEDIUM'' \<or>
      di_migration_revision i \<noteq> None \<and> di_rollback_runbook_ref i \<noteq> None)"

record deployment_artifact =
  da_id :: uuid
  da_deployment_id :: uuid
  da_repository :: string
  da_target_sha :: string
  da_digest :: string
  da_image_reference :: string
  da_service_images :: "(string \<times> string) list"
  da_ci_run_id :: int
  da_ci_event :: string
  da_ci_status :: string
  da_ci_conclusion :: string
  da_ci_head_sha :: string
  da_quality_gate_conclusion :: string
  da_protected_main_verified :: bool
  da_ci_workflow_name :: string
  da_ci_repository :: string
  da_ci_verified_at :: instant
  da_ci_provenance_source :: string
  da_provenance :: dict
  da_created_at :: instant

definition deployment_artifact_checks :: "deployment_artifact \<Rightarrow> bool" where
  "deployment_artifact_checks a \<longleftrightarrow>
     DIGEST_PATTERN (da_digest a) \<and>
     SHA_PATTERN (da_target_sha a) \<and> SHA_PATTERN (da_ci_head_sha a) \<and>
     da_ci_run_id a > 0 \<and>
     da_ci_event a = ''push'' \<and>
     da_ci_status a = ''completed'' \<and>
     da_ci_conclusion a = ''success'' \<and>
     da_quality_gate_conclusion a = ''success'' \<and>
     da_ci_provenance_source a = ''github_checks_api''"

record deployment_state_event =
  se_id :: uuid
  se_deployment_id :: uuid
  se_sequence :: int
  se_from_state :: "string option"
  se_to_state :: string
  se_event_code :: string
  se_actor_identity_fingerprint :: string
  se_evidence :: dict
  se_occurred_at :: instant

definition deployment_state_event_checks :: "deployment_state_event \<Rightarrow> bool" where
  "deployment_state_event_checks e \<longleftrightarrow>
     se_sequence e > 0 \<and> FINGERPRINT_PATTERN (se_actor_identity_fingerprint e)"

record staging_acceptance =
  sa_id :: uuid
  sa_deployment_id :: uuid
  sa_repository :: string
  sa_target_sha :: string
  sa_artifact_digest :: string
  sa_environment :: string
  sa_validation_suite_version :: string
  sa_config_fingerprint :: string
  sa_accepted_by_identity_fingerprint :: string
  sa_completed_at :: instant
  sa_valid_until :: instant

definition staging_acceptance_checks :: "staging_acceptance \<Rightarrow> bool" where
  "staging_acceptance_checks a \<longleftrightarrow>
     sa_environment a = ''staging'' \<and>
     SHA_PATTERN (sa_target_sha a) \<and>
     DIGEST_PATTERN (sa_artifact_digest a) \<and>
     FINGERPRINT_PATTERN (sa_accepted_by_identity_fingerprint a) \<and>
     DIGEST_PATTERN (sa_config_fingerprint a) \<and>
     sa_valid_until a > sa_completed_at a"

record staging_acceptance_invalidation =
  si_id :: uuid
  si_acceptance_id :: uuid
  si_reason_code :: string
  si_invalidated_at :: instant

record deployment_approval_binding =
  ab_id :: uuid
  ab_deployment_id :: uuid
  ab_approval_request_id :: uuid
  ab_repository :: string
  ab_target_sha :: string
  ab_target_environment :: string
  ab_action_code :: string
  ab_artifact_digest :: string
  ab_requester_identity_fingerprint :: string
  ab_requester_user_id :: uuid
  ab_bound_at :: instant

definition deployment_approval_binding_checks :: "deployment_approval_binding \<Rightarrow> bool" where
  "deployment_approval_binding_checks b \<longleftrightarrow>
     SHA_PATTERN (ab_target_sha b) \<and>
     DIGEST_PATTERN (ab_artifact_digest b) \<and>
     FINGERPRINT_PATTERN (ab_requester_identity_fingerprint b) \<and>
     ab_target_environment b = ''production'' \<and>
     ab_action_code b \<in> {''production_deploy'', ''rollback_production''}"

record deployment_approval_consumption =
  ac_id :: uuid
  ac_deployment_id :: uuid
  ac_approval_request_id :: uuid
  ac_approval_decision_id :: uuid
  ac_state_event_id :: uuid
  ac_consumed_at :: instant

record deployment_lock =
  dl_conflict_domain :: string
  dl_environment :: string
  dl_deployment_id :: uuid
  dl_owner_identity :: string
  dl_fencing_token :: int
  dl_acquired_at :: instant
  dl_renewed_at :: instant
  dl_lease_expires_at :: instant
  dl_stale_reconciled_at :: "instant option"
  dl_stale_reconciled_token :: "int option"
  dl_stale_reconciliation_evidence_key :: "string option"

definition deployment_lock_checks :: "deployment_lock \<Rightarrow> bool" where
  "deployment_lock_checks l \<longleftrightarrow>
     dl_environment l = ''production'' \<and>
     dl_lease_expires_at l > dl_acquired_at l \<and>
     dl_conflict_domain l = ''production:global'' \<and>
     dl_fencing_token l > 0"

record deployment_execution_attempt =
  ea_id :: uuid
  ea_deployment_id :: uuid
  ea_execution_key :: string
  ea_executor_identity :: string
  ea_fencing_token :: int
  ea_intent_hash :: string
  ea_created_at :: instant

definition deployment_execution_attempt_checks :: "deployment_execution_attempt \<Rightarrow> bool" where
  "deployment_execution_attempt_checks a \<longleftrightarrow> ea_fencing_token a > 0"

record deployment_evidence =
  ev_id :: uuid
  ev_deployment_id :: uuid
  ev_evidence_type :: string
  ev_evidence_key :: string
  ev_status_code :: string
  ev_payload :: dict
  ev_occurred_at :: instant

definition deployment_evidence_checks :: "deployment_evidence \<Rightarrow> bool" where
  "deployment_evidence_checks e \<longleftrightarrow>
     ev_status_code e \<in> {''pending'', ''passed'', ''failed'', ''recorded''}"

record deployment_rollback =
  rb_id :: uuid
  rb_deployment_id :: uuid
  rb_failed_deployment_id :: uuid
  rb_current_production_sha :: string
  rb_rollback_target_sha :: string
  rb_rollback_artifact_digest :: string
  rb_created_at :: instant

definition deployment_rollback_checks :: "deployment_rollback \<Rightarrow> bool" where
  "deployment_rollback_checks b \<longleftrightarrow>
     SHA_PATTERN (rb_current_production_sha b) \<and>
     SHA_PATTERN (rb_rollback_target_sha b) \<and>
     DIGEST_PATTERN (rb_rollback_artifact_digest b)"

end
