(* ===== verification/Database.thy ===== *)
theory Database
  imports Tables
begin

text \<open>
  The database: the rows of the \<^verbatim>\<open>core\<close> schema and what PostgreSQL does on an
  \<open>INSERT\<close>, \<open>UPDATE\<close> or \<open>DELETE\<close> of the services. An insert raises \<open>SQLAlchemyError\<close> when a
  value does not fit its column and \<open>IntegrityError\<close> when a \<open>CHECK\<close>, \<open>UNIQUE\<close>, primary-key
  or foreign-key constraint of \<^verbatim>\<open>app/models/core.py\<close> rejects the row; otherwise it appends it.

  The interfaces \<open>partial_keyed_table\<close> and \<open>keyed_table\<close> state what a service relies on when
  it reads a table by a unique key. They are interpreted on the inserts of the model,
  one interpretation for every unique constraint the proofs use.
\<close>

section \<open>The state\<close>

record db =
  t_users :: "user list"
  t_principals :: "principal list"
  t_external_identities :: "external_identity list"
  t_raw_inputs :: "raw_input list"
  t_requests :: "approval_request list"
  t_decisions :: "approval_decision list"
  t_intents :: "deployment_intent list"
  t_artifacts :: "deployment_artifact list"
  t_events :: "deployment_state_event list"
  t_acceptances :: "staging_acceptance list"
  t_invalidations :: "staging_acceptance_invalidation list"
  t_bindings :: "deployment_approval_binding list"
  t_consumptions :: "deployment_approval_consumption list"
  t_locks :: "deployment_lock list"
  t_attempts :: "deployment_execution_attempt list"
  t_evidence :: "deployment_evidence list"
  t_rollbacks :: "deployment_rollback list"

definition empty_db :: db where
  "empty_db = \<lparr>t_users = [], t_principals = [], t_external_identities = [], t_raw_inputs = [],
     t_requests = [], t_decisions = [], t_intents = [], t_artifacts = [], t_events = [],
     t_acceptances = [], t_invalidations = [], t_bindings = [], t_consumptions = [],
     t_locks = [], t_attempts = [], t_evidence = [], t_rollbacks = []\<rparr>"

section \<open>Keys\<close>

text \<open>
  The columns of a unique constraint, as one list of values. \<open>None\<close> is a key with a null
  column (or a row outside a partial index): such rows never clash.
\<close>

datatype atom = AU uuid | AS string | AI int

type_synonym key = "atom list option"

definition clash :: "('r \<Rightarrow> 'k option) \<Rightarrow> 'r list \<Rightarrow> 'r \<Rightarrow> bool" where
  "clash key rows r \<longleftrightarrow> key r \<noteq> None \<and> list_ex (\<lambda>s. key s = key r) rows"

definition unique_key :: "('r \<Rightarrow> 'k option) \<Rightarrow> 'r list \<Rightarrow> bool" where
  "unique_key key rows \<longleftrightarrow> distinct (filter (\<lambda>k. k \<noteq> None) (map key rows))"

lemma unique_key_Nil [simp]: "unique_key key []"
  by (simp add: unique_key_def)

lemma unique_key_snoc: "unique_key key (rows @ [r]) \<longleftrightarrow> unique_key key rows \<and> \<not> clash key rows r"
  unfolding unique_key_def clash_def list_ex_iff map_append filter_append by force

lemma clash_Some: "clash (\<lambda>s. Some (f s)) rows r \<longleftrightarrow> (\<exists>s \<in> set rows. f s = f r)"
  by (auto simp: clash_def list_ex_iff)

lemma unique_key_Some: "unique_key (\<lambda>s. Some (f s)) rows \<longleftrightarrow> distinct (map f rows)"
  by (simp add: unique_key_def distinct_map inj_on_def)

definition exists_row :: "('r \<Rightarrow> 'k) \<Rightarrow> 'k \<Rightarrow> 'r list \<Rightarrow> bool" where
  "exists_row key k rows \<longleftrightarrow> list_ex (\<lambda>r. key r = k) rows"

lemma exists_row_iff: "exists_row key k rows \<longleftrightarrow> (\<exists>r \<in> set rows. key r = k)"
  by (simp add: exists_row_def list_ex_iff)

definition exists_opt :: "('r \<Rightarrow> 'k) \<Rightarrow> 'k option \<Rightarrow> 'r list \<Rightarrow> bool" where
  "exists_opt key k rows = (case k of None \<Rightarrow> True | Some x \<Rightarrow> exists_row key x rows)"

section \<open>Inserting a row\<close>

text \<open>The order of PostgreSQL: types, then the constraints; any of them ends the statement.\<close>

definition insert_row ::
  "(db \<Rightarrow> 'r list) \<Rightarrow> (('r list \<Rightarrow> 'r list) \<Rightarrow> db \<Rightarrow> db) \<Rightarrow> ('r \<Rightarrow> bool) \<Rightarrow> ('r \<Rightarrow> bool) \<Rightarrow>
   ('r \<Rightarrow> key) list \<Rightarrow> (db \<Rightarrow> 'r \<Rightarrow> bool) \<Rightarrow> 'r \<Rightarrow> db \<Rightarrow> db result" where
  "insert_row rows upd fits checks keys refs r d =
     (if \<not> fits r then Inl SQLAlchemyError
      else if \<not> checks r \<or> list_ex (\<lambda>k. clash k (rows d) r) keys \<or> \<not> refs d r
      then Inl IntegrityError
      else Inr (upd (\<lambda>rs. rs @ [r]) d))"

lemma insert_row_ok [result_simps]:
  "insert_row rows upd fits checks keys refs r d = Inr d' \<longleftrightarrow>
     fits r \<and> checks r \<and> (\<forall>k \<in> set keys. \<not> clash k (rows d) r) \<and> refs d r \<and>
     d' = upd (\<lambda>rs. rs @ [r]) d"
  by (auto simp: insert_row_def list_ex_iff)

lemma insert_row_error:
  "insert_row rows upd fits checks keys refs r d = Inl e \<Longrightarrow> e \<in> {SQLAlchemyError, IntegrityError}"
  by (auto simp: insert_row_def split: if_splits)

subsection \<open>Users and identities\<close>

definition user_fits :: "user \<Rightarrow> bool" where
  "user_fits u \<longleftrightarrow> varchar 100 (u_display_name u) \<and> varchar 64 (u_timezone u) \<and>
     varchar 16 (u_locale u)"

definition user_keys :: "(user \<Rightarrow> key) list" where
  "user_keys = [\<lambda>u. Some [AU (u_id u)]]"

definition insert_user :: "user \<Rightarrow> db \<Rightarrow> db result" where
  "insert_user = insert_row t_users t_users_update user_fits (\<lambda>_. True) user_keys (\<lambda>_ _. True)"

definition principal_fits :: "principal \<Rightarrow> bool" where
  "principal_fits p \<longleftrightarrow> varchar 16 (p_principal_type p) \<and> varchar 200 (p_identity_key p)"

definition principal_keys :: "(principal \<Rightarrow> key) list" where
  "principal_keys =
     [\<lambda>p. Some [AU (p_id p)],
      \<lambda>p. map_option (\<lambda>u. [AU u]) (p_user_id p),
      \<lambda>p. Some [AS (p_identity_key p)]]"

definition insert_principal :: "principal \<Rightarrow> db \<Rightarrow> db result" where
  "insert_principal = insert_row t_principals t_principals_update principal_fits principal_checks
     principal_keys (\<lambda>d p. exists_opt u_id (p_user_id p) (t_users d))"

definition external_identity_fits :: "external_identity \<Rightarrow> bool" where
  "external_identity_fits x \<longleftrightarrow> varchar 32 (x_provider x) \<and> varchar 64 (x_tenant_fingerprint x) \<and>
     varchar 64 (x_subject_fingerprint x) \<and> int4 (x_mapping_version x)"

definition subject_atoms :: "external_identity \<Rightarrow> atom list" where
  "subject_atoms x = [AS (x_provider x), AS (x_tenant_fingerprint x), AS (x_subject_fingerprint x)]"

definition external_identity_keys :: "(external_identity \<Rightarrow> key) list" where
  "external_identity_keys =
     [\<lambda>x. Some [AU (x_id x)],
      \<lambda>x. Some (AI (x_mapping_version x) # subject_atoms x),
      \<lambda>x. if x_valid_to x = None then Some (subject_atoms x) else None]"

definition external_identity_refs :: "db \<Rightarrow> external_identity \<Rightarrow> bool" where
  "external_identity_refs d x \<longleftrightarrow> exists_row p_id (x_principal_id x) (t_principals d)"

definition insert_external_identity :: "external_identity \<Rightarrow> db \<Rightarrow> db result" where
  "insert_external_identity = insert_row t_external_identities t_external_identities_update
     external_identity_fits external_identity_checks external_identity_keys external_identity_refs"

definition raw_input_fits :: "raw_input \<Rightarrow> bool" where
  "raw_input_fits r \<longleftrightarrow> varchar 32 (r_channel_code r) \<and> varchar_opt 200 (r_external_message_id r) \<and>
     varchar 32 (r_input_type r) \<and> varchar 32 (r_processing_status r)"

definition raw_input_keys :: "(raw_input \<Rightarrow> key) list" where
  "raw_input_keys =
     [\<lambda>r. Some [AU (r_id r)],
      \<lambda>r. map_option (\<lambda>m. [AS (r_channel_code r), AS m]) (r_external_message_id r)]"

definition insert_raw_input :: "raw_input \<Rightarrow> db \<Rightarrow> db result" where
  "insert_raw_input = insert_row t_raw_inputs t_raw_inputs_update raw_input_fits (\<lambda>_. True)
     raw_input_keys (\<lambda>d r. exists_row u_id (r_user_id r) (t_users d))"

subsection \<open>Approvals\<close>

definition approval_request_fits :: "approval_request \<Rightarrow> bool" where
  "approval_request_fits q \<longleftrightarrow> varchar 32 (q_action_code q) \<and> varchar 200 (q_repository q) \<and>
     int4_opt (q_pull_request_number q) \<and> varchar 40 (q_target_sha q) \<and>
     varchar 32 (q_target_environment q) \<and> varchar_opt 71 (q_artifact_digest q) \<and>
     varchar 200 (q_idempotency_key q) \<and> varchar_opt 200 (q_card_message_id q)"

definition approval_request_keys :: "(approval_request \<Rightarrow> key) list" where
  "approval_request_keys = [\<lambda>q. Some [AU (q_id q)], \<lambda>q. Some [AS (q_idempotency_key q)]]"

definition approval_request_refs :: "db \<Rightarrow> approval_request \<Rightarrow> bool" where
  "approval_request_refs d q \<longleftrightarrow> exists_row u_id (q_user_id q) (t_users d) \<and>
     exists_opt di_id (q_deployment_id q) (t_intents d)"

definition insert_request :: "approval_request \<Rightarrow> db \<Rightarrow> db result" where
  "insert_request = insert_row t_requests t_requests_update approval_request_fits
     approval_request_checks approval_request_keys approval_request_refs"

definition approval_decision_fits :: "approval_decision \<Rightarrow> bool" where
  "approval_decision_fits c \<longleftrightarrow> varchar 16 (d_decision_code c) \<and>
     varchar 64 (d_approver_identity_fingerprint c) \<and> varchar 200 (d_feishu_event_id c)"

definition approval_decision_keys :: "(approval_decision \<Rightarrow> key) list" where
  "approval_decision_keys =
     [\<lambda>c. Some [AU (d_id c)], \<lambda>c. Some [AU (d_request_id c)], \<lambda>c. Some [AS (d_feishu_event_id c)]]"

definition approval_decision_refs :: "db \<Rightarrow> approval_decision \<Rightarrow> bool" where
  "approval_decision_refs d c \<longleftrightarrow> exists_row q_id (d_request_id c) (t_requests d) \<and>
     exists_row u_id (d_actor_user_id c) (t_users d) \<and>
     exists_opt x_id (d_actor_external_identity_id c) (t_external_identities d)"

definition insert_decision :: "approval_decision \<Rightarrow> db \<Rightarrow> db result" where
  "insert_decision = insert_row t_decisions t_decisions_update approval_decision_fits
     approval_decision_checks approval_decision_keys approval_decision_refs"

subsection \<open>Deployments\<close>

definition deployment_intent_fits :: "deployment_intent \<Rightarrow> bool" where
  "deployment_intent_fits i \<longleftrightarrow> varchar 16 (di_intent_kind i) \<and> varchar 32 (di_action_code i) \<and>
     varchar 200 (di_repository i) \<and> varchar 40 (di_target_sha i) \<and>
     varchar 32 (di_target_environment i) \<and> varchar 71 (di_artifact_digest i) \<and>
     varchar 64 (di_requested_by_identity_fingerprint i) \<and> varchar 16 (di_migration_risk i) \<and>
     varchar_opt 200 (di_migration_revision i) \<and> varchar_opt 300 (di_rollback_runbook_ref i) \<and>
     varchar 71 (di_config_fingerprint i) \<and> varchar 200 (di_idempotency_key i)"

definition deployment_intent_keys :: "(deployment_intent \<Rightarrow> key) list" where
  "deployment_intent_keys = [\<lambda>i. Some [AU (di_id i)], \<lambda>i. Some [AS (di_idempotency_key i)]]"

definition deployment_intent_refs :: "db \<Rightarrow> deployment_intent \<Rightarrow> bool" where
  "deployment_intent_refs d i \<longleftrightarrow> exists_row u_id (di_user_id i) (t_users d) \<and>
     exists_row p_id (di_requester_principal_id i) (t_principals d) \<and>
     exists_row x_id (di_requester_external_identity_id i) (t_external_identities d)"

definition insert_intent :: "deployment_intent \<Rightarrow> db \<Rightarrow> db result" where
  "insert_intent = insert_row t_intents t_intents_update deployment_intent_fits
     deployment_intent_checks deployment_intent_keys deployment_intent_refs"

definition deployment_artifact_fits :: "deployment_artifact \<Rightarrow> bool" where
  "deployment_artifact_fits a \<longleftrightarrow> varchar 200 (da_repository a) \<and> varchar 40 (da_target_sha a) \<and>
     varchar 71 (da_digest a) \<and> varchar 500 (da_image_reference a) \<and> int8 (da_ci_run_id a) \<and>
     varchar 32 (da_ci_event a) \<and> varchar 32 (da_ci_status a) \<and> varchar 32 (da_ci_conclusion a) \<and>
     varchar 40 (da_ci_head_sha a) \<and> varchar 32 (da_quality_gate_conclusion a) \<and>
     varchar 200 (da_ci_workflow_name a) \<and> varchar 200 (da_ci_repository a) \<and>
     varchar 64 (da_ci_provenance_source a)"

definition deployment_artifact_keys :: "(deployment_artifact \<Rightarrow> key) list" where
  "deployment_artifact_keys = [\<lambda>a. Some [AU (da_id a)], \<lambda>a. Some [AU (da_deployment_id a)]]"

definition insert_artifact :: "deployment_artifact \<Rightarrow> db \<Rightarrow> db result" where
  "insert_artifact = insert_row t_artifacts t_artifacts_update deployment_artifact_fits
     deployment_artifact_checks deployment_artifact_keys
     (\<lambda>d a. exists_row di_id (da_deployment_id a) (t_intents d))"

definition state_event_fits :: "deployment_state_event \<Rightarrow> bool" where
  "state_event_fits e \<longleftrightarrow> int4 (se_sequence e) \<and> varchar_opt 64 (se_from_state e) \<and>
     varchar 64 (se_to_state e) \<and> varchar 64 (se_event_code e) \<and>
     varchar 64 (se_actor_identity_fingerprint e)"

definition state_event_keys :: "(deployment_state_event \<Rightarrow> key) list" where
  "state_event_keys =
     [\<lambda>e. Some [AU (se_id e)], \<lambda>e. Some [AU (se_deployment_id e), AI (se_sequence e)]]"

definition insert_event :: "deployment_state_event \<Rightarrow> db \<Rightarrow> db result" where
  "insert_event = insert_row t_events t_events_update state_event_fits
     deployment_state_event_checks state_event_keys
     (\<lambda>d e. exists_row di_id (se_deployment_id e) (t_intents d))"

definition acceptance_fits :: "staging_acceptance \<Rightarrow> bool" where
  "acceptance_fits a \<longleftrightarrow> varchar 200 (sa_repository a) \<and> varchar 40 (sa_target_sha a) \<and>
     varchar 71 (sa_artifact_digest a) \<and> varchar 32 (sa_environment a) \<and>
     varchar 100 (sa_validation_suite_version a) \<and> varchar 71 (sa_config_fingerprint a) \<and>
     varchar 64 (sa_accepted_by_identity_fingerprint a)"

definition acceptance_keys :: "(staging_acceptance \<Rightarrow> key) list" where
  "acceptance_keys = [\<lambda>a. Some [AU (sa_id a)], \<lambda>a. Some [AU (sa_deployment_id a)]]"

definition insert_acceptance :: "staging_acceptance \<Rightarrow> db \<Rightarrow> db result" where
  "insert_acceptance = insert_row t_acceptances t_acceptances_update acceptance_fits
     staging_acceptance_checks acceptance_keys
     (\<lambda>d a. exists_row di_id (sa_deployment_id a) (t_intents d))"

definition invalidation_keys :: "(staging_acceptance_invalidation \<Rightarrow> key) list" where
  "invalidation_keys = [\<lambda>i. Some [AU (si_id i)], \<lambda>i. Some [AU (si_acceptance_id i)]]"

definition insert_invalidation :: "staging_acceptance_invalidation \<Rightarrow> db \<Rightarrow> db result" where
  "insert_invalidation = insert_row t_invalidations t_invalidations_update
     (\<lambda>i. varchar 64 (si_reason_code i)) (\<lambda>_. True) invalidation_keys
     (\<lambda>d i. exists_row sa_id (si_acceptance_id i) (t_acceptances d))"

definition binding_fits :: "deployment_approval_binding \<Rightarrow> bool" where
  "binding_fits b \<longleftrightarrow> varchar 200 (ab_repository b) \<and> varchar 40 (ab_target_sha b) \<and>
     varchar 32 (ab_target_environment b) \<and> varchar 32 (ab_action_code b) \<and>
     varchar 71 (ab_artifact_digest b) \<and> varchar 64 (ab_requester_identity_fingerprint b)"

definition binding_keys :: "(deployment_approval_binding \<Rightarrow> key) list" where
  "binding_keys =
     [\<lambda>b. Some [AU (ab_id b)], \<lambda>b. Some [AU (ab_deployment_id b)],
      \<lambda>b. Some [AU (ab_approval_request_id b)]]"

definition binding_refs :: "db \<Rightarrow> deployment_approval_binding \<Rightarrow> bool" where
  "binding_refs d b \<longleftrightarrow> exists_row di_id (ab_deployment_id b) (t_intents d) \<and>
     exists_row q_id (ab_approval_request_id b) (t_requests d) \<and>
     exists_row u_id (ab_requester_user_id b) (t_users d)"

definition insert_binding :: "deployment_approval_binding \<Rightarrow> db \<Rightarrow> db result" where
  "insert_binding = insert_row t_bindings t_bindings_update binding_fits
     deployment_approval_binding_checks binding_keys binding_refs"

definition consumption_keys :: "(deployment_approval_consumption \<Rightarrow> key) list" where
  "consumption_keys =
     [\<lambda>c. Some [AU (ac_id c)], \<lambda>c. Some [AU (ac_deployment_id c)],
      \<lambda>c. Some [AU (ac_approval_request_id c)], \<lambda>c. Some [AU (ac_approval_decision_id c)]]"

definition consumption_refs :: "db \<Rightarrow> deployment_approval_consumption \<Rightarrow> bool" where
  "consumption_refs d c \<longleftrightarrow> exists_row di_id (ac_deployment_id c) (t_intents d) \<and>
     exists_row q_id (ac_approval_request_id c) (t_requests d) \<and>
     exists_row d_id (ac_approval_decision_id c) (t_decisions d) \<and>
     exists_row se_id (ac_state_event_id c) (t_events d)"

definition insert_consumption :: "deployment_approval_consumption \<Rightarrow> db \<Rightarrow> db result" where
  "insert_consumption = insert_row t_consumptions t_consumptions_update (\<lambda>_. True) (\<lambda>_. True)
     consumption_keys consumption_refs"

definition attempt_fits :: "deployment_execution_attempt \<Rightarrow> bool" where
  "attempt_fits a \<longleftrightarrow> varchar 200 (ea_execution_key a) \<and> varchar 200 (ea_executor_identity a) \<and>
     int8 (ea_fencing_token a) \<and> varchar 64 (ea_intent_hash a)"

definition attempt_keys :: "(deployment_execution_attempt \<Rightarrow> key) list" where
  "attempt_keys =
     [\<lambda>a. Some [AU (ea_id a)], \<lambda>a. Some [AU (ea_deployment_id a)],
      \<lambda>a. Some [AS (ea_execution_key a)]]"

definition insert_attempt :: "deployment_execution_attempt \<Rightarrow> db \<Rightarrow> db result" where
  "insert_attempt = insert_row t_attempts t_attempts_update attempt_fits
     deployment_execution_attempt_checks attempt_keys
     (\<lambda>d a. exists_row di_id (ea_deployment_id a) (t_intents d))"

definition evidence_fits :: "deployment_evidence \<Rightarrow> bool" where
  "evidence_fits e \<longleftrightarrow> varchar 64 (ev_evidence_type e) \<and> varchar 200 (ev_evidence_key e) \<and>
     varchar 16 (ev_status_code e)"

definition evidence_keys :: "(deployment_evidence \<Rightarrow> key) list" where
  "evidence_keys =
     [\<lambda>e. Some [AU (ev_id e)],
      \<lambda>e. Some [AU (ev_deployment_id e), AS (ev_evidence_type e), AS (ev_evidence_key e)]]"

definition insert_evidence :: "deployment_evidence \<Rightarrow> db \<Rightarrow> db result" where
  "insert_evidence = insert_row t_evidence t_evidence_update evidence_fits
     deployment_evidence_checks evidence_keys
     (\<lambda>d e. exists_row di_id (ev_deployment_id e) (t_intents d))"

definition rollback_keys :: "(deployment_rollback \<Rightarrow> key) list" where
  "rollback_keys = [\<lambda>b. Some [AU (rb_id b)], \<lambda>b. Some [AU (rb_deployment_id b)]]"

definition rollback_fits :: "deployment_rollback \<Rightarrow> bool" where
  "rollback_fits b \<longleftrightarrow> varchar 40 (rb_current_production_sha b) \<and>
     varchar 40 (rb_rollback_target_sha b) \<and> varchar 71 (rb_rollback_artifact_digest b)"

definition rollback_refs :: "db \<Rightarrow> deployment_rollback \<Rightarrow> bool" where
  "rollback_refs d b \<longleftrightarrow> exists_row di_id (rb_deployment_id b) (t_intents d) \<and>
     exists_row di_id (rb_failed_deployment_id b) (t_intents d)"

definition insert_rollback :: "deployment_rollback \<Rightarrow> db \<Rightarrow> db result" where
  "insert_rollback = insert_row t_rollbacks t_rollbacks_update rollback_fits
     deployment_rollback_checks rollback_keys rollback_refs"

subsection \<open>The lock\<close>

definition lock_fits :: "deployment_lock \<Rightarrow> bool" where
  "lock_fits l \<longleftrightarrow> varchar 100 (dl_conflict_domain l) \<and> varchar 32 (dl_environment l) \<and>
     varchar 200 (dl_owner_identity l) \<and> int8 (dl_fencing_token l) \<and>
     int8_opt (dl_stale_reconciled_token l) \<and> varchar_opt 200 (dl_stale_reconciliation_evidence_key l)"

definition lock_keys :: "(deployment_lock \<Rightarrow> key) list" where
  "lock_keys = [\<lambda>l. Some [AS (dl_conflict_domain l)]]"

definition lock_refs :: "db \<Rightarrow> deployment_lock \<Rightarrow> bool" where
  "lock_refs d l \<longleftrightarrow> exists_row di_id (dl_deployment_id l) (t_intents d)"

definition insert_lock :: "deployment_lock \<Rightarrow> db \<Rightarrow> db result" where
  "insert_lock = insert_row t_locks t_locks_update lock_fits deployment_lock_checks lock_keys
     lock_refs"

text \<open>
  An \<open>UPDATE\<close> of the lock row of a conflict domain (the primary key is never assigned), and its
  \<open>DELETE\<close>.
\<close>

definition update_lock :: "deployment_lock \<Rightarrow> db \<Rightarrow> db result" where
  "update_lock l d =
     (if \<not> lock_fits l then Inl SQLAlchemyError
      else if \<not> deployment_lock_checks l \<or> \<not> lock_refs d l then Inl IntegrityError
      else Inr (d\<lparr>t_locks :=
        map (\<lambda>k. if dl_conflict_domain k = dl_conflict_domain l then l else k) (t_locks d)\<rparr>))"

definition delete_lock :: "deployment_lock \<Rightarrow> db \<Rightarrow> db" where
  "delete_lock l d =
     d\<lparr>t_locks := filter (\<lambda>k. dl_conflict_domain k \<noteq> dl_conflict_domain l) (t_locks d)\<rparr>"

subsection \<open>Closing an external identity\<close>

text \<open>The trigger \<open>protect_external_identity_history\<close>, \<open>BEFORE UPDATE OR DELETE ... FOR EACH ROW\<close>.\<close>

datatype tg_op = UPDATE | DELETE

definition protect_external_identity_history ::
  "tg_op \<Rightarrow> external_identity \<Rightarrow> external_identity \<Rightarrow> external_identity result" where
  "protect_external_identity_history op old new =
     (if op = DELETE then Inl (OtherException ''external identity history is append-only'')
      else if x_valid_to old \<noteq> None \<or> x_valid_to new = None \<or>
        the (x_valid_to new) \<le> x_valid_from old \<or>
        (x_id new, x_provider new, x_tenant_fingerprint new, x_subject_fingerprint new,
         x_principal_id new, x_mapping_version new, x_valid_from new, x_audit_event_id new) \<noteq>
        (x_id old, x_provider old, x_tenant_fingerprint old, x_subject_fingerprint old,
         x_principal_id old, x_mapping_version old, x_valid_from old, x_audit_event_id old)
      then Inl (OtherException ''external identity history is immutable'')
      else Inr new)"

text \<open>
  The \<open>UPDATE\<close> of the row with primary key \<open>i\<close> by \<open>f\<close>: the trigger, then the constraints. No
  row with that key is an \<open>UPDATE\<close> of nothing.
\<close>

definition update_external_identity ::
  "uuid \<Rightarrow> (external_identity \<Rightarrow> external_identity) \<Rightarrow> db \<Rightarrow> db result" where
  "update_external_identity i f d =
     (case filter (\<lambda>x. x_id x = i) (t_external_identities d) of
        [] \<Rightarrow> Inr d
      | old # _ \<Rightarrow> bindE (protect_external_identity_history UPDATE old (f old)) (\<lambda>new.
          if \<not> external_identity_checks new then Inl IntegrityError
          else Inr (d\<lparr>t_external_identities :=
            map (\<lambda>x. if x_id x = i then new else x) (t_external_identities d)\<rparr>)))"

lemma protect_ok [result_simps]:
  "protect_external_identity_history UPDATE old new = Inr x \<longleftrightarrow>
     x = new \<and> x_valid_to old = None \<and> (\<exists>t. t > x_valid_from old \<and> new = old\<lparr>x_valid_to := Some t\<rparr>)"
  by (cases old; cases new) (auto simp: protect_external_identity_history_def)

section \<open>Tables with unique keys\<close>

text \<open>
  What a service relies on when it inserts into a table and later reads it by key: an accepted
  row is appended and nothing else changes in the table, and its key was not there before.
\<close>

locale partial_keyed_table =
  fixes rows :: "'s \<Rightarrow> 'r list"
    and ins :: "'r \<Rightarrow> 's \<Rightarrow> 's result"
    and key :: "'r \<Rightarrow> 'k option"
  assumes ins_appends: "ins r s = Inr s' \<Longrightarrow> rows s' = rows s @ [r]"
    and ins_no_clash: "ins r s = Inr s' \<Longrightarrow> \<not> clash key (rows s) r"
begin

lemma ins_unique: "ins r s = Inr s' \<Longrightarrow> unique_key key (rows s) \<Longrightarrow> unique_key key (rows s')"
  by (simp add: ins_appends unique_key_snoc ins_no_clash)

lemma ins_twice:
  "ins r s = Inr s' \<Longrightarrow> key q = key r \<Longrightarrow> key r \<noteq> None \<Longrightarrow> ins q s' \<noteq> Inr s''"
  using ins_no_clash [of q s' s''] ins_appends [of r s s'] by (auto simp: clash_def)

end

locale keyed_table =
  fixes rows :: "'s \<Rightarrow> 'r list"
    and ins :: "'r \<Rightarrow> 's \<Rightarrow> 's result"
    and col :: "'r \<Rightarrow> 'k"
  assumes keyed_appends: "ins r s = Inr s' \<Longrightarrow> rows s' = rows s @ [r]"
    and ins_fresh: "ins r s = Inr s' \<Longrightarrow> q \<in> set (rows s) \<Longrightarrow> col q \<noteq> col r"

sublocale keyed_table \<subseteq> partial_keyed_table rows ins "\<lambda>r. Some (col r)"
proof
  fix r s s' assume "ins r s = Inr s'"
  then show "rows s' = rows s @ [r]" by (rule keyed_appends)
next
  fix r s s' assume "ins r s = Inr s'"
  then show "\<not> clash (\<lambda>r. Some (col r)) (rows s) r" using ins_fresh by (auto simp: clash_Some)
qed

context keyed_table
begin

lemma ins_distinct: "ins r s = Inr s' \<Longrightarrow> distinct (map col (rows s)) \<Longrightarrow> distinct (map col (rows s'))"
  using ins_unique [of r s s'] by (simp add: unique_key_Some)

lemma lookup_inserted: "ins r s = Inr s' \<Longrightarrow> filter (\<lambda>q. col q = col r) (rows s') = [r]"
  using ins_fresh [of r s s'] by (auto simp: ins_appends filter_empty_conv)

lemma lookup_other:
  "ins r s = Inr s' \<Longrightarrow> k \<noteq> col r \<Longrightarrow>
     filter (\<lambda>q. col q = k) (rows s') = filter (\<lambda>q. col q = k) (rows s)"
  by (auto simp: ins_appends)

lemma select_unambiguous:
  "distinct (map col (rows s)) \<Longrightarrow> \<exists>x. scalar_one_or_none (\<lambda>q. col q = k) (rows s) = Inr x"
  by (rule distinct_key_scalar)

end

text \<open>The law of freshness for a row that \<^const>\<open>insert_row\<close> has accepted.\<close>

lemma insert_row_no_clash:
  assumes "insert_row rows upd fits checks keys refs r d = Inr d'" and "k \<in> set keys"
  shows "\<not> clash k (rows d) r"
  using assms by (simp add: insert_row_ok)

lemmas insert_defs =
  insert_user_def insert_principal_def insert_external_identity_def insert_raw_input_def
  insert_request_def insert_decision_def insert_intent_def insert_artifact_def insert_event_def
  insert_acceptance_def insert_invalidation_def insert_binding_def insert_consumption_def
  insert_attempt_def insert_evidence_def insert_rollback_def insert_lock_def

lemmas key_defs =
  user_keys_def principal_keys_def external_identity_keys_def raw_input_keys_def
  approval_request_keys_def approval_decision_keys_def deployment_intent_keys_def
  deployment_artifact_keys_def state_event_keys_def acceptance_keys_def invalidation_keys_def
  binding_keys_def consumption_keys_def attempt_keys_def evidence_keys_def rollback_keys_def
  lock_keys_def

text \<open>An accepted insert as an update of the record.\<close>

lemma inserted:
  "insert_user r0 d = Inr d' \<Longrightarrow> d' = d\<lparr>t_users := t_users d @ [r0]\<rparr>"
  "insert_principal r1 d = Inr d' \<Longrightarrow> d' = d\<lparr>t_principals := t_principals d @ [r1]\<rparr>"
  "insert_external_identity r2 d = Inr d' \<Longrightarrow> d' = d\<lparr>t_external_identities := t_external_identities d @ [r2]\<rparr>"
  "insert_raw_input r3 d = Inr d' \<Longrightarrow> d' = d\<lparr>t_raw_inputs := t_raw_inputs d @ [r3]\<rparr>"
  "insert_request r4 d = Inr d' \<Longrightarrow> d' = d\<lparr>t_requests := t_requests d @ [r4]\<rparr>"
  "insert_decision r5 d = Inr d' \<Longrightarrow> d' = d\<lparr>t_decisions := t_decisions d @ [r5]\<rparr>"
  "insert_intent r6 d = Inr d' \<Longrightarrow> d' = d\<lparr>t_intents := t_intents d @ [r6]\<rparr>"
  "insert_artifact r7 d = Inr d' \<Longrightarrow> d' = d\<lparr>t_artifacts := t_artifacts d @ [r7]\<rparr>"
  "insert_event r8 d = Inr d' \<Longrightarrow> d' = d\<lparr>t_events := t_events d @ [r8]\<rparr>"
  "insert_acceptance r9 d = Inr d' \<Longrightarrow> d' = d\<lparr>t_acceptances := t_acceptances d @ [r9]\<rparr>"
  "insert_invalidation r10 d = Inr d' \<Longrightarrow> d' = d\<lparr>t_invalidations := t_invalidations d @ [r10]\<rparr>"
  "insert_binding r11 d = Inr d' \<Longrightarrow> d' = d\<lparr>t_bindings := t_bindings d @ [r11]\<rparr>"
  "insert_consumption r12 d = Inr d' \<Longrightarrow> d' = d\<lparr>t_consumptions := t_consumptions d @ [r12]\<rparr>"
  "insert_attempt r13 d = Inr d' \<Longrightarrow> d' = d\<lparr>t_attempts := t_attempts d @ [r13]\<rparr>"
  "insert_evidence r14 d = Inr d' \<Longrightarrow> d' = d\<lparr>t_evidence := t_evidence d @ [r14]\<rparr>"
  "insert_rollback r15 d = Inr d' \<Longrightarrow> d' = d\<lparr>t_rollbacks := t_rollbacks d @ [r15]\<rparr>"
  "insert_lock r16 d = Inr d' \<Longrightarrow> d' = d\<lparr>t_locks := t_locks d @ [r16]\<rparr>"
  by (simp_all add: insert_defs insert_row_ok)

interpretation user_by_id: keyed_table t_users insert_user "u_id"
  by unfold_locales (auto simp: insert_user_def insert_row_ok key_defs clash_Some)

interpretation principal_by_id: keyed_table t_principals insert_principal "p_id"
  by unfold_locales (auto simp: insert_principal_def insert_row_ok key_defs clash_Some)

interpretation principal_by_key: keyed_table t_principals insert_principal "p_identity_key"
  by unfold_locales (auto simp: insert_principal_def insert_row_ok key_defs clash_Some)

interpretation identity_by_id: keyed_table t_external_identities insert_external_identity "x_id"
  by unfold_locales (auto simp: insert_external_identity_def insert_row_ok key_defs clash_Some)

interpretation raw_input_by_id: keyed_table t_raw_inputs insert_raw_input "r_id"
  by unfold_locales (auto simp: insert_raw_input_def insert_row_ok key_defs clash_Some)

interpretation request_by_id: keyed_table t_requests insert_request "q_id"
  by unfold_locales (auto simp: insert_request_def insert_row_ok key_defs clash_Some)

interpretation request_by_key: keyed_table t_requests insert_request "q_idempotency_key"
  by unfold_locales (auto simp: insert_request_def insert_row_ok key_defs clash_Some)

interpretation decision_by_id: keyed_table t_decisions insert_decision "d_id"
  by unfold_locales (auto simp: insert_decision_def insert_row_ok key_defs clash_Some)

interpretation decision_by_request: keyed_table t_decisions insert_decision "d_request_id"
  by unfold_locales (auto simp: insert_decision_def insert_row_ok key_defs clash_Some)

interpretation decision_by_event: keyed_table t_decisions insert_decision "d_feishu_event_id"
  by unfold_locales (auto simp: insert_decision_def insert_row_ok key_defs clash_Some)

interpretation intent_by_id: keyed_table t_intents insert_intent "di_id"
  by unfold_locales (auto simp: insert_intent_def insert_row_ok key_defs clash_Some)

interpretation intent_by_key: keyed_table t_intents insert_intent "di_idempotency_key"
  by unfold_locales (auto simp: insert_intent_def insert_row_ok key_defs clash_Some)

interpretation artifact_by_deployment: keyed_table t_artifacts insert_artifact "da_deployment_id"
  by unfold_locales (auto simp: insert_artifact_def insert_row_ok key_defs clash_Some)

interpretation event_by_sequence: keyed_table t_events insert_event "\<lambda>e. (se_deployment_id e, se_sequence e)"
  by unfold_locales (auto simp: insert_event_def insert_row_ok key_defs clash_Some)

interpretation acceptance_by_deployment: keyed_table t_acceptances insert_acceptance "sa_deployment_id"
  by unfold_locales (auto simp: insert_acceptance_def insert_row_ok key_defs clash_Some)

interpretation invalidation_by_acceptance: keyed_table t_invalidations insert_invalidation "si_acceptance_id"
  by unfold_locales (auto simp: insert_invalidation_def insert_row_ok key_defs clash_Some)

interpretation binding_by_deployment: keyed_table t_bindings insert_binding "ab_deployment_id"
  by unfold_locales (auto simp: insert_binding_def insert_row_ok key_defs clash_Some)

interpretation binding_by_request: keyed_table t_bindings insert_binding "ab_approval_request_id"
  by unfold_locales (auto simp: insert_binding_def insert_row_ok key_defs clash_Some)

interpretation consumption_by_deployment: keyed_table t_consumptions insert_consumption "ac_deployment_id"
  by unfold_locales (auto simp: insert_consumption_def insert_row_ok key_defs clash_Some)

interpretation consumption_by_request: keyed_table t_consumptions insert_consumption "ac_approval_request_id"
  by unfold_locales (auto simp: insert_consumption_def insert_row_ok key_defs clash_Some)

interpretation attempt_by_deployment: keyed_table t_attempts insert_attempt "ea_deployment_id"
  by unfold_locales (auto simp: insert_attempt_def insert_row_ok key_defs clash_Some)

interpretation attempt_by_key: keyed_table t_attempts insert_attempt "ea_execution_key"
  by unfold_locales (auto simp: insert_attempt_def insert_row_ok key_defs clash_Some)

interpretation evidence_by_identity: keyed_table t_evidence insert_evidence "\<lambda>e. (ev_deployment_id e, ev_evidence_type e, ev_evidence_key e)"
  by unfold_locales (auto simp: insert_evidence_def insert_row_ok key_defs clash_Some)

interpretation rollback_by_deployment: keyed_table t_rollbacks insert_rollback "rb_deployment_id"
  by unfold_locales (auto simp: insert_rollback_def insert_row_ok key_defs clash_Some)

interpretation lock_by_domain: keyed_table t_locks insert_lock "dl_conflict_domain"
  by unfold_locales (auto simp: insert_lock_def insert_row_ok key_defs clash_Some)

interpretation principal_by_user: partial_keyed_table t_principals insert_principal "\<lambda>p. map_option (\<lambda>u. [AU u]) (p_user_id p)"
  by unfold_locales (auto simp: insert_principal_def insert_row_ok key_defs subject_atoms_def)

interpretation identity_active: partial_keyed_table t_external_identities insert_external_identity "\<lambda>x. if x_valid_to x = None then Some (subject_atoms x) else None"
  by unfold_locales (auto simp: insert_external_identity_def insert_row_ok key_defs subject_atoms_def)

interpretation raw_input_by_message: partial_keyed_table t_raw_inputs insert_raw_input "\<lambda>r. map_option (\<lambda>m. [AS (r_channel_code r), AS m]) (r_external_message_id r)"
  by unfold_locales (auto simp: insert_raw_input_def insert_row_ok key_defs subject_atoms_def)

section \<open>Append-only tables\<close>

text \<open>
  The triggers of the migrations on the audit tables: \<open>UPDATE\<close> and \<open>DELETE\<close> of a row raise. A
  statement is given by the rows it selects and what it would do to them; the trigger runs
  once for every selected row, so a statement that selects none passes.
\<close>

datatype 'r dml = Insert 'r | Update "'r \<Rightarrow> bool" "'r \<Rightarrow> 'r" | Delete "'r \<Rightarrow> bool"

definition reject_audit_mutation :: "'r list \<Rightarrow> 'r dml \<Rightarrow> 'r list result" where
  "reject_audit_mutation rows stmt =
     (case stmt of
        Insert r \<Rightarrow> Inr (rows @ [r])
      | Update P f \<Rightarrow>
          if list_ex P rows then Inl (OtherException ''deployment audit records are append-only'')
          else Inr rows
      | Delete P \<Rightarrow>
          if list_ex P rows then Inl (OtherException ''deployment audit records are append-only'')
          else Inr rows)"

fun run_statements :: "'r list \<Rightarrow> 'r dml list \<Rightarrow> 'r list" where
  "run_statements rows [] = rows"
| "run_statements rows (s # ss) =
     run_statements (case reject_audit_mutation rows s of Inl _ \<Rightarrow> rows | Inr rs \<Rightarrow> rs) ss"

end
