(* ===== verification/Schema.thy ===== *)
theory Schema
  imports Database "HOL-Library.Sublist"
begin

text \<open>
  What the schema promises of every state of the database: each row satisfies its column types
  and \<open>CHECK\<close>s, every unique constraint holds, and every foreign key has its row. The services
  change the database by the statements of \<open>dml_step\<close> only, and each of them keeps the promise.
\<close>

definition table_ok ::
  "('r \<Rightarrow> bool) \<Rightarrow> ('r \<Rightarrow> bool) \<Rightarrow> ('r \<Rightarrow> key) list \<Rightarrow> 'r list \<Rightarrow> bool" where
  "table_ok fits checks keys rows \<longleftrightarrow>
     list_all (\<lambda>r. fits r \<and> checks r) rows \<and> list_all (\<lambda>k. unique_key k rows) keys"

lemma table_ok_Nil [simp]: "table_ok fits checks keys []"
  by (simp add: table_ok_def list_all_iff)

lemma table_ok_insert:
  assumes "insert_row rows upd fits checks keys refs r d = Inr d'" and "table_ok fits checks keys (rows d)"
  shows "table_ok fits checks keys (rows d @ [r])"
  using assms by (auto simp: table_ok_def list_all_iff insert_row_ok unique_key_snoc)

definition rows_ok :: "db \<Rightarrow> bool" where
  "rows_ok d \<longleftrightarrow>
     table_ok user_fits (\<lambda>_. True) user_keys (t_users d) \<and>
     table_ok principal_fits principal_checks principal_keys (t_principals d) \<and>
     table_ok external_identity_fits external_identity_checks external_identity_keys
       (t_external_identities d) \<and>
     table_ok raw_input_fits (\<lambda>_. True) raw_input_keys (t_raw_inputs d) \<and>
     table_ok approval_request_fits approval_request_checks approval_request_keys (t_requests d) \<and>
     table_ok approval_decision_fits approval_decision_checks approval_decision_keys
       (t_decisions d) \<and>
     table_ok deployment_intent_fits deployment_intent_checks deployment_intent_keys (t_intents d) \<and>
     table_ok deployment_artifact_fits deployment_artifact_checks deployment_artifact_keys
       (t_artifacts d) \<and>
     table_ok state_event_fits deployment_state_event_checks state_event_keys (t_events d) \<and>
     table_ok acceptance_fits staging_acceptance_checks acceptance_keys (t_acceptances d) \<and>
     table_ok (\<lambda>i. varchar 64 (si_reason_code i)) (\<lambda>_. True) invalidation_keys (t_invalidations d) \<and>
     table_ok binding_fits deployment_approval_binding_checks binding_keys (t_bindings d) \<and>
     table_ok (\<lambda>_. True) (\<lambda>_. True) consumption_keys (t_consumptions d) \<and>
     table_ok attempt_fits deployment_execution_attempt_checks attempt_keys (t_attempts d) \<and>
     table_ok evidence_fits deployment_evidence_checks evidence_keys (t_evidence d) \<and>
     table_ok rollback_fits deployment_rollback_checks rollback_keys (t_rollbacks d) \<and>
     table_ok lock_fits deployment_lock_checks lock_keys (t_locks d)"

text \<open>The rows of \<open>d\<close> refer to rows of \<open>p\<close>.\<close>

definition refs_into :: "db \<Rightarrow> db \<Rightarrow> bool" where
  "refs_into p d \<longleftrightarrow>
     list_all (\<lambda>r. exists_opt u_id (p_user_id r) (t_users p)) (t_principals d) \<and>
     list_all (external_identity_refs p) (t_external_identities d) \<and>
     list_all (\<lambda>r. exists_row u_id (r_user_id r) (t_users p)) (t_raw_inputs d) \<and>
     list_all (approval_request_refs p) (t_requests d) \<and>
     list_all (approval_decision_refs p) (t_decisions d) \<and>
     list_all (deployment_intent_refs p) (t_intents d) \<and>
     list_all (\<lambda>a. exists_row di_id (da_deployment_id a) (t_intents p)) (t_artifacts d) \<and>
     list_all (\<lambda>e. exists_row di_id (se_deployment_id e) (t_intents p)) (t_events d) \<and>
     list_all (\<lambda>a. exists_row di_id (sa_deployment_id a) (t_intents p)) (t_acceptances d) \<and>
     list_all (\<lambda>i. exists_row sa_id (si_acceptance_id i) (t_acceptances p)) (t_invalidations d) \<and>
     list_all (binding_refs p) (t_bindings d) \<and>
     list_all (consumption_refs p) (t_consumptions d) \<and>
     list_all (\<lambda>a. exists_row di_id (ea_deployment_id a) (t_intents p)) (t_attempts d) \<and>
     list_all (\<lambda>e. exists_row di_id (ev_deployment_id e) (t_intents p)) (t_evidence d) \<and>
     list_all (rollback_refs p) (t_rollbacks d) \<and>
     list_all (lock_refs p) (t_locks d)"

definition references_ok :: "db \<Rightarrow> bool" where
  "references_ok d \<longleftrightarrow> refs_into d d"

definition schema_ok :: "db \<Rightarrow> bool" where
  "schema_ok d \<longleftrightarrow> rows_ok d \<and> references_ok d"

section \<open>The statements of the services\<close>

definition set_card_message_id :: "uuid \<Rightarrow> string \<Rightarrow> db \<Rightarrow> db result" where
  "set_card_message_id i m d =
     (if \<not> varchar 200 m then Inl SQLAlchemyError
      else Inr (d\<lparr>t_requests :=
        map (\<lambda>q. if q_id q = i then q\<lparr>q_card_message_id := Some m\<rparr> else q) (t_requests d)\<rparr>))"

inductive dml_step :: "db \<Rightarrow> db \<Rightarrow> bool" where
  user: "insert_user r d = Inr d' \<Longrightarrow> dml_step d d'"
| principal: "insert_principal r d = Inr d' \<Longrightarrow> dml_step d d'"
| external_identity: "insert_external_identity r d = Inr d' \<Longrightarrow> dml_step d d'"
| close_identity: "update_external_identity i (\<lambda>x. x\<lparr>x_valid_to := v\<rparr>) d = Inr d' \<Longrightarrow> dml_step d d'"
| raw_input: "insert_raw_input r d = Inr d' \<Longrightarrow> dml_step d d'"
| request: "insert_request r d = Inr d' \<Longrightarrow> dml_step d d'"
| card: "set_card_message_id i m d = Inr d' \<Longrightarrow> dml_step d d'"
| decision: "insert_decision r d = Inr d' \<Longrightarrow> dml_step d d'"
| intent: "insert_intent r d = Inr d' \<Longrightarrow> dml_step d d'"
| artifact: "insert_artifact r d = Inr d' \<Longrightarrow> dml_step d d'"
| event: "insert_event r d = Inr d' \<Longrightarrow> dml_step d d'"
| acceptance: "insert_acceptance r d = Inr d' \<Longrightarrow> dml_step d d'"
| invalidation: "insert_invalidation r d = Inr d' \<Longrightarrow> dml_step d d'"
| binding: "insert_binding r d = Inr d' \<Longrightarrow> dml_step d d'"
| consumption: "insert_consumption r d = Inr d' \<Longrightarrow> dml_step d d'"
| attempt: "insert_attempt r d = Inr d' \<Longrightarrow> dml_step d d'"
| evidence: "insert_evidence r d = Inr d' \<Longrightarrow> dml_step d d'"
| rollback: "insert_rollback r d = Inr d' \<Longrightarrow> dml_step d d'"
| lock: "insert_lock r d = Inr d' \<Longrightarrow> dml_step d d'"
| relock: "update_lock l d = Inr d' \<Longrightarrow> dml_step d d'"
| unlock: "dml_step d (delete_lock l d)"

section \<open>Every statement keeps the schema\<close>

lemma exists_row_snoc [simp]: "exists_row key k (rows @ [r]) \<longleftrightarrow> exists_row key k rows \<or> key r = k"
  by (auto simp: exists_row_iff)

lemma exists_row_map:
  "(\<And>r. key (f r) = key r) \<Longrightarrow> exists_row key k (map f rows) \<longleftrightarrow> exists_row key k rows"
  by (auto simp: exists_row_iff)

lemma exists_opt_mono:
  "(\<And>k. exists_row key k rows \<Longrightarrow> exists_row key k rows') \<Longrightarrow>
     exists_opt key k rows \<Longrightarrow> exists_opt key k rows'"
  by (auto simp: exists_opt_def split: option.splits)

lemma list_all_mono: "list_all P xs \<Longrightarrow> (\<And>x. P x \<Longrightarrow> Q x) \<Longrightarrow> list_all Q xs"
  by (simp add: list_all_iff)

text \<open>The parent tables a foreign key can point to, and what it takes for them to grow.\<close>

definition parents_grow :: "db \<Rightarrow> db \<Rightarrow> bool" where
  "parents_grow d d' \<longleftrightarrow>
     (\<forall>k. exists_row u_id k (t_users d) \<longrightarrow> exists_row u_id k (t_users d')) \<and>
     (\<forall>k. exists_row p_id k (t_principals d) \<longrightarrow> exists_row p_id k (t_principals d')) \<and>
     (\<forall>k. exists_row x_id k (t_external_identities d) \<longrightarrow>
        exists_row x_id k (t_external_identities d')) \<and>
     (\<forall>k. exists_row q_id k (t_requests d) \<longrightarrow> exists_row q_id k (t_requests d')) \<and>
     (\<forall>k. exists_row d_id k (t_decisions d) \<longrightarrow> exists_row d_id k (t_decisions d')) \<and>
     (\<forall>k. exists_row di_id k (t_intents d) \<longrightarrow> exists_row di_id k (t_intents d')) \<and>
     (\<forall>k. exists_row se_id k (t_events d) \<longrightarrow> exists_row se_id k (t_events d')) \<and>
     (\<forall>k. exists_row sa_id k (t_acceptances d) \<longrightarrow> exists_row sa_id k (t_acceptances d'))"

lemmas refs_defs =
  external_identity_refs_def approval_request_refs_def approval_decision_refs_def
  deployment_intent_refs_def binding_refs_def consumption_refs_def rollback_refs_def lock_refs_def

lemma refs_mono:
  assumes "parents_grow d d'"
  shows "external_identity_refs d x \<Longrightarrow> external_identity_refs d' x"
    "approval_request_refs d q \<Longrightarrow> approval_request_refs d' q"
    "approval_decision_refs d c \<Longrightarrow> approval_decision_refs d' c"
    "deployment_intent_refs d i \<Longrightarrow> deployment_intent_refs d' i"
    "binding_refs d b \<Longrightarrow> binding_refs d' b"
    "consumption_refs d n \<Longrightarrow> consumption_refs d' n"
    "rollback_refs d k \<Longrightarrow> rollback_refs d' k"
    "lock_refs d l \<Longrightarrow> lock_refs d' l"
    "exists_opt u_id (p_user_id p) (t_users d) \<Longrightarrow> exists_opt u_id (p_user_id p) (t_users d')"
    "exists_row u_id k0 (t_users d) \<Longrightarrow> exists_row u_id k0 (t_users d')"
    "exists_row di_id k0 (t_intents d) \<Longrightarrow> exists_row di_id k0 (t_intents d')"
    "exists_row sa_id k0 (t_acceptances d) \<Longrightarrow> exists_row sa_id k0 (t_acceptances d')"
  using assms unfolding parents_grow_def refs_defs
  by (auto intro: exists_opt_mono)

lemma refs_into_mono:
  assumes "parents_grow p p'" and "refs_into p d"
  shows "refs_into p' d"
  unfolding refs_into_def
  by (insert assms(2) [unfolded refs_into_def], elim conjE, intro conjI;
      erule list_all_mono, erule refs_mono [OF assms(1)])

lemma references_insert:
  assumes "references_ok d" and "parents_grow d d'"
    and "refs_into d' d \<Longrightarrow> refs_into d' d'"
  shows "references_ok d'"
  using assms refs_into_mono unfolding references_ok_def by blast

text \<open>Updates: a map over the rows that only drops keys keeps every unique key.\<close>

lemma unique_key_Cons [simp]:
  "unique_key key (r # rows) \<longleftrightarrow>
     (key r = None \<or> (\<forall>s \<in> set rows. key s \<noteq> key r)) \<and> unique_key key rows"
  unfolding unique_key_def by force

lemma unique_key_map:
  assumes "\<And>r. r \<in> set rows \<Longrightarrow> key (f r) = key r \<or> key (f r) = None" and "unique_key key rows"
  shows "unique_key key (map f rows)"
  using assms
proof (induction rows)
  case Nil
  then show ?case by simp
next
  case (Cons r rows)
  then have "unique_key key (map f rows)" by simp
  moreover have "key (f r) = None \<or> (\<forall>s \<in> set rows. key (f s) \<noteq> key (f r))"
    using Cons.prems by (metis list.set_intros unique_key_Cons)
  ultimately show ?case by simp
qed

lemma unique_key_filter: "unique_key key rows \<Longrightarrow> unique_key key (filter P rows)"
  by (induction rows) auto

lemma table_ok_filter: "table_ok fits checks keys rows \<Longrightarrow> table_ok fits checks keys (filter P rows)"
  by (auto simp: table_ok_def list_all_iff intro: unique_key_filter)

lemma table_ok_map:
  assumes "table_ok fits checks keys rows"
    and "\<And>r. r \<in> set rows \<Longrightarrow> fits r \<Longrightarrow> checks r \<Longrightarrow> fits (f r) \<and> checks (f r)"
    and "\<And>k r. k \<in> set keys \<Longrightarrow> r \<in> set rows \<Longrightarrow> k (f r) = k r \<or> k (f r) = None"
  shows "table_ok fits checks keys (map f rows)"
proof -
  have "unique_key k (map f rows)" if "k \<in> set keys" for k
    by (rule unique_key_map) (use assms that in \<open>auto simp: table_ok_def list_all_iff\<close>)
  with assms show ?thesis by (auto simp: table_ok_def list_all_iff)
qed

lemma unique_id_rows:
  "distinct (map key rows) \<Longrightarrow> r \<in> set rows \<Longrightarrow> s \<in> set rows \<Longrightarrow> key r = key s \<Longrightarrow> r = s"
  by (metis distinct_map inj_onD)

text \<open>The three updates of rows in place, each as a map over its table.\<close>

lemma close_identity_cases:
  assumes "update_external_identity i (\<lambda>x. x\<lparr>x_valid_to := v\<rparr>) d = Inr d'"
    and "distinct (map x_id (t_external_identities d))"
  obtains "d' = d"
  | t where "d' = d\<lparr>t_external_identities :=
        map (\<lambda>x. if x_id x = i then x\<lparr>x_valid_to := Some t\<rparr> else x) (t_external_identities d)\<rparr>"
      and "\<And>x. x \<in> set (t_external_identities d) \<Longrightarrow> x_id x = i \<Longrightarrow> t > x_valid_from x"
proof (cases "filter (\<lambda>x. x_id x = i) (t_external_identities d)")
  case Nil
  with assms(1) show ?thesis by (simp add: update_external_identity_def that(1))
next
  case (Cons old rest)
  have "old \<in> set (filter (\<lambda>x. x_id x = i) (t_external_identities d))"
    unfolding Cons by simp
  then have "old \<in> set (t_external_identities d)" and i: "x_id old = i" by simp_all
  then have only: "x = old" if "x \<in> set (t_external_identities d)" "x_id x = i" for x
    using that unique_id_rows [OF assms(2)] by blast
  from assms(1) Cons obtain t where t: "t > x_valid_from old"
    and v: "old\<lparr>x_valid_to := v\<rparr> = old\<lparr>x_valid_to := Some t\<rparr>"
    and d': "d' = d\<lparr>t_external_identities :=
        map (\<lambda>x. if x_id x = i then old\<lparr>x_valid_to := v\<rparr> else x) (t_external_identities d)\<rparr>"
    by (auto simp: update_external_identity_def result_simps)
  have "map (\<lambda>x. if x_id x = i then old\<lparr>x_valid_to := v\<rparr> else x) (t_external_identities d) =
      map (\<lambda>x. if x_id x = i then x\<lparr>x_valid_to := Some t\<rparr> else x) (t_external_identities d)"
    using only v by auto
  with d' t only show ?thesis by (intro that(2)) auto
qed

lemma distinct_ids:
  "rows_ok d \<Longrightarrow> distinct (map x_id (t_external_identities d))"
  "rows_ok d \<Longrightarrow> distinct (map q_id (t_requests d))"
  "rows_ok d \<Longrightarrow> distinct (map dl_conflict_domain (t_locks d))"
  by (auto simp: rows_ok_def table_ok_def key_defs unique_key_Some distinct_map inj_on_def)

lemma rows_dml:
  assumes "dml_step d d'" and "rows_ok d"
  shows "rows_ok d'"
  using assms
proof (induction rule: dml_step.induct)
  case (close_identity i v d d')
  from close_identity.hyps distinct_ids(1) [OF close_identity.prems] show ?case
  proof (cases rule: close_identity_cases)
    case (2 t)
    have "table_ok external_identity_fits external_identity_checks external_identity_keys
        (t_external_identities d')"
      unfolding 2(1)
      by simp (rule table_ok_map, use close_identity.prems 2(2) in
        \<open>auto simp: rows_ok_def external_identity_fits_def external_identity_checks_def
          external_identity_keys_def subject_atoms_def\<close>)
    with close_identity.prems show ?thesis by (simp add: rows_ok_def 2(1))
  qed (use close_identity.prems in simp)
next
  case (card i m d d')
  then have d': "d' = d\<lparr>t_requests :=
      map (\<lambda>q. if q_id q = i then q\<lparr>q_card_message_id := Some m\<rparr> else q) (t_requests d)\<rparr>"
    and m: "varchar 200 m"
    by (auto simp: set_card_message_id_def split: if_splits)
  have "table_ok approval_request_fits approval_request_checks approval_request_keys (t_requests d')"
    unfolding d'
    by simp (rule table_ok_map, use card.prems m in
      \<open>auto simp: rows_ok_def approval_request_fits_def approval_request_checks_def
        approval_request_keys_def varchar_opt_def\<close>)
  with card.prems show ?case by (simp add: rows_ok_def d')
next
  case (relock l d d')
  then have d': "d' = d\<lparr>t_locks :=
      map (\<lambda>k. if dl_conflict_domain k = dl_conflict_domain l then l else k) (t_locks d)\<rparr>"
    and l: "lock_fits l" "deployment_lock_checks l"
    by (auto simp: update_lock_def split: if_splits)
  have "table_ok lock_fits deployment_lock_checks lock_keys (t_locks d')"
    unfolding d'
    by simp (rule table_ok_map, use relock.prems l in
      \<open>auto simp: rows_ok_def lock_keys_def\<close>)
  with relock.prems show ?case by (simp add: rows_ok_def d')
next
  case (unlock d l)
  then show ?case by (simp add: rows_ok_def delete_lock_def table_ok_filter)
qed (simp add: insert_defs rows_ok_def, elim conjE, frule (1) table_ok_insert, simp add: insert_row_ok)+

lemma references_dml:
  assumes "dml_step d d'" and "rows_ok d" and "references_ok d"
  shows "references_ok d'"
  using assms
proof (induction rule: dml_step.induct)
  case (close_identity i v d d')
  from close_identity.hyps distinct_ids(1) [OF close_identity.prems(1)] show ?case
  proof (cases rule: close_identity_cases)
    case (2 t)
    have "parents_grow d d'" by (simp add: parents_grow_def 2(1) exists_row_map)
    with close_identity.prems(2) show ?thesis
      by (elim references_insert)
        (auto simp: 2(1) refs_into_def list_all_iff external_identity_refs_def)
  qed (use close_identity.prems in simp)
next
  case (card i m d d')
  then have d': "d' = d\<lparr>t_requests :=
      map (\<lambda>q. if q_id q = i then q\<lparr>q_card_message_id := Some m\<rparr> else q) (t_requests d)\<rparr>"
    by (auto simp: set_card_message_id_def split: if_splits)
  have "parents_grow d d'" by (simp add: parents_grow_def d' exists_row_map)
  with card.prems(2) show ?case
    by (elim references_insert) (auto simp: d' refs_into_def list_all_iff approval_request_refs_def)
next
  case (relock l d d')
  then have d': "d' = d\<lparr>t_locks :=
      map (\<lambda>k. if dl_conflict_domain k = dl_conflict_domain l then l else k) (t_locks d)\<rparr>"
    and l: "lock_refs d l"
    by (auto simp: update_lock_def split: if_splits)
  have "parents_grow d d'" by (simp add: parents_grow_def d')
  with relock.prems(2) l show ?case
    by (elim references_insert) (auto simp: d' refs_into_def list_all_iff lock_refs_def)
next
  case (unlock d l)
  have "parents_grow d (delete_lock l d)" by (simp add: parents_grow_def delete_lock_def)
  with unlock(2) show ?case
    by (elim references_insert) (auto simp: delete_lock_def refs_into_def list_all_iff)
qed (rule references_insert, assumption, simp add: insert_defs insert_row_ok parents_grow_def,
  simp add: insert_defs insert_row_ok refs_into_def refs_defs)+
section \<open>History\<close>

text \<open>
  The tables the services only insert into: the rows of \<open>d\<close> are the first rows of \<open>d'\<close>. Left
  out are the lock, the external identities (a row is closed once) and the approval requests
  (the identifier of their card is set).
\<close>

definition grows :: "db \<Rightarrow> db \<Rightarrow> bool" where
  "grows d d' \<longleftrightarrow>
     prefix (t_users d) (t_users d') \<and> prefix (t_principals d) (t_principals d') \<and>
     prefix (t_raw_inputs d) (t_raw_inputs d') \<and> prefix (t_decisions d) (t_decisions d') \<and>
     prefix (t_intents d) (t_intents d') \<and> prefix (t_artifacts d) (t_artifacts d') \<and>
     prefix (t_events d) (t_events d') \<and> prefix (t_acceptances d) (t_acceptances d') \<and>
     prefix (t_invalidations d) (t_invalidations d') \<and> prefix (t_bindings d) (t_bindings d') \<and>
     prefix (t_consumptions d) (t_consumptions d') \<and> prefix (t_attempts d) (t_attempts d') \<and>
     prefix (t_evidence d) (t_evidence d') \<and> prefix (t_rollbacks d) (t_rollbacks d')"

lemma grows_refl: "grows d d"
  by (simp add: grows_def)

lemma grows_trans: "grows d d' \<Longrightarrow> grows d' d'' \<Longrightarrow> grows d d''"
  unfolding grows_def by (elim conjE, intro conjI; erule (1) prefix_order.trans)

lemma dml_step_grows: "dml_step d d' \<Longrightarrow> grows d d'"
  by (induction rule: dml_step.induct)
    (auto simp: grows_def insert_defs insert_row_ok update_lock_def delete_lock_def
      set_card_message_id_def update_external_identity_def bindE_eq_Inr
      split: if_splits list.splits)

lemma dml_grows: "dml_step\<^sup>*\<^sup>* d d' \<Longrightarrow> grows d d'"
  by (induction rule: rtranclp_induct) (auto intro: grows_refl grows_trans dml_step_grows)

lemma growsD:
  assumes "grows d d'"
  shows "set (t_principals d) \<subseteq> set (t_principals d')" "set (t_decisions d) \<subseteq> set (t_decisions d')"
    "set (t_intents d) \<subseteq> set (t_intents d')" "set (t_events d) \<subseteq> set (t_events d')"
    "set (t_acceptances d) \<subseteq> set (t_acceptances d')" "set (t_bindings d) \<subseteq> set (t_bindings d')"
    "set (t_consumptions d) \<subseteq> set (t_consumptions d')" "set (t_artifacts d) \<subseteq> set (t_artifacts d')"
  using assms by (auto simp: grows_def dest: set_mono_prefix)

lemma schema_dml: "dml_step\<^sup>*\<^sup>* d d' \<Longrightarrow> schema_ok d \<Longrightarrow> schema_ok d'"
  by (induction rule: rtranclp_induct) (auto simp: schema_ok_def intro: rows_dml references_dml)

section \<open>Properties\<close>

text \<open>C23. Whatever sequence of statements the services commit, a database that satisfies every
  column type, \<open>CHECK\<close>, unique constraint and foreign key of the schema still does.\<close>

theorem schema_preserved:
  assumes "dml_step\<^sup>*\<^sup>* d d'" and "schema_ok d"
  shows "schema_ok d'"
  using assms by (rule schema_dml)

lemma schema_principal_ids: "schema_ok d \<Longrightarrow> distinct (map p_id (t_principals d))"
  by (auto simp: schema_ok_def rows_ok_def table_ok_def key_defs unique_key_Some distinct_map inj_on_def)

lemma schema_human_user:
  "schema_ok d \<Longrightarrow> pr \<in> set (t_principals d) \<Longrightarrow> p_principal_type pr = ''HUMAN'' \<Longrightarrow>
     \<exists>u. p_user_id pr = Some u"
  by (auto simp: schema_ok_def rows_ok_def table_ok_def list_all_iff principal_checks_def)

definition example_user :: user where
  "example_user = \<lparr>u_id = 1, u_display_name = ''owner'', u_timezone = ''Europe/Berlin'',
     u_locale = ''zh-CN'', u_default_units = [], u_privacy_settings = [], u_created_at = 0,
     u_updated_at = 0\<rparr>"

lemma example_user_inserted:
  "dml_step\<^sup>*\<^sup>* empty_db (empty_db\<lparr>t_users := [example_user]\<rparr>)"
proof (rule r_into_rtranclp, rule dml_step.user)
  show "insert_user example_user empty_db = Inr (empty_db\<lparr>t_users := [example_user]\<rparr>)"
    by (simp add: insert_user_def insert_row_def user_fits_def varchar_def py_len_def
        utf8_continuation_def example_user_def empty_db_def user_keys_def clash_def)
qed

lemma schema_ok_empty: "schema_ok empty_db"
  by (simp add: schema_ok_def rows_ok_def references_ok_def refs_into_def empty_db_def)

lemma schema_preserved_witness: "schema_ok (empty_db\<lparr>t_users := [example_user]\<rparr>)"
  by (rule schema_preserved [OF example_user_inserted schema_ok_empty])

text \<open>An audit table only grows: after any sequence of SQL statements on it, the rows it had
  are still its first rows, unchanged and in the same order.\<close>

lemma audit_append_only: "\<exists>new. run_statements rows stmts = rows @ new"
proof (induction stmts arbitrary: rows)
  case Nil
  then show ?case by simp
next
  case (Cons s ss)
  have "\<exists>new. (case reject_audit_mutation rows s of Inl _ \<Rightarrow> rows | Inr rs \<Rightarrow> rs) = rows @ new"
    by (cases s) (auto simp: reject_audit_mutation_def)
  then show ?case using Cons.IH by (metis append.assoc run_statements.simps(2))
qed

end
