(* ===== verification/Authority.thy ===== *)
theory Authority
  imports Uuid Schema
begin

text \<open>
  \<^verbatim>\<open>app/services/deployment_authority.py\<close>, \<^verbatim>\<open>identity_authority.py\<close> and
  \<^verbatim>\<open>feishu_authorization.py\<close>: canonical identities and their fingerprints, the resolver that maps
  a Feishu account to a human, the assignment of such a mapping, the message filter, and the
  verifier of protected-main CI evidence. The GitHub CLI is the parameter \<open>gh\<close>.
\<close>

section \<open>Identities and fingerprints\<close>

definition human_fingerprint :: "uuid \<Rightarrow> string" where
  "human_fingerprint user_id = sha256_hexdigest (''human:'' @ uuid_str user_id)"

definition executor_fingerprint :: "string \<Rightarrow> string" where
  "executor_fingerprint service_id = sha256_hexdigest (''service:'' @ service_id)"

definition external_identity_fingerprint :: "string \<Rightarrow> string" where
  "external_identity_fingerprint value = sha256_hexdigest (''external:'' @ value)"

lemma fingerprints_ok [simp]:
  "FINGERPRINT_PATTERN (human_fingerprint u)" "FINGERPRINT_PATTERN (executor_fingerprint s)"
  "FINGERPRINT_PATTERN (external_identity_fingerprint v)"
  by (simp_all add: human_fingerprint_def executor_fingerprint_def external_identity_fingerprint_def)

text \<open>The texts that are hashed never coincide: a service is not a human, two humans differ.\<close>

lemma human_preimage_inject: "''human:'' @ uuid_str u = ''human:'' @ uuid_str v \<longleftrightarrow> u = v"
  by simp

record resolved_external_human =
  rh_user_id :: uuid
  rh_principal_id :: uuid
  rh_mapping_id :: uuid
  rh_mapping_version :: int

definition resolve_human :: "uuid \<Rightarrow> db \<Rightarrow> uuid result" where
  "resolve_human user_id d =
     bindE (scalar_one_or_none
         (\<lambda>p. p_user_id p = Some user_id \<and> p_principal_type p = ''HUMAN'') (t_principals d))
       (\<lambda>p. case p of None \<Rightarrow> Inl (ValueError ''unknown_canonical_human'') | Some _ \<Rightarrow> Inr user_id)"

definition active_mapping :: "string \<Rightarrow> string \<Rightarrow> external_identity \<Rightarrow> bool" where
  "active_mapping tenant subject x \<longleftrightarrow>
     x_provider x = ''feishu'' \<and> x_tenant_fingerprint x = tenant \<and>
     x_subject_fingerprint x = subject \<and> x_valid_to x = None"

definition tenant_fingerprint :: "string \<Rightarrow> string" where
  "tenant_fingerprint tenant_id = external_identity_fingerprint (''tenant:'' @ tenant_id)"

definition subject_fingerprint :: "string \<Rightarrow> string" where
  "subject_fingerprint open_id = external_identity_fingerprint (''subject:'' @ open_id)"

text \<open>The join: every pair of an active mapping and its human principal.\<close>

definition feishu_rows :: "string \<Rightarrow> string \<Rightarrow> db \<Rightarrow> (external_identity \<times> principal) list" where
  "feishu_rows tenant_id open_id d =
     filter (\<lambda>(x, p). p_id p = x_principal_id x \<and>
         active_mapping (tenant_fingerprint tenant_id) (subject_fingerprint open_id) x \<and>
         p_principal_type p = ''HUMAN'')
       (List.product (t_external_identities d) (t_principals d))"

definition resolve_feishu_principal ::
  "string \<Rightarrow> string \<Rightarrow> db \<Rightarrow> resolved_external_human result" where
  "resolve_feishu_principal tenant_id open_id d =
     (case feishu_rows tenant_id open_id d of
        [(mapping, pr)] \<Rightarrow>
          (case p_user_id pr of
             None \<Rightarrow> Inl (ValueError ''missing_or_ambiguous_feishu_identity'')
           | Some u \<Rightarrow> Inr \<lparr>rh_user_id = u, rh_principal_id = p_id pr,
               rh_mapping_id = x_id mapping, rh_mapping_version = x_mapping_version mapping\<rparr>)
      | _ \<Rightarrow> Inl (ValueError ''missing_or_ambiguous_feishu_identity''))"

definition resolve_feishu_open_id :: "string \<Rightarrow> string \<Rightarrow> db \<Rightarrow> uuid result" where
  "resolve_feishu_open_id tenant_id open_id d =
     bindE (resolve_feishu_principal tenant_id open_id d) (\<lambda>r. Inr (rh_user_id r))"

definition resolve_executor :: "string \<Rightarrow> string result" where
  "resolve_executor service_id =
     (if service_id \<noteq> ''controlled-deployment-executor''
      then Inl (ValueError ''unknown_executor_service'') else Inr service_id)"

section \<open>Provisioning and assigning\<close>

definition provision_principal ::
  "string \<Rightarrow> string \<Rightarrow> uuid option \<Rightarrow> uuid \<Rightarrow> instant \<Rightarrow> db \<Rightarrow> (principal \<times> db) result" where
  "provision_principal principal_type identity_key user_id new_id now d =
     (if principal_type \<notin> {''HUMAN'', ''SERVICE'', ''EXECUTOR''}
      then Inl (IdentityAuthorityError ''invalid_principal_type'')
      else if (principal_type = ''HUMAN'') \<noteq> (user_id \<noteq> None)
      then Inl (IdentityAuthorityError ''invalid_principal_user_binding'')
      else
        let p = \<lparr>p_id = new_id, p_principal_type = principal_type, p_user_id = user_id,
                 p_identity_key = identity_key, p_created_at = now\<rparr> in
        bindE (insert_principal p d) (\<lambda>d'. Inr (p, d')))"

text \<open>
  The mapping that is current is locked and closed, then the next version is inserted. The
  database at the time of the commit, \<open>dc\<close>, may hold what other sessions committed since the
  read when there was no row to lock.
\<close>

definition commit_mapping :: "external_identity \<Rightarrow> db \<Rightarrow> (external_identity \<times> db) result" where
  "commit_mapping mapping d =
     on_integrity_error (bindE (insert_external_identity mapping d) (\<lambda>d'. Inr (mapping, d')))
       (Inl (IdentityAuthorityError ''identity_assignment_conflict''))"

definition assign_feishu_identity ::
  "string \<Rightarrow> string \<Rightarrow> uuid \<Rightarrow> uuid \<Rightarrow> uuid \<Rightarrow> instant \<Rightarrow> db \<Rightarrow> db \<Rightarrow>
     (external_identity \<times> db) result" where
  "assign_feishu_identity tenant_id open_id principal_id audit_event_id new_id now d dc =
     (case filter (\<lambda>p. p_id p = principal_id) (t_principals d) of
        [] \<Rightarrow> Inl (IdentityAuthorityError ''human_principal_required'')
      | pr # _ \<Rightarrow>
        if p_principal_type pr \<noteq> ''HUMAN''
        then Inl (IdentityAuthorityError ''human_principal_required'')
        else
          let tenant = tenant_fingerprint tenant_id;
              subject = subject_fingerprint open_id;
              mapping = (\<lambda>version. \<lparr>x_id = new_id, x_provider = ''feishu'',
                x_tenant_fingerprint = tenant, x_subject_fingerprint = subject,
                x_principal_id = principal_id, x_mapping_version = version, x_valid_from = now,
                x_valid_to = None, x_audit_event_id = audit_event_id\<rparr>) in
          bindE (scalar_one_or_none (active_mapping tenant subject) (t_external_identities d))
            (\<lambda>current. case current of
               None \<Rightarrow> commit_mapping (mapping 1) dc
             | Some c \<Rightarrow>
                 if x_principal_id c = principal_id then Inr (c, d)
                 else bindE (update_external_identity (x_id c) (\<lambda>x. x\<lparr>x_valid_to := Some now\<rparr>) d)
                   (\<lambda>d1. commit_mapping (mapping (x_mapping_version c + 1)) d1)))"

section \<open>The message filter\<close>

definition authorize_feishu_message ::
  "string option \<Rightarrow> string option \<Rightarrow> string option \<Rightarrow> string option \<Rightarrow>
     string set \<Rightarrow> string set \<Rightarrow> string set \<Rightarrow> bool \<times> string" where
  "authorize_feishu_message tenant_key sender_type sender_open_id chat_type
     allowed_tenant_keys allowed_open_ids allowed_chat_types =
     (if falsy tenant_key \<or> the tenant_key \<notin> allowed_tenant_keys
      then (False, ''tenant_not_allowed'')
      else if sender_type \<noteq> Some ''user'' then (False, ''sender_type_not_allowed'')
      else if falsy sender_open_id \<or> the sender_open_id \<notin> allowed_open_ids
      then (False, ''sender_not_allowed'')
      else if falsy chat_type \<or> the chat_type \<notin> allowed_chat_types
      then (False, ''chat_type_not_allowed'')
      else (True, ''allowed''))"

definition identifier_fingerprint :: "string option \<Rightarrow> string" where
  "identifier_fingerprint value =
     (if falsy value then ''missing'' else take 12 (sha256_hexdigest (the value)))"

section \<open>CI evidence\<close>

record ci_evidence =
  ci_repository :: string
  ci_target_sha :: string
  ci_run_id :: int
  ci_workflow_name :: string
  ci_event :: string
  ci_status :: string
  ci_conclusion :: string
  ci_quality_gate_conclusion :: string
  ci_protected_main_membership :: bool
  ci_verified_at :: instant
  ci_provenance :: "(string \<times> string) list"
  ci_provenance_source :: string

text \<open>
  A run of \<open>gh api path\<close>: it raises (a timeout, no such program), or it ends with a return code
  and an output, of which only the decoded JSON matters; \<open>None\<close> is an output that is not JSON.
\<close>

datatype gh_run = Gh_raises exn | Gh_exit int "json option"

definition github_api :: "(string \<Rightarrow> gh_run) \<Rightarrow> string \<Rightarrow> json result" where
  "github_api gh path =
     (case gh path of
        Gh_raises e \<Rightarrow> Inl e
      | Gh_exit code output \<Rightarrow>
          if code \<noteq> 0 then Inl (ValueError ''github_authority_unavailable'')
          else (case output of
              None \<Rightarrow> Inl (ValueError ''github_authority_invalid_response'')
            | Some j \<Rightarrow> Inr j))"

text \<open>
  \<open>d.get(k)\<close> on a decoded value: \<open>None\<close> (here \<open>JNull\<close>) for a missing key, and an
  \<open>AttributeError\<close> when the value is not an object. \<open>d.get(k, {})\<close> differs in the default.
\<close>

definition attribute_error :: exn where
  "attribute_error = OtherException ''AttributeError''"

definition get_or :: "json \<Rightarrow> string \<Rightarrow> json \<Rightarrow> json result" where
  "get_or dflt k j =
     (case j of
        JObj d \<Rightarrow> Inr (case map_of d k of None \<Rightarrow> dflt | Some v \<Rightarrow> v)
      | _ \<Rightarrow> Inl attribute_error)"

abbreviation get :: "string \<Rightarrow> json \<Rightarrow> json result" where
  "get \<equiv> get_or JNull"

text \<open>\<open>==\<close> of a decoded value with a Python integer; \<open>True\<close> is the integer 1.\<close>

definition eq_int :: "json \<Rightarrow> int \<Rightarrow> bool" where
  "eq_int j n \<longleftrightarrow> j = JNum n \<or> j = JBool True \<and> n = 1 \<or> j = JBool False \<and> n = 0"

definition int_value :: "json \<Rightarrow> int option" where
  "int_value j =
     (case j of JNum n \<Rightarrow> Some n | JBool b \<Rightarrow> Some (if b then 1 else 0) | _ \<Rightarrow> None)"

text \<open>\<open>str(x)\<close> of a decoded value; the parameter \<open>repr\<close> prints what is not a constant,
  a number or a plain string.\<close>

definition py_str :: "(json \<Rightarrow> string) \<Rightarrow> json \<Rightarrow> string" where
  "py_str repr j =
     (case j of JNull \<Rightarrow> ''None'' | JBool b \<Rightarrow> if b then ''True'' else ''False''
      | JNum n \<Rightarrow> int_str n | JStr s \<Rightarrow> s | _ \<Rightarrow> repr j)"

text \<open>\<open>a or b or ...\<close>, each operand evaluated only when those before it are false.\<close>

fun any_true :: "bool result list \<Rightarrow> bool result" where
  "any_true [] = Inr False"
| "any_true (c # cs) = bindE c (\<lambda>b. if b then Inr True else any_true cs)"

lemma any_true_False [result_simps]: "any_true cs = Inr False \<longleftrightarrow> (\<forall>c \<in> set cs. c = Inr False)"
  by (induction cs) (auto simp: bindE_eq_Inr)

definition field_differs :: "json \<Rightarrow> string \<Rightarrow> (json \<Rightarrow> bool) \<Rightarrow> bool result" where
  "field_differs j k ok = bindE (get k j) (\<lambda>v. Inr (\<not> ok v))"

definition subfield_differs :: "json \<Rightarrow> string \<Rightarrow> string \<Rightarrow> (json \<Rightarrow> bool) \<Rightarrow> bool result" where
  "subfield_differs j k1 k2 ok =
     bindE (get_or (JObj []) k1 j) (\<lambda>sub. bindE (get k2 sub) (\<lambda>v. Inr (\<not> ok v)))"

text \<open>
  The elements of \<open>jobs.get("jobs", [])\<close> whose name is that of the quality gate. What is not
  iterable raises \<open>TypeError\<close>; the characters of a string and the keys of an object have no \<open>get\<close>.
\<close>

fun quality_jobs :: "json list \<Rightarrow> json list result" where
  "quality_jobs [] = Inr []"
| "quality_jobs (job # rest) =
     bindE (get ''name'' job) (\<lambda>name.
       bindE (quality_jobs rest) (\<lambda>js. Inr (if name = JStr ''CI / Quality Gate'' then job # js else js)))"

definition jobs_of :: "json \<Rightarrow> json list result" where
  "jobs_of j =
     bindE (get_or (JList []) ''jobs'' j) (\<lambda>v.
       case v of
         JList js \<Rightarrow> quality_jobs js
       | JStr s \<Rightarrow> if s = [] then Inr [] else Inl attribute_error
       | JTime _ \<Rightarrow> Inl attribute_error
       | JUuid _ \<Rightarrow> Inl attribute_error
       | JObj d \<Rightarrow> if d = [] then Inr [] else Inl attribute_error
       | _ \<Rightarrow> Inl (OtherException ''TypeError''))"

definition is_object :: "json \<Rightarrow> bool" where
  "is_object j = (case j of JObj _ \<Rightarrow> True | _ \<Rightarrow> False)"

text \<open>\<open>x not in {...}\<close> hashes \<open>x\<close>, which raises for a list or an object.\<close>

definition actor_type_differs :: "json \<Rightarrow> bool result" where
  "actor_type_differs run =
     bindE (get_or (JObj []) ''actor'' run) (\<lambda>actor. bindE (get ''type'' actor) (\<lambda>v.
       case v of JList _ \<Rightarrow> Inl (OtherException ''TypeError'')
               | JObj _ \<Rightarrow> Inl (OtherException ''TypeError'')
               | _ \<Rightarrow> Inr (v \<noteq> JStr ''User'' \<and> v \<noteq> JStr ''Bot'')))"

record github_config =
  gc_repository :: string
  gc_repository_id :: int
  gc_workflow_id :: int
  gc_workflow_path :: string

definition quality_checks :: "json list \<Rightarrow> bool result list" where
  "quality_checks quality =
     [Inr (length quality \<noteq> 1),
      field_differs (quality ! 0) ''conclusion'' (\<lambda>v. v = JStr ''success''),
      field_differs (quality ! 0) ''status'' (\<lambda>v. v = JStr ''completed'')]"

definition verification_checks ::
  "github_config \<Rightarrow> string \<Rightarrow> string \<Rightarrow> int \<Rightarrow> json \<Rightarrow> json \<Rightarrow> json \<Rightarrow> json list \<Rightarrow> json \<Rightarrow>
     bool result list" where
  "verification_checks cfg repository target_sha run_id repo workflow run quality merge_base =
     [field_differs repo ''id'' (\<lambda>v. eq_int v (gc_repository_id cfg)),
      field_differs repo ''full_name'' (\<lambda>v. v = JStr repository),
      field_differs repo ''default_branch'' (\<lambda>v. v = JStr ''main''),
      field_differs workflow ''id'' (\<lambda>v. eq_int v (gc_workflow_id cfg)),
      field_differs workflow ''path'' (\<lambda>v. v = JStr (gc_workflow_path cfg)),
      field_differs workflow ''state'' (\<lambda>v. v = JStr ''active''),
      subfield_differs run ''repository'' ''full_name'' (\<lambda>v. v = JStr repository),
      subfield_differs run ''repository'' ''id'' (\<lambda>v. eq_int v (gc_repository_id cfg)),
      field_differs run ''workflow_id'' (\<lambda>v. eq_int v (gc_workflow_id cfg)),
      field_differs run ''id'' (\<lambda>v. eq_int v run_id),
      field_differs run ''head_sha'' (\<lambda>v. v = JStr target_sha),
      field_differs run ''head_branch'' (\<lambda>v. v = JStr ''main''),
      field_differs run ''event'' (\<lambda>v. v = JStr ''push''),
      field_differs run ''status'' (\<lambda>v. v = JStr ''completed''),
      field_differs run ''conclusion'' (\<lambda>v. v = JStr ''success''),
      actor_type_differs run] @
     quality_checks quality @
     [Inr (merge_base \<noteq> JStr target_sha)]"

definition github_verify ::
  "(string \<Rightarrow> gh_run) \<Rightarrow> (json \<Rightarrow> string) \<Rightarrow> github_config \<Rightarrow> instant \<Rightarrow>
     string \<Rightarrow> string \<Rightarrow> int \<Rightarrow> ci_evidence result" where
  "github_verify gh repr cfg now repository target_sha run_id =
     (if repository \<noteq> gc_repository cfg
      then Inl (ValueError ''github_repository_not_configured'')
      else
        let base = ''repos/'' @ repository in
        bindE (github_api gh base) (\<lambda>repo.
        bindE (github_api gh (base @ ''/actions/workflows/'' @ int_str (gc_workflow_id cfg))) (\<lambda>workflow.
        bindE (github_api gh (base @ ''/actions/runs/'' @ int_str run_id)) (\<lambda>run.
        bindE (github_api gh (base @ ''/compare/'' @ target_sha @ ''...main'')) (\<lambda>comparison.
        if \<not> is_object repo \<or> \<not> is_object workflow \<or> \<not> is_object run \<or> \<not> is_object comparison
        then Inl (ValueError ''github_authority_invalid_response'')
        else
          bindE (get ''run_attempt'' run) (\<lambda>attempt.
          if int_value attempt = None \<or> the (int_value attempt) < 1
          then Inl (ValueError ''github_authority_invalid_attempt'')
          else
            bindE (github_api gh (base @ ''/actions/runs/'' @ int_str run_id @ ''/attempts/'' @
                py_str repr attempt @ ''/jobs?per_page=100'')) (\<lambda>jobs.
            if \<not> is_object jobs then Inl (ValueError ''github_authority_invalid_response'')
            else
              bindE (jobs_of jobs) (\<lambda>quality.
              bindE (bindE (get_or (JObj []) ''merge_base_commit'' comparison) (get ''sha'')) (\<lambda>merge_base.
              bindE (any_true (verification_checks cfg repository target_sha run_id repo
                workflow run quality merge_base)) (\<lambda>failed.
              if failed then Inl (ValueError ''github_authority_verification_failed'')
              else
                bindE (get_or (JStr []) ''html_url'' run) (\<lambda>html_url.
                bindE (get ''id'' (quality ! 0)) (\<lambda>job_id.
                Inr \<lparr>ci_repository = repository, ci_target_sha = target_sha, ci_run_id = run_id,
                     ci_workflow_name = int_str (gc_workflow_id cfg) @ '':'' @ gc_workflow_path cfg,
                     ci_event = ''push'', ci_status = ''completed'', ci_conclusion = ''success'',
                     ci_quality_gate_conclusion = ''success'', ci_protected_main_membership = True,
                     ci_verified_at = now,
                     ci_provenance =
                       [(''source'', ''gh_api''), (''run_url'', py_str repr html_url),
                        (''repository_id'', int_str (gc_repository_id cfg)),
                        (''run_attempt'', py_str repr attempt),
                        (''quality_gate_job_id'', py_str repr job_id)],
                     ci_provenance_source = ''github_checks_api''\<rparr>))))))))))))"


lemma github_api_ok [result_simps]: "github_api gh path = Inr j \<longleftrightarrow> gh path = Gh_exit 0 (Some j)"
  by (auto simp: github_api_def split: gh_run.splits option.splits)

lemma field_differs_False [result_simps]:
  "field_differs j k ok = Inr False \<longleftrightarrow> (\<exists>v. get k j = Inr v \<and> ok v)"
  by (auto simp: field_differs_def bindE_eq_Inr)

lemma get_not_null [result_simps]:
  "v \<noteq> JNull \<Longrightarrow> get k j = Inr v \<longleftrightarrow> (\<exists>d. j = JObj d \<and> map_of d k = Some v)"
  by (auto simp: get_or_def split: json.splits option.splits)

section \<open>The contract of a CI verifier\<close>

text \<open>
  What the deployment service relies on when it records an artifact: a verifier that returns
  evidence returns it about the question it was asked, with every verdict positive.
\<close>

locale ci_verifier =
  fixes verify :: "string \<Rightarrow> string \<Rightarrow> int \<Rightarrow> ci_evidence result"
  assumes verified_subject: "verify repo sha run = Inr e \<Longrightarrow>
      ci_repository e = repo \<and> ci_target_sha e = sha \<and> ci_run_id e = run"
    and verified_verdicts: "verify repo sha run = Inr e \<Longrightarrow>
      ci_event e = ''push'' \<and> ci_status e = ''completed'' \<and> ci_conclusion e = ''success'' \<and>
      ci_quality_gate_conclusion e = ''success'' \<and> ci_protected_main_membership e \<and>
      ci_provenance_source e = ''github_checks_api''"

text \<open>The answers of GitHub that an accepted verification rests on.\<close>

definition answered :: "(string \<Rightarrow> gh_run) \<Rightarrow> string \<Rightarrow> json \<Rightarrow> bool" where
  "answered gh path j \<longleftrightarrow> gh path = Gh_exit 0 (Some j)"

definition has :: "json \<Rightarrow> string \<Rightarrow> string \<Rightarrow> bool" where
  "has j k v \<longleftrightarrow> get k j = Inr (JStr v)"

definition is_quality_gate :: "json \<Rightarrow> bool" where
  "is_quality_gate job \<longleftrightarrow> has job ''name'' ''CI / Quality Gate''"

lemma quality_jobs_filter: "quality_jobs js = Inr qs \<Longrightarrow> qs = filter is_quality_gate js"
  by (induction js arbitrary: qs) (auto simp: is_quality_gate_def has_def bindE_eq_Inr split: if_splits)

lemma jobs_listed:
  assumes "jobs_of j = Inr qs" and "qs \<noteq> []"
  obtains js where "get ''jobs'' j = Inr (JList js)" "qs = filter is_quality_gate js"
proof -
  from assms(1) obtain v where v: "get_or (JList []) ''jobs'' j = Inr v" and q: "(case v of
         JList js \<Rightarrow> quality_jobs js
       | JStr s \<Rightarrow> if s = [] then Inr [] else Inl attribute_error
       | JTime _ \<Rightarrow> Inl attribute_error
       | JUuid _ \<Rightarrow> Inl attribute_error
       | JObj d \<Rightarrow> if d = [] then Inr [] else Inl attribute_error
       | _ \<Rightarrow> Inl (OtherException ''TypeError'')) = Inr qs"
    by (auto simp: jobs_of_def bindE_eq_Inr)
  from q assms(2) obtain js where js: "v = JList js" "quality_jobs js = Inr qs"
    by (cases v) (auto split: if_splits)
  with assms(2) have "js \<noteq> []" by auto
  with v js(1) have "get ''jobs'' j = Inr (JList js)"
    by (auto simp: get_or_def split: json.splits option.splits)
  then show thesis using quality_jobs_filter [OF js(2)] by (rule that)
qed

lemma verification_checks_pass:
  assumes "any_true (verification_checks cfg repository target_sha run_id repo workflow run quality
      merge_base) = Inr False"
  shows "has run ''head_sha'' target_sha" "has run ''head_branch'' ''main''"
    "has run ''event'' ''push''" "has run ''status'' ''completed''" "has run ''conclusion'' ''success''"
    "length quality = 1" "has (quality ! 0) ''conclusion'' ''success''" "has (quality ! 0) ''status'' ''completed''"
    "merge_base = JStr target_sha"
  using assms
  by (simp_all add: verification_checks_def quality_checks_def result_simps has_def del: any_true.simps)

lemma github_verify_ok:
  assumes "github_verify gh repr cfg now repository target_sha run_id = Inr e"
  obtains run comparison merge attempt answer jobs gate where
    "repository = gc_repository cfg"
    "answered gh (''repos/'' @ repository @ ''/actions/runs/'' @ int_str run_id) run"
    "answered gh (''repos/'' @ repository @ ''/compare/'' @ target_sha @ ''...main'') comparison"
    "has run ''head_sha'' target_sha" "has run ''head_branch'' ''main''"
    "has run ''event'' ''push''" "has run ''status'' ''completed''" "has run ''conclusion'' ''success''"
    "get_or (JObj []) ''merge_base_commit'' comparison = Inr merge" "has merge ''sha'' target_sha"
    "get ''run_attempt'' run = Inr attempt"
    "answered gh (''repos/'' @ repository @ ''/actions/runs/'' @ int_str run_id @ ''/attempts/'' @
       py_str repr attempt @ ''/jobs?per_page=100'') answer"
    "get ''jobs'' answer = Inr (JList jobs)" "filter is_quality_gate jobs = [gate]"
    "has gate ''status'' ''completed''" "has gate ''conclusion'' ''success''"
    "ci_repository e = repository" "ci_target_sha e = target_sha" "ci_run_id e = run_id"
    "ci_event e = ''push''" "ci_status e = ''completed''" "ci_conclusion e = ''success''"
    "ci_quality_gate_conclusion e = ''success''" "ci_protected_main_membership e"
    "ci_provenance_source e = ''github_checks_api''" "ci_verified_at e = now"
proof -
  from assms obtain run comparison repo workflow attempt answer quality merge_base where
    r: "repository = gc_repository cfg"
    "answered gh (''repos/'' @ repository @ ''/actions/runs/'' @ int_str run_id) run"
    "answered gh (''repos/'' @ repository @ ''/compare/'' @ target_sha @ ''...main'') comparison"
    and at: "get ''run_attempt'' run = Inr attempt"
    "answered gh (''repos/'' @ repository @ ''/actions/runs/'' @ int_str run_id @ ''/attempts/'' @
       py_str repr attempt @ ''/jobs?per_page=100'') answer"
    and q: "jobs_of answer = Inr quality"
    and m: "bindE (get_or (JObj []) ''merge_base_commit'' comparison) (get ''sha'') = Inr merge_base"
    and c: "any_true (verification_checks cfg repository target_sha run_id repo workflow run quality
        merge_base) = Inr False"
    and e: "ci_repository e = repository" "ci_target_sha e = target_sha" "ci_run_id e = run_id"
    "ci_event e = ''push''" "ci_status e = ''completed''" "ci_conclusion e = ''success''"
    "ci_quality_gate_conclusion e = ''success''" "ci_protected_main_membership e"
    "ci_provenance_source e = ''github_checks_api''" "ci_verified_at e = now"
    unfolding github_verify_def Let_def answered_def
    by (auto simp: if_Inl_eq_Inr bindE_eq_Inr github_api_ok split: if_splits simp del: any_true_False)
  note checks = verification_checks_pass [OF c]
  from m checks(9) obtain merge where "get_or (JObj []) ''merge_base_commit'' comparison = Inr merge"
    and "has merge ''sha'' target_sha"
    by (auto simp: bindE_eq_Inr has_def)
  moreover from checks(6) obtain gate where gate: "quality = [gate]" by (auto simp: length_Suc_conv)
  with q obtain jobs where "get ''jobs'' answer = Inr (JList jobs)" "filter is_quality_gate jobs = [gate]"
    by (metis jobs_listed list.distinct(1))
  moreover from checks(7,8) gate have "has gate ''conclusion'' ''success''" "has gate ''status'' ''completed''"
    by simp_all
  ultimately show thesis using r at checks(1-5) e by (intro that)
qed

interpretation github: ci_verifier "github_verify gh repr cfg now" for gh repr cfg now
  by unfold_locales (erule github_verify_ok; simp)+

section \<open>Assigning and resolving\<close>

lemma filter_join:
  "filter (\<lambda>(x, p). B x p \<and> A x \<and> C p) (List.product xs ys) =
     concat (map (\<lambda>x. map (Pair x) (filter (\<lambda>p. B x p \<and> C p) ys)) (filter A xs))"
proof (induction xs)
  case Nil
  then show ?case by simp
next
  case (Cons x xs)
  have "filter (\<lambda>(x, p). B x p \<and> A x \<and> C p) (map (Pair x) ys) =
      (if A x then map (Pair x) (filter (\<lambda>p. B x p \<and> C p) ys) else [])"
    by (simp add: filter_map o_def)
  with Cons show ?case by simp
qed

lemma feishu_rows_single:
  assumes "filter (active_mapping (tenant_fingerprint t) (subject_fingerprint s))
      (t_external_identities d) = [m]"
    and "pr \<in> set (t_principals d)" and "p_id pr = x_principal_id m"
    and "p_principal_type pr = ''HUMAN''" and "distinct (map p_id (t_principals d))"
  shows "feishu_rows t s d = [(m, pr)]"
proof -
  have "filter (\<lambda>p. p_id p = x_principal_id m \<and> p_principal_type p = ''HUMAN'') (t_principals d) =
      filter (\<lambda>p. p_principal_type p = ''HUMAN'') (filter (\<lambda>p. p_id p = p_id pr) (t_principals d))"
    using assms(3) by (simp add: conj_commute)
  also have "\<dots> = [pr]"
    using distinct_key_filter [OF assms(5,2)] assms(4) by simp
  finally show ?thesis using assms(1) by (simp add: feishu_rows_def filter_join)
qed

text \<open>A mapping that has been inserted is the only active one of its subject.\<close>

lemma inserted_mapping_active:
  assumes "insert_external_identity m d = Inr d'"
    and "active_mapping t s m"
  shows "filter (active_mapping t s) (t_external_identities d') = [m]"
proof -
  have "\<not> clash (\<lambda>x. if x_valid_to x = None then Some (subject_atoms x) else None)
      (t_external_identities d) m"
    by (rule identity_active.ins_no_clash [OF assms(1)])
  then have "\<not> active_mapping t s x" if "x \<in> set (t_external_identities d)" for x
    using that assms(2) unfolding clash_def list_ex_iff active_mapping_def subject_atoms_def
    by fastforce
  then have "filter (active_mapping t s) (t_external_identities d) = []"
    by (simp add: filter_empty_conv)
  with assms show ?thesis by (simp add: identity_active.ins_appends [OF assms(1)])
qed

lemma commit_mapping_ok:
  "commit_mapping m d = Inr (x, d') \<longleftrightarrow> x = m \<and> insert_external_identity m d = Inr d'"
  by (auto simp: commit_mapping_def branch_simps)

text \<open>The four ways an assignment can succeed: nothing to do, the first version, the next version.\<close>

lemma assign_ok:
  assumes "assign_feishu_identity t s pid audit i now d dc = Inr (m, d')"
  obtains pr where "pr \<in> set (t_principals d)" "p_id pr = pid" "p_principal_type pr = ''HUMAN''"
    "active_mapping (tenant_fingerprint t) (subject_fingerprint s) m" "x_principal_id m = pid"
    "(\<exists>d1. (d1 = dc \<or> (\<exists>c. update_external_identity c (\<lambda>x. x\<lparr>x_valid_to := Some now\<rparr>) d = Inr d1)) \<and>
       insert_external_identity m d1 = Inr d') \<or>
     d' = d \<and> filter (active_mapping (tenant_fingerprint t) (subject_fingerprint s))
       (t_external_identities d) = [m]"
proof -
  from assms obtain pr where pr: "pr \<in> set (t_principals d)" "p_id pr = pid"
    "p_principal_type pr = ''HUMAN''"
    by (auto simp: assign_feishu_identity_def split: list.splits if_splits dest: filter_ConsD)
  let ?tenant = "tenant_fingerprint t" and ?subject = "subject_fingerprint s"
  let ?mapping = "\<lambda>v. \<lparr>x_id = i, x_provider = ''feishu'', x_tenant_fingerprint = ?tenant,
      x_subject_fingerprint = ?subject, x_principal_id = pid, x_mapping_version = v,
      x_valid_from = now, x_valid_to = None, x_audit_event_id = audit\<rparr>"
  from assms obtain current where
    current: "scalar_one_or_none (active_mapping ?tenant ?subject) (t_external_identities d) = Inr current"
    and result: "(case current of
        None \<Rightarrow> commit_mapping (?mapping 1) dc
      | Some c \<Rightarrow> if x_principal_id c = pid then Inr (c, d)
          else bindE (update_external_identity (x_id c) (\<lambda>x. x\<lparr>x_valid_to := Some now\<rparr>) d)
            (\<lambda>d1. commit_mapping (?mapping (x_mapping_version c + 1)) d1)) = Inr (m, d')"
    by (auto simp: assign_feishu_identity_def Let_def bindE_eq_Inr split: list.splits if_splits)
  show thesis
  proof (cases current)
    case None
    with result show ?thesis
      by (intro that [OF pr]) (auto simp: commit_mapping_ok active_mapping_def)
  next
    case (Some c)
    with current have c: "filter (active_mapping ?tenant ?subject) (t_external_identities d) = [c]"
      by (simp add: scalar_one_or_none_Some)
    show ?thesis
    proof (cases "x_principal_id c = pid")
      case True
      with result Some c filter_singletonD [OF c] show ?thesis by (intro that [OF pr]) auto
    next
      case False
      with result Some show ?thesis
        by (intro that [OF pr]) (auto simp: bindE_eq_Inr commit_mapping_ok active_mapping_def)
    qed
  qed
qed

section \<open>Properties\<close>


definition example_principal :: principal where
  "example_principal = \<lparr>p_id = 2, p_principal_type = ''HUMAN'', p_user_id = Some 1,
     p_identity_key = ''human:owner'', p_created_at = 0\<rparr>"

definition example_db :: db where
  "example_db = empty_db\<lparr>t_users := [example_user], t_principals := [example_principal]\<rparr>"

definition example_mapping :: external_identity where
  "example_mapping = \<lparr>x_id = 3, x_provider = ''feishu'',
     x_tenant_fingerprint = tenant_fingerprint ''t'', x_subject_fingerprint = subject_fingerprint ''s'',
     x_principal_id = 2, x_mapping_version = 1, x_valid_from = 7, x_valid_to = None,
     x_audit_event_id = 4\<rparr>"

lemma schema_ok_example_db: "schema_ok example_db"
  by (simp add: schema_ok_def rows_ok_def references_ok_def refs_into_def example_db_def empty_db_def
      table_ok_def user_fits_def principal_fits_def varchar_def py_len_def utf8_continuation_def
      example_user_def example_principal_def key_defs principal_checks_def exists_opt_def
      exists_row_def)

lemma example_assignment:
  "assign_feishu_identity ''t'' ''s'' 2 4 3 7 example_db example_db =
     Inr (example_mapping, example_db\<lparr>t_external_identities := [example_mapping]\<rparr>)"
proof -
  have x: "varchar 64 (tenant_fingerprint v)" "varchar 64 (subject_fingerprint v)" for v
    by (simp_all add: tenant_fingerprint_def subject_fingerprint_def varchar_fingerprint)
  have "insert_external_identity example_mapping example_db =
      Inr (example_db\<lparr>t_external_identities := [example_mapping]\<rparr>)"
    unfolding insert_external_identity_def insert_row_ok
    by (auto simp: external_identity_fits_def external_identity_checks_def external_identity_keys_def
        external_identity_refs_def exists_row_def clash_def example_mapping_def example_db_def
        empty_db_def example_principal_def int4_def x)
      (simp add: varchar_def py_len_def utf8_continuation_def)
  then show ?thesis
    by (simp add: assign_feishu_identity_def example_db_def empty_db_def example_principal_def Let_def
        scalar_one_or_none_def commit_mapping_def on_integrity_error_def example_mapping_def)
qed


text \<open>C29. Evidence that the GitHub verifier returns rests on GitHub's own answers: the run is a completed,
  successful push of exactly this commit on main; among the jobs that GitHub lists for the run's current
  attempt exactly one is the quality gate, and it is completed with success; and the merge base of the
  commit with main is the commit itself, so it is contained in protected main.\<close>

theorem github_evidence_sound:
  assumes "github_verify gh repr cfg now repository target_sha run_id = Inr e"
  shows "\<exists>run comparison merge attempt answer jobs gate.
     answered gh (''repos/'' @ repository @ ''/actions/runs/'' @ int_str run_id) run \<and>
     answered gh (''repos/'' @ repository @ ''/compare/'' @ target_sha @ ''...main'') comparison \<and>
     has run ''head_sha'' target_sha \<and> has run ''head_branch'' ''main'' \<and> has run ''event'' ''push'' \<and>
     has run ''status'' ''completed'' \<and> has run ''conclusion'' ''success'' \<and>
     get ''run_attempt'' run = Inr attempt \<and>
     answered gh (''repos/'' @ repository @ ''/actions/runs/'' @ int_str run_id @ ''/attempts/'' @
       py_str repr attempt @ ''/jobs?per_page=100'') answer \<and>
     get ''jobs'' answer = Inr (JList jobs) \<and> filter is_quality_gate jobs = [gate] \<and>
     has gate ''status'' ''completed'' \<and> has gate ''conclusion'' ''success'' \<and>
     get_or (JObj []) ''merge_base_commit'' comparison = Inr merge \<and> has merge ''sha'' target_sha \<and>
     ci_repository e = repository \<and> ci_target_sha e = target_sha \<and> ci_run_id e = run_id"
  using assms by (rule github_verify_ok) blast

definition example_gh :: "string \<Rightarrow> gh_run" where
  "example_gh path =
     (let repo = (''repository'', JObj [(''full_name'', JStr ''o/r''), (''id'', JNum 5)]) in
      if path = ''repos/o/r''
      then Gh_exit 0 (Some (JObj [(''id'', JNum 5), (''full_name'', JStr ''o/r''),
        (''default_branch'', JStr ''main'')]))
      else if path = ''repos/o/r/actions/workflows/8''
      then Gh_exit 0 (Some (JObj [(''id'', JNum 8), (''path'', JStr ''ci.yml''), (''state'', JStr ''active'')]))
      else if path = ''repos/o/r/actions/runs/7''
      then Gh_exit 0 (Some (JObj [repo, (''run_attempt'', JNum 1), (''workflow_id'', JNum 8),
        (''id'', JNum 7), (''head_sha'', JStr ''abc''), (''head_branch'', JStr ''main''),
        (''event'', JStr ''push''), (''status'', JStr ''completed''), (''conclusion'', JStr ''success''),
        (''actor'', JObj [(''type'', JStr ''User'')])]))
      else if path = ''repos/o/r/compare/abc...main''
      then Gh_exit 0 (Some (JObj [(''merge_base_commit'', JObj [(''sha'', JStr ''abc'')])]))
      else if path = ''repos/o/r/actions/runs/7/attempts/1/jobs?per_page=100''
      then Gh_exit 0 (Some (JObj [(''jobs'', JList [JObj [(''name'', JStr ''lint'')],
        JObj [(''name'', JStr ''CI / Quality Gate''), (''id'', JNum 9),
          (''status'', JStr ''completed''), (''conclusion'', JStr ''success'')]])]))
      else Gh_exit 1 None)"

definition example_config :: github_config where
  "example_config = \<lparr>gc_repository = ''o/r'', gc_repository_id = 5, gc_workflow_id = 8,
     gc_workflow_path = ''ci.yml''\<rparr>"

lemma example_verified: "is_ok (github_verify example_gh (\<lambda>_. []) example_config 0 ''o/r'' ''abc'' 7)"
  by code_simp

lemma github_evidence_sound_witness:
  "\<exists>run answer jobs gate. answered example_gh ''repos/o/r/actions/runs/7'' run \<and> has run ''head_sha'' ''abc'' \<and>
     answered example_gh ''repos/o/r/actions/runs/7/attempts/1/jobs?per_page=100'' answer \<and>
     get ''jobs'' answer = Inr (JList jobs) \<and> filter is_quality_gate jobs = [gate] \<and>
     has gate ''conclusion'' ''success''"
proof -
  obtain e where "github_verify example_gh (\<lambda>_. []) example_config 0 ''o/r'' ''abc'' 7 = Inr e"
    using example_verified by (auto simp: is_ok_iff)
  from github_evidence_sound [OF this] obtain run answer jobs gate attempt where r:
    "answered example_gh (''repos/o/r/actions/runs/'' @ int_str 7) run" "has run ''head_sha'' ''abc''"
    "get ''run_attempt'' run = Inr attempt"
    "answered example_gh (''repos/o/r/actions/runs/'' @ int_str 7 @ ''/attempts/'' @ py_str (\<lambda>_. []) attempt @
       ''/jobs?per_page=100'') answer"
    "get ''jobs'' answer = Inr (JList jobs)" "filter is_quality_gate jobs = [gate]" "has gate ''conclusion'' ''success''"
    by auto
  have s: "int_str 7 = ''7''" "py_str (\<lambda>_. []) (JNum 1) = ''1''" by code_simp+
  from r(1,3) have "attempt = JNum 1"
    by (auto simp: s answered_def example_gh_def get_or_def Let_def)
  with r show ?thesis by (auto simp: s)
qed

end
