(* ===== verification/Approval.thy ===== *)
theory Approval
  imports Authority
begin

text \<open>
  \<^verbatim>\<open>app/services/approval_service.py\<close> and the callback parser of
  \<^verbatim>\<open>app/services/approval_cards.py\<close>: the approval commands, the creation of a request and the
  recording of a decision.

  An operation that reads, and later commits, takes the database twice: \<open>d\<close> is what its reads
  see, \<open>dc\<close> what is there when its transaction commits, so that other sessions may have committed
  in between. An operation that catches database errors takes a \<open>db_fault\<close>: none, an error that
  aborts the transaction, or an error raised although the commit took effect (a lost connection).
\<close>

section \<open>Commands\<close>

record approval_command =
  cmd_decision_code :: string
  cmd_request_id :: uuid

record approval_outcome =
  out_code :: string
  out_decision_code :: "string option"

definition outcome :: "string \<Rightarrow> approval_outcome" where
  "outcome code = \<lparr>out_code = code, out_decision_code = None\<rparr>"

text \<open>The white space that \<open>str.strip\<close> removes, in UTF-8.\<close>

definition white_space :: "string list" where
  "white_space =
     [[CHR 0x09], [CHR 0x0A], [CHR 0x0B], [CHR 0x0C], [CHR 0x0D],
      [CHR 0x1C], [CHR 0x1D], [CHR 0x1E], [CHR 0x1F], [CHR 0x20],
      [CHR 0xC2, CHR 0x85], [CHR 0xC2, CHR 0xA0], [CHR 0xE1, CHR 0x9A, CHR 0x80]] @
     map (\<lambda>c. [CHR 0xE2, CHR 0x80, c])
       [CHR 0x80, CHR 0x81, CHR 0x82, CHR 0x83, CHR 0x84, CHR 0x85,
        CHR 0x86, CHR 0x87, CHR 0x88, CHR 0x89, CHR 0x8A, CHR 0xA8, CHR 0xA9, CHR 0xAF] @
     [[CHR 0xE2, CHR 0x81, CHR 0x9F], [CHR 0xE3, CHR 0x80, CHR 0x80]]"

fun strip_prefixes :: "nat \<Rightarrow> string list \<Rightarrow> string \<Rightarrow> string" where
  "strip_prefixes 0 ws s = s"
| "strip_prefixes (Suc n) ws s =
     (case find (\<lambda>w. starts_with w s) ws of
        None \<Rightarrow> s | Some w \<Rightarrow> strip_prefixes n ws (drop (length w) s))"

definition lstrip :: "string \<Rightarrow> string" where
  "lstrip s = strip_prefixes (length s) white_space s"

definition rstrip :: "string \<Rightarrow> string" where
  "rstrip s = rev (strip_prefixes (length s) (map rev white_space) (rev s))"

definition strip :: "string \<Rightarrow> string" where
  "strip s = rstrip (lstrip s)"

text \<open>The two words of a command, Chinese for approve and reject, in UTF-8.\<close>

definition APPROVE_WORD :: string where
  "APPROVE_WORD = [CHR 0xE6, CHR 0x89, CHR 0xB9, CHR 0xE5, CHR 0x87, CHR 0x86]"

definition REJECT_WORD :: string where
  "REJECT_WORD = [CHR 0xE6, CHR 0x8B, CHR 0x92, CHR 0xE7, CHR 0xBB, CHR 0x9D]"

definition uuid_groups :: "string \<Rightarrow> bool" where
  "uuid_groups s \<longleftrightarrow>
     length s = 36 \<and>
     list_all (\<lambda>(i, c). if i \<in> {8, 13, 18, 23} then c = CHR ''-'' else is_hex c)
       (zip [0..<36] s)"

definition blank :: "char \<Rightarrow> bool" where
  "blank c \<longleftrightarrow> c = CHR '' '' \<or> c = CHR 0x09"

text \<open>
  \<open>COMMAND_PATTERN.fullmatch\<close>: a word, blanks, a UUID. No blank starts a UUID, so the blanks are
  all that follow the word.
\<close>

definition COMMAND_PATTERN :: "string \<Rightarrow> (string \<times> string) option" where
  "COMMAND_PATTERN s =
     (let word = take 6 s; rest = drop 6 s;
          request_text = dropWhile blank rest in
      if (word = APPROVE_WORD \<or> word = REJECT_WORD) \<and> request_text \<noteq> rest \<and>
        uuid_groups request_text
      then Some (word, request_text) else None)"

definition parse_approval_command :: "string \<Rightarrow> bool \<times> approval_command option" where
  "parse_approval_command text =
     (let normalized = strip text in
      if \<not> (starts_with APPROVE_WORD normalized \<or> starts_with REJECT_WORD normalized)
      then (False, None)
      else (case COMMAND_PATTERN normalized of
          None \<Rightarrow> (True, None)
        | Some (word, request_text) \<Rightarrow>
            (case uuid_of_text request_text of
               None \<Rightarrow> (True, None)
             | Some request_id \<Rightarrow>
                 if uuid_str request_id \<noteq> request_text then (True, None)
                 else (True, Some \<lparr>cmd_decision_code =
                     (if word = APPROVE_WORD then ''approved'' else ''rejected''),
                   cmd_request_id = request_id\<rparr>))))"

definition CARD_ACTIONS :: "string set" where
  "CARD_ACTIONS = {''approve'', ''reject'', ''wait''}"

text \<open>
  The value of a card button. A JSON string that is the text of a UUID is \<open>JUuid\<close>: then
  \<open>str(UUID(text)) == text\<close>. Any other string is rejected, as \<open>UUID\<close> raises or the texts differ.
  A list or an object as the action cannot be looked up in a set: \<open>TypeError\<close>.
\<close>

definition parse_approval_card_action :: "json \<Rightarrow> (string \<times> uuid) option result" where
  "parse_approval_card_action value =
     (case value of
        JObj d \<Rightarrow>
          if set (map fst d) \<noteq> {''action'', ''request_id''} then Inr None
          else (case map_of d ''action'' of
              Some (JList _) \<Rightarrow> Inl (OtherException ''TypeError'')
            | Some (JObj _) \<Rightarrow> Inl (OtherException ''TypeError'')
            | Some (JStr action) \<Rightarrow>
                if action \<notin> CARD_ACTIONS then Inr None
                else (case map_of d ''request_id'' of
                    Some (JUuid request_id) \<Rightarrow> Inr (Some (action, request_id))
                  | _ \<Rightarrow> Inr None)
            | _ \<Rightarrow> Inr None)
      | _ \<Rightarrow> Inr None)"

definition approval_identity_fingerprint :: "string \<Rightarrow> string" where
  "approval_identity_fingerprint open_id = sha256_hexdigest open_id"

section \<open>Requests\<close>

definition APPROVAL_ACTIONS :: "string set" where
  "APPROVAL_ACTIONS =
     {''development_plan'', ''merge_pr'', ''production_deploy'', ''rollback_production''}"

definition TARGET_ENVIRONMENTS :: "string set" where
  "TARGET_ENVIRONMENTS = {''development'', ''staging'', ''production''}"

definition expected_environment :: "string \<Rightarrow> string" where
  "expected_environment action_code =
     (if action_code = ''development_plan'' then ''development''
      else if action_code = ''merge_pr'' then ''staging''
      else ''production'')"

definition validate_approval_request_fields ::
  "string \<Rightarrow> string \<Rightarrow> int option \<Rightarrow> string \<Rightarrow> string \<Rightarrow> string \<Rightarrow> int \<Rightarrow> unit result" where
  "validate_approval_request_fields action_code repository pull_request_number target_sha
     target_environment idempotency_key ttl_seconds =
     (if action_code \<notin> APPROVAL_ACTIONS
      then Inl (ApprovalValidationError ''unsupported action_code'')
      else if \<not> REPOSITORY_PATTERN repository \<or> ends_with ''.git'' repository
      then Inl (ApprovalValidationError ''invalid repository'')
      else if pull_request_number \<noteq> None \<and> the pull_request_number < 1
      then Inl (ApprovalValidationError ''invalid pull_request_number'')
      else if \<not> SHA_PATTERN target_sha then Inl (ApprovalValidationError ''invalid target_sha'')
      else if target_environment \<notin> TARGET_ENVIRONMENTS
      then Inl (ApprovalValidationError ''invalid target_environment'')
      else if \<not> IDEMPOTENCY_KEY_PATTERN idempotency_key
      then Inl (ApprovalValidationError ''invalid idempotency_key'')
      else if ttl_seconds < 1 \<or> ttl_seconds > 86400
      then Inl (ApprovalValidationError ''invalid ttl_seconds'')
      else if action_code = ''merge_pr'' \<and> pull_request_number = None
      then Inl (ApprovalValidationError ''merge_pr requires pull_request_number'')
      else if target_environment \<noteq> expected_environment action_code
      then Inl (ApprovalValidationError ''action/environment mismatch'')
      else Inr ())"

definition require_matching ::
  "uuid \<Rightarrow> string \<Rightarrow> string \<Rightarrow> int option \<Rightarrow> string \<Rightarrow> string \<Rightarrow> approval_request \<Rightarrow>
     approval_request result" where
  "require_matching user_id action_code repository pull_request_number target_sha
     target_environment existing =
     (if (q_user_id existing, q_action_code existing, q_repository existing,
          q_pull_request_number existing, q_target_sha existing, q_target_environment existing) \<noteq>
         (user_id, action_code, repository, pull_request_number, target_sha, target_environment)
      then Inl (ApprovalValidationError ''idempotency_key conflict'')
      else Inr existing)"

definition create_approval_request ::
  "uuid \<Rightarrow> string \<Rightarrow> string \<Rightarrow> int option \<Rightarrow> string \<Rightarrow> string \<Rightarrow> string \<Rightarrow> int \<Rightarrow>
     uuid \<Rightarrow> instant \<Rightarrow> db \<Rightarrow> db \<Rightarrow> (approval_request \<times> db) result" where
  "create_approval_request user_id action_code repository pull_request_number target_sha
     target_environment idempotency_key ttl_seconds new_id now d dc =
     bindE (validate_approval_request_fields action_code repository pull_request_number target_sha
         target_environment idempotency_key ttl_seconds) (\<lambda>_.
     bindE (scalar_one_or_none (\<lambda>q. q_idempotency_key q = idempotency_key) (t_requests d)) (\<lambda>existing.
       let matching = (\<lambda>q. bindE (require_matching user_id action_code repository
             pull_request_number target_sha target_environment q) (\<lambda>r. Inr (r, dc))) in
       case existing of
         Some q \<Rightarrow> matching q
       | None \<Rightarrow>
           let request = \<lparr>q_id = new_id, q_user_id = user_id, q_action_code = action_code,
                 q_repository = repository, q_pull_request_number = pull_request_number,
                 q_target_sha = target_sha, q_target_environment = target_environment,
                 q_deployment_id = None, q_artifact_digest = None,
                 q_idempotency_key = idempotency_key, q_requested_at = now,
                 q_expires_at = now + seconds ttl_seconds, q_card_message_id = None\<rparr> in
           on_integrity_error (bindE (insert_request request dc) (\<lambda>d'. Inr (request, d')))
             (bindE (scalar_one_or_none (\<lambda>q. q_idempotency_key q = idempotency_key)
                 (t_requests dc)) (\<lambda>raced.
               case raced of None \<Rightarrow> Inl IntegrityError | Some q \<Rightarrow> matching q))))"

section \<open>Decisions\<close>

datatype db_fault = NoFault | Abort exn | LostAck exn

definition db_failure :: "exn \<Rightarrow> approval_outcome" where
  "db_failure e = outcome (if e = IntegrityError then ''conflict'' else ''unavailable'')"

definition settle ::
  "db_fault \<Rightarrow> (approval_outcome \<times> db) result \<Rightarrow> db \<Rightarrow> approval_outcome \<times> db" where
  "settle fault r dc =
     (case fault of
        Abort e \<Rightarrow> (db_failure e, dc)
      | NoFault \<Rightarrow> (case r of Inl e \<Rightarrow> (db_failure e, dc) | Inr x \<Rightarrow> x)
      | LostAck e \<Rightarrow>
          (case r of Inl e' \<Rightarrow> (db_failure e', dc) | Inr (_, d') \<Rightarrow> (db_failure e, d')))"

definition matching_duplicate ::
  "approval_decision \<Rightarrow> approval_command \<Rightarrow> uuid \<Rightarrow> string \<Rightarrow> bool" where
  "matching_duplicate decision command actor_user_id actor_fingerprint \<longleftrightarrow>
     d_request_id decision = cmd_request_id command \<and>
     d_decision_code decision = cmd_decision_code command \<and>
     d_actor_user_id decision = actor_user_id \<and>
     d_approver_identity_fingerprint decision = actor_fingerprint"

definition decision_row ::
  "approval_command \<Rightarrow> string \<Rightarrow> uuid \<Rightarrow> string \<Rightarrow> uuid option \<Rightarrow> uuid \<Rightarrow> instant \<Rightarrow>
     approval_decision" where
  "decision_row command feishu_event_id actor_user_id actor_fingerprint
     actor_external_identity_id new_id now =
     \<lparr>d_id = new_id, d_request_id = cmd_request_id command,
      d_decision_code = cmd_decision_code command, d_actor_user_id = actor_user_id,
      d_actor_external_identity_id = actor_external_identity_id,
      d_approver_identity_fingerprint = actor_fingerprint,
      d_feishu_event_id = feishu_event_id, d_decided_at = now\<rparr>"

definition decide ::
  "approval_command \<Rightarrow> string \<Rightarrow> uuid \<Rightarrow> string \<Rightarrow> uuid option \<Rightarrow> uuid \<Rightarrow> instant \<Rightarrow> db \<Rightarrow> db \<Rightarrow>
     (approval_outcome \<times> db) result" where
  "decide command feishu_event_id actor_user_id actor_fingerprint actor_external_identity_id
     new_id now d dc =
     bindE (scalar_one_or_none (\<lambda>c. d_feishu_event_id c = feishu_event_id) (t_decisions d))
     (\<lambda>duplicate_event. case duplicate_event of
        Some c \<Rightarrow>
          Inr (if matching_duplicate c command actor_user_id actor_fingerprint
               then \<lparr>out_code = ''duplicate'', out_decision_code = Some (cmd_decision_code command)\<rparr>
               else outcome ''event_conflict'', dc)
      | None \<Rightarrow>
          bindE (scalar_one_or_none (\<lambda>q. q_id q = cmd_request_id command) (t_requests d))
          (\<lambda>request. case request of
             None \<Rightarrow> Inr (outcome ''unknown_request'', dc)
           | Some q \<Rightarrow>
               if q_deployment_id q \<noteq> None \<and>
                 (actor_external_identity_id = None \<or> q_user_id q = actor_user_id)
               then Inr (outcome ''unauthorized'', dc)
               else if now \<ge> q_expires_at q then Inr (outcome ''expired'', dc)
               else
                 bindE (scalar_one_or_none (\<lambda>c. d_request_id c = cmd_request_id command)
                     (t_decisions d)) (\<lambda>existing_decision.
                   if existing_decision \<noteq> None then Inr (outcome ''already_decided'', dc)
                   else
                     bindE (insert_decision (decision_row command feishu_event_id actor_user_id
                         actor_fingerprint actor_external_identity_id new_id now) dc)
                       (\<lambda>d'. Inr (\<lparr>out_code = ''recorded'',
                          out_decision_code = Some (cmd_decision_code command)\<rparr>, d')))))"

definition record_approval_decision ::
  "approval_command \<Rightarrow> string \<Rightarrow> uuid \<Rightarrow> string \<Rightarrow> uuid option \<Rightarrow> uuid \<Rightarrow> instant \<Rightarrow> db_fault \<Rightarrow>
     db \<Rightarrow> db \<Rightarrow> approval_outcome \<times> db" where
  "record_approval_decision command feishu_event_id actor_user_id actor_open_id
     actor_external_identity_id new_id now fault d dc =
     (if feishu_event_id = [] \<or> py_len feishu_event_id > 200 then (outcome ''invalid_event'', dc)
      else settle fault
        (decide command feishu_event_id actor_user_id
          (approval_identity_fingerprint actor_open_id) actor_external_identity_id new_id now d dc)
        dc)"

definition inspect_pending_approval_request ::
  "uuid \<Rightarrow> instant \<Rightarrow> db_fault \<Rightarrow> db \<Rightarrow> approval_outcome" where
  "inspect_pending_approval_request request_id now fault d =
     fst (settle fault
       (bindE (scalar_one_or_none (\<lambda>q. q_id q = request_id) (t_requests d)) (\<lambda>request.
          case request of
            None \<Rightarrow> Inr (outcome ''unknown_request'', d)
          | Some q \<Rightarrow>
              if now \<ge> q_expires_at q then Inr (outcome ''expired'', d)
              else bindE (scalar_one_or_none (\<lambda>c. d_request_id c = request_id) (t_decisions d))
                (\<lambda>existing. Inr (outcome (if existing \<noteq> None then ''already_decided''
                   else ''waiting''), d)))) d)"

definition process_approval_card_action ::
  "string \<Rightarrow> uuid \<Rightarrow> string option \<Rightarrow> string option \<Rightarrow> string option \<Rightarrow> string \<Rightarrow> uuid \<Rightarrow>
     string set \<Rightarrow> string set \<Rightarrow> string set \<Rightarrow> string \<Rightarrow> uuid option \<Rightarrow>
     uuid \<Rightarrow> instant \<Rightarrow> db_fault \<Rightarrow> db \<Rightarrow> db \<Rightarrow> approval_outcome \<times> db" where
  "process_approval_card_action action request_id tenant_key operator_open_id chat_id
     feishu_event_id actor_user_id allowed_tenant_keys allowed_open_ids approver_open_ids
     supervision_chat_id actor_external_identity_id new_id now fault d dc =
     (if action \<notin> {''approve'', ''reject'', ''wait''} then (outcome ''malformed'', dc)
      else if feishu_event_id = [] \<or> py_len feishu_event_id > 200 then (outcome ''invalid_event'', dc)
      else if falsy tenant_key \<or> the tenant_key \<notin> allowed_tenant_keys \<or>
        falsy operator_open_id \<or> the operator_open_id \<notin> allowed_open_ids \<or>
        the operator_open_id \<notin> approver_open_ids \<or>
        supervision_chat_id = [] \<or> chat_id \<noteq> Some supervision_chat_id
      then (outcome ''unauthorized'', dc)
      else if action = ''wait'' then (inspect_pending_approval_request request_id now fault d, dc)
      else record_approval_decision
        \<lparr>cmd_decision_code = (if action = ''approve'' then ''approved'' else ''rejected''),
         cmd_request_id = request_id\<rparr>
        feishu_event_id actor_user_id (the operator_open_id) actor_external_identity_id
        new_id now fault d dc)"

definition process_approval_message ::
  "string \<Rightarrow> string option \<Rightarrow> string option \<Rightarrow> string option \<Rightarrow> string option \<Rightarrow> string option \<Rightarrow>
     string \<Rightarrow> uuid \<Rightarrow> string set \<Rightarrow> string set \<Rightarrow> string set \<Rightarrow> string set \<Rightarrow> string \<Rightarrow>
     uuid \<Rightarrow> instant \<Rightarrow> db_fault \<Rightarrow> db \<Rightarrow> db \<Rightarrow> approval_outcome option \<times> db" where
  "process_approval_message text tenant_key sender_type sender_open_id chat_type chat_id
     feishu_event_id actor_user_id allowed_tenant_keys allowed_open_ids allowed_chat_types
     approver_open_ids supervision_chat_id new_id now fault d dc =
     (case parse_approval_command text of
        (False, _) \<Rightarrow> (None, dc)
      | (True, None) \<Rightarrow> (Some (outcome ''malformed''), dc)
      | (True, Some command) \<Rightarrow>
          if \<not> fst (authorize_feishu_message tenant_key sender_type sender_open_id chat_type
              allowed_tenant_keys allowed_open_ids allowed_chat_types)
          then (Some (outcome ''unauthorized''), dc)
          else if falsy sender_open_id \<or> the sender_open_id \<notin> approver_open_ids \<or>
            supervision_chat_id = [] \<or> chat_id \<noteq> Some supervision_chat_id
          then (Some (outcome ''unauthorized''), dc)
          else (case record_approval_decision command feishu_event_id actor_user_id
              (the sender_open_id) None new_id now fault d dc of (o', d') \<Rightarrow> (Some o', d')))"

text \<open>The reply codes of \<open>approval_outcome_reply\<close>: a lookup of any other code is a \<open>KeyError\<close>.\<close>

definition reply_codes :: "string set" where
  "reply_codes = {''malformed'', ''unauthorized'', ''invalid_event'', ''unknown_request'',
     ''expired'', ''already_decided'', ''event_conflict'', ''conflict'', ''unavailable'',
     ''duplicate'', ''recorded''}"


section \<open>What an operation can have done\<close>

text \<open>The decision a request permits: the guards of \<^const>\<open>decide\<close> that protect a recorded row.\<close>

definition decision_permitted :: "approval_request \<Rightarrow> approval_decision \<Rightarrow> bool" where
  "decision_permitted q c \<longleftrightarrow>
     d_request_id c = q_id q \<and> d_decided_at c < q_expires_at q \<and>
     (q_deployment_id q \<noteq> None \<longrightarrow>
        d_actor_external_identity_id c \<noteq> None \<and> d_actor_user_id c \<noteq> q_user_id q)"

lemma decide_cases:
  assumes "decide command ev actor fp ext i now d dc = Inr (out, d')"
  obtains "d' = dc" "out_code out \<noteq> ''recorded''"
  | q where "q \<in> set (t_requests d)"
      "decision_permitted q (decision_row command ev actor fp ext i now)"
      "\<forall>c \<in> set (t_decisions d). d_request_id c \<noteq> cmd_request_id command \<and> d_feishu_event_id c \<noteq> ev"
      "insert_decision (decision_row command ev actor fp ext i now) dc = Inr d'"
      "out = \<lparr>out_code = ''recorded'', out_decision_code = Some (cmd_decision_code command)\<rparr>"
proof -
  from assms obtain dup where dup:
    "scalar_one_or_none (\<lambda>c. d_feishu_event_id c = ev) (t_decisions d) = Inr dup"
    by (auto simp: decide_def bindE_eq_Inr)
  show thesis
  proof (cases dup)
    case (Some c)
    with assms dup show ?thesis
      by (intro that(1)) (auto simp: decide_def outcome_def split: if_splits)
  next
    case None
    with assms dup obtain req where req:
      "scalar_one_or_none (\<lambda>q. q_id q = cmd_request_id command) (t_requests d) = Inr req"
      by (auto simp: decide_def bindE_eq_Inr)
    show ?thesis
    proof (cases req)
      case None
      with assms dup \<open>dup = None\<close> req show ?thesis
        by (intro that(1)) (auto simp: decide_def outcome_def)
    next
      case (Some q)
      with req have q: "q \<in> set (t_requests d)" "q_id q = cmd_request_id command"
        by (auto simp: scalar_one_or_none_Some dest: filter_singletonD)
      show ?thesis
      proof (cases "insert_decision (decision_row command ev actor fp ext i now) dc = Inr d' \<and>
          (\<forall>c \<in> set (t_decisions d). d_request_id c \<noteq> cmd_request_id command) \<and>
          now < q_expires_at q \<and> (q_deployment_id q \<noteq> None \<longrightarrow> ext \<noteq> None \<and> q_user_id q \<noteq> actor) \<and>
          out = \<lparr>out_code = ''recorded'', out_decision_code = Some (cmd_decision_code command)\<rparr>")
        case True
        with dup None q show ?thesis
          by (intro that(2)) (auto simp: decision_permitted_def decision_row_def result_simps)
      next
        case False
        with assms dup None req Some show ?thesis
          by (intro that(1))
            (auto simp: decide_def outcome_def bindE_eq_Inr scalar_one_or_none_None split: if_splits)
      qed
    qed
  qed
qed

lemma settle_cases:
  assumes "settle fault r dc = (out, d')"
  obtains "d' = dc" "out_code out \<noteq> ''recorded''"
  | o1 where "r = Inr (o1, d')" "out = o1 \<or> out_code out \<noteq> ''recorded''"
  using assms
  by (auto simp: settle_def db_failure_def outcome_def split: db_fault.splits sum.splits prod.splits)

lemma record_cases:
  assumes "record_approval_decision command ev actor oid ext i now fault d dc = (out, d')"
  obtains "d' = dc" "out_code out \<noteq> ''recorded''"
  | q where "q \<in> set (t_requests d)"
      "decision_permitted q (decision_row command ev actor (approval_identity_fingerprint oid) ext i now)"
      "\<forall>c \<in> set (t_decisions d). d_request_id c \<noteq> cmd_request_id command \<and> d_feishu_event_id c \<noteq> ev"
      "insert_decision (decision_row command ev actor (approval_identity_fingerprint oid) ext i now) dc
         = Inr d'"
proof (cases "ev = [] \<or> py_len ev > 200")
  case True
  with assms show ?thesis
    by (intro that(1)) (auto simp: record_approval_decision_def outcome_def)
next
  case False
  with assms have "settle fault (decide command ev actor (approval_identity_fingerprint oid) ext i now
      d dc) dc = (out, d')"
    by (simp add: record_approval_decision_def)
  then show ?thesis
  proof (cases rule: settle_cases)
    case (2 o1)
    from 2(1) show ?thesis
      by (cases rule: decide_cases) (use 2(2) that in auto)
  qed (use that in auto)
qed

section \<open>Commands are canonical\<close>

lemma uuid_groups_str: "uuid_groups (uuid_str u)"
proof -
  have h: "in_class hex_chars (uuid_hex u)" "length (uuid_hex u) = 32"
    by (simp_all add: uuid_hex_def)
  then have "is_hex (uuid_hex u ! i)" if "i < 32" for i
    using that by (auto simp: is_hex_def in_class_def list_all_length)
  with h show ?thesis
    by (auto simp: uuid_groups_def uuid_str_def Let_def list_all_length nth_append)
qed

lemma uuid_str_no_blank: "dropWhile blank (uuid_str u) = uuid_str u"
proof -
  have "in_class hex_chars (uuid_hex u)" "uuid_hex u \<noteq> []"
    by (simp_all add: uuid_hex_def flip: length_greater_0_conv)
  then have "hd (uuid_str u) \<in> set hex_chars"
    by (simp add: uuid_str_def Let_def in_class_def list_all_iff hd_append hd_take)
  then have "\<not> blank (hd (uuid_str u))" by (auto simp: hex_chars_def blank_def)
  then show ?thesis by (cases "uuid_str u") simp_all
qed

definition command_word :: "approval_command \<Rightarrow> string" where
  "command_word c = (if cmd_decision_code c = ''approved'' then APPROVE_WORD else REJECT_WORD)"

lemma words: "length APPROVE_WORD = 6" "length REJECT_WORD = 6" "APPROVE_WORD \<noteq> REJECT_WORD"
  by (simp_all add: APPROVE_WORD_def REJECT_WORD_def)

lemma COMMAND_PATTERN_iff:
  "COMMAND_PATTERN s = Some (word, t) \<longleftrightarrow>
     (\<exists>bs. s = word @ bs @ t \<and> (word = APPROVE_WORD \<or> word = REJECT_WORD) \<and> bs \<noteq> [] \<and>
        list_all blank bs \<and> dropWhile blank t = t \<and> uuid_groups t)"
  (is "?L \<longleftrightarrow> ?R")
proof
  assume L: ?L
  let ?rest = "drop 6 s"
  from L have w: "word = take 6 s" "word = APPROVE_WORD \<or> word = REJECT_WORD"
    and t: "t = dropWhile blank ?rest" "t \<noteq> ?rest" "uuid_groups t"
    by (auto simp: COMMAND_PATTERN_def Let_def split: if_splits)
  have "s = word @ takeWhile blank ?rest @ t" by (simp add: w(1) t(1))
  moreover have "takeWhile blank ?rest \<noteq> []" using t(1,2) by (metis append_Nil takeWhile_dropWhile_id)
  moreover have "list_all blank (takeWhile blank ?rest)" by (auto simp: list_all_iff dest: set_takeWhileD)
  moreover have "dropWhile blank t = t" unfolding t(1) by (rule dropWhile_idem)
  ultimately show ?R using w(2) t(3) by blast
next
  assume ?R
  then obtain bs where s: "s = word @ bs @ t" and w: "word = APPROVE_WORD \<or> word = REJECT_WORD"
    and bs: "bs \<noteq> []" "list_all blank bs" and t: "dropWhile blank t = t" "uuid_groups t" by blast
  have len: "length word = 6" using w words by auto
  have "dropWhile blank (bs @ t) = t" using bs(2) t(1) by (simp add: dropWhile_append2 list_all_iff)
  with s w len bs t show ?L
    by (auto simp: COMMAND_PATTERN_def Let_def)
qed

lemma starts_with_word:
  "starts_with APPROVE_WORD s \<or> starts_with REJECT_WORD s \<longleftrightarrow>
     take 6 s = APPROVE_WORD \<or> take 6 s = REJECT_WORD"
  by (simp add: starts_with_def words)

lemma parse_iff:
  "parse_approval_command text = (True, Some c) \<longleftrightarrow>
     cmd_decision_code c \<in> {''approved'', ''rejected''} \<and>
     (\<exists>bs. strip text = command_word c @ bs @ uuid_str (cmd_request_id c) \<and> bs \<noteq> [] \<and>
        list_all blank bs)"
  (is "?L \<longleftrightarrow> ?R")
proof
  assume ?L
  then obtain word t where p: "COMMAND_PATTERN (strip text) = Some (word, t)"
    and t: "uuid_str (cmd_request_id c) = t"
    and c: "cmd_decision_code c = (if word = APPROVE_WORD then ''approved'' else ''rejected'')"
    by (auto simp: parse_approval_command_def Let_def split: if_splits option.splits)
  from p t c show ?R
    by (auto simp: COMMAND_PATTERN_iff command_word_def)
next
  assume ?R
  then obtain bs where s: "strip text = command_word c @ bs @ uuid_str (cmd_request_id c)"
    and d: "cmd_decision_code c \<in> {''approved'', ''rejected''}" and bs: "bs \<noteq> []" "list_all blank bs"
    by blast
  have "COMMAND_PATTERN (strip text) = Some (command_word c, uuid_str (cmd_request_id c))"
    unfolding COMMAND_PATTERN_iff using s bs
    by (auto simp: command_word_def uuid_str_no_blank uuid_groups_str)
  moreover have "starts_with APPROVE_WORD (strip text) \<or> starts_with REJECT_WORD (strip text)"
    unfolding starts_with_word s by (simp add: command_word_def words)
  ultimately show ?L
    using d words(3) by (cases c) (auto simp: parse_approval_command_def Let_def command_word_def)
qed

text \<open>The line a user is asked to type has no white space to strip.\<close>

lemma strip_prefixes_id: "find (\<lambda>w. starts_with w s) ws = None \<Longrightarrow> strip_prefixes n ws s = s"
  by (cases n) simp_all

lemma find_prefix_None:
  "list_all (\<lambda>w. w \<noteq> [] \<and> hd w \<noteq> c) ws \<Longrightarrow> find (\<lambda>w. starts_with w (c # s)) ws = None"
  by (auto simp: find_None_iff list_all_iff starts_with_iff) (metis append_Cons list.sel(1) neq_Nil_conv)

lemma white_space_heads:
  "list_all (\<lambda>w. w \<noteq> [] \<and> hd w \<noteq> CHR 0xE6) white_space"
  "list_all (\<lambda>c. list_all (\<lambda>w. w \<noteq> [] \<and> hd w \<noteq> c) (map rev white_space)) hex_chars"
  by (simp_all add: white_space_def hex_chars_def)

lemma strip_command: "strip (command_word c @ bs @ uuid_str u) = command_word c @ bs @ uuid_str u"
proof -
  let ?s = "command_word c @ bs @ uuid_str u"
  have "lstrip ?s = ?s"
    unfolding lstrip_def
    by (rule strip_prefixes_id)
      (use white_space_heads(1) in \<open>auto simp: command_word_def APPROVE_WORD_def REJECT_WORD_def
        intro!: find_prefix_None\<close>)
  moreover have "rstrip ?s = ?s"
  proof -
    have "in_class hex_chars (uuid_hex u)" "length (uuid_hex u) = 32" by (simp_all add: uuid_hex_def)
    then have "last (uuid_str u) \<in> set hex_chars" "uuid_str u \<noteq> []"
      by (auto simp: uuid_str_def Let_def in_class_def list_all_iff simp flip: length_greater_0_conv)
    then obtain h t where "rev ?s = h # t" "h \<in> set hex_chars"
      by (cases "uuid_str u" rule: rev_cases) auto
    then have "strip_prefixes n (map rev white_space) (rev ?s) = rev ?s" for n
      using white_space_heads(2) by (intro strip_prefixes_id) (auto simp: list_all_iff
          intro!: find_prefix_None)
    then show ?thesis by (simp add: rstrip_def)
  qed
  ultimately show ?thesis by (simp add: strip_def)
qed

lemma approval_fingerprint_ok [simp]: "FINGERPRINT_PATTERN (approval_identity_fingerprint s)"
  by (simp add: approval_identity_fingerprint_def)

section \<open>Properties\<close>

text \<open>C32. A text is read as a decision exactly when, stripped, it is the word for the decision,
  at least one blank and the canonical text of the request's UUID, and nothing else.\<close>

theorem parse_command_exact:
  "parse_approval_command text = (True, Some c) \<longleftrightarrow>
     cmd_decision_code c \<in> {''approved'', ''rejected''} \<and>
     (\<exists>bs. strip text = command_word c @ bs @ uuid_str (cmd_request_id c) \<and> bs \<noteq> [] \<and>
        list_all blank bs)"
  by (rule parse_iff)

text \<open>The line that the rejection reply asks for, the word for the decision, a space and the
  request's UUID as Python prints it, is read back as that decision on that request.\<close>

theorem parse_command_round_trip:
  "parse_approval_command (command_word \<lparr>cmd_decision_code = (if approve then ''approved'' else ''rejected''),
       cmd_request_id = u\<rparr> @ '' '' @ uuid_str u) =
     (True, Some \<lparr>cmd_decision_code = (if approve then ''approved'' else ''rejected''),
       cmd_request_id = u\<rparr>)"
  unfolding parse_iff strip_command by (auto simp: blank_def)

text \<open>C27. A decision is recorded only for a request that exists and has not expired, that nobody
  has decided, and whose event was not used before; when the request is bound to a deployment, the
  actor has a mapped identity and is not the requester. The row is appended and nothing else changes.\<close>

theorem recorded_decision_permitted:
  assumes "record_approval_decision command event actor open_id ext i now fault d dc = (out, d')"
    and "out_code out = ''recorded''"
  shows "\<exists>q c. q \<in> set (t_requests d) \<and> decision_permitted q c \<and>
     c = decision_row command event actor (approval_identity_fingerprint open_id) ext i now \<and>
     (\<forall>e \<in> set (t_decisions d). d_request_id e \<noteq> q_id q \<and> d_feishu_event_id e \<noteq> event) \<and>
     d' = dc\<lparr>t_decisions := t_decisions dc @ [c]\<rparr>"
  using assms(1)
proof (cases rule: record_cases)
  case (2 q)
  have "q_id q = cmd_request_id command" using 2(2) by (simp add: decision_permitted_def decision_row_def)
  moreover have "d' = dc\<lparr>t_decisions := t_decisions dc @
      [decision_row command event actor (approval_identity_fingerprint open_id) ext i now]\<rparr>"
    using 2(4) by (rule inserted)
  ultimately show ?thesis using 2 by auto
qed (use assms(2) in simp)

definition example_request :: approval_request where
  "example_request = \<lparr>q_id = 5, q_user_id = 1, q_action_code = ''merge_pr'', q_repository = ''o/r'',
     q_pull_request_number = Some 3, q_target_sha = replicate 40 CHR ''a'',
     q_target_environment = ''staging'', q_deployment_id = None, q_artifact_digest = None,
     q_idempotency_key = ''k'', q_requested_at = 0, q_expires_at = 100, q_card_message_id = None\<rparr>"

definition example_approval_db :: db where
  "example_approval_db = example_db\<lparr>t_requests := [example_request]\<rparr>"

definition example_command :: approval_command where
  "example_command = \<lparr>cmd_decision_code = ''approved'', cmd_request_id = 5\<rparr>"

definition example_decision :: approval_decision where
  "example_decision = decision_row example_command ''e'' 1 (approval_identity_fingerprint ''s'') None 6 50"

lemma example_recorded:
  "record_approval_decision example_command ''e'' 1 ''s'' None 6 50 NoFault example_approval_db
     example_approval_db =
   (\<lparr>out_code = ''recorded'', out_decision_code = Some ''approved''\<rparr>,
    example_approval_db\<lparr>t_decisions := [example_decision]\<rparr>)"
proof -
  have s: "varchar 16 ''approved''" "varchar 200 ''e''" "py_len ''e'' = 1"
    by (simp_all add: varchar_def py_len_def utf8_continuation_def)
  have "insert_decision example_decision example_approval_db =
      Inr (example_approval_db\<lparr>t_decisions := [example_decision]\<rparr>)"
    unfolding insert_decision_def insert_row_ok
    by (auto simp: example_decision_def decision_row_def example_command_def approval_decision_fits_def
        approval_decision_checks_def approval_decision_keys_def approval_decision_refs_def clash_def
        exists_row_def exists_opt_def example_approval_db_def example_db_def empty_db_def
        example_request_def example_user_def s varchar_fingerprint)
  then show ?thesis
    by (simp add: record_approval_decision_def settle_def decide_def scalar_one_or_none_def s
        example_approval_db_def example_db_def empty_db_def example_request_def example_command_def
        example_decision_def)
qed

lemma recorded_decision_permitted_witness:
  "\<exists>q c. q \<in> set (t_requests example_approval_db) \<and> decision_permitted q c \<and>
     c = decision_row example_command ''e'' 1 (approval_identity_fingerprint ''s'') None 6 50"
  using recorded_decision_permitted [OF example_recorded] by auto

text \<open>Feishu delivers an event again: after a decision was recorded, the same call, at any later
  time and on any later database, answers \<open>duplicate\<close> and changes nothing.\<close>

theorem redelivered_decision_duplicate:
  assumes "record_approval_decision command event actor open_id ext i now fault d dc = (out, d1)"
    and "out_code out = ''recorded''" and "schema_ok dc" and "dml_step\<^sup>*\<^sup>* d1 d2"
  shows "record_approval_decision command event actor open_id ext i' now' NoFault d2 d3 =
     (\<lparr>out_code = ''duplicate'', out_decision_code = Some (cmd_decision_code command)\<rparr>, d3)"
  using assms(1)
proof (cases rule: record_cases)
  case (2 q)
  let ?c = "decision_row command event actor (approval_identity_fingerprint open_id) ext i now"
  from assms(1,2) have ev: "event \<noteq> []" "\<not> py_len event > 200"
    by (auto simp: record_approval_decision_def outcome_def split: if_splits)
  have "dml_step dc d1" using 2(4) by (rule dml_step.decision)
  then have ok: "schema_ok d2"
    using schema_dml [OF converse_rtranclp_into_rtranclp [OF _ assms(4)] assms(3)] by blast
  have "?c \<in> set (t_decisions d1)" using 2(4) by (simp add: insert_decision_def insert_row_ok)
  then have c: "?c \<in> set (t_decisions d2)" using growsD(2) [OF dml_grows [OF assms(4)]] by blast
  have "distinct (map d_feishu_event_id (t_decisions d2))"
    using ok by (auto simp: schema_ok_def rows_ok_def table_ok_def key_defs unique_key_Some
        distinct_map inj_on_def)
  from distinct_key_filter [OF this c]
  have "filter (\<lambda>e. d_feishu_event_id e = event) (t_decisions d2) = [?c]"
    by (simp add: decision_row_def)
  then have "decide command event actor (approval_identity_fingerprint open_id) ext i' now' d2 d3 =
      Inr (\<lparr>out_code = ''duplicate'', out_decision_code = Some (cmd_decision_code command)\<rparr>, d3)"
    by (simp add: decide_def scalar_one_or_none_def matching_duplicate_def decision_row_def)
  with ev show ?thesis by (simp add: record_approval_decision_def settle_def)
qed (use assms(2) in simp)

lemma schema_ok_example_approval_db: "schema_ok example_approval_db"
proof -
  have s: "varchar 32 ''merge_pr''" "varchar 200 ''o/r''" "varchar 32 ''staging''" "varchar 200 ''k''"
    "varchar 40 (replicate 40 CHR ''a'')" "int4_opt (Some 3)" "SHA_PATTERN (replicate 40 CHR ''a'')"
    by (simp_all add: varchar_def py_len_def utf8_continuation_def int4_opt_def int4_def SHA_PATTERN_def
        in_class_def hex_chars_def list_all_iff)
  have "dml_step example_db example_approval_db"
    by (rule dml_step.request [of example_request], unfold insert_request_def insert_row_ok)
      (auto simp: s approval_request_fits_def approval_request_checks_def approval_request_keys_def
        approval_request_refs_def example_request_def example_approval_db_def example_db_def
        empty_db_def clash_def exists_row_def exists_opt_def example_user_def varchar_opt_def
        check_passes_def deployment_binding_condition_def sql_or_def sql_and_def)
  then show ?thesis using schema_dml [OF r_into_rtranclp schema_ok_example_db] by blast
qed

lemma redelivered_decision_duplicate_witness:
  "record_approval_decision example_command ''e'' 1 ''s'' None 8 60 NoFault
     (example_approval_db\<lparr>t_decisions := [example_decision]\<rparr>) empty_db =
     (\<lparr>out_code = ''duplicate'', out_decision_code = Some (cmd_decision_code example_command)\<rparr>, empty_db)"
  by (rule redelivered_decision_duplicate [OF example_recorded _ schema_ok_example_approval_db
        rtranclp.rtrancl_refl]) simp

text \<open>A text message can never decide a request that is bound to a deployment: whatever is
  typed, by whomever, any decision it adds is on a request without a deployment.\<close>

theorem text_never_decides_deployment:
  assumes "process_approval_message text tenant_key sender_type sender_open_id chat_type chat_id event
     actor tenants open_ids chat_types approvers chat i now fault d dc = (out, d')"
  shows "d' = dc \<or> (\<exists>q \<in> set (t_requests d). q_deployment_id q = None \<and>
     (\<exists>c. d_request_id c = q_id q \<and> d' = dc\<lparr>t_decisions := t_decisions dc @ [c]\<rparr>))"
proof (cases "d' = dc")
  case False
  with assms obtain command o' where
    "record_approval_decision command event actor (the sender_open_id) None i now fault d dc = (o', d')"
    by (auto simp: process_approval_message_def split: prod.splits option.splits bool.splits if_splits)
  then show ?thesis
  proof (cases rule: record_cases)
    case (2 q)
    have "d_request_id (decision_row command event actor (approval_identity_fingerprint
        (the sender_open_id)) None i now) = q_id q" "q_deployment_id q = None"
      using 2(2) by (auto simp: decision_permitted_def decision_row_def)
    then show ?thesis using 2(1) inserted(6) [OF 2(4)] by blast
  qed simp
qed simp

lemma example_message:
  "process_approval_message (command_word example_command @ '' '' @ uuid_str 5) (Some ''t'') (Some ''user'')
     (Some ''s'') (Some ''p2p'') (Some ''c'') ''e'' 1 {''t''} {''s''} {''p2p''} {''s''} ''c'' 6 50 NoFault
     example_approval_db example_approval_db =
   (Some \<lparr>out_code = ''recorded'', out_decision_code = Some ''approved''\<rparr>,
    example_approval_db\<lparr>t_decisions := [example_decision]\<rparr>)"
proof -
  have "parse_approval_command (command_word example_command @ '' '' @ uuid_str 5) =
      (True, Some example_command)"
    unfolding parse_iff strip_command by (auto simp: blank_def example_command_def)
  then show ?thesis
    using example_recorded
    by (simp add: process_approval_message_def authorize_feishu_message_def example_command_def)
qed

lemma text_never_decides_deployment_witness:
  "\<exists>q \<in> set (t_requests example_approval_db). q_deployment_id q = None"
  using text_never_decides_deployment [OF example_message]
  by (auto simp: example_approval_db_def example_db_def empty_db_def)

text \<open>C28. A card action changes the database only for a configured approver, acting in the
  supervision chat of an allowed tenant, on a button that decides.\<close>

theorem card_action_authorized:
  assumes "process_approval_card_action action request_id tenant_key operator chat_id event actor
     tenants open_ids approvers chat ext i now fault d dc = (out, d')"
    and "d' \<noteq> dc"
  shows "action \<in> {''approve'', ''reject''} \<and>
     (\<exists>t \<in> tenants. tenant_key = Some t) \<and> (\<exists>o' \<in> open_ids \<inter> approvers. operator = Some o') \<and>
     chat \<noteq> [] \<and> chat_id = Some chat"
  using assms by (auto simp: process_approval_card_action_def not_falsy_iff split: if_splits)

lemma example_card_action:
  "process_approval_card_action ''approve'' 5 (Some ''t'') (Some ''s'') (Some ''c'') ''e'' 1 {''t''}
     {''s''} {''s''} ''c'' None 6 50 NoFault example_approval_db example_approval_db =
   (\<lparr>out_code = ''recorded'', out_decision_code = Some ''approved''\<rparr>,
    example_approval_db\<lparr>t_decisions := [example_decision]\<rparr>)"
  using example_recorded
  by (simp add: process_approval_card_action_def example_command_def py_len_def utf8_continuation_def)

lemma card_action_authorized_witness:
  "(\<exists>t \<in> {''t''}. Some ''t'' = Some t) \<and> (\<exists>x \<in> {''s''} \<inter> {''s''}. Some ''s'' = Some x)"
  using card_action_authorized [OF example_card_action]
  by (simp add: example_approval_db_def example_db_def empty_db_def)

text \<open>Creating a request is idempotent in its key: the same call again, at any later time,
  returns the request the first one created or found, and changes nothing.\<close>

theorem create_request_idempotent:
  assumes "create_approval_request user action repo pr sha env key ttl i now d d = Inr (q, d1)"
  shows "create_approval_request user action repo pr sha env key ttl i' now' d1 d1 = Inr (q, d1)"
proof -
  from assms obtain existing where v: "validate_approval_request_fields action repo pr sha env key ttl = Inr ()"
    and e: "scalar_one_or_none (\<lambda>q. q_idempotency_key q = key) (t_requests d) = Inr existing"
    by (auto simp: create_approval_request_def bindE_eq_Inr)
  have "filter (\<lambda>q. q_idempotency_key q = key) (t_requests d1) = [q] \<and>
      require_matching user action repo pr sha env q = Inr q"
  proof (cases existing)
    case (Some x)
    with assms v e show ?thesis
      by (auto simp: create_approval_request_def Let_def bindE_eq_Inr scalar_one_or_none_Some
          require_matching_def split: if_splits)
  next
    case None
    then have none: "scalar_one_or_none (\<lambda>q. q_idempotency_key q = key) (t_requests d) = Inr None"
      using e by simp
    let ?q = "\<lparr>q_id = i, q_user_id = user, q_action_code = action, q_repository = repo,
        q_pull_request_number = pr, q_target_sha = sha, q_target_environment = env,
        q_deployment_id = None, q_artifact_digest = None, q_idempotency_key = key,
        q_requested_at = now, q_expires_at = now + seconds ttl, q_card_message_id = None\<rparr>"
    from assms v none have "q = ?q \<and> insert_request ?q d = Inr d1"
      by (auto simp: create_approval_request_def Let_def branch_simps)
    then show ?thesis
      using request_by_key.lookup_inserted [of ?q d d1] by (auto simp: require_matching_def)
  qed
  with v show ?thesis
    by (simp add: create_approval_request_def scalar_one_or_none_def Let_def)
qed

lemma example_created:
  "create_approval_request 1 ''merge_pr'' ''o/r'' (Some 3) (replicate 40 CHR ''a'') ''staging'' ''k'' 100
     5 0 example_db example_db =
   Inr (example_request\<lparr>q_expires_at := 100000000\<rparr>,
     example_db\<lparr>t_requests := [example_request\<lparr>q_expires_at := 100000000\<rparr>]\<rparr>)"
proof -
  have s: "varchar 32 ''merge_pr''" "varchar 200 ''o/r''" "varchar 32 ''staging''" "varchar 200 ''k''"
    "varchar 40 (replicate 40 CHR ''a'')" "int4_opt (Some 3)" "SHA_PATTERN (replicate 40 CHR ''a'')"
    by (simp_all add: varchar_def py_len_def utf8_continuation_def int4_opt_def int4_def SHA_PATTERN_def
        in_class_def hex_chars_def list_all_iff)
  have v: "validate_approval_request_fields ''merge_pr'' ''o/r'' (Some 3) (replicate 40 CHR ''a'')
      ''staging'' ''k'' 100 = Inr ()"
    by code_simp
  let ?q = "example_request\<lparr>q_expires_at := 100000000\<rparr>"
  have "insert_request ?q example_db = Inr (example_db\<lparr>t_requests := [?q]\<rparr>)"
    unfolding insert_request_def insert_row_ok
    by (auto simp: s approval_request_fits_def approval_request_checks_def approval_request_keys_def
        approval_request_refs_def example_request_def example_approval_db_def example_db_def
        empty_db_def clash_def exists_row_def exists_opt_def example_user_def varchar_opt_def
        check_passes_def deployment_binding_condition_def sql_or_def sql_and_def)
  then show ?thesis
    by (simp add: create_approval_request_def v scalar_one_or_none_def on_integrity_error_def Let_def
        example_request_def
        example_db_def empty_db_def seconds_def)
qed

lemma create_request_idempotent_witness:
  "create_approval_request 1 ''merge_pr'' ''o/r'' (Some 3) (replicate 40 CHR ''a'') ''staging'' ''k'' 100
     8 9 (example_db\<lparr>t_requests := [example_request\<lparr>q_expires_at := 100000000\<rparr>]\<rparr>)
     (example_db\<lparr>t_requests := [example_request\<lparr>q_expires_at := 100000000\<rparr>]\<rparr>) =
   Inr (example_request\<lparr>q_expires_at := 100000000\<rparr>,
     example_db\<lparr>t_requests := [example_request\<lparr>q_expires_at := 100000000\<rparr>]\<rparr>)"
  by (rule create_request_idempotent [OF example_created])

text \<open>Every outcome of an approval message has a reply: the dictionary lookup of the reply
  text never raises.\<close>

theorem message_outcome_has_reply:
  "case process_approval_message text tenant_key sender_type sender_open_id chat_type chat_id event
     actor tenants open_ids chat_types approvers chat i now fault d dc of
     (None, d') \<Rightarrow> d' = dc | (Some out, d') \<Rightarrow> out_code out \<in> reply_codes"
proof -
  have dec: "out_code o' \<in> reply_codes"
    if "decide command event actor fp None i now d dc = Inr (o', d')" for command fp o' d'
    using that by (auto simp: decide_def outcome_def reply_codes_def bindE_eq_Inr
        split: option.splits if_splits)
  have "out_code o' \<in> reply_codes"
    if "record_approval_decision command event actor oid None i now fault d dc = (o', d')"
    for command oid o' d'
    using that dec by (auto simp: record_approval_decision_def settle_def db_failure_def outcome_def
        reply_codes_def split: if_splits db_fault.splits sum.splits prod.splits)
  then show ?thesis
    by (auto simp: process_approval_message_def outcome_def reply_codes_def
        split: prod.splits option.splits bool.splits if_splits)
qed

end
