(* ===== verification/IntentHash.thy ===== *)
theory IntentHash
  imports Uuid
begin

text \<open>
  \<open>calculate_intent_hash\<close> of \<^verbatim>\<open>app/services/production_supervisor.py\<close>: the SHA-256 of the canonical
  JSON of everything an execution attempt is bound to. \<open>json.dumps\<close> with sorted keys, no blanks and
  \<open>ensure_ascii\<close> escapes every character outside the printable ASCII range.
\<close>

section \<open>JSON strings\<close>

text \<open>The code points of a UTF-8 text.\<close>

fun code_points :: "nat list \<Rightarrow> nat list" where
  "code_points [] = []"
| "code_points (a # bs) =
     (if a < 128 then a # code_points bs
      else if a < 224 then
        (case bs of b # rest \<Rightarrow> ((a - 192) * 64 + (b - 128)) # code_points rest | _ \<Rightarrow> [])
      else if a < 240 then
        (case bs of b # c # rest \<Rightarrow>
           ((a - 224) * 4096 + (b - 128) * 64 + (c - 128)) # code_points rest | _ \<Rightarrow> [])
      else
        (case bs of b # c # e # rest \<Rightarrow>
           ((a - 240) * 262144 + (b - 128) * 4096 + (c - 128) * 64 + (e - 128)) # code_points rest
         | _ \<Rightarrow> []))"

definition u_escape :: "nat \<Rightarrow> string" where
  "u_escape n = [CHR 0x5C, CHR ''u''] @ hex_fixed 4 (int n)"

definition json_char :: "nat \<Rightarrow> string" where
  "json_char n =
     (if n = 34 then [CHR 0x5C, CHR 0x22]
      else if n = 92 then [CHR 0x5C, CHR 0x5C]
      else if n = 10 then [CHR 0x5C, CHR ''n'']
      else if n = 13 then [CHR 0x5C, CHR ''r'']
      else if n = 9 then [CHR 0x5C, CHR ''t'']
      else if n = 12 then [CHR 0x5C, CHR ''f'']
      else if n = 8 then [CHR 0x5C, CHR ''b'']
      else if 32 \<le> n \<and> n < 127 then [char_of n]
      else if n < 65536 then u_escape n
      else u_escape (55296 + (n - 65536) div 1024) @ u_escape (56320 + (n - 65536) mod 1024))"

definition json_string :: "string \<Rightarrow> string" where
  "json_string s = [CHR 0x22] @ concat (map json_char (code_points (map of_char s))) @ [CHR 0x22]"

definition json_member :: "string \<Rightarrow> string \<Rightarrow> string" where
  "json_member k v = json_string k @ '':'' @ v"

fun join :: "string \<Rightarrow> string list \<Rightarrow> string" where
  "join sep [] = []"
| "join sep [s] = s"
| "join sep (s # ss) = s @ sep @ join sep ss"

definition json_object :: "(string \<times> string) list \<Rightarrow> string" where
  "json_object members =
     ''{'' @ join '','' (map (\<lambda>(k, v). json_member k v) (sort_key fst members)) @ ''}''"

section \<open>The hash\<close>

definition intent_payload ::
  "uuid \<Rightarrow> uuid \<Rightarrow> int \<Rightarrow> string \<Rightarrow> string \<Rightarrow> (string \<times> string) list \<Rightarrow> string \<Rightarrow> string option \<Rightarrow>
     string" where
  "intent_payload deployment_id execution_attempt_id fencing_epoch repository target_sha
     service_images artifact_digest expected_migration_revision =
     json_object
       [(''deployment_id'', json_string (uuid_str deployment_id)),
        (''execution_attempt_id'', json_string (uuid_str execution_attempt_id)),
        (''fencing_epoch'', int_str fencing_epoch),
        (''repository'', json_string repository),
        (''target_sha'', json_string target_sha),
        (''service_images'', json_object (map (\<lambda>(s, i). (s, json_string i)) service_images)),
        (''artifact_digest'', json_string artifact_digest),
        (''expected_migration_revision'',
           (case expected_migration_revision of None \<Rightarrow> ''null'' | Some r \<Rightarrow> json_string r))]"

definition calculate_intent_hash ::
  "uuid \<Rightarrow> uuid \<Rightarrow> int \<Rightarrow> string \<Rightarrow> string \<Rightarrow> (string \<times> string) list \<Rightarrow> string \<Rightarrow> string option \<Rightarrow>
     string" where
  "calculate_intent_hash deployment_id execution_attempt_id fencing_epoch repository target_sha
     service_images artifact_digest expected_migration_revision =
     sha256_hexdigest (intent_payload deployment_id execution_attempt_id fencing_epoch repository
       target_sha service_images artifact_digest expected_migration_revision)"

lemma FINGERPRINT_intent_hash [simp]: "FINGERPRINT_PATTERN (calculate_intent_hash d a f r t s g m)"
  by (simp add: calculate_intent_hash_def)

end
