(* ===== verification/Deployment.thy ===== *)
theory Deployment
  imports Approval IntentHash
begin

text \<open>
  The operations of \<^verbatim>\<open>app/services/deployment_service.py\<close>. Each is one transaction: it maps
  the database to a result and the database it commits, or raises and leaves the database as it
  was. The identifiers it draws are \<open>ids 0\<close>, \<open>ids 1\<close>, ...; \<open>started\<close> is the start of the
  transaction (\<open>now()\<close>, the default of the creation columns) and \<open>now\<close> the clock reading of
  \<^verbatim>\<open>_database_now\<close>. Row locks make the operations on one deployment follow one another; only
  the acquisition of the Production lock can find no row to lock, so it takes the database at
  its commit as well.
\<close>

definition gate :: "string \<Rightarrow> 'a result" where
  "gate code = Inl (DeploymentGateError code)"

definition policy :: "string \<Rightarrow> 'a result" where
  "policy msg = Inl (DeploymentPolicyError msg)"

lemma gate_simps [simp]: "gate c \<noteq> Inr x" "Inr x \<noteq> gate c" "policy c \<noteq> Inr x" "Inr x \<noteq> policy c"
  "bindE (gate c) k = gate c" "bindE (policy c) k = policy c"
  by (simp_all add: gate_def policy_def)

section \<open>Constants and shared steps\<close>

definition PRODUCTION_CONFLICT_DOMAIN :: string where
  "PRODUCTION_CONFLICT_DOMAIN = ''production:global''"

definition CI_EVIDENCE_MAX_AGE_SECONDS :: int where
  "CI_EVIDENCE_MAX_AGE_SECONDS = 900"

definition BACKUP_EVIDENCE_MAX_AGE_SECONDS :: int where
  "BACKUP_EVIDENCE_MAX_AGE_SECONDS = 900"

definition RESOURCE_EVIDENCE_MAX_AGE_SECONDS :: int where
  "RESOURCE_EVIDENCE_MAX_AGE_SECONDS = 120"

definition EVIDENCE_TYPES :: "string set" where
  "EVIDENCE_TYPES =
     {''predeploy_backup'', ''resource_gate'', ''lock_acquired'', ''lock_renewed'',
      ''lock_released'', ''stale_lock_reconciled'', ''executor_started'', ''executor_result'',
      ''health_verification'', ''interruption_reconciliation'', ''stale_lock_reconciliation'',
      ''execution_attempt'', ''mutation_started'', ''runtime_observation'',
      ''feishu_notification'', ''migration_plan'', ''failure''}"

text \<open>\<open>except ValueError as exc: raise DeploymentGateError(code) from exc\<close>.\<close>

definition as_gate :: "string \<Rightarrow> 'a result \<Rightarrow> 'a result" where
  "as_gate code r = (case r of Inl (ValueError _) \<Rightarrow> gate code | _ \<Rightarrow> r)"

lemma as_gate_ok [branch_simps]: "as_gate code r = Inr x \<longleftrightarrow> r = Inr x"
  by (auto simp: as_gate_def split: sum.splits exn.splits)

definition resolve_human_identity :: "uuid \<Rightarrow> db \<Rightarrow> uuid result" where
  "resolve_human_identity user_id d =
     as_gate ''unknown_or_ambiguous_human_identity'' (resolve_human user_id d)"

definition resolve_executor_identity :: "string \<Rightarrow> string result" where
  "resolve_executor_identity service_id =
     (if service_id \<noteq> ''maoxx-production-deployment-supervisor''
      then gate ''unknown_or_ambiguous_executor_identity'' else Inr service_id)"

text \<open>
  \<open>verified_at.tzinfo is not None\<close> always holds for the evidence of the model: its instants are
  aware.
\<close>

definition valid_verified_ci :: "ci_evidence \<Rightarrow> string \<Rightarrow> string \<Rightarrow> int \<Rightarrow> bool" where
  "valid_verified_ci evidence repository target_sha run_id \<longleftrightarrow>
     ci_provenance_source evidence = ''github_checks_api'' \<and>
     ci_repository evidence = repository \<and> ci_target_sha evidence = target_sha \<and>
     ci_run_id evidence = run_id \<and> ci_event evidence = ''push'' \<and>
     ci_status evidence = ''completed'' \<and> ci_conclusion evidence = ''success'' \<and>
     ci_quality_gate_conclusion evidence = ''success'' \<and>
     ci_protected_main_membership evidence \<and> ci_workflow_name evidence \<noteq> [] \<and>
     ci_provenance evidence \<noteq> []"

definition events_of :: "uuid \<Rightarrow> db \<Rightarrow> deployment_state_event list" where
  "events_of deployment_id d = filter (\<lambda>e. se_deployment_id e = deployment_id) (t_events d)"

definition latest_state_event :: "uuid \<Rightarrow> db \<Rightarrow> deployment_state_event option" where
  "latest_state_event deployment_id d = latest_by se_sequence (events_of deployment_id d)"

definition state_event_for ::
  "uuid \<Rightarrow> string \<Rightarrow> string \<Rightarrow> string \<Rightarrow> dict \<Rightarrow> instant \<Rightarrow> uuid \<Rightarrow> db \<Rightarrow> deployment_state_event result" where
  "state_event_for deployment_id to_state event_code actor_fingerprint evidence occurred_at i d =
     (if \<not> FINGERPRINT_PATTERN actor_fingerprint then policy ''invalid actor fingerprint''
      else
        let latest = latest_state_event deployment_id d;
            from_state = map_option se_to_state latest in
        bindE (require_transition from_state to_state) (\<lambda>_.
          Inr \<lparr>se_id = i, se_deployment_id = deployment_id,
            se_sequence = (case latest of None \<Rightarrow> 1 | Some e \<Rightarrow> se_sequence e + 1),
            se_from_state = from_state, se_to_state = to_state, se_event_code = event_code,
            se_actor_identity_fingerprint = actor_fingerprint, se_evidence = evidence,
            se_occurred_at = occurred_at\<rparr>))"

text \<open>
  The session does not flush before a query: a row that the caller has added before is written by the
  \<open>flush\<close> of the event, after the checks.
\<close>

definition append_state_event_with ::
  "(db \<Rightarrow> db result) \<Rightarrow> uuid \<Rightarrow> string \<Rightarrow> string \<Rightarrow> string \<Rightarrow> dict \<Rightarrow> instant \<Rightarrow> uuid \<Rightarrow> db \<Rightarrow>
     (deployment_state_event \<times> db) result" where
  "append_state_event_with added deployment_id to_state event_code actor_fingerprint evidence occurred_at i d =
     bindE (state_event_for deployment_id to_state event_code actor_fingerprint evidence occurred_at i d)
       (\<lambda>event. bindE (added d) (\<lambda>d1. bindE (insert_event event d1) (\<lambda>d2. Inr (event, d2))))"

definition append_state_event ::
  "uuid \<Rightarrow> string \<Rightarrow> string \<Rightarrow> string \<Rightarrow> dict \<Rightarrow> instant \<Rightarrow> uuid \<Rightarrow> db \<Rightarrow>
     (deployment_state_event \<times> db) result" where
  "append_state_event = append_state_event_with Inr"

lemma state_event_for_same:
  "t_events d = t_events d' \<Longrightarrow> state_event_for dep st code fp ev t i d = state_event_for dep st code fp ev t i d'"
  by (simp add: state_event_for_def latest_state_event_def events_of_def)

lemma append_state_event_with_ok:
  assumes "\<And>d1. added d = Inr d1 \<Longrightarrow> t_events d1 = t_events d"
  shows "append_state_event_with added dep st code fp ev t i d = Inr (e, d2) \<longleftrightarrow>
     (\<exists>d1. added d = Inr d1 \<and> append_state_event dep st code fp ev t i d1 = Inr (e, d2))"
proof (cases "added d")
  case (Inr d1)
  from state_event_for_same [OF assms [OF Inr]] show ?thesis
    by (auto simp: append_state_event_def append_state_event_with_def Inr bindE_eq_Inr)
qed (simp add: append_state_event_with_def bindE_eq_Inr)

lemma append_added [branch_simps]:
  "append_state_event_with (insert_artifact a) dep st code fp ev t i d = Inr (e, d2) \<longleftrightarrow>
     (\<exists>d1. insert_artifact a d = Inr d1 \<and> append_state_event dep st code fp ev t i d1 = Inr (e, d2))"
  "append_state_event_with (insert_acceptance s) dep st code fp ev t i d = Inr (e, d2) \<longleftrightarrow>
     (\<exists>d1. insert_acceptance s d = Inr d1 \<and> append_state_event dep st code fp ev t i d1 = Inr (e, d2))"
  "append_state_event_with (insert_binding b) dep st code fp ev t i d = Inr (e, d2) \<longleftrightarrow>
     (\<exists>d1. insert_binding b d = Inr d1 \<and> append_state_event dep st code fp ev t i d1 = Inr (e, d2))"
  by (rule append_state_event_with_ok;
      auto simp: insert_artifact_def insert_acceptance_def insert_binding_def insert_row_ok)+

text \<open>\<open>db.get(T, key)\<close>: the row with the primary key, or \<open>None\<close>; it is unique.\<close>

definition get_row :: "('r \<Rightarrow> 'k) \<Rightarrow> 'k \<Rightarrow> 'r list \<Rightarrow> 'r option" where
  "get_row key k rows = List.find (\<lambda>r. key r = k) rows"

section \<open>Intents\<close>

definition expected_action :: "string \<Rightarrow> string option" where
  "expected_action intent_kind =
     (if intent_kind = ''deploy'' then Some ''production_deploy''
      else if intent_kind = ''rollback'' then Some ''rollback_production'' else None)"

definition validate_intent_fields ::
  "string \<Rightarrow> string \<Rightarrow> string \<Rightarrow> string \<Rightarrow> string \<Rightarrow> string \<Rightarrow> string list \<Rightarrow> migration_risk \<Rightarrow>
     string option \<Rightarrow> string option \<Rightarrow> string \<Rightarrow> string \<Rightarrow> string list result" where
  "validate_intent_fields intent_kind action_code repository target_sha artifact_digest
     requester_fingerprint services migration_risk migration_revision rollback_runbook_ref
     config_fingerprint idempotency_key =
     (if expected_action intent_kind = None \<or> Some action_code \<noteq> expected_action intent_kind
      then policy ''intent/action mismatch''
      else if \<not> REPOSITORY_PATTERN repository \<or> ends_with ''.git'' repository
      then policy ''invalid repository''
      else if \<not> SHA_PATTERN target_sha then policy ''invalid target SHA''
      else if \<not> DIGEST_PATTERN artifact_digest then policy ''invalid artifact digest''
      else if \<not> FINGERPRINT_PATTERN requester_fingerprint
      then policy ''invalid requester fingerprint''
      else if \<not> DIGEST_PATTERN config_fingerprint then policy ''invalid config fingerprint''
      else if \<not> IDEMPOTENCY_KEY_PATTERN idempotency_key then policy ''invalid idempotency key''
      else bindE (validate_migration_plan migration_risk migration_revision rollback_runbook_ref)
        (\<lambda>_. validate_service_set services))"

text \<open>The columns that a retry with the same idempotency key must repeat.\<close>

definition intent_identity ::
  "deployment_intent \<Rightarrow> (uuid \<times> uuid \<times> uuid) \<times> (string \<times> string \<times> string \<times> string \<times> string) \<times>
     string list \<times> string \<times> string option \<times> string option \<times> string" where
  "intent_identity i =
     ((di_user_id i, di_requester_principal_id i, di_requester_external_identity_id i),
      (di_intent_kind i, di_repository i, di_target_sha i, di_artifact_digest i,
       di_requested_by_identity_fingerprint i),
      di_service_set i, di_migration_risk i, di_migration_revision i, di_rollback_runbook_ref i,
      di_config_fingerprint i)"

definition create_deployment_intent ::
  "string \<Rightarrow> string \<Rightarrow> string \<Rightarrow> string \<Rightarrow> string \<Rightarrow> string \<Rightarrow> string list \<Rightarrow> migration_risk \<Rightarrow>
     string option \<Rightarrow> string option \<Rightarrow> string \<Rightarrow> string \<Rightarrow> (nat \<Rightarrow> uuid) \<Rightarrow> instant \<Rightarrow> instant \<Rightarrow> db \<Rightarrow>
     (deployment_intent \<times> db) result" where
  "create_deployment_intent tenant_id open_id intent_kind repository target_sha artifact_digest
     services migration_risk migration_revision rollback_runbook_ref config_fingerprint
     idempotency_key ids started now d =
     bindE (as_gate ''unknown_or_ambiguous_requester_identity''
         (resolve_feishu_principal tenant_id open_id d)) (\<lambda>requester.
          let fingerprint = human_fingerprint (rh_user_id requester);
              action_code = (case expected_action intent_kind of None \<Rightarrow> [] | Some a \<Rightarrow> a) in
          bindE (validate_intent_fields intent_kind action_code repository target_sha
              artifact_digest fingerprint services migration_risk migration_revision
              rollback_runbook_ref config_fingerprint idempotency_key) (\<lambda>normalized_services.
          bindE (scalar_one_or_none (\<lambda>i. di_idempotency_key i = idempotency_key) (t_intents d))
            (\<lambda>existing.
            let intent = \<lparr>di_id = ids 0, di_user_id = rh_user_id requester,
                  di_requester_principal_id = rh_principal_id requester,
                  di_requester_external_identity_id = rh_mapping_id requester,
                  di_intent_kind = intent_kind, di_action_code = action_code,
                  di_repository = repository, di_target_sha = target_sha,
                  di_target_environment = ''production'', di_artifact_digest = artifact_digest,
                  di_requested_by_identity_fingerprint = fingerprint,
                  di_service_set = normalized_services,
                  di_migration_risk = risk_value migration_risk,
                  di_migration_revision = migration_revision,
                  di_rollback_runbook_ref = rollback_runbook_ref,
                  di_config_fingerprint = config_fingerprint,
                  di_idempotency_key = idempotency_key, di_created_at = started\<rparr> in
            case existing of
              Some i \<Rightarrow>
                if intent_identity i \<noteq> intent_identity intent
                then policy ''deployment idempotency conflict'' else Inr (i, d)
            | None \<Rightarrow>
                bindE (insert_intent intent d) (\<lambda>d1.
                bindE (append_state_event (ids 0) ''INTENT_CREATED'' ''intent_created'' fingerprint
                    [] now (ids 1) d1) (\<lambda>(_, d2). Inr (intent, d2))))))"

definition create_rollback_link ::
  "uuid \<Rightarrow> uuid \<Rightarrow> string \<Rightarrow> string \<Rightarrow> string \<Rightarrow> (nat \<Rightarrow> uuid) \<Rightarrow> instant \<Rightarrow> db \<Rightarrow>
     (deployment_rollback \<times> db) result" where
  "create_rollback_link rollback_deployment_id failed_deployment_id current_production_sha
     rollback_target_sha rollback_artifact_digest ids started d =
     bindE (scalar_one_or_none (\<lambda>i. di_id i = rollback_deployment_id) (t_intents d)) (\<lambda>intent.
       let failed_intent = get_row di_id failed_deployment_id (t_intents d) in
       if intent = None \<or> di_intent_kind (the intent) \<noteq> ''rollback''
       then gate ''invalid_rollback_intent''
       else if failed_intent = None then gate ''unknown_failed_deployment''
       else if map_option se_to_state (latest_state_event failed_deployment_id d) \<noteq>
         Some ''PRODUCTION_FAILED''
       then gate ''failed_deployment_not_failed''
       else if di_target_sha (the intent) \<noteq> rollback_target_sha \<or>
         di_artifact_digest (the intent) \<noteq> rollback_artifact_digest \<or>
         \<not> SHA_PATTERN current_production_sha
       then gate ''rollback_target_mismatch''
       else
         let link = \<lparr>rb_id = ids 0, rb_deployment_id = rollback_deployment_id,
               rb_failed_deployment_id = failed_deployment_id,
               rb_current_production_sha = current_production_sha,
               rb_rollback_target_sha = rollback_target_sha,
               rb_rollback_artifact_digest = rollback_artifact_digest, rb_created_at = started\<rparr> in
         bindE (insert_rollback link d) (\<lambda>d'. Inr (link, d')))"

section \<open>Artifacts\<close>

definition images_of :: "string list \<Rightarrow> string \<Rightarrow> (string \<times> string) list" where
  "images_of services img = sort_key fst (map (\<lambda>s. (s, img)) (remdups services))"

definition with_ci_verification :: "dict \<Rightarrow> ci_evidence \<Rightarrow> dict" where
  "with_ci_verification provenance verified =
     mk_dict (filter (\<lambda>(k, _). k \<noteq> ''ci_verification'') provenance @
       [(''ci_verification'',
         JObj (mk_dict (map (\<lambda>(k, v). (k, JStr v)) (ci_provenance verified))))])"

text \<open>What a replay of an artifact is compared on.\<close>

definition artifact_identity ::
  "deployment_artifact \<Rightarrow> (string \<times> string \<times> string \<times> string \<times> (string \<times> string) list) \<times>
     (int \<times> string \<times> string \<times> string \<times> string) \<times> string \<times> bool \<times> string \<times> string \<times> string" where
  "artifact_identity a =
     ((da_repository a, da_target_sha a, da_digest a, da_image_reference a, da_service_images a),
      (da_ci_run_id a, da_ci_event a, da_ci_status a, da_ci_conclusion a, da_ci_head_sha a),
      da_quality_gate_conclusion a, da_protected_main_verified a, da_ci_workflow_name a,
      da_ci_repository a, da_ci_provenance_source a)"

definition record_artifact ::
  "uuid \<Rightarrow> string \<Rightarrow> string \<Rightarrow> string \<Rightarrow> string \<Rightarrow> int \<Rightarrow>
     (string \<Rightarrow> string \<Rightarrow> int \<Rightarrow> ci_evidence result) \<Rightarrow> dict \<Rightarrow> string \<Rightarrow> (nat \<Rightarrow> uuid) \<Rightarrow> instant \<Rightarrow>
     instant \<Rightarrow> db \<Rightarrow> (deployment_artifact \<times> db) result" where
  "record_artifact deployment_id repository target_sha digest image_reference run_id verify
     provenance actor_fingerprint ids started now d =
     bindE (validate_immutable_artifact digest image_reference) (\<lambda>_.
     bindE (scalar_one_or_none (\<lambda>i. di_id i = deployment_id) (t_intents d)) (\<lambda>intent_row.
     case intent_row of
       None \<Rightarrow> gate ''unknown_deployment''
     | Some intent \<Rightarrow>
       if repository \<noteq> di_repository intent \<or> target_sha \<noteq> di_target_sha intent \<or>
         digest \<noteq> di_artifact_digest intent
       then gate ''artifact_binding_mismatch''
       else
         bindE (verify repository target_sha run_id) (\<lambda>verified.
         if \<not> valid_verified_ci verified repository target_sha run_id
         then gate ''invalid_ci_evidence''
         else
           bindE (scalar_one_or_none (\<lambda>a. da_deployment_id a = deployment_id) (t_artifacts d))
             (\<lambda>existing.
             let artifact = \<lparr>da_id = ids 0, da_deployment_id = deployment_id,
                   da_repository = repository, da_target_sha = target_sha, da_digest = digest,
                   da_image_reference = image_reference,
                   da_service_images = images_of (di_service_set intent) image_reference,
                   da_ci_run_id = ci_run_id verified,
                   da_ci_event = ci_event verified, da_ci_status = ci_status verified,
                   da_ci_conclusion = ci_conclusion verified,
                   da_ci_head_sha = ci_target_sha verified,
                   da_quality_gate_conclusion = ci_quality_gate_conclusion verified,
                   da_protected_main_verified = ci_protected_main_membership verified,
                   da_ci_workflow_name = ci_workflow_name verified,
                   da_ci_repository = ci_repository verified,
                   da_ci_verified_at = ci_verified_at verified,
                   da_ci_provenance_source = ci_provenance_source verified,
                   da_provenance = with_ci_verification provenance verified,
                   da_created_at = started\<rparr> in
             case existing of
               Some a \<Rightarrow>
                 if artifact_identity a \<noteq> artifact_identity artifact
                 then gate ''artifact_replay_conflict'' else Inr (a, d)
             | None \<Rightarrow>
                 bindE (append_state_event_with (insert_artifact artifact) deployment_id
                     ''ARTIFACT_RECORDED'' ''artifact_recorded'' actor_fingerprint
                     (mk_dict [(''digest'', JStr digest),
                       (''ci_run_id'', JNum (da_ci_run_id artifact))]) now (ids 1) d)
                   (\<lambda>(_, d2). Inr (artifact, d2))))))"

section \<open>Staging\<close>

definition begin_staging_deployment ::
  "uuid \<Rightarrow> string \<Rightarrow> (nat \<Rightarrow> uuid) \<Rightarrow> instant \<Rightarrow> db \<Rightarrow> (unit \<times> db) result" where
  "begin_staging_deployment deployment_id actor_fingerprint ids now d =
     bindE (scalar_one_or_none (\<lambda>i. di_id i = deployment_id) (t_intents d)) (\<lambda>intent.
       if intent = None then gate ''unknown_deployment''
       else if map_option se_to_state (latest_state_event deployment_id d) =
         Some ''STAGING_DEPLOYING''
       then Inr ((), d)
       else bindE (append_state_event deployment_id ''STAGING_DEPLOYING'' ''staging_deploying''
           actor_fingerprint [] now (ids 0) d) (\<lambda>(_, d'). Inr ((), d')))"

definition record_staging_failure ::
  "uuid \<Rightarrow> string \<Rightarrow> string \<Rightarrow> (nat \<Rightarrow> uuid) \<Rightarrow> instant \<Rightarrow> db \<Rightarrow> (unit \<times> db) result" where
  "record_staging_failure deployment_id actor_fingerprint failure_code ids now d =
     bindE (scalar_one_or_none (\<lambda>i. di_id i = deployment_id) (t_intents d)) (\<lambda>intent.
       if intent = None then gate ''unknown_deployment''
       else bindE (append_state_event deployment_id ''STAGING_FAILED'' ''staging_failed''
           actor_fingerprint [(''failure_code'', JStr failure_code)] now (ids 0) d)
         (\<lambda>(_, d'). Inr ((), d')))"

definition acceptance_identity ::
  "staging_acceptance \<Rightarrow> string \<times> string \<times> string \<times> string \<times> string \<times> string" where
  "acceptance_identity a =
     (sa_repository a, sa_target_sha a, sa_artifact_digest a, sa_validation_suite_version a,
      sa_config_fingerprint a, sa_accepted_by_identity_fingerprint a)"

definition record_staging_acceptance ::
  "uuid \<Rightarrow> string \<Rightarrow> string \<Rightarrow> string \<Rightarrow> string \<Rightarrow> string \<Rightarrow> string \<Rightarrow> int \<Rightarrow> (nat \<Rightarrow> uuid) \<Rightarrow>
     instant \<Rightarrow> db \<Rightarrow> (staging_acceptance \<times> db) result" where
  "record_staging_acceptance deployment_id repository target_sha artifact_digest
     validation_suite_version config_fingerprint accepted_by_fingerprint validity_seconds ids now d =
     (if validity_seconds < 1 \<or> validity_seconds > 86400
      then policy ''invalid staging acceptance validity''
      else if \<not> FINGERPRINT_PATTERN accepted_by_fingerprint
      then policy ''invalid staging actor fingerprint''
      else
        bindE (scalar_one_or_none (\<lambda>i. di_id i = deployment_id) (t_intents d)) (\<lambda>intent_row.
        bindE (scalar_one_or_none (\<lambda>a. da_deployment_id a = deployment_id) (t_artifacts d))
          (\<lambda>artifact_row.
        case (intent_row, artifact_row) of
          (Some intent, Some artifact) \<Rightarrow>
            if repository \<noteq> di_repository intent \<or> target_sha \<noteq> di_target_sha intent \<or>
              artifact_digest \<noteq> di_artifact_digest intent \<or>
              da_digest artifact \<noteq> artifact_digest \<or>
              config_fingerprint \<noteq> di_config_fingerprint intent
            then gate ''staging_binding_mismatch''
            else
              bindE (scalar_one_or_none (\<lambda>a. sa_deployment_id a = deployment_id)
                  (t_acceptances d)) (\<lambda>existing.
                let acceptance = \<lparr>sa_id = ids 0, sa_deployment_id = deployment_id,
                      sa_repository = repository, sa_target_sha = target_sha,
                      sa_artifact_digest = artifact_digest, sa_environment = ''staging'',
                      sa_validation_suite_version = validation_suite_version,
                      sa_config_fingerprint = config_fingerprint,
                      sa_accepted_by_identity_fingerprint = accepted_by_fingerprint,
                      sa_completed_at = now,
                      sa_valid_until = now + seconds validity_seconds\<rparr> in
                case existing of
                  Some a \<Rightarrow>
                    if acceptance_identity a \<noteq> acceptance_identity acceptance
                    then gate ''staging_acceptance_replay_conflict'' else Inr (a, d)
                | None \<Rightarrow>
                    bindE (append_state_event_with (insert_acceptance acceptance) deployment_id
                        ''STAGING_VALIDATED'' ''staging_accepted'' accepted_by_fingerprint
                        (mk_dict [(''artifact_digest'', JStr artifact_digest),
                          (''validation_suite_version'', JStr validation_suite_version)])
                        now (ids 1) d) (\<lambda>(_, d2). Inr (acceptance, d2)))
        | _ \<Rightarrow> gate ''missing_artifact'')))"

definition invalidate_staging_acceptance ::
  "uuid \<Rightarrow> string \<Rightarrow> (nat \<Rightarrow> uuid) \<Rightarrow> instant \<Rightarrow> db \<Rightarrow> (unit \<times> db) result" where
  "invalidate_staging_acceptance acceptance_id reason_code ids started d =
     (if get_row sa_id acceptance_id (t_acceptances d) = None
      then gate ''unknown_staging_acceptance''
      else bindE (insert_invalidation \<lparr>si_id = ids 0, si_acceptance_id = acceptance_id,
          si_reason_code = reason_code, si_invalidated_at = started\<rparr> d) (\<lambda>d'. Inr ((), d')))"

section \<open>The bound approval\<close>

definition bound_request ::
  "deployment_intent \<Rightarrow> uuid \<Rightarrow> string \<Rightarrow> instant \<Rightarrow> int \<Rightarrow> approval_request" where
  "bound_request intent i idempotency_key now ttl_seconds =
     \<lparr>q_id = i, q_user_id = di_user_id intent, q_action_code = di_action_code intent,
      q_repository = di_repository intent, q_pull_request_number = None,
      q_target_sha = di_target_sha intent, q_target_environment = ''production'',
      q_deployment_id = Some (di_id intent), q_artifact_digest = Some (di_artifact_digest intent),
      q_idempotency_key = idempotency_key, q_requested_at = now,
      q_expires_at = now + seconds ttl_seconds, q_card_message_id = None\<rparr>"

definition bound_binding ::
  "deployment_intent \<Rightarrow> uuid \<Rightarrow> uuid \<Rightarrow> uuid \<Rightarrow> uuid \<Rightarrow> instant \<Rightarrow> deployment_approval_binding" where
  "bound_binding intent deployment_id i request_id requester started =
     \<lparr>ab_id = i, ab_deployment_id = deployment_id, ab_approval_request_id = request_id,
      ab_repository = di_repository intent, ab_target_sha = di_target_sha intent,
      ab_target_environment = di_target_environment intent,
      ab_action_code = di_action_code intent, ab_artifact_digest = di_artifact_digest intent,
      ab_requester_identity_fingerprint = human_fingerprint requester,
      ab_requester_user_id = requester, ab_bound_at = started\<rparr>"

definition pending_state :: "deployment_intent \<Rightarrow> string" where
  "pending_state intent =
     (if di_intent_kind intent = ''deploy'' then ''PRODUCTION_APPROVAL_PENDING''
      else ''ROLLBACK_APPROVAL_PENDING'')"

definition create_bound_production_approval ::
  "uuid \<Rightarrow> string \<Rightarrow> int \<Rightarrow> (nat \<Rightarrow> uuid) \<Rightarrow> instant \<Rightarrow> instant \<Rightarrow> db \<Rightarrow>
     ((approval_request \<times> deployment_approval_binding) \<times> db) result" where
  "create_bound_production_approval deployment_id idempotency_key ttl_seconds ids started now d =
     (if \<not> IDEMPOTENCY_KEY_PATTERN idempotency_key then policy ''invalid approval idempotency key''
      else if ttl_seconds < 1 \<or> ttl_seconds > 86400 then policy ''invalid approval ttl''
      else
        bindE (scalar_one_or_none (\<lambda>i. di_id i = deployment_id) (t_intents d)) (\<lambda>intent_row.
        bindE (scalar_one_or_none (\<lambda>a. da_deployment_id a = deployment_id) (t_artifacts d))
          (\<lambda>artifact_row.
        if intent_row = None \<or> artifact_row = None
        then gate ''missing_immutable_deployment_intent''
        else
          let intent = the intent_row in
          bindE (resolve_human_identity (di_user_id intent) d) (\<lambda>requester.
          if human_fingerprint requester \<noteq> di_requested_by_identity_fingerprint intent
          then gate ''canonical_requester_mismatch''
          else
            bindE (scalar_one_or_none (\<lambda>b. ab_deployment_id b = deployment_id) (t_bindings d))
              (\<lambda>existing.
            case existing of
              Some b \<Rightarrow>
                bindE (scalar_one (\<lambda>q. q_id q = ab_approval_request_id b) (t_requests d)) (\<lambda>q.
                  if q_idempotency_key q \<noteq> idempotency_key
                  then gate ''approval_binding_replay_conflict'' else Inr ((q, b), d))
            | None \<Rightarrow>
                bindE (scalar_one_or_none (\<lambda>q. q_idempotency_key q = idempotency_key)
                    (t_requests d)) (\<lambda>existing_request.
                if existing_request \<noteq> None then gate ''precreated_approval_attachment_forbidden''
                else
                  let request = bound_request intent (ids 0) idempotency_key now ttl_seconds;
                      binding = bound_binding intent deployment_id (ids 1) (ids 0) requester started in
                  bindE (insert_request request d) (\<lambda>d1.
                  bindE (append_state_event_with (insert_binding binding) deployment_id
                      (pending_state intent) ''approval_bound'' (human_fingerprint requester)
                      (mk_dict [(''approval_request_id'', JUuid (ids 0)),
                        (''deployment_id'', JUuid (di_id intent)),
                        (''artifact_digest'', JStr (di_artifact_digest intent))])
                      now (ids 2) d1) (\<lambda>(_, d3). Inr ((request, binding), d3)))))))))"

definition bind_production_approval ::
  "uuid \<Rightarrow> uuid \<Rightarrow> string \<Rightarrow> db \<Rightarrow> (deployment_approval_binding \<times> db) result" where
  "bind_production_approval deployment_id approval_request_id requester_fingerprint d =
     gate ''precreated_approval_attachment_forbidden''"

section \<open>Evidence\<close>

text \<open>
  Rows that the caller has changed before are written by the \<open>flush\<close> of the new evidence, after the checks,
  or, when the evidence is there already, by the commit.
\<close>

definition add_evidence_with ::
  "(db \<Rightarrow> db result) \<Rightarrow> (db \<Rightarrow> db result) \<Rightarrow> uuid \<Rightarrow> string \<Rightarrow> string \<Rightarrow> string \<Rightarrow> dict \<Rightarrow> instant \<Rightarrow> uuid \<Rightarrow> db \<Rightarrow>
     (deployment_evidence \<times> db) result" where
  "add_evidence_with flushed committed deployment_id evidence_type evidence_key status_code payload
     occurred_at i d =
     (if evidence_type \<notin> EVIDENCE_TYPES then policy ''unsupported evidence type''
      else if \<not> IDEMPOTENCY_KEY_PATTERN evidence_key then policy ''invalid evidence key''
      else if status_code \<notin> {''pending'', ''passed'', ''failed'', ''recorded''}
      then policy ''invalid evidence status''
      else
        bindE (scalar_one_or_none (\<lambda>e. ev_deployment_id e = deployment_id \<and>
            ev_evidence_type e = evidence_type \<and> ev_evidence_key e = evidence_key)
            (t_evidence d)) (\<lambda>existing.
          case existing of
            Some e \<Rightarrow>
              if ev_status_code e \<noteq> status_code \<or> ev_payload e \<noteq> payload
              then gate ''evidence_replay_conflict'' else bindE (committed d) (\<lambda>d'. Inr (e, d'))
          | None \<Rightarrow>
              let evidence = \<lparr>ev_id = i, ev_deployment_id = deployment_id,
                    ev_evidence_type = evidence_type, ev_evidence_key = evidence_key,
                    ev_status_code = status_code, ev_payload = payload,
                    ev_occurred_at = occurred_at\<rparr> in
              bindE (flushed d) (\<lambda>d1. bindE (insert_evidence evidence d1) (\<lambda>d'. Inr (evidence, d')))))"

definition add_evidence ::
  "uuid \<Rightarrow> string \<Rightarrow> string \<Rightarrow> string \<Rightarrow> dict \<Rightarrow> instant \<Rightarrow> uuid \<Rightarrow> db \<Rightarrow>
     (deployment_evidence \<times> db) result" where
  "add_evidence = add_evidence_with Inr Inr"

lemma add_evidence_with_ok:
  assumes "\<And>d1. flushed d = Inr d1 \<Longrightarrow> t_evidence d1 = t_evidence d"
    and "\<And>d1. committed d = Inr d1 \<longleftrightarrow> flushed d = Inr d1"
  shows "add_evidence_with flushed committed dep ty key st payload t i d = Inr (e, d2) \<longleftrightarrow>
     (\<exists>d1. flushed d = Inr d1 \<and> add_evidence dep ty key st payload t i d1 = Inr (e, d2))"
proof (cases "flushed d")
  case (Inr d1)
  moreover from this assms(2) have "committed d = Inr d1" by simp
  ultimately show ?thesis
    by (simp add: add_evidence_def add_evidence_with_def Let_def assms(1) cong: if_cong)
next
  case (Inl x)
  with assms(2) have "committed d \<noteq> Inr d1" for d1 by simp
  with Inl show ?thesis
    by (auto simp: add_evidence_with_def Let_def branch_simps policy_def gate_def)
qed

lemma evidence_with_lock [branch_simps]:
  "add_evidence_with (insert_lock l) (\<lambda>d'. on_integrity_error (insert_lock l d') (gate c)) dep ty key st payload t i d =
     Inr (e, d2) \<longleftrightarrow> (\<exists>d1. insert_lock l d = Inr d1 \<and> add_evidence dep ty key st payload t i d1 = Inr (e, d2))"
  "add_evidence_with (update_lock l) (\<lambda>d'. on_integrity_error (update_lock l d') (gate c)) dep ty key st payload t i d =
     Inr (e, d2) \<longleftrightarrow> (\<exists>d1. update_lock l d = Inr d1 \<and> add_evidence dep ty key st payload t i d1 = Inr (e, d2))"
  "add_evidence_with (update_lock l) (update_lock l) dep ty key st payload t i d =
     Inr (e, d2) \<longleftrightarrow> (\<exists>d1. update_lock l d = Inr d1 \<and> add_evidence dep ty key st payload t i d1 = Inr (e, d2))"
  "add_evidence_with Inr (\<lambda>d'. on_integrity_error (Inr d') (gate c)) dep ty key st payload t i d =
     Inr (e, d2) \<longleftrightarrow> add_evidence dep ty key st payload t i d = Inr (e, d2)"
  by (subst add_evidence_with_ok;
      auto simp: insert_lock_def insert_row_ok update_lock_def on_integrity_error_ok split: if_splits)+

text \<open>The evidence is looked up in \<open>d\<close>, without a lock, and inserted into what is there by then, \<open>dc\<close>.\<close>

definition record_deployment_evidence ::
  "uuid \<Rightarrow> string \<Rightarrow> string \<Rightarrow> string \<Rightarrow> dict \<Rightarrow> (nat \<Rightarrow> uuid) \<Rightarrow> instant \<Rightarrow> db \<Rightarrow> db \<Rightarrow>
     (deployment_evidence \<times> db) result" where
  "record_deployment_evidence deployment_id evidence_type evidence_key status_code payload ids now d dc =
     (if get_row di_id deployment_id (t_intents d) = None then gate ''unknown_deployment''
      else if evidence_type = ''resource_gate'' then gate ''resource_evidence_must_be_evaluated''
      else if evidence_type = ''predeploy_backup'' \<and> status_code = ''passed''
      then gate ''backup_evidence_must_be_authority_verified''
      else add_evidence_with (\<lambda>_. Inr dc) (\<lambda>_. Inr dc) deployment_id evidence_type evidence_key status_code
        payload now (ids 0) d)"

definition record_resource_gate ::
  "uuid \<Rightarrow> string \<Rightarrow> resource_sample list \<Rightarrow> db \<Rightarrow> (deployment_evidence \<times> db) result" where
  "record_resource_gate deployment_id evidence_key samples d =
     gate ''trusted_production_resource_collector_required''"

section \<open>The Production lock\<close>

record production_lease =
  pl_deployment_id :: uuid
  pl_owner_identity :: string
  pl_fencing_token :: int

text \<open>
  The lock is read and, when there is one, locked. Without a row there is nothing to lock, and
  the insert meets whatever is in \<open>dc\<close> by then. A new row or a changed one is flushed with the evidence,
  outside the \<open>try\<close> around the commit, so its \<open>IntegrityError\<close> is the caller's; only when the evidence
  is there already the commit writes it, and the error becomes \<open>lock_conflict\<close>.
\<close>

definition acquire_deployment_lock ::
  "uuid \<Rightarrow> string \<Rightarrow> int \<Rightarrow> string \<Rightarrow> string option \<Rightarrow> (nat \<Rightarrow> uuid) \<Rightarrow> instant \<Rightarrow> db \<Rightarrow> db \<Rightarrow>
     (production_lease \<times> db) result" where
  "acquire_deployment_lock deployment_id owner_identity lease_seconds evidence_key conflict_domain
     ids now d dc =
     (if conflict_domain \<noteq> None \<and> conflict_domain \<noteq> Some PRODUCTION_CONFLICT_DOMAIN
      then gate ''canonical_conflict_domain_required''
      else
        bindE (resolve_executor_identity owner_identity) (\<lambda>executor.
        if lease_seconds < 5 \<or> lease_seconds > 900 then policy ''invalid lock lease''
        else if get_row di_id deployment_id (t_intents d) = None then gate ''unknown_deployment''
        else
          bindE (scalar_one_or_none (\<lambda>l. dl_conflict_domain l = PRODUCTION_CONFLICT_DOMAIN)
              (t_locks d)) (\<lambda>lock_row.
          let held = (\<lambda>token. mk_dict [(''conflict_domain'', JStr PRODUCTION_CONFLICT_DOMAIN),
                (''owner'', JStr executor), (''fencing_token'', JNum token)]);
              finish = (\<lambda>token payload lock d0.
                bindE (add_evidence_with lock (\<lambda>d'. on_integrity_error (lock d') (gate ''lock_conflict''))
                    deployment_id ''lock_acquired'' evidence_key ''recorded'' payload now (ids 0) d0)
                  (\<lambda>(_, d2).
                  Inr (\<lparr>pl_deployment_id = deployment_id, pl_owner_identity = executor,
                    pl_fencing_token = token\<rparr>, d2))) in
          case lock_row of
            None \<Rightarrow>
              finish 1 (held 1) (insert_lock \<lparr>dl_conflict_domain = PRODUCTION_CONFLICT_DOMAIN,
                  dl_environment = ''production'', dl_deployment_id = deployment_id,
                  dl_owner_identity = executor, dl_fencing_token = 1, dl_acquired_at = now,
                  dl_renewed_at = now, dl_lease_expires_at = now + seconds lease_seconds,
                  dl_stale_reconciled_at = None, dl_stale_reconciled_token = None,
                  dl_stale_reconciliation_evidence_key = None\<rparr>) dc
          | Some l \<Rightarrow>
              if dl_deployment_id l = deployment_id \<and> dl_owner_identity l = executor \<and>
                dl_lease_expires_at l > now
              then finish (dl_fencing_token l) (held (dl_fencing_token l)) Inr d
              else if dl_lease_expires_at l \<le> now then
                if dl_stale_reconciled_at l = None \<or>
                  dl_stale_reconciled_token l \<noteq> Some (dl_fencing_token l) \<or>
                  falsy (dl_stale_reconciliation_evidence_key l)
                then gate ''stale_lock_reconciliation_required''
                else
                  let token = dl_fencing_token l + 1;
                      l' = l\<lparr>dl_deployment_id := deployment_id, dl_owner_identity := executor,
                        dl_fencing_token := token, dl_acquired_at := now, dl_renewed_at := now,
                        dl_lease_expires_at := now + seconds lease_seconds\<rparr> in
                  finish token (mk_dict [(''conflict_domain'', JStr PRODUCTION_CONFLICT_DOMAIN),
                      (''prior_owner'', JStr (dl_owner_identity l)),
                      (''prior_fencing_token'', JNum (dl_fencing_token l)),
                      (''new_owner'', JStr executor), (''new_fencing_token'', JNum token),
                      (''reconciliation_evidence_key'',
                        JStr (the (dl_stale_reconciliation_evidence_key l)))]) (update_lock l') d
              else gate ''lock_conflict'')))"

definition reconcile_expired_production_lock :: "string \<Rightarrow> db \<Rightarrow> (unit \<times> db) result" where
  "reconcile_expired_production_lock evidence_key d =
     gate ''host_supervisor_reconciliation_required''"

definition renew_deployment_lock ::
  "uuid \<Rightarrow> string \<Rightarrow> int \<Rightarrow> string \<Rightarrow> int \<Rightarrow> (nat \<Rightarrow> uuid) \<Rightarrow> instant \<Rightarrow> db \<Rightarrow> (unit \<times> db) result" where
  "renew_deployment_lock deployment_id owner_identity lease_seconds evidence_key fencing_token ids
     now d =
     bindE (scalar_one_or_none (\<lambda>l. dl_conflict_domain l = PRODUCTION_CONFLICT_DOMAIN) (t_locks d))
     (\<lambda>lock_row.
       case lock_row of
         None \<Rightarrow> gate ''lock_not_owned''
       | Some l \<Rightarrow>
           if dl_deployment_id l \<noteq> deployment_id \<or> dl_owner_identity l \<noteq> owner_identity \<or>
             dl_fencing_token l \<noteq> fencing_token \<or> dl_lease_expires_at l \<le> now
           then gate ''lock_not_owned''
           else if lease_seconds < 5 \<or> lease_seconds > 900 then policy ''invalid lock lease''
           else
             let renew = update_lock (l\<lparr>dl_renewed_at := now,
                   dl_lease_expires_at := now + seconds lease_seconds\<rparr>) in
             bindE (add_evidence_with renew renew deployment_id ''lock_renewed'' evidence_key ''recorded''
                 (mk_dict [(''conflict_domain'', JStr PRODUCTION_CONFLICT_DOMAIN),
                   (''fencing_token'', JNum fencing_token)]) now (ids 0) d)
               (\<lambda>(_, d2). Inr ((), d2)))"

definition release_deployment_lock ::
  "uuid \<Rightarrow> string \<Rightarrow> string \<Rightarrow> int \<Rightarrow> (nat \<Rightarrow> uuid) \<Rightarrow> instant \<Rightarrow> db \<Rightarrow> (unit \<times> db) result" where
  "release_deployment_lock deployment_id owner_identity evidence_key fencing_token ids now d =
     bindE (scalar_one_or_none (\<lambda>l. dl_conflict_domain l = PRODUCTION_CONFLICT_DOMAIN) (t_locks d))
     (\<lambda>lock_row.
       case lock_row of
         None \<Rightarrow> gate ''lock_not_owned''
       | Some l \<Rightarrow>
           if dl_deployment_id l \<noteq> deployment_id \<or> dl_owner_identity l \<noteq> owner_identity \<or>
             dl_fencing_token l \<noteq> fencing_token
           then gate ''lock_not_owned''
           else
             bindE (add_evidence deployment_id ''lock_released'' evidence_key ''recorded''
                 (mk_dict [(''conflict_domain'', JStr PRODUCTION_CONFLICT_DOMAIN),
                   (''fencing_token'', JNum fencing_token)]) now (ids 0) d)
               (\<lambda>(_, d1). Inr ((), delete_lock l d1)))"

section \<open>Fresh evidence\<close>

definition require_passed_evidence :: "uuid \<Rightarrow> string \<Rightarrow> db \<Rightarrow> deployment_evidence result" where
  "require_passed_evidence deployment_id evidence_type d =
     (case latest_by ev_occurred_at
         (filter (\<lambda>e. ev_deployment_id e = deployment_id \<and> ev_evidence_type e = evidence_type)
           (t_evidence d)) of
        None \<Rightarrow> gate (''missing_'' @ evidence_type)
      | Some e \<Rightarrow>
          if ev_status_code e \<noteq> ''passed'' then gate (''missing_'' @ evidence_type) else Inr e)"

definition require_fresh_evidence ::
  "uuid \<Rightarrow> string \<Rightarrow> int \<Rightarrow> instant \<Rightarrow> db \<Rightarrow> deployment_evidence result" where
  "require_fresh_evidence deployment_id evidence_type max_age_seconds now d =
     bindE (require_passed_evidence deployment_id evidence_type d) (\<lambda>e.
       if ev_occurred_at e + seconds max_age_seconds < now then gate (''stale_'' @ evidence_type)
       else
         bindE (if evidence_type = ''predeploy_backup'' then
             (case iso_field ''created_at'' (ev_payload e) of
                None \<Rightarrow> gate ''invalid_backup_timestamp''
              | Some (Naive _) \<Rightarrow> gate ''stale_predeploy_backup''
              | Some (Aware t) \<Rightarrow>
                  if t + seconds BACKUP_EVIDENCE_MAX_AGE_SECONDS < now
                  then gate ''stale_predeploy_backup'' else Inr ())
           else Inr ()) (\<lambda>_.
         bindE (if evidence_type = ''resource_gate'' then
             (case iso_field ''completed_at'' (ev_payload e) of
                None \<Rightarrow> gate ''invalid_resource_gate_timestamp''
              | Some (Naive _) \<Rightarrow> gate ''stale_resource_gate''
              | Some (Aware t) \<Rightarrow>
                  if t + seconds RESOURCE_EVIDENCE_MAX_AGE_SECONDS < now \<or> ev_occurred_at e \<noteq> t
                  then gate ''stale_resource_gate'' else Inr ())
           else Inr ()) (\<lambda>_. Inr e)))"

section \<open>Starting Production\<close>

record start_outcome =
  so_code :: string
  so_execution_id :: uuid
  so_fencing_token :: int

text \<open>What a start refuses: the lock and the approval it must hold, and the separation of duty.\<close>

definition lock_held :: "deployment_lock \<Rightarrow> uuid \<Rightarrow> string \<Rightarrow> int \<Rightarrow> instant \<Rightarrow> bool" where
  "lock_held l deployment_id owner fencing_token now \<longleftrightarrow>
     dl_deployment_id l = deployment_id \<and> dl_owner_identity l = owner \<and>
     dl_fencing_token l = fencing_token \<and> \<not> dl_lease_expires_at l \<le> now"

definition approval_consumable ::
  "deployment_intent \<Rightarrow> uuid \<Rightarrow> approval_request \<Rightarrow> approval_decision \<Rightarrow> instant \<Rightarrow> bool" where
  "approval_consumable intent deployment_id request decision now \<longleftrightarrow>
     q_deployment_id request = Some deployment_id \<and>
     q_artifact_digest request = Some (di_artifact_digest intent) \<and>
     \<not> q_expires_at request \<le> now \<and> \<not> d_decided_at decision \<ge> q_expires_at request \<and>
     d_decision_code decision = ''approved'' \<and> d_actor_user_id decision \<noteq> di_user_id intent"

definition deploying_state :: "deployment_intent \<Rightarrow> string" where
  "deploying_state intent =
     (if di_intent_kind intent = ''deploy'' then ''PRODUCTION_DEPLOYING'' else ''ROLLBACK_DEPLOYING'')"

definition attempt_row ::
  "deployment_intent \<Rightarrow> deployment_artifact \<Rightarrow> uuid \<Rightarrow> uuid \<Rightarrow> string \<Rightarrow> int \<Rightarrow> instant \<Rightarrow>
     deployment_execution_attempt" where
  "attempt_row intent artifact deployment_id attempt_id executor fencing_token started =
     \<lparr>ea_id = attempt_id, ea_deployment_id = deployment_id,
      ea_execution_key = ''execution-'' @ uuid_str attempt_id, ea_executor_identity = executor,
      ea_fencing_token = fencing_token,
      ea_intent_hash = calculate_intent_hash deployment_id attempt_id fencing_token
        (di_repository intent) (di_target_sha intent) (da_service_images artifact)
        (di_artifact_digest intent) (di_migration_revision intent),
      ea_created_at = started\<rparr>"

text \<open>The writes of a start, after its guards.\<close>

definition consume_and_prepare ::
  "deployment_intent \<Rightarrow> approval_request \<Rightarrow> approval_decision \<Rightarrow> uuid \<Rightarrow> string \<Rightarrow> int \<Rightarrow>
     (nat \<Rightarrow> uuid) \<Rightarrow> instant \<Rightarrow> instant \<Rightarrow> db \<Rightarrow> (start_outcome \<times> db) result" where
  "consume_and_prepare intent request decision deployment_id executor fencing_token ids started now d =
     bindE (append_state_event deployment_id (deploying_state intent)
         ''approval_consumed_and_execution_prepared''
         (di_requested_by_identity_fingerprint intent)
         [(''fencing_token'', JNum fencing_token)] now (ids 0) d) (\<lambda>(transition, d1).
     bindE (scalar_one (\<lambda>a. da_deployment_id a = deployment_id) (t_artifacts d1)) (\<lambda>artifact.
       let attempt = attempt_row intent artifact deployment_id (ids 1) executor fencing_token started in
       bindE (insert_consumption \<lparr>ac_id = ids 2, ac_deployment_id = deployment_id,
           ac_approval_request_id = q_id request, ac_approval_decision_id = d_id decision,
           ac_state_event_id = se_id transition, ac_consumed_at = now\<rparr> d1) (\<lambda>d2.
       bindE (insert_attempt attempt d2) (\<lambda>d3.
       bindE (add_evidence deployment_id ''execution_attempt'' (ea_execution_key attempt) ''recorded''
           (mk_dict [(''execution_id'', JUuid (ids 1)),
             (''executor_identity'', JStr executor),
             (''fencing_token'', JNum fencing_token),
             (''intent_hash'', JStr (ea_intent_hash attempt))]) now (ids 3) d3) (\<lambda>(_, d4).
         Inr (\<lparr>so_code = ''execution_prepared'', so_execution_id = ids 1,
           so_fencing_token = fencing_token\<rparr>, d4))))))"

definition start_production_deployment ::
  "uuid \<Rightarrow> string \<Rightarrow> int \<Rightarrow> (nat \<Rightarrow> uuid) \<Rightarrow> instant \<Rightarrow> instant \<Rightarrow> db \<Rightarrow> (start_outcome \<times> db) result" where
  "start_production_deployment deployment_id owner_identity fencing_token ids started now d =
     bindE (resolve_executor_identity owner_identity) (\<lambda>executor.
     bindE (scalar_one_or_none (\<lambda>i. di_id i = deployment_id) (t_intents d)) (\<lambda>intent_row.
     case intent_row of
       None \<Rightarrow> gate ''unknown_deployment''
     | Some intent \<Rightarrow>
       bindE (scalar_one_or_none (\<lambda>a. ea_deployment_id a = deployment_id) (t_attempts d))
         (\<lambda>existing_attempt.
       case existing_attempt of
         Some a \<Rightarrow>
           Inr (\<lparr>so_code = ''reconciliation_required'', so_execution_id = ea_id a,
             so_fencing_token = ea_fencing_token a\<rparr>, d)
       | None \<Rightarrow>
           bindE (scalar_one_or_none (\<lambda>b. ab_deployment_id b = deployment_id) (t_bindings d))
             (\<lambda>binding_row.
           case binding_row of
             None \<Rightarrow> gate ''missing_approval''
           | Some binding \<Rightarrow>
             bindE (scalar_one_or_none (\<lambda>q. q_id q = ab_approval_request_id binding) (t_requests d))
               (\<lambda>request_row.
             bindE (scalar_one_or_none (\<lambda>c. d_request_id c = ab_approval_request_id binding)
                 (t_decisions d)) (\<lambda>decision_row.
             bindE (scalar_one_or_none (\<lambda>l. dl_conflict_domain l = PRODUCTION_CONFLICT_DOMAIN)
                 (t_locks d)) (\<lambda>lock_row.
             case (request_row, decision_row, lock_row) of
               (Some request, Some decision, Some l) \<Rightarrow>
                 if \<not> lock_held l deployment_id executor fencing_token now
                 then gate ''deployment_lock_or_approval_invalid''
                 else if \<not> approval_consumable intent deployment_id request decision now
                 then gate ''approval_binding_or_separation_invalid''
                 else consume_and_prepare intent request decision deployment_id executor
                   fencing_token ids started now d
             | _ \<Rightarrow> gate ''deployment_lock_or_approval_invalid'')))))))"

section \<open>The retired execution path\<close>

text \<open>
  \<^verbatim>\<open>_load_authoritative_execution\<close> and its two callers are kept in the source under names that
  begin with \<^verbatim>\<open>_retired\<close>; the public names raise.
\<close>

datatype runtime_state =
  NOT_STARTED | IN_PROGRESS | MUTATION_COMPLETED_HEALTH_UNKNOWN | FAILED | HEALTHY | UNKNOWN

definition runtime_state_value :: "runtime_state \<Rightarrow> string" where
  "runtime_state_value s =
     (case s of NOT_STARTED \<Rightarrow> ''not_started'' | IN_PROGRESS \<Rightarrow> ''in_progress''
      | MUTATION_COMPLETED_HEALTH_UNKNOWN \<Rightarrow> ''mutation_completed_health_unknown''
      | FAILED \<Rightarrow> ''failed'' | HEALTHY \<Rightarrow> ''healthy'' | UNKNOWN \<Rightarrow> ''unknown'')"

record runtime_observation =
  ro_execution_id :: uuid
  ro_deployment_id :: uuid
  ro_fencing_token :: int
  ro_state :: runtime_state
  ro_observed_digest :: "string option"
  ro_observed_revision :: "string option"
  ro_health_checks :: checks
  ro_migration_revision :: "string option"
  ro_observed_at :: pytime

record authoritative_execution =
  ax_deployment_id :: uuid
  ax_execution_id :: uuid
  ax_executor_identity :: string
  ax_fencing_token :: int
  ax_image_reference :: string
  ax_artifact_digest :: string
  ax_target_sha :: string
  ax_services :: "string list"
  ax_expected_current_revision :: "string option"

text \<open>The rows of the deployment, all of them present.\<close>

record execution_rows =
  xr_intent :: deployment_intent
  xr_attempt :: deployment_execution_attempt
  xr_artifact :: deployment_artifact
  xr_acceptance :: staging_acceptance
  xr_binding :: deployment_approval_binding

definition load_rows :: "uuid \<Rightarrow> uuid \<Rightarrow> db \<Rightarrow> execution_rows result" where
  "load_rows deployment_id execution_id d =
     bindE (scalar_one_or_none (\<lambda>i. di_id i = deployment_id) (t_intents d)) (\<lambda>intent.
     bindE (scalar_one_or_none (\<lambda>a. ea_id a = execution_id \<and> ea_deployment_id a = deployment_id)
         (t_attempts d)) (\<lambda>attempt.
     bindE (scalar_one_or_none (\<lambda>a. da_deployment_id a = deployment_id) (t_artifacts d)) (\<lambda>artifact.
     bindE (scalar_one_or_none (\<lambda>a. sa_deployment_id a = deployment_id) (t_acceptances d))
       (\<lambda>acceptance.
     bindE (scalar_one_or_none (\<lambda>b. ab_deployment_id b = deployment_id) (t_bindings d)) (\<lambda>binding.
       if attempt = None then gate ''forged_or_stale_execution_authorization''
       else (case (intent, artifact, acceptance, binding) of
           (Some i, Some a, Some s, Some b) \<Rightarrow>
             Inr \<lparr>xr_intent = i, xr_attempt = the attempt, xr_artifact = a, xr_acceptance = s,
               xr_binding = b\<rparr>
         | _ \<Rightarrow> gate ''authoritative_execution_state_incomplete''))))))"

definition approval_valid ::
  "deployment_intent \<Rightarrow> deployment_approval_binding \<Rightarrow> approval_request \<Rightarrow> approval_decision \<Rightarrow>
     instant \<Rightarrow> bool" where
  "approval_valid intent binding request decision now \<longleftrightarrow>
     ab_repository binding = di_repository intent \<and> ab_target_sha binding = di_target_sha intent \<and>
     ab_target_environment binding = di_target_environment intent \<and>
     ab_action_code binding = di_action_code intent \<and>
     ab_artifact_digest binding = di_artifact_digest intent \<and>
     q_deployment_id request = Some (di_id intent) \<and>
     q_artifact_digest request = Some (di_artifact_digest intent) \<and>
     q_user_id request = di_user_id intent \<and> ab_requester_user_id binding = di_user_id intent \<and>
     d_decision_code decision = ''approved'' \<and> d_actor_user_id decision \<noteq> di_user_id intent \<and>
     q_expires_at request > now \<and> d_decided_at decision < q_expires_at request"

definition artifact_and_staging_match ::
  "deployment_intent \<Rightarrow> deployment_artifact \<Rightarrow> staging_acceptance \<Rightarrow> bool" where
  "artifact_and_staging_match intent artifact acceptance \<longleftrightarrow>
     da_repository artifact = di_repository intent \<and> da_target_sha artifact = di_target_sha intent \<and>
     da_digest artifact = di_artifact_digest intent \<and>
     sa_repository acceptance = di_repository intent \<and>
     sa_target_sha acceptance = di_target_sha intent \<and>
     sa_artifact_digest acceptance = da_digest artifact \<and>
     sa_config_fingerprint acceptance = di_config_fingerprint intent"

definition expected_revision :: "deployment_intent \<Rightarrow> db \<Rightarrow> string option result" where
  "expected_revision intent d =
     (if di_intent_kind intent \<noteq> ''rollback'' then Inr None
      else
        bindE (scalar_one_or_none (\<lambda>r. rb_deployment_id r = di_id intent) (t_rollbacks d)) (\<lambda>row.
          case row of
            None \<Rightarrow> gate ''rollback_target_mismatch''
          | Some r \<Rightarrow>
              if rb_rollback_target_sha r \<noteq> di_target_sha intent \<or>
                rb_rollback_artifact_digest r \<noteq> di_artifact_digest intent
              then gate ''rollback_target_mismatch''
              else Inr (Some (rb_current_production_sha r))))"

text \<open>\<open>clock 0\<close> is the reading at the start, \<open>clock 1\<close> and \<open>clock 2\<close> those for the two evidences.\<close>

definition load_authoritative_execution ::
  "uuid \<Rightarrow> uuid \<Rightarrow> string \<Rightarrow> int \<Rightarrow> (string \<Rightarrow> string \<Rightarrow> int \<Rightarrow> ci_evidence result) \<Rightarrow>
     (nat \<Rightarrow> instant) \<Rightarrow> db \<Rightarrow> (authoritative_execution \<times> deployment_intent) result" where
  "load_authoritative_execution deployment_id execution_id executor_identity fencing_token verify
     clock d =
     (let now = clock 0 in
      bindE (load_rows deployment_id execution_id d) (\<lambda>rows.
      let intent = xr_intent rows; artifact = xr_artifact rows; acceptance = xr_acceptance rows;
          binding = xr_binding rows in
      if ea_executor_identity (xr_attempt rows) \<noteq> executor_identity \<or>
        ea_fencing_token (xr_attempt rows) \<noteq> fencing_token
      then gate ''forged_or_stale_execution_authorization''
      else
        bindE (scalar_one_or_none (\<lambda>i. si_acceptance_id i = sa_id acceptance) (t_invalidations d))
          (\<lambda>invalidation.
        if invalidation \<noteq> None \<or> sa_valid_until acceptance \<le> now
        then gate ''stale_or_invalidated_staging_acceptance''
        else
          bindE (scalar_one_or_none (\<lambda>q. q_id q = ab_approval_request_id binding) (t_requests d))
            (\<lambda>request.
          bindE (scalar_one_or_none (\<lambda>c. d_request_id c = ab_approval_request_id binding)
              (t_decisions d)) (\<lambda>decision.
          bindE (scalar_one_or_none (\<lambda>c. ac_deployment_id c = deployment_id \<and>
              ac_approval_request_id c = ab_approval_request_id binding) (t_consumptions d))
            (\<lambda>consumption.
          bindE (scalar_one_or_none (\<lambda>l. dl_conflict_domain l = PRODUCTION_CONFLICT_DOMAIN)
              (t_locks d)) (\<lambda>lock.
          if request = None \<or> decision = None \<or> consumption = None \<or> lock = None
          then gate ''authoritative_execution_state_incomplete''
          else if \<not> approval_valid intent binding (the request) (the decision) now
          then gate ''approval_binding_or_separation_invalid''
          else
            bindE (resolve_human_identity (di_user_id intent) d) (\<lambda>requester.
            bindE (resolve_human_identity (d_actor_user_id (the decision)) d) (\<lambda>approver.
            if ab_requester_identity_fingerprint binding \<noteq> human_fingerprint requester \<or>
              approver = requester
            then gate ''canonical_identity_validation_failed''
            else
              bindE (validate_immutable_artifact (da_digest artifact) (da_image_reference artifact))
                (\<lambda>_.
              if \<not> artifact_and_staging_match intent artifact acceptance
              then gate ''authoritative_artifact_or_staging_mismatch''
              else
                bindE (verify (di_repository intent) (di_target_sha intent) (da_ci_run_id artifact))
                  (\<lambda>verified.
                if \<not> valid_verified_ci verified (di_repository intent) (di_target_sha intent)
                    (da_ci_run_id artifact) \<or>
                  ci_verified_at verified + seconds CI_EVIDENCE_MAX_AGE_SECONDS < now \<or>
                  da_ci_repository artifact \<noteq> ci_repository verified \<or>
                  da_ci_workflow_name artifact \<noteq> ci_workflow_name verified
                then gate ''stale_or_inauthentic_ci_evidence''
                else
                  bindE (validate_service_set (di_service_set intent)) (\<lambda>services.
                  if services \<noteq> di_service_set intent then gate ''service_set_not_canonical''
                  else
                    bindE (risk_of_value (di_migration_risk intent)) (\<lambda>risk.
                    bindE (validate_migration_plan risk (di_migration_revision intent)
                        (di_rollback_runbook_ref intent)) (\<lambda>_.
                    bindE (require_fresh_evidence deployment_id ''predeploy_backup''
                        BACKUP_EVIDENCE_MAX_AGE_SECONDS (clock 1) d) (\<lambda>_.
                    bindE (require_fresh_evidence deployment_id ''resource_gate''
                        RESOURCE_EVIDENCE_MAX_AGE_SECONDS (clock 2) d) (\<lambda>_.
                    if dl_deployment_id (the lock) \<noteq> deployment_id \<or>
                      dl_owner_identity (the lock) \<noteq> executor_identity \<or>
                      dl_fencing_token (the lock) \<noteq> fencing_token \<or>
                      dl_lease_expires_at (the lock) \<le> now
                    then gate ''stale_or_incorrect_fencing_token''
                    else
                      bindE (expected_revision intent d) (\<lambda>revision.
                      Inr (\<lparr>ax_deployment_id = deployment_id, ax_execution_id = execution_id,
                          ax_executor_identity = executor_identity,
                          ax_fencing_token = fencing_token,
                          ax_image_reference = da_image_reference artifact,
                          ax_artifact_digest = da_digest artifact,
                          ax_target_sha = di_target_sha intent, ax_services = services,
                          ax_expected_current_revision = revision\<rparr>, intent))))))))))))))))))"

definition retired_prepare_authoritative_mutation ::
  "uuid \<Rightarrow> uuid \<Rightarrow> string \<Rightarrow> int \<Rightarrow> (string \<Rightarrow> string \<Rightarrow> int \<Rightarrow> ci_evidence result) \<Rightarrow>
     (uuid \<Rightarrow> uuid \<Rightarrow> int \<Rightarrow> runtime_observation result) \<Rightarrow> (nat \<Rightarrow> uuid) \<Rightarrow> (nat \<Rightarrow> instant) \<Rightarrow> db \<Rightarrow>
     (authoritative_execution \<times> db) result" where
  "retired_prepare_authoritative_mutation deployment_id execution_id executor_identity
     fencing_token verify observe ids clock d =
     bindE (load_authoritative_execution deployment_id execution_id executor_identity fencing_token
         verify clock d) (\<lambda>(execution, intent).
     bindE (scalar_one_or_none (\<lambda>e. ev_deployment_id e = deployment_id \<and>
         ev_evidence_type e = ''mutation_started'') (t_evidence d)) (\<lambda>existing_started.
     bindE (observe deployment_id execution_id fencing_token) (\<lambda>observation.
       if ro_deployment_id observation \<noteq> deployment_id \<or>
         ro_execution_id observation \<noteq> execution_id \<or>
         ro_fencing_token observation \<noteq> fencing_token
       then gate ''runtime_observation_identity_mismatch''
       else if existing_started \<noteq> None \<or> ro_state observation \<noteq> NOT_STARTED
       then gate ''execution_reconciliation_required''
       else if di_intent_kind intent = ''rollback'' \<and>
         ro_observed_revision observation \<noteq> ax_expected_current_revision execution
       then gate ''rollback_current_revision_mismatch''
       else
         bindE (add_evidence deployment_id ''mutation_started''
             (''mutation-'' @ uuid_str execution_id) ''recorded''
             (mk_dict [(''execution_id'', JUuid execution_id),
               (''fencing_token'', JNum fencing_token),
               (''runtime_state'', JStr (runtime_state_value (ro_state observation)))])
             (clock 3) (ids 0) d) (\<lambda>(_, d'). Inr (execution, d')))))"

definition opt_str :: "string option \<Rightarrow> json" where
  "opt_str x = (case x of None \<Rightarrow> JNull | Some s \<Rightarrow> JStr s)"

definition retired_reconcile_authoritative_execution ::
  "uuid \<Rightarrow> uuid \<Rightarrow> string \<Rightarrow> int \<Rightarrow> (string \<Rightarrow> string \<Rightarrow> int \<Rightarrow> ci_evidence result) \<Rightarrow>
     (uuid \<Rightarrow> uuid \<Rightarrow> int \<Rightarrow> runtime_observation result) \<Rightarrow> string \<Rightarrow> (nat \<Rightarrow> uuid) \<Rightarrow>
     (nat \<Rightarrow> instant) \<Rightarrow> db \<Rightarrow> (string \<times> db) result" where
  "retired_reconcile_authoritative_execution deployment_id execution_id executor_identity
     fencing_token verify observe evidence_key ids clock d =
     bindE (load_authoritative_execution deployment_id execution_id executor_identity fencing_token
         verify clock d) (\<lambda>(execution, intent).
     bindE (observe deployment_id execution_id fencing_token) (\<lambda>observation.
       let state = ro_state observation in
       if state \<in> {NOT_STARTED, IN_PROGRESS, MUTATION_COMPLETED_HEALTH_UNKNOWN, UNKNOWN}
       then
         bindE (add_evidence deployment_id ''interruption_reconciliation'' evidence_key
             (if state \<noteq> UNKNOWN then ''pending'' else ''failed'')
             (mk_dict [(''execution_id'', JUuid execution_id),
               (''runtime_state'', JStr (runtime_state_value state)),
               (''observed_at'', JTime (ro_observed_at observation))]) (clock 3) (ids 0) d)
           (\<lambda>(_, d'). Inr (runtime_state_value state, d'))
       else
         let succeeded = (state = HEALTHY \<and>
               ro_observed_digest observation = Some (ax_artifact_digest execution) \<and>
               ro_observed_revision observation = Some (di_target_sha intent) \<and>
               (di_migration_revision intent = None \<or>
                ro_migration_revision observation = di_migration_revision intent) \<and>
               health_checks_are_complete (ax_services execution) (ro_health_checks observation));
             final_state =
               (if di_intent_kind intent = ''deploy'' \<and> succeeded then ''PRODUCTION_HEALTHY''
                else if di_intent_kind intent = ''rollback'' \<and> succeeded then ''ROLLED_BACK''
                else if di_intent_kind intent = ''deploy'' then ''PRODUCTION_FAILED''
                else ''ROLLBACK_FAILED'') in
         bindE (add_evidence deployment_id ''interruption_reconciliation'' evidence_key
             (if succeeded then ''passed'' else ''failed'')
             (mk_dict [(''execution_id'', JUuid execution_id),
               (''runtime_state'', JStr (runtime_state_value state)),
               (''observed_digest'', opt_str (ro_observed_digest observation)),
               (''observed_revision'', opt_str (ro_observed_revision observation)),
               (''health_checks'',
                 JObj (mk_dict (map (\<lambda>(k, v). (k, JBool v)) (ro_health_checks observation)))),
               (''migration_revision'', opt_str (ro_migration_revision observation)),
               (''observed_at'', JTime (ro_observed_at observation))]) (clock 3) (ids 0) d)
           (\<lambda>(_, d1).
         bindE (append_state_event deployment_id final_state ''runtime_reconciled''
             (di_requested_by_identity_fingerprint intent)
             (mk_dict [(''execution_id'', JUuid execution_id), (''succeeded'', JBool succeeded)])
             (clock 3) (ids 1) d1) (\<lambda>(_, d2). Inr (final_state, d2)))))"

section \<open>Entry points that only raise\<close>

definition prepare_authoritative_mutation :: "uuid \<Rightarrow> uuid \<Rightarrow> db \<Rightarrow> (unit \<times> db) result" where
  "prepare_authoritative_mutation deployment_id execution_id d = gate ''host_supervisor_required''"

definition reconcile_authoritative_execution :: "uuid \<Rightarrow> uuid \<Rightarrow> db \<Rightarrow> (string \<times> db) result" where
  "reconcile_authoritative_execution deployment_id execution_id d =
     gate ''host_supervisor_required''"

definition complete_production_execution :: "db \<Rightarrow> (string \<times> db) result" where
  "complete_production_execution d = gate ''caller_supplied_runtime_result_forbidden''"

definition execute_validated_deployment :: "db \<Rightarrow> (string \<times> db) result" where
  "execute_validated_deployment d = gate ''caller_constructed_execution_forbidden''"

definition reconcile_interrupted_execution :: "db \<Rightarrow> (string \<times> db) result" where
  "reconcile_interrupted_execution d = gate ''caller_supplied_runtime_result_forbidden''"

end
