(* ===== verification/Snapshot.thy ===== *)
theory Snapshot
  imports Deployment
begin

text \<open>
  The values that pass between the supervisor and its runtime
  (\<^verbatim>\<open>app/services/production_supervisor.py\<close>): the attempt, what the runtime observed of the
  containers, with its stable fingerprint, and the outcome of a health cycle.
\<close>

section \<open>What Docker prints\<close>

text \<open>
  What \<open>json.loads\<close> makes of the JSON that a command printed. \<open>DFloat m e\<close> is the number
  $m \cdot 10^e$ as it was written, which Python rounds to a double; \<open>DSpecial\<close> is \<open>NaN\<close> or an
  infinity. The keys of an object are distinct.
\<close>

datatype dvalue =
    DNull
  | DBool bool
  | DInt int
  | DFloat int int
  | DSpecial string
  | DStr string
  | DList "dvalue list"
  | DObj "(string \<times> dvalue) list"

text \<open>\<open>v.get(k, fallback)\<close>: anything but an object has no method \<open>get\<close>.\<close>

definition dget :: "string \<Rightarrow> dvalue \<Rightarrow> dvalue \<Rightarrow> dvalue result" where
  "dget k fallback v =
     (case v of
        DObj kvs \<Rightarrow> Inr (case map_of kvs k of None \<Rightarrow> fallback | Some x \<Rightarrow> x)
      | _ \<Rightarrow> Inl (OtherException ''AttributeError''))"

text \<open>The value at a path of keys; \<open>None\<close> when there is none.\<close>

fun at_path :: "string list \<Rightarrow> dvalue \<Rightarrow> dvalue option" where
  "at_path [] v = Some v"
| "at_path (k # ks) v =
     (case v of DObj kvs \<Rightarrow> Option.bind (map_of kvs k) (at_path ks) | _ \<Rightarrow> None)"

declare at_path.simps [simp del]

abbreviation empty_obj :: dvalue where
  "empty_obj \<equiv> DObj []"

text \<open>\<open>json.dumps(v, sort_keys=True, separators=(",", ":"))\<close>.\<close>

fun dvalue_text :: "dvalue \<Rightarrow> string" where
  "dvalue_text DNull = ''null''"
| "dvalue_text (DBool b) = (if b then ''true'' else ''false'')"
| "dvalue_text (DInt i) = int_str i"
| "dvalue_text (DFloat m e) = int_str m @ ''e'' @ int_str e"
| "dvalue_text (DSpecial t) = t"
| "dvalue_text (DStr s) = json_string s"
| "dvalue_text (DList vs) = ''['' @ join '','' (map dvalue_text vs) @ '']''"
| "dvalue_text (DObj kvs) = json_object (map (\<lambda>(k, v). (k, dvalue_text v)) kvs)"

section \<open>The attempt\<close>

record supervisor_attempt =
  at_deployment_id :: uuid
  at_execution_attempt_id :: uuid
  at_fencing_epoch :: int
  at_repository :: string
  at_target_sha :: string
  at_intent_hash :: string
  at_service_images :: "(string \<times> string) list"
  at_artifact_digest :: string
  at_expected_migration_revision :: "string option"
  at_staging_accepted_at :: instant

section \<open>Snapshots\<close>

record runtime_snapshot =
  rs_state :: runtime_state
  rs_deployment_id :: "uuid option"
  rs_execution_attempt_id :: "uuid option"
  rs_fencing_epoch :: "int option"
  rs_intent_hash :: "string option"
  rs_containers :: "(string \<times> dvalue) list"
  rs_docker_event_cursor :: "instant option"
  rs_docker_client_active :: bool
  rs_transitional :: bool
  rs_observed_at :: instant

text \<open>\<open>{key: value for key, value in labels.items() if key.startswith("com.maoxx.")}\<close>\<close>

definition own_labels :: "dvalue \<Rightarrow> dvalue result" where
  "own_labels labels =
     (case labels of
        DObj kvs \<Rightarrow> Inr (DObj (filter (\<lambda>(k, _). starts_with ''com.maoxx.'' k) kvs))
      | _ \<Rightarrow> Inl (OtherException ''AttributeError''))"

text \<open>The fields of a container that do not change while nothing happens to it.\<close>

definition stable_container :: "dvalue \<Rightarrow> dvalue result" where
  "stable_container detail =
     bindE (dget ''State'' empty_obj detail) (\<lambda>state.
     bindE (dget ''Running'' DNull state) (\<lambda>running.
     bindE (dget ''Status'' DNull state) (\<lambda>status.
     bindE (dget ''ExitCode'' DNull state) (\<lambda>exit_code.
     bindE (dget ''OOMKilled'' DNull state) (\<lambda>oom_killed.
     bindE (dget ''RestartCount'' DNull detail) (\<lambda>restart_count.
     bindE (dget ''Health'' empty_obj state) (\<lambda>health.
     bindE (dget ''Status'' DNull health) (\<lambda>health_status.
     bindE (dget ''Config'' empty_obj detail) (\<lambda>config.
     bindE (dget ''Image'' DNull config) (\<lambda>img.
     bindE (dget ''Labels'' empty_obj config) (\<lambda>all_labels.
     bindE (own_labels all_labels) (\<lambda>labels.
       Inr (DObj [(''running'', running), (''status'', status), (''exit_code'', exit_code),
         (''oom_killed'', oom_killed), (''restart_count'', restart_count),
         (''health_status'', health_status), (''image'', img), (''labels'', labels)])))))))))))))"

fun stable_containers :: "(string \<times> dvalue) list \<Rightarrow> (string \<times> dvalue) list result" where
  "stable_containers [] = Inr []"
| "stable_containers ((service, detail) # rest) =
     bindE (stable_container detail) (\<lambda>c.
     bindE (stable_containers rest) (\<lambda>cs. Inr ((service, c) # cs)))"

definition opt_uuid_str :: "uuid option \<Rightarrow> string" where
  "opt_uuid_str u = (case u of None \<Rightarrow> ''None'' | Some v \<Rightarrow> uuid_str v)"

definition stable_view :: "runtime_snapshot \<Rightarrow> dvalue result" where
  "stable_view s =
     bindE (stable_containers (rs_containers s)) (\<lambda>containers.
       Inr (DObj [(''state'', DStr (runtime_state_value (rs_state s))),
         (''deployment_id'', DStr (opt_uuid_str (rs_deployment_id s))),
         (''execution_attempt_id'', DStr (opt_uuid_str (rs_execution_attempt_id s))),
         (''fencing_epoch'', case rs_fencing_epoch s of None \<Rightarrow> DNull | Some n \<Rightarrow> DInt n),
         (''intent_hash'', case rs_intent_hash s of None \<Rightarrow> DNull | Some h \<Rightarrow> DStr h),
         (''containers'', DObj containers),
         (''transitional'', DBool (rs_transitional s))]))"

definition stable_fingerprint :: "runtime_snapshot \<Rightarrow> string result" where
  "stable_fingerprint s = bindE (stable_view s) (\<lambda>v. Inr (sha256_hexdigest (dvalue_text v)))"

section \<open>Health\<close>

record health_cycle =
  hc_checks :: checks
  hc_observed_digest :: string
  hc_observed_sha :: string
  hc_migration_revision :: "string option"
  hc_completed_at :: instant
  hc_restart_counts :: "(string \<times> int) list"

text \<open>What \<^verbatim>\<open>_health_locked\<close> asks of a cycle.\<close>

definition cycle_passed :: "supervisor_attempt \<Rightarrow> instant \<Rightarrow> health_cycle \<Rightarrow> bool" where
  "cycle_passed attempt deadline cycle \<longleftrightarrow>
     set (map fst (hc_checks cycle)) = required_health_checks (map fst (at_service_images attempt)) \<and>
     list_all snd (hc_checks cycle) \<and>
     hc_observed_digest cycle = at_artifact_digest attempt \<and>
     hc_observed_sha cycle = at_target_sha attempt \<and>
     (at_expected_migration_revision attempt = None \<or>
      hc_migration_revision cycle = at_expected_migration_revision attempt) \<and>
     hc_completed_at cycle \<le> deadline"

end
