(* ===== verification/Resources.thy ===== *)
theory Resources
  imports Policy
begin

text \<open>
  \<^verbatim>\<open>app/services/resource_authority.py\<close>: the collector that samples the host seven times before
  a mutation. What it reads (\<^verbatim>\<open>/proc/meminfo\<close>, \<^verbatim>\<open>docker info\<close>, the disks, the clocks) is an input.
  A reading of the monotonic clock is a number of nanoseconds; the rounding of the float that holds
  it is not modelled.
\<close>

section \<open>What a sample reads\<close>

record command_result =
  cr_returncode :: int
  cr_stdout :: string

record sample_input =
  in_meminfo :: "string list option"
  in_docker :: "command_result result"
  in_now :: instant
  in_monotonic :: int
  in_root_free :: "int result"
  in_docker_free :: "string \<Rightarrow> int result"

record trusted_resource_sample =
  ts_resource_check_id :: uuid
  ts_deployment_id :: uuid
  ts_environment :: string
  ts_host_checkpoint :: string
  ts_checkpoint_nonce :: uuid
  ts_captured_at :: instant
  ts_monotonic :: int
  ts_mem_available_bytes :: int
  ts_swap_free_bytes :: int
  ts_root_free_bytes :: int
  ts_docker_free_bytes :: int

record trusted_resource_result =
  tr_resource_check_id :: uuid
  tr_deployment_id :: uuid
  tr_checkpoint_nonce :: uuid
  tr_samples :: "trusted_resource_sample list"
  tr_evaluated_at :: instant
  tr_passed :: bool
  tr_median_mem_available_bytes :: int
  tr_minimum_mem_available_bytes :: int
  tr_minimum_swap_free_bytes :: int
  tr_minimum_root_free_bytes :: int
  tr_minimum_docker_free_bytes :: int

definition authority :: "string \<Rightarrow> 'a result" where
  "authority code = Inl (ResourceAuthorityError code)"

lemma authority_simps [simp]: "authority c \<noteq> Inr x" "Inr x \<noteq> authority c" "bindE (authority c) k = authority c"
  by (simp_all add: authority_def)

section \<open>Reading the memory\<close>

definition ascii_space :: "char \<Rightarrow> bool" where
  "ascii_space c \<longleftrightarrow> c \<in> {CHR 0x09, CHR 0x0A, CHR 0x0B, CHR 0x0C, CHR 0x0D, CHR 0x1C, CHR 0x1D, CHR 0x1E,
     CHR 0x1F, CHR 0x20}"

text \<open>\<open>str.split()\<close>: the maximal runs of characters that are not white space.\<close>

fun words_of :: "string \<Rightarrow> string \<Rightarrow> string list" where
  "words_of w [] = (if w = [] then [] else [rev w])"
| "words_of w (c # s) =
     (if ascii_space c then (if w = [] then [] else [rev w]) @ words_of [] s else words_of (c # w) s)"

definition py_split :: "string \<Rightarrow> string list" where
  "py_split s = words_of [] s"

definition is_digit :: "char \<Rightarrow> bool" where
  "is_digit c \<longleftrightarrow> c \<in> set ''0123456789''"

definition digit_value :: "char \<Rightarrow> int" where
  "digit_value c = int (of_char c) - 48"

text \<open>\<open>int(s)\<close> in ASCII: a sign, then digits, with single underscores between digits.\<close>

fun digits_value :: "bool \<Rightarrow> int \<Rightarrow> string \<Rightarrow> int option" where
  "digits_value after_digit v [] = (if after_digit then Some v else None)"
| "digits_value after_digit v (c # s) =
     (if is_digit c then digits_value True (10 * v + digit_value c) s
      else if c = CHR ''_'' \<and> after_digit then digits_value False v s
      else None)"

definition py_int :: "string \<Rightarrow> int option" where
  "py_int s =
     (case s of
        c # t \<Rightarrow>
          if c = CHR ''-'' then map_option uminus (digits_value False 0 t)
          else if c = CHR ''+'' then digits_value False 0 t
          else digits_value False 0 s
      | [] \<Rightarrow> None)"

text \<open>One line of \<^verbatim>\<open>/proc/meminfo\<close>; \<open>found\<close> is the dictionary so far.\<close>

definition meminfo_line :: "string \<Rightarrow> (string \<rightharpoonup> int) \<Rightarrow> (string \<rightharpoonup> int) result" where
  "meminfo_line line found =
     (let name = takeWhile (\<lambda>c. c \<noteq> CHR '':'') line; rest = dropWhile (\<lambda>c. c \<noteq> CHR '':'') line in
      if rest = [] then authority ''malformed_meminfo''
      else if name \<notin> {''MemAvailable'', ''SwapFree''} then Inr found
      else
        let parts = py_split (tl rest) in
        if length parts \<noteq> 2 \<or> parts ! 1 \<noteq> ''kB'' then authority ''malformed_meminfo''
        else (case py_int (parts ! 0) of
            None \<Rightarrow> authority ''malformed_meminfo''
          | Some v \<Rightarrow> Inr (found(name \<mapsto> v * 1024))))"

fun meminfo_fields :: "string list \<Rightarrow> (string \<rightharpoonup> int) \<Rightarrow> (string \<rightharpoonup> int) result" where
  "meminfo_fields [] found = Inr found"
| "meminfo_fields (line # rest) found =
     bindE (meminfo_line line found) (\<lambda>found'. meminfo_fields rest found')"

section \<open>Sampling\<close>

definition ascii_strip :: "string \<Rightarrow> string" where
  "ascii_strip s = rev (dropWhile ascii_space (rev (dropWhile ascii_space s)))"

definition take_sample ::
  "uuid \<Rightarrow> uuid \<Rightarrow> uuid \<Rightarrow> string \<Rightarrow> sample_input \<Rightarrow> trusted_resource_sample result" where
  "take_sample check_id deployment_id nonce checkpoint input =
     bindE (case in_meminfo input of
         None \<Rightarrow> authority ''malformed_meminfo''
       | Some lines \<Rightarrow> meminfo_fields lines Map.empty) (\<lambda>found.
     bindE (in_docker input) (\<lambda>docker.
       let docker_root = ascii_strip (cr_stdout docker) in
       case (found ''MemAvailable'', found ''SwapFree'') of
         (Some mem, Some swap) \<Rightarrow>
           if cr_returncode docker \<noteq> 0 \<or> docker_root = []
           then authority ''resource_metric_unavailable''
           else
             bindE (in_root_free input) (\<lambda>root_free.
             bindE (in_docker_free input docker_root) (\<lambda>docker_free.
               Inr \<lparr>ts_resource_check_id = check_id, ts_deployment_id = deployment_id,
                 ts_environment = ''production'', ts_host_checkpoint = checkpoint,
                 ts_checkpoint_nonce = nonce, ts_captured_at = in_now input,
                 ts_monotonic = in_monotonic input, ts_mem_available_bytes = mem,
                 ts_swap_free_bytes = swap, ts_root_free_bytes = root_free,
                 ts_docker_free_bytes = docker_free\<rparr>))
       | _ \<Rightarrow> authority ''resource_metric_unavailable''))"

fun take_samples ::
  "uuid \<Rightarrow> uuid \<Rightarrow> uuid \<Rightarrow> string \<Rightarrow> sample_input list \<Rightarrow> trusted_resource_sample list result" where
  "take_samples check_id deployment_id nonce checkpoint [] = Inr []"
| "take_samples check_id deployment_id nonce checkpoint (i # is) =
     bindE (take_sample check_id deployment_id nonce checkpoint i) (\<lambda>s.
     bindE (take_samples check_id deployment_id nonce checkpoint is) (\<lambda>ss. Inr (s # ss)))"

section \<open>Evaluating the samples\<close>

definition sample_identity ::
  "trusted_resource_sample \<Rightarrow> uuid \<times> uuid \<times> string \<times> string \<times> uuid" where
  "sample_identity s = (ts_resource_check_id s, ts_deployment_id s, ts_environment s,
     ts_host_checkpoint s, ts_checkpoint_nonce s)"

definition nanoseconds :: "int \<Rightarrow> int" where
  "nanoseconds n = n * 1000000000"

definition MEM_MEDIAN_MIN :: int where "MEM_MEDIAN_MIN = 1073741824"
definition MEM_SAMPLE_MIN :: int where "MEM_SAMPLE_MIN = 1006632960"
definition SWAP_SAMPLE_MIN :: int where "SWAP_SAMPLE_MIN = 1342177280"
definition DISK_SAMPLE_MIN :: int where "DISK_SAMPLE_MIN = 5 * 1024 ^ 3"

definition least :: "int list \<Rightarrow> int" where
  "least xs = fold min (tl xs) (hd xs)"

definition evaluate ::
  "trusted_resource_sample list \<Rightarrow> instant \<Rightarrow> trusted_resource_result result" where
  "evaluate samples now =
     (if length samples \<noteq> 7 then authority ''resource_sample_count''
      else
        let intervals = map (\<lambda>k. ts_monotonic (samples ! k) - ts_monotonic (samples ! (k - 1))) [1..<7];
            span = ts_monotonic (last samples) - ts_monotonic (samples ! 0) in
        if card (set (map sample_identity samples)) \<noteq> 1 \<or>
          list_ex (\<lambda>v. \<not> (nanoseconds 4 \<le> v \<and> v \<le> nanoseconds 6)) intervals \<or>
          \<not> (nanoseconds 27 \<le> span \<and> span \<le> nanoseconds 33)
        then authority ''resource_cadence_or_binding''
        else
          let med = sort (map ts_mem_available_bytes samples) ! 3;
              min_mem = least (map ts_mem_available_bytes samples);
              min_swap = least (map ts_swap_free_bytes samples);
              min_root = least (map ts_root_free_bytes samples);
              min_docker = least (map ts_docker_free_bytes samples);
              first = samples ! 0 in
          Inr \<lparr>tr_resource_check_id = ts_resource_check_id first,
            tr_deployment_id = ts_deployment_id first,
            tr_checkpoint_nonce = ts_checkpoint_nonce first, tr_samples = samples,
            tr_evaluated_at = now,
            tr_passed = (med \<ge> MEM_MEDIAN_MIN \<and> min_mem \<ge> MEM_SAMPLE_MIN \<and>
              min_swap \<ge> SWAP_SAMPLE_MIN \<and> min_root \<ge> DISK_SAMPLE_MIN \<and>
              min_docker \<ge> DISK_SAMPLE_MIN),
            tr_median_mem_available_bytes = med, tr_minimum_mem_available_bytes = min_mem,
            tr_minimum_swap_free_bytes = min_swap, tr_minimum_root_free_bytes = min_root,
            tr_minimum_docker_free_bytes = min_docker\<rparr>)"

text \<open>\<open>collect\<close> draws a check identifier and a nonce, samples seven times and evaluates.\<close>

definition collect ::
  "uuid \<Rightarrow> uuid \<Rightarrow> uuid \<Rightarrow> string \<Rightarrow> (nat \<Rightarrow> sample_input) \<Rightarrow> instant \<Rightarrow>
     trusted_resource_result result" where
  "collect deployment_id check_id nonce hostname inputs now =
     bindE (take_samples check_id deployment_id nonce (hostname @ '':pre-mutation'')
         (map inputs [0..<7])) (\<lambda>samples. evaluate samples now)"

definition require_fresh :: "trusted_resource_result \<Rightarrow> instant \<Rightarrow> unit result" where
  "require_fresh r now =
     (if \<not> tr_passed r \<or> now - ts_captured_at (last (tr_samples r)) > seconds 15 \<or>
        now - tr_evaluated_at r > seconds 30
      then authority ''resource_evidence_stale_or_failed'' else Inr ())"

section \<open>What a passing result says\<close>

lemma least_ge: "xs \<noteq> [] \<Longrightarrow> c \<le> least xs \<longleftrightarrow> (\<forall>x \<in> set xs. c \<le> x)"
proof -
  have "c \<le> fold min ys y \<longleftrightarrow> c \<le> y \<and> (\<forall>x \<in> set ys. c \<le> x)" for ys y
    by (induction ys arbitrary: y) auto
  then show "xs \<noteq> [] \<Longrightarrow> ?thesis" by (cases xs) (auto simp: least_def)
qed

lemma take_samples_identity:
  "take_samples c dep n cp is = Inr ss \<Longrightarrow>
     length ss = length is \<and> list_all (\<lambda>s. sample_identity s = (c, dep, ''production'', cp, n)) ss"
proof (induction "is" arbitrary: ss)
  case (Cons i "is")
  then obtain s ss' where s: "take_sample c dep n cp i = Inr s" "take_samples c dep n cp is = Inr ss'"
    "ss = s # ss'" by (auto simp: bindE_eq_Inr)
  have "sample_identity s = (c, dep, ''production'', cp, n)"
    using s(1) by (auto simp: take_sample_def Let_def branch_simps sample_identity_def)
  with Cons.IH [OF s(2)] s(3) show ?case by simp
qed simp

definition above :: "trusted_resource_sample \<Rightarrow> bool" where
  "above s \<longleftrightarrow> MEM_SAMPLE_MIN \<le> ts_mem_available_bytes s \<and> SWAP_SAMPLE_MIN \<le> ts_swap_free_bytes s \<and>
     DISK_SAMPLE_MIN \<le> ts_root_free_bytes s \<and> DISK_SAMPLE_MIN \<le> ts_docker_free_bytes s"

lemma evaluate_passed:
  assumes "evaluate samples now = Inr r"
  shows "tr_passed r \<longleftrightarrow> list_all above samples \<and>
    4 \<le> length (filter (\<lambda>s. MEM_MEDIAN_MIN \<le> ts_mem_available_bytes s) samples)"
proof -
  from assms have len: "length samples = 7"
    and p: "tr_passed r \<longleftrightarrow> MEM_MEDIAN_MIN \<le> sort (map ts_mem_available_bytes samples) ! 3 \<and>
      MEM_SAMPLE_MIN \<le> least (map ts_mem_available_bytes samples) \<and>
      SWAP_SAMPLE_MIN \<le> least (map ts_swap_free_bytes samples) \<and>
      DISK_SAMPLE_MIN \<le> least (map ts_root_free_bytes samples) \<and>
      DISK_SAMPLE_MIN \<le> least (map ts_docker_free_bytes samples)"
    by (auto simp: evaluate_def Let_def split: if_splits)
  have "samples \<noteq> []" using len by auto
  have "MEM_MEDIAN_MIN \<le> sort (map ts_mem_available_bytes samples) ! 3 \<longleftrightarrow>
      4 \<le> length (filter (\<lambda>s. MEM_MEDIAN_MIN \<le> ts_mem_available_bytes s) samples)"
    using sorted_nth_ge [of "sort (map ts_mem_available_bytes samples)" 3 MEM_MEDIAN_MIN] len
    by (simp add: filter_sort_length filter_map o_def)
  with p \<open>samples \<noteq> []\<close> show ?thesis
    by (auto simp: least_ge list_all_iff above_def)
qed

section \<open>Properties\<close>

text \<open>C31. Resource evidence that the collector returns and that is fresh rests on seven samples of
  one check of this deployment, taken four to six seconds apart, none below a floor and at least
  four with a gibibyte of memory, the last at most fifteen seconds old.\<close>

theorem collected_resources_sound:
  assumes "collect deployment_id check_id nonce hostname inputs evaluated = Inr r"
    and "require_fresh r now = Inr ()"
  shows "length (tr_samples r) = 7 \<and>
     list_all (\<lambda>s. ts_deployment_id s = deployment_id \<and> ts_checkpoint_nonce s = nonce) (tr_samples r) \<and>
     list_all above (tr_samples r) \<and>
     4 \<le> length (filter (\<lambda>s. MEM_MEDIAN_MIN \<le> ts_mem_available_bytes s) (tr_samples r)) \<and>
     (\<forall>k < 6. nanoseconds 4 \<le> ts_monotonic (tr_samples r ! Suc k) - ts_monotonic (tr_samples r ! k) \<and>
        ts_monotonic (tr_samples r ! Suc k) - ts_monotonic (tr_samples r ! k) \<le> nanoseconds 6) \<and>
     now - ts_captured_at (last (tr_samples r)) \<le> seconds 15 \<and>
     tr_deployment_id r = deployment_id \<and> tr_checkpoint_nonce r = nonce"
proof -
  from assms(1) obtain samples where s: "take_samples check_id deployment_id nonce
      (hostname @ '':pre-mutation'') (map inputs [0..<7]) = Inr samples"
    and ev: "evaluate samples evaluated = Inr r"
    by (auto simp: collect_def bindE_eq_Inr)
  note ident = take_samples_identity [OF s]
  have r: "tr_samples r = samples" "tr_deployment_id r = ts_deployment_id (samples ! 0)"
    "tr_checkpoint_nonce r = ts_checkpoint_nonce (samples ! 0)"
    and cadence: "\<forall>v \<in> set (map (\<lambda>k. ts_monotonic (samples ! k) - ts_monotonic (samples ! (k - 1))) [1..<7]).
      nanoseconds 4 \<le> v \<and> v \<le> nanoseconds 6"
    using ev by (auto simp: evaluate_def Let_def list_ex_iff split: if_splits)
  have "nanoseconds 4 \<le> ts_monotonic (samples ! Suc k) - ts_monotonic (samples ! k) \<and>
      ts_monotonic (samples ! Suc k) - ts_monotonic (samples ! k) \<le> nanoseconds 6" if "k < 6" for k
    using cadence that by (auto dest!: bspec [of _ _ "Suc k"])
  moreover have "tr_passed r" "now - ts_captured_at (last samples) \<le> seconds 15"
    using assms(2) r by (auto simp: require_fresh_def split: if_splits)
  ultimately show ?thesis
    using ident r evaluate_passed [OF ev] by (auto simp: list_all_iff sample_identity_def)
qed

definition example_inputs :: "nat \<Rightarrow> sample_input" where
  "example_inputs k = \<lparr>in_meminfo = Some [''MemTotal: 9 kB'', ''MemAvailable: 2097152 kB'',
       ''SwapFree: 2097152 kB''],
     in_docker = Inr \<lparr>cr_returncode = 0, cr_stdout = ''/var/lib/docker''\<rparr>, in_now = seconds (5 * int k),
     in_monotonic = nanoseconds (5 * int k), in_root_free = Inr (6 * 1024 ^ 3),
     in_docker_free = (\<lambda>_. Inr (6 * 1024 ^ 3))\<rparr>"

lemma example_collected:
  "case collect 1 2 3 ''host'' example_inputs (seconds 30) of Inl _ \<Rightarrow> False
   | Inr r \<Rightarrow> require_fresh r (seconds 31) = Inr ()"
  by code_simp

lemma collected_resources_sound_witness:
  "\<exists>r. collect 1 2 3 ''host'' example_inputs (seconds 30) = Inr r \<and> list_all above (tr_samples r)"
proof -
  obtain r where "collect 1 2 3 ''host'' example_inputs (seconds 30) = Inr r"
    "require_fresh r (seconds 31) = Inr ()"
    using example_collected by (auto split: sum.splits)
  then show ?thesis using collected_resources_sound by blast
qed

end
