(* ===== verification/Json.thy ===== *)
theory Json
  imports Snapshot Resources
begin

text \<open>
  \<open>json.loads\<close> of Python's standard library, on the UTF-8 bytes of a text: the grammar of RFC 8259
  with Python's extensions \<open>NaN\<close>, \<open>Infinity\<close> and \<open>-Infinity\<close>, the last of several values of a key,
  and an error for a control character in a string or anything after the value. Python's limits on
  the nesting and on the digits of an integer are not modelled.
\<close>

section \<open>Tokens\<close>

definition json_space :: "char \<Rightarrow> bool" where
  "json_space c \<longleftrightarrow> c \<in> {CHR 0x20, CHR 0x09, CHR 0x0A, CHR 0x0D}"

definition skip_space :: "string \<Rightarrow> string" where
  "skip_space s = dropWhile json_space s"

lemma length_skip_space: "length (skip_space s) \<le> length s"
  by (simp add: skip_space_def length_dropWhile_le)

definition hex_digit_of :: "char \<Rightarrow> nat option" where
  "hex_digit_of c =
     (let n = of_char c :: nat in
      if 48 \<le> n \<and> n \<le> 57 then Some (n - 48)
      else if 97 \<le> n \<and> n \<le> 102 then Some (n - 87)
      else if 65 \<le> n \<and> n \<le> 70 then Some (n - 55)
      else None)"

fun hex_value4 :: "string \<Rightarrow> (nat \<times> string) option" where
  "hex_value4 (a # b # c # d # s) =
     (case (hex_digit_of a, hex_digit_of b, hex_digit_of c, hex_digit_of d) of
        (Some p, Some q, Some r, Some t) \<Rightarrow> Some (((p * 16 + q) * 16 + r) * 16 + t, s)
      | _ \<Rightarrow> None)"
| "hex_value4 _ = None"

lemma length_hex_value4: "hex_value4 s = Some (n, t) \<Longrightarrow> length t < length s"
  by (cases s rule: hex_value4.cases) (auto split: option.splits)

text \<open>The bytes of a code point. A lone surrogate, which has none, keeps the three it would have.\<close>

definition utf8_bytes :: "nat \<Rightarrow> string" where
  "utf8_bytes n =
     map char_of
       (if n < 128 then [n]
        else if n < 2048 then [192 + n div 64, 128 + n mod 64]
        else if n < 65536 then [224 + n div 4096, 128 + n div 64 mod 64, 128 + n mod 64]
        else [240 + n div 262144, 128 + n div 4096 mod 64, 128 + n div 64 mod 64, 128 + n mod 64])"

text \<open>\<open>\u\<close> and four digits; two surrogates that follow each other are one code point.\<close>

definition unicode_escape :: "string \<Rightarrow> (string \<times> string) option" where
  "unicode_escape s =
     (case hex_value4 s of
        None \<Rightarrow> None
      | Some (n, t) \<Rightarrow>
          let low = (if 55296 \<le> n \<and> n < 56320 \<and> take 2 t = [CHR 0x5C, CHR ''u'']
                     then hex_value4 (drop 2 t) else None) in
          (case low of
             Some (m, u) \<Rightarrow>
               if 56320 \<le> m \<and> m < 57344
               then Some (utf8_bytes (65536 + (n - 55296) * 1024 + (m - 56320)), u)
               else Some (utf8_bytes n, t)
           | None \<Rightarrow> Some (utf8_bytes n, t)))"

lemma length_unicode_escape: "unicode_escape s = Some (b, t) \<Longrightarrow> length t < length s"
  by (auto simp: unicode_escape_def Let_def split: option.splits prod.splits if_splits
      dest!: length_hex_value4)

definition short_escape :: "char \<Rightarrow> char option" where
  "short_escape c =
     map_of [(CHR 0x22, CHR 0x22), (CHR 0x5C, CHR 0x5C), (CHR ''/'', CHR ''/''), (CHR ''b'', CHR 0x08),
       (CHR ''f'', CHR 0x0C), (CHR ''n'', CHR 0x0A), (CHR ''r'', CHR 0x0D), (CHR ''t'', CHR 0x09)] c"

text \<open>The rest of a string after its opening quote, and what follows the closing one.\<close>

function string_token :: "string \<Rightarrow> (string \<times> string) option" where
  "string_token s =
     (case s of
        [] \<Rightarrow> None
      | c # t \<Rightarrow>
          if c = CHR 0x22 then Some ([], t)
          else if of_char c < (32 :: nat) then None
          else if c = CHR 0x5C then
            (case t of
               [] \<Rightarrow> None
             | d # u \<Rightarrow>
                 (case (if d = CHR ''u'' then unicode_escape u
                        else map_option (\<lambda>x. ([x], u)) (short_escape d)) of
                    None \<Rightarrow> None
                  | Some (bytes, v) \<Rightarrow> map_option (\<lambda>(x, rest). (bytes @ x, rest)) (string_token v)))
          else map_option (\<lambda>(x, rest). (c # x, rest)) (string_token t))"
  by pat_completeness simp_all

termination
  by (relation "measure length") (auto split: if_splits dest!: length_unicode_escape)

declare string_token.simps [simp del]

lemma length_string_token: "string_token s = Some (x, t) \<Longrightarrow> length t < length s"
proof (induction s arbitrary: x t rule: string_token.induct)
  case (1 s)
  show ?case
    using 1(3) 1(1,2)
    by (subst (asm) string_token.simps)
      (fastforce split: list.splits if_splits option.splits prod.splits dest: length_unicode_escape)
qed

text \<open>A number: an integer, unless it has a fraction or an exponent.\<close>

definition digits_int :: "string \<Rightarrow> int" where
  "digits_int s = foldl (\<lambda>n c. 10 * n + digit_value c) 0 s"

definition fraction_token :: "string \<Rightarrow> string" where
  "fraction_token s =
     (case s of c # t \<Rightarrow> if c = CHR ''.'' then takeWhile is_digit t else [] | [] \<Rightarrow> [])"

text \<open>The exponent, with the number of characters it takes.\<close>

definition exponent_token :: "string \<Rightarrow> (int \<times> nat) option" where
  "exponent_token s =
     (case s of
        [] \<Rightarrow> None
      | c # t \<Rightarrow>
          let sign = (case t of d # _ \<Rightarrow> d \<in> {CHR ''+'', CHR ''-''} | [] \<Rightarrow> False);
              digits = takeWhile is_digit (if sign then tl t else t) in
          if c \<in> {CHR ''e'', CHR ''E''} \<and> digits \<noteq> []
          then Some (if sign \<and> hd t = CHR ''-'' then - digits_int digits else digits_int digits,
            1 + (if sign then 1 else 0) + length digits)
          else None)"

definition number_token :: "string \<Rightarrow> (dvalue \<times> string) option" where
  "number_token s =
     (let neg = (s \<noteq> [] \<and> hd s = CHR ''-''); t = (if neg then tl s else s);
          ds = takeWhile is_digit t;
          whole = (if ds \<noteq> [] \<and> hd ds = CHR ''0'' then ''0'' else ds);
          r = drop (length whole) t; frac = fraction_token r;
          r' = (if frac = [] then r else drop (1 + length frac) r); expo = exponent_token r';
          rest = (case expo of None \<Rightarrow> r' | Some (_, k) \<Rightarrow> drop k r');
          digits = digits_int (whole @ frac); signed = (if neg then - digits else digits) in
      if whole = [] then None
      else Some (if frac = [] \<and> expo = None then DInt signed
        else DFloat signed ((case expo of None \<Rightarrow> 0 | Some (x, _) \<Rightarrow> x) - int (length frac)), rest))"

definition literals :: "(string \<times> dvalue) list" where
  "literals = [(''null'', DNull), (''true'', DBool True), (''false'', DBool False),
     (''NaN'', DSpecial ''NaN''), (''Infinity'', DSpecial ''Infinity''),
     (''-Infinity'', DSpecial ''-Infinity'')]"

definition literal_token :: "string \<Rightarrow> (dvalue \<times> string) option" where
  "literal_token s =
     map_option (\<lambda>(text, v). (v, drop (length text) s))
       (List.find (\<lambda>(text, v). starts_with text s) literals)"

definition scalar_token :: "string \<Rightarrow> (dvalue \<times> string) option" where
  "scalar_token s = (case literal_token s of None \<Rightarrow> number_token s | Some r \<Rightarrow> Some r)"

section \<open>Values\<close>

text \<open>\<open>d[k] = v\<close>: a new key goes to the end, an old one keeps its place.\<close>

fun put :: "'k \<Rightarrow> 'v \<Rightarrow> ('k \<times> 'v) list \<Rightarrow> ('k \<times> 'v) list" where
  "put k v [] = [(k, v)]"
| "put k v ((j, u) # kvs) = (if j = k then (j, v) # kvs else (j, u) # put k v kvs)"

lemma map_of_put [simp]: "map_of (put k v kvs) = (map_of kvs)(k \<mapsto> v)"
  by (induction k v kvs rule: put.induct) auto

lemma keys_put [simp]: "fst ` set (put k v kvs) = insert k (fst ` set kvs)"
  by (induction k v kvs rule: put.induct) auto

lemma distinct_put: "distinct (map fst kvs) \<Longrightarrow> distinct (map fst (put k v kvs))"
  by (induction k v kvs rule: put.induct) auto

lemma skip_tl_shorter: "u \<noteq> [] \<Longrightarrow> length u \<le> n \<Longrightarrow> length (skip_space (tl u)) < n"
  using length_skip_space [of "tl u"] by (cases u) auto

text \<open>
  After the opening bracket: the rest of a list and of an object, with what has been read. A value
  consumes text, so that the tests of the length never fail.
\<close>

function json_value :: "string \<Rightarrow> (dvalue \<times> string) option"
  and json_items :: "dvalue list \<Rightarrow> string \<Rightarrow> (dvalue \<times> string) option"
  and json_members :: "(string \<times> dvalue) list \<Rightarrow> string \<Rightarrow> (dvalue \<times> string) option" where
  "json_value s =
     (case s of
        [] \<Rightarrow> None
      | c # t \<Rightarrow>
          let u = skip_space t in
          if c = CHR 0x22 then map_option (\<lambda>(x, r). (DStr x, r)) (string_token t)
          else if c = CHR ''['' then
            (if u \<noteq> [] \<and> hd u = CHR '']'' then Some (DList [], tl u) else json_items [] u)
          else if c = CHR ''{'' then
            (if u \<noteq> [] \<and> hd u = CHR ''}'' then Some (DObj [], tl u) else json_members [] u)
          else scalar_token s)"
| "json_items vs s =
     (case json_value s of
        None \<Rightarrow> None
      | Some (v, r) \<Rightarrow>
          let u = skip_space r in
          if u = [] \<or> length u > length s then None
          else if hd u = CHR '']'' then Some (DList (vs @ [v]), tl u)
          else if hd u = CHR '','' then json_items (vs @ [v]) (skip_space (tl u))
          else None)"
| "json_members kvs s =
     (case (if s \<noteq> [] \<and> hd s = CHR 0x22 then string_token (tl s) else None) of
        None \<Rightarrow> None
      | Some (k, r) \<Rightarrow>
          let u = skip_space r in
          if u = [] \<or> hd u \<noteq> CHR '':'' then None
          else
            (case json_value (skip_space (tl u)) of
               None \<Rightarrow> None
             | Some (v, r') \<Rightarrow>
                 let u' = skip_space r' in
                 if u' = [] \<or> length u' > length s then None
                 else if hd u' = CHR ''}'' then Some (DObj (put k v kvs), tl u')
                 else if hd u' = CHR '','' then json_members (put k v kvs) (skip_space (tl u'))
                 else None))"
  by pat_completeness simp_all

termination
proof (relation "measure (\<lambda>x. case x of Inl s \<Rightarrow> 2 * length s | Inr (Inl (_, s)) \<Rightarrow> 2 * length s + 1
     | Inr (Inr (_, s)) \<Rightarrow> 2 * length s + 1)", goal_cases)
  case (2 s c t u)
  then show ?case using length_skip_space [of t] by simp
next
  case (3 s c t u)
  then show ?case using length_skip_space [of t] by simp
next
  case (5 vs s p v r u)
  then show ?case using skip_tl_shorter [of u "length s"] by simp
next
  case (6 kvs s p k r u)
  then show ?case
    using length_string_token [of "tl s" k r] skip_tl_shorter [of u "length r"] length_skip_space [of r]
    by (auto split: if_splits)
next
  case (7 kvs s p k r u q v r' u')
  then show ?case using skip_tl_shorter [of u' "length s"] by simp
qed simp_all

declare json_value.simps [simp del] json_items.simps [simp del] json_members.simps [simp del]

text \<open>A token consumes text.\<close>

lemma number_token_shorter:
  assumes "number_token s = Some (v, r)"
  shows "length r < length s"
proof -
  define t where "t = (if s \<noteq> [] \<and> hd s = CHR ''-'' then tl s else s)"
  define ds where "ds = takeWhile is_digit t"
  define whole where "whole = (if ds \<noteq> [] \<and> hd ds = CHR ''0'' then ''0'' else ds)"
  define frac where "frac = fraction_token (drop (length whole) t)"
  define tail where "tail = (if frac = [] then drop (length whole) t
      else drop (1 + length frac) (drop (length whole) t))"
  have some: "whole \<noteq> []" and r: "r = (case exponent_token tail of None \<Rightarrow> tail | Some (_, k) \<Rightarrow> drop k tail)"
    using assms unfolding number_token_def Let_def
    by (simp_all only: t_def [symmetric] ds_def [symmetric] whole_def [symmetric] frac_def [symmetric]
        tail_def [symmetric] split: if_splits) auto
  have "length t \<le> length s" by (simp add: t_def)
  moreover have "t \<noteq> []" using some by (auto simp: ds_def whole_def)
  moreover have "length r \<le> length tail" "length tail \<le> length t - length whole"
    by (auto simp: r tail_def split: option.splits)
  moreover have "0 < length whole" "0 < length t" using some \<open>t \<noteq> []\<close> by simp_all
  ultimately show ?thesis by linarith
qed

lemma literal_token_shorter: "literal_token s = Some (v, r) \<Longrightarrow> length r < length s"
  by (auto simp: literal_token_def literals_def starts_with_iff split: if_splits)

lemma json_value_shorter:
  "json_value s = Some (v, r) \<Longrightarrow> length r < length s"
  "json_items vs s = Some (v, r) \<Longrightarrow> length r < length s"
  "json_members kvs s = Some (v, r) \<Longrightarrow> length r < length s"
proof (induction s and vs s and kvs s arbitrary: v r and v r and v r
    rule: json_value_json_items_json_members.induct)
  case (1 s)
  show ?case
  proof (cases s)
    case (Cons c t)
    note IH = 1(1,2) [OF Cons refl]
    have "length (tl (skip_space t)) < Suc (length t)" "length x < length (skip_space t) \<Longrightarrow> length x < Suc (length t)"
      for x using length_skip_space [of t] by simp_all
    with 1(3) IH show ?thesis
      by (subst (asm) json_value.simps)
        (auto simp: Cons Let_def scalar_token_def split: if_splits option.splits
          dest!: length_string_token literal_token_shorter number_token_shorter)
  qed (use 1(3) in \<open>simp add: json_value.simps\<close>)
next
  case (2 vs s)
  then obtain v' r' where v': "json_value s = Some (v', r')"
    by (subst (asm) json_items.simps) (auto split: option.splits)
  let ?u = "skip_space r'"
  have u: "?u \<noteq> []" "length ?u \<le> length s" and
    out: "r = tl ?u \<or> hd ?u = CHR '','' \<and> json_items (vs @ [v']) (skip_space (tl ?u)) = Some (v, r)"
    using 2(3) by (subst (asm) json_items.simps, auto simp: v' Let_def split: if_splits)+
  have "json_items (vs @ [v']) (skip_space (tl ?u)) = Some (v, r) \<Longrightarrow> hd ?u = CHR '','' \<Longrightarrow>
      length r < length (skip_space (tl ?u))"
    using 2(2) [OF v' refl refl] u by simp
  with out skip_tl_shorter [OF u] u show ?case by (cases ?u) auto
next
  case (3 kvs s)
  then obtain k q where k: "(if s \<noteq> [] \<and> hd s = CHR 0x22 then string_token (tl s) else None) = Some (k, q)"
    by (subst (asm) json_members.simps) (auto split: option.splits)
  let ?w = "skip_space q"
  have w: "\<not> (?w = [] \<or> hd ?w \<noteq> CHR '':'')"
    using 3(3) by (subst (asm) json_members.simps, auto simp: k Let_def split: if_splits option.splits)
  obtain v' r' where v': "json_value (skip_space (tl ?w)) = Some (v', r')"
    using 3(3) w by (subst (asm) json_members.simps) (auto simp: k Let_def split: option.splits)
  let ?u = "skip_space r'"
  have u: "?u \<noteq> []" "length ?u \<le> length s" and
    out: "r = tl ?u \<or> hd ?u = CHR '','' \<and> json_members (put k v' kvs) (skip_space (tl ?u)) = Some (v, r)"
    using 3(3) w by (subst (asm) json_members.simps, auto simp: k v' Let_def split: if_splits)+
  have "json_members (put k v' kvs) (skip_space (tl ?u)) = Some (v, r) \<Longrightarrow> hd ?u = CHR '','' \<Longrightarrow>
      length r < length (skip_space (tl ?u))"
    using 3(2) [OF k refl refl w v' refl refl] u by simp
  with out skip_tl_shorter [OF u] u show ?case by (cases ?u) auto
qed

definition json_loads :: "string \<Rightarrow> dvalue option" where
  "json_loads s =
     (case json_value (skip_space s) of
        None \<Rightarrow> None
      | Some (v, r) \<Rightarrow> if skip_space r = [] then Some v else None)"

text \<open>What Python prints for a dictionary is not JSON, because of its quotes.\<close>

lemma python_dict_not_json: "json_loads (CHR ''{'' # CHR 0x27 # s) = None"
  by (simp add: json_loads_def skip_space_def json_space_def json_value.simps json_members.simps)

end
