(* ===== verification/Notice.thy ===== *)
theory Notice
  imports Json Approval
begin

text \<open>
  \<^verbatim>\<open>app/services/supervision_notifications.py\<close>, the cards of \<^verbatim>\<open>app/services/approval_cards.py\<close> and
  the replies of \<^verbatim>\<open>app/services/approval_service.py\<close>: what is shown to the approvers, in UTF-8, and
  that the buttons of a card are read back as they were meant.
\<close>

section \<open>Text\<close>

definition zh :: "nat list \<Rightarrow> string" where
  "zh ns = concat (map utf8_bytes ns)"

text \<open>\<open>datetime.isoformat\<close> of an aware instant in UTC: the civil date of a day counted from 1970.\<close>

definition civil_date :: "int \<Rightarrow> int \<times> int \<times> int" where
  "civil_date days =
     (let z = days + 719468; era = z div 146097; doe = z - era * 146097;
          yoe = (doe - doe div 1460 + doe div 36524 - doe div 146096) div 365;
          doy = doe - (365 * yoe + yoe div 4 - yoe div 100);
          mp = (5 * doy + 2) div 153;
          m = (if mp < 10 then mp + 3 else mp - 9) in
      (yoe + era * 400 + (if m \<le> 2 then 1 else 0), m, doy - (153 * mp + 2) div 5 + 1))"

definition padded :: "nat \<Rightarrow> int \<Rightarrow> string" where
  "padded k n = (let s = int_str n in replicate (k - length s) CHR ''0'' @ s)"

definition isoformat :: "instant \<Rightarrow> string" where
  "isoformat t =
     (let (y, m, d) = civil_date (t div 86400000000); s = t mod 86400000000 div 1000000; us = t mod 1000000 in
      padded 4 y @ ''-'' @ padded 2 m @ ''-'' @ padded 2 d @ ''T'' @
      padded 2 (s div 3600) @ '':'' @ padded 2 (s div 60 mod 60) @ '':'' @ padded 2 (s mod 60) @
      (if us = 0 then [] else ''.'' @ padded 6 us) @ ''+00:00'')"

definition show_uuid :: "uuid option \<Rightarrow> string" where
  "show_uuid u = (case u of None \<Rightarrow> ''None'' | Some v \<Rightarrow> uuid_str v)"

definition show_text :: "string option \<Rightarrow> string" where
  "show_text s = (case s of None \<Rightarrow> ''None'' | Some t \<Rightarrow> t)"

section \<open>Supervision notifications\<close>

definition NOTIFICATION_EVENTS :: "string set" where
  "NOTIFICATION_EVENTS = {''pr_created'', ''ci_passed'', ''ci_failed'', ''staging_started'',
     ''staging_passed'', ''staging_failed'', ''approval_required''}"

record supervision_notification =
  sn_event_type :: string
  sn_repository :: string
  sn_target_sha :: string
  sn_pull_request_number :: "int option"
  sn_target_environment :: "string option"
  sn_approval_request_id :: "uuid option"
  sn_action_code :: "string option"
  sn_expires_at :: "pytime option"
  sn_deployment_id :: "uuid option"
  sn_artifact_digest :: "string option"

definition unsafe :: "string \<Rightarrow> 'a result" where
  "unsafe reason = Inl (NotificationValidationError reason)"

lemma unsafe_simps [simp]: "unsafe r \<noteq> Inr x" "Inr x \<noteq> unsafe r"
  by (simp_all add: unsafe_def)

definition validate_approval_event :: "supervision_notification \<Rightarrow> unit result" where
  "validate_approval_event n =
     (if sn_approval_request_id n = None \<or>
        (case sn_action_code n of None \<Rightarrow> True | Some a \<Rightarrow> a \<notin> APPROVAL_ACTIONS) \<or>
        (case sn_expires_at n of Some (Aware t) \<Rightarrow> False | _ \<Rightarrow> True)
      then unsafe ''approval event requires persisted request fields''
      else if (sn_deployment_id n = None) \<noteq> (sn_artifact_digest n = None)
      then unsafe ''deployment approval binding fields must be paired''
      else if (case sn_artifact_digest n of None \<Rightarrow> False | Some g \<Rightarrow> \<not> DIGEST_PATTERN g)
      then unsafe ''invalid artifact_digest''
      else if sn_target_environment n \<noteq> Some (expected_environment (the (sn_action_code n)))
      then unsafe ''approval action/environment mismatch''
      else if sn_action_code n = Some ''merge_pr'' \<and> sn_pull_request_number n = None
      then unsafe ''merge approval requires PR number''
      else Inr ())"

definition validate_notification :: "supervision_notification \<Rightarrow> unit result" where
  "validate_notification n =
     (if sn_event_type n \<notin> NOTIFICATION_EVENTS then unsafe ''unknown event_type''
      else if \<not> REPOSITORY_PATTERN (sn_repository n) \<or> ends_with ''.git'' (sn_repository n)
      then unsafe ''invalid repository''
      else if \<not> SHA_PATTERN (sn_target_sha n) then unsafe ''invalid target_sha''
      else if (case sn_pull_request_number n of None \<Rightarrow> False | Some k \<Rightarrow> k < 1)
      then unsafe ''invalid pull_request_number''
      else if (case sn_target_environment n of None \<Rightarrow> False | Some e \<Rightarrow> e \<notin> TARGET_ENVIRONMENTS)
      then unsafe ''invalid target_environment''
      else if sn_event_type n \<in> {''pr_created'', ''ci_passed'', ''ci_failed''} \<and> sn_pull_request_number n = None
      then unsafe ''event requires PR number''
      else if sn_event_type n \<in> {''pr_created'', ''ci_passed'', ''ci_failed''} \<and> sn_target_environment n \<noteq> None
      then unsafe ''PR/CI event forbids environment''
      else if starts_with ''staging_'' (sn_event_type n) \<and> sn_target_environment n \<noteq> Some ''staging''
      then unsafe ''staging event requires staging environment''
      else if sn_event_type n = ''approval_required'' then validate_approval_event n
      else if sn_approval_request_id n \<noteq> None \<or> sn_action_code n \<noteq> None \<or> sn_expires_at n \<noteq> None \<or>
        sn_deployment_id n \<noteq> None \<or> sn_artifact_digest n \<noteq> None
      then unsafe ''approval fields forbidden for status event''
      else Inr ())"

text \<open>
  \<open>notification_from_fields\<close> takes keyword arguments. Their names are checked; a missing required one
  is the constructor's \<open>TypeError\<close>. The values have the types that the fields declare.
\<close>

definition allowed_fields :: "string set" where
  "allowed_fields = {''event_type'', ''repository'', ''target_sha'', ''pull_request_number'',
     ''target_environment'', ''approval_request_id'', ''action_code'', ''expires_at'', ''deployment_id'',
     ''artifact_digest''}"

definition notification_from_fields :: "string list \<Rightarrow> supervision_notification \<Rightarrow> supervision_notification result" where
  "notification_from_fields names n =
     (if \<not> set names \<subseteq> allowed_fields then unsafe ''unsafe notification field''
      else if \<not> {''event_type'', ''repository'', ''target_sha''} \<subseteq> set names
      then Inl (OtherException ''TypeError'')
      else bindE (validate_notification n) (\<lambda>_. Inr n))"

definition event_label :: "string \<Rightarrow> string" where
  "event_label e =
     the (map_of [(''pr_created'', (''PR '' @ zh [0x5df2, 0x521b,
       0x5efa])), (''ci_passed'', (''CI '' @ zh [0x5df2, 0x901a,
         0x8fc7])), (''ci_failed'', (''CI '' @ zh [0x672a, 0x901a, 0x8fc7])),
       (''staging_started'', (''Staging '' @ zh [0x90e8, 0x7f72, 0x5df2, 0x5f00,
         0x59cb])), (''staging_passed'', (''Staging '' @ zh [0x9a8c, 0x6536, 0x5df2, 0x901a, 0x8fc7])),
       (''staging_failed'', (''Staging '' @ zh [0x9a8c, 0x6536, 0x5931,
         0x8d25])), (''approval_required'', (zh [0x9700, 0x8981, 0x4eba, 0x5de5, 0x5ba1, 0x6279]))] e)"

definition show_expiry :: "supervision_notification \<Rightarrow> string" where
  "show_expiry n = (case sn_expires_at n of Some (Aware t) \<Rightarrow> isoformat t | _ \<Rightarrow> [])"

definition optional_line :: "string \<Rightarrow> string option \<Rightarrow> string list" where
  "optional_line label s = (case s of None \<Rightarrow> [] | Some t \<Rightarrow> [label @ t])"

definition format_notification :: "supervision_notification \<Rightarrow> string result" where
  "format_notification n =
     bindE (validate_notification n) (\<lambda>_. Inr (join [CHR 0x0A]
       ([(''Maoxx OS'' @ zh [0xff1a]) @ event_label (sn_event_type n),
         (zh [0x4e8b, 0x4ef6, 0xff1a]) @ sn_event_type n,
         (zh [0x4ed3, 0x5e93, 0xff1a]) @ sn_repository n,
         (zh [0x76ee, 0x6807] @ '' SHA'' @ zh [0xff1a]) @ sn_target_sha n] @
        optional_line (''PR'' @ zh [0xff1a] @ ''#'') (map_option int_str (sn_pull_request_number n)) @
        optional_line (zh [0x73af, 0x5883, 0xff1a]) (sn_target_environment n) @
        (if sn_event_type n = ''approval_required''
         then [(zh [0x52a8, 0x4f5c, 0xff1a]) @ show_text (sn_action_code n),
               (zh [0x8bf7, 0x6c42, 0xff1a]) @ show_uuid (sn_approval_request_id n),
               (zh [0x8fc7, 0x671f, 0x65f6, 0x95f4, 0xff1a]) @ show_expiry n,
               (zh [0x56de, 0x590d, 0xff1a, 0x6279,
                 0x51c6] @ '' <request-uuid> '' @ zh [0x6216] @ '' '' @ zh [0x62d2,
                   0x7edd] @ '' <request-uuid>''),
               (zh [0x6b64, 0x5ba1, 0x6279, 0x53ea, 0x8bb0, 0x5f55, 0x51b3, 0x5b9a, 0xff0c, 0x4e0d,
                 0x4f1a, 0x6267, 0x884c, 0x53d7, 0x4fdd, 0x62a4, 0x52a8, 0x4f5c, 0x3002])] @
              (if sn_deployment_id n \<noteq> None
               then [(zh [0x90e8, 0x7f72, 0xff1a]) @ show_uuid (sn_deployment_id n),
                     (zh [0x5de5, 0x4ef6, 0x6458, 0x8981, 0xff08, 0x5b8c, 0x6574, 0xff09,
                       0xff1a]) @ show_text (sn_artifact_digest n)]
               else [])
         else []))))"

section \<open>Cards\<close>

definition action_summary :: "string \<Rightarrow> string" where
  "action_summary a =
     the (map_of [(''development_plan'', (zh [0x5f00, 0x53d1, 0x8ba1, 0x5212, 0x786e,
       0x8ba4])), (''merge_pr'', (zh [0x5408, 0x5e76, 0x8fdb, 0x5165] @ '' Staging'')),
       (''production_deploy'', (''Production '' @ zh [0x90e8, 0x7f72, 0x6388,
         0x6743])), (''rollback_production'', (''Production '' @ zh [0x56de, 0x6eda, 0x6388, 0x6743]))] a)"

definition approval_details :: "supervision_notification \<Rightarrow> string" where
  "approval_details n =
     join [CHR 0x0A]
       ([(''**'' @ zh [0x52a8, 0x4f5c, 0xff1a] @ ''** '') @ action_summary (the (sn_action_code n)),
         (''**'' @ zh [0x4ed3, 0x5e93, 0xff1a] @ ''** '') @ sn_repository n] @
        optional_line (''**PR'' @ zh [0xff1a] @ ''** #'') (map_option int_str (sn_pull_request_number n)) @
        [(''**'' @ zh [0x76ee, 0x6807] @ '' SHA'' @ zh [0xff1a] @ ''** '') @ sn_target_sha n,
         (''**'' @ zh [0x73af, 0x5883, 0xff1a] @ ''** '') @ show_text (sn_target_environment n),
         (''**'' @ zh [0x8fc7, 0x671f, 0x65f6, 0x95f4, 0xff1a] @ ''** '') @ show_expiry n,
         (''**'' @ zh [0x8bf7, 0x6c42, 0xff1a] @ ''** '') @ show_uuid (sn_approval_request_id n)] @
        (if sn_deployment_id n \<noteq> None
         then [(''**'' @ zh [0x90e8, 0x7f72, 0xff1a] @ ''** '') @ show_uuid (sn_deployment_id n),
               (''**'' @ zh [0x5de5, 0x4ef6, 0x6458, 0x8981, 0xff08, 0x5b8c, 0x6574, 0xff09,
                 0xff1a] @ ''** '') @ show_text (sn_artifact_digest n)]
         else []))"

definition card_states :: "(string \<times> string \<times> string) list" where
  "card_states =
     [(''pending'', (zh [0x72b6, 0x6001, 0xff1a, 0x7b49, 0x5f85, 0x5ba1, 0x6279]), ''orange''),
      (''waiting'', (zh [0x72b6, 0x6001, 0xff1a, 0x7a0d, 0x540e, 0x5904, 0x7406] @ '' / '' @ zh [0x4ecd,
        0x5f85, 0x5ba1, 0x6279]), ''yellow''),
      (''approved'', (zh [0x72b6, 0x6001, 0xff1a, 0x5df2, 0x6279, 0x51c6, 0xff08, 0x4ec5, 0x8bb0, 0x5f55,
        0x51b3, 0x5b9a, 0xff0c, 0x672a, 0x6267, 0x884c, 0x53d7, 0x4fdd, 0x62a4, 0x52a8, 0x4f5c,
          0xff09]), ''green''),
      (''rejected'', (zh [0x72b6, 0x6001, 0xff1a, 0x5df2, 0x62d2, 0x7edd, 0xff08, 0x672a, 0x6267, 0x884c,
        0x53d7, 0x4fdd, 0x62a4, 0x52a8, 0x4f5c, 0xff09]), ''red'')]"

definition plain_text :: "string \<Rightarrow> dvalue" where
  "plain_text s = DObj [(''tag'', DStr ''plain_text''), (''content'', DStr s)]"

definition button :: "string \<Rightarrow> string option \<Rightarrow> string \<Rightarrow> string \<Rightarrow> dvalue" where
  "button label kind action request_id =
     DObj ([(''tag'', DStr ''button''), (''text'', plain_text label)] @
       (case kind of None \<Rightarrow> [] | Some k \<Rightarrow> [(''type'', DStr k)]) @
       [(''value'', DObj [(''action'', DStr action), (''request_id'', DStr request_id)])])"

definition card_actions :: "supervision_notification \<Rightarrow> dvalue" where
  "card_actions n =
     (let request_id = show_uuid (sn_approval_request_id n) in
      DObj [(''tag'', DStr ''action''),
        (''actions'', DList [button (zh [0x6279, 0x51c6]) (Some ''primary'') ''approve'' request_id,
           button (zh [0x62d2, 0x7edd]) (Some ''danger'') ''reject'' request_id,
           button (zh [0x7b49, 0x4e00, 0x4e0b]) None ''wait'' request_id])])"

definition build_approval_card :: "supervision_notification \<Rightarrow> string \<Rightarrow> dvalue result" where
  "build_approval_card n state =
     bindE (validate_notification n) (\<lambda>_.
       if sn_event_type n \<noteq> ''approval_required''
       then Inl (ValueError ''approval card requires approval notification'')
       else (case map_of card_states state of
           None \<Rightarrow> Inl (ValueError ''invalid approval card state'')
         | Some (state_text, template) \<Rightarrow> Inr (DObj
             [(''config'', DObj [(''wide_screen_mode'', DBool True), (''enable_forward'', DBool False),
                (''update_multi'', DBool False)]),
              (''header'', DObj [(''template'', DStr template),
                (''title'', plain_text (''Maoxx OS '' @ zh [0x4eba, 0x5de5, 0x5ba1, 0x6279]))]),
              (''elements'', DList
                ([DObj [(''tag'', DStr ''div''), (''text'', DObj [(''tag'', DStr ''lark_md''),
                    (''content'', DStr (approval_details n))])],
                  DObj [(''tag'', DStr ''div''), (''text'', plain_text state_text)],
                  DObj [(''tag'', DStr ''note''), (''elements'', DList
                    [plain_text (zh [0x5361, 0x7247, 0x53ea, 0x8bb0, 0x5f55, 0x4eba, 0x5de5, 0x51b3,
                      0x5b9a, 0xff0c, 0x4e0d, 0x4f1a, 0x6267, 0x884c, 0x5408, 0x5e76, 0x6216, 0x90e8,
                        0x7f72, 0x3002])])]] @
                 (if state \<in> {''pending'', ''waiting''} then [card_actions n] else [])))])))"

definition toasts :: "(string \<times> string \<times> string) list" where
  "toasts =
     [(''recorded'', ''success'', (zh [0x5ba1, 0x6279, 0x51b3, 0x5b9a, 0x5df2, 0x8bb0, 0x5f55, 0x3002,
       0x672a, 0x6267, 0x884c, 0x4efb, 0x4f55, 0x53d7, 0x4fdd, 0x62a4, 0x52a8, 0x4f5c, 0x3002])),
      (''duplicate'', ''info'', (zh [0x8be5, 0x5361, 0x7247, 0x64cd, 0x4f5c, 0x5df2, 0x5904, 0x7406, 0x3002])),
      (''waiting'', ''info'', (zh [0x5df2, 0x6807, 0x8bb0, 0x4e3a, 0x7a0d, 0x540e, 0x5904, 0x7406,
        0xff0c, 0x8bf7, 0x5728, 0x8fc7, 0x671f, 0x524d, 0x51b3, 0x5b9a, 0x3002])),
      (''malformed'', ''error'', (zh [0x5361, 0x7247, 0x64cd, 0x4f5c, 0x65e0, 0x6548, 0x3002])),
      (''unauthorized'', ''error'', (zh [0x65e0, 0x6743, 0x6267, 0x884c, 0x8be5, 0x5ba1, 0x6279, 0x3002])),
      (''invalid_event'', ''error'', (zh [0x56de, 0x8c03, 0x4e8b, 0x4ef6, 0x65e0, 0x6548, 0x3002])),
      (''unknown_request'', ''error'', (zh [0x5ba1, 0x6279, 0x8bf7, 0x6c42, 0x4e0d, 0x5b58, 0x5728,
        0x6216, 0x4e0d, 0x53ef, 0x7528, 0x3002])),
      (''expired'', ''warning'', (zh [0x5ba1, 0x6279, 0x8bf7, 0x6c42, 0x5df2, 0x8fc7, 0x671f, 0x3002])),
      (''already_decided'', ''warning'', (zh [0x5ba1, 0x6279, 0x8bf7, 0x6c42, 0x5df2, 0x7ecf, 0x5904,
        0x7406, 0x3002])),
      (''event_conflict'', ''error'', (zh [0x5ba1, 0x6279, 0x4e8b, 0x4ef6, 0x51b2, 0x7a81, 0x3002])),
      (''conflict'', ''error'', (zh [0x5ba1, 0x6279, 0x8bf7, 0x6c42, 0x53d1, 0x751f, 0x51b2, 0x7a81, 0x3002])),
      (''unavailable'', ''error'', (zh [0x5ba1, 0x6279, 0x670d, 0x52a1, 0x6682, 0x65f6, 0x4e0d, 0x53ef,
        0x7528, 0x3002]))]"

definition outcome_state :: "approval_outcome \<Rightarrow> string" where
  "outcome_state out =
     (if out_decision_code out = Some ''approved'' then ''approved''
      else if out_decision_code out = Some ''rejected'' then ''rejected'' else ''waiting'')"

definition build_card_callback_response :: "approval_outcome \<Rightarrow> supervision_notification option \<Rightarrow> dvalue result" where
  "build_card_callback_response out notification =
     (case map_of toasts (out_code out) of
        None \<Rightarrow> Inl (OtherException ''KeyError'')
      | Some (toast_type, content) \<Rightarrow>
          let toast = (''toast'', DObj [(''type'', DStr toast_type), (''content'', DStr content)]) in
          (case notification of
             None \<Rightarrow> Inr (DObj [toast])
           | Some n \<Rightarrow>
               if out_code out \<in> {''recorded'', ''duplicate'', ''waiting''}
               then bindE (build_approval_card n (outcome_state out)) (\<lambda>card.
                 Inr (DObj [toast, (''card'', DObj [(''type'', DStr ''raw''), (''data'', card)])]))
               else Inr (DObj [toast])))"

section \<open>Replies\<close>

definition replies :: "(string \<times> string) list" where
  "replies =
     [(''malformed'', (zh [0x5ba1, 0x6279, 0x547d, 0x4ee4, 0x683c, 0x5f0f, 0x65e0, 0x6548, 0x3002,
       0x8bf7, 0x4f7f, 0x7528, 0xff1a, 0x6279,
         0x51c6] @ '' <request-uuid> '' @ zh [0x6216] @ '' '' @ zh [0x62d2,
           0x7edd] @ '' <request-uuid>'' @ zh [0x3002])),
      (''unauthorized'', (zh [0x65e0, 0x6743, 0x6267, 0x884c, 0x8be5, 0x5ba1, 0x6279, 0x3002])),
      (''invalid_event'', (zh [0x5ba1, 0x6279, 0x4e8b, 0x4ef6, 0x65e0, 0x6548, 0xff0c, 0x672a, 0x8bb0,
        0x5f55, 0x51b3, 0x5b9a, 0x3002])),
      (''unknown_request'', (zh [0x5ba1, 0x6279, 0x8bf7, 0x6c42, 0x4e0d, 0x5b58, 0x5728, 0x6216, 0x4e0d,
        0x53ef, 0x7528, 0x3002])),
      (''expired'', (zh [0x5ba1, 0x6279, 0x8bf7, 0x6c42, 0x5df2, 0x8fc7, 0x671f, 0xff0c, 0x672a, 0x8bb0,
        0x5f55, 0x51b3, 0x5b9a, 0x3002])),
      (''already_decided'', (zh [0x5ba1, 0x6279, 0x8bf7, 0x6c42, 0x5df2, 0x7ecf, 0x5904, 0x7406, 0xff0c,
        0x672a, 0x91cd, 0x590d, 0x8bb0, 0x5f55, 0x3002])),
      (''event_conflict'', (zh [0x5ba1, 0x6279, 0x4e8b, 0x4ef6, 0x51b2, 0x7a81, 0xff0c, 0x672a, 0x8bb0,
        0x5f55, 0x51b3, 0x5b9a, 0x3002])),
      (''conflict'', (zh [0x5ba1, 0x6279, 0x8bf7, 0x6c42, 0x53d1, 0x751f, 0x51b2, 0x7a81, 0xff0c, 0x672a,
        0x8bb0, 0x5f55, 0x51b3, 0x5b9a, 0x3002])),
      (''unavailable'', (zh [0x5ba1, 0x6279, 0x670d, 0x52a1, 0x6682, 0x65f6, 0x4e0d, 0x53ef, 0x7528,
        0xff0c, 0x672a, 0x8bb0, 0x5f55, 0x51b3, 0x5b9a, 0x3002])),
      (''duplicate'', (zh [0x8be5, 0x5ba1, 0x6279, 0x4e8b, 0x4ef6, 0x5df2, 0x5904, 0x7406, 0x3002]))]"

definition approval_outcome_reply :: "approval_outcome \<Rightarrow> string result" where
  "approval_outcome_reply out =
     (if out_code out = ''recorded''
      then Inr (if out_decision_code out = Some ''approved'' then (zh [0x5ba1, 0x6279, 0x51b3, 0x5b9a,
        0x5df2, 0x8bb0, 0x5f55, 0xff1a, 0x6279, 0x51c6, 0x3002])
        else (zh [0x5ba1, 0x6279, 0x51b3, 0x5b9a, 0x5df2, 0x8bb0, 0x5f55, 0xff1a, 0x62d2, 0x7edd, 0x3002]))
      else (case map_of replies (out_code out) of
          None \<Rightarrow> Inl (OtherException ''KeyError'') | Some s \<Rightarrow> Inr s))"

section \<open>What a button sends\<close>

text \<open>A decoded value as a column holds it: a string that is the text of a UUID is this UUID.\<close>

fun json_of :: "dvalue \<Rightarrow> json" where
  "json_of DNull = JNull"
| "json_of (DBool b) = JBool b"
| "json_of (DInt i) = JNum i"
| "json_of (DFloat m e) = JFloat (if - 9 \<le> e then m * 10 ^ nat (e + 9) else m div 10 ^ nat (- 9 - e))"
| "json_of (DSpecial t) = JNull"
| "json_of (DStr s) =
     (case uuid_of_text s of Some u \<Rightarrow> if uuid_str u = s then JUuid u else JStr s | None \<Rightarrow> JStr s)"
| "json_of (DList vs) = JList (map json_of vs)"
| "json_of (DObj kvs) = JObj (map (\<lambda>(k, v). (k, json_of v)) kvs)"

text \<open>The values of the buttons of a card.\<close>

definition button_values :: "dvalue \<Rightarrow> dvalue list" where
  "button_values c =
     concat (map (\<lambda>e. case dget ''actions'' (DList []) e of
         Inr (DList bs) \<Rightarrow> concat (map (\<lambda>b. case dget ''value'' DNull b of Inr v \<Rightarrow> [v] | _ \<Rightarrow> []) bs)
       | _ \<Rightarrow> [])
       (case dget ''elements'' (DList []) c of Inr (DList es) \<Rightarrow> es | _ \<Rightarrow> []))"

lemma card_words: "uuid_of_text ''approve'' = None" "uuid_of_text ''reject'' = None" "uuid_of_text ''wait'' = None"
  by code_simp+

lemma button_value: "a \<in> {''approve'', ''reject'', ''wait''} \<Longrightarrow>
    parse_approval_card_action (json_of (DObj [(''action'', DStr a), (''request_id'', DStr (uuid_str r))])) =
      Inr (Some (a, r))"
  by (auto simp: parse_approval_card_action_def card_words CARD_ACTIONS_def)

lemma buttons_of_card:
  assumes "build_approval_card n state = Inr c"
  shows "button_values c =
    (if state \<in> {''pending'', ''waiting''}
     then map (\<lambda>a. DObj [(''action'', DStr a), (''request_id'', DStr (show_uuid (sn_approval_request_id n)))])
       [''approve'', ''reject'', ''wait'']
     else [])"
  using assms
  by (auto simp: build_approval_card_def bindE_eq_Inr button_values_def dget_def card_actions_def button_def Let_def
      split: if_splits option.splits prod.splits)

lemma valid_request_id:
  assumes "validate_notification n = Inr ()" "sn_event_type n = ''approval_required''"
  shows "\<exists>r. sn_approval_request_id n = Some r"
  using assms by (auto simp: validate_notification_def validate_approval_event_def split: if_splits)

text \<open>C40. The buttons of a card are read back as they were meant: what the callback parser makes of them
  are the three actions on the request of the notification while it is open, and a card of a decision
  has none.\<close>

theorem card_buttons_read_back:
  assumes "build_approval_card n state = Inr c"
  shows "\<exists>r. sn_approval_request_id n = Some r \<and>
     map (\<lambda>v. parse_approval_card_action (json_of v)) (button_values c) =
       (if state \<in> {''pending'', ''waiting''}
        then [Inr (Some (''approve'', r)), Inr (Some (''reject'', r)), Inr (Some (''wait'', r))] else [])"
proof -
  from assms have "validate_notification n = Inr ()" "sn_event_type n = ''approval_required''"
    by (auto simp: build_approval_card_def bindE_eq_Inr split: if_splits)
  from valid_request_id [OF this] obtain r where r: "sn_approval_request_id n = Some r" by blast
  then show ?thesis
    unfolding buttons_of_card [OF assms] by (auto simp: show_uuid_def button_value simp del: json_of.simps)
qed

definition example_notification :: supervision_notification where
  "example_notification = \<lparr>sn_event_type = ''approval_required'', sn_repository = ''o/r'',
     sn_target_sha = replicate 40 CHR ''a'', sn_pull_request_number = Some 3,
     sn_target_environment = Some ''staging'', sn_approval_request_id = Some 5,
     sn_action_code = Some ''merge_pr'', sn_expires_at = Some (Aware 0), sn_deployment_id = None,
     sn_artifact_digest = None\<rparr>"

lemma example_notification_valid: "validate_notification example_notification = Inr ()"
  by code_simp

lemma card_buttons_read_back_witness:
  "\<exists>c. build_approval_card example_notification ''pending'' = Inr c \<and>
     map (\<lambda>v. parse_approval_card_action (json_of v)) (button_values c) =
       [Inr (Some (''approve'', 5)), Inr (Some (''reject'', 5)), Inr (Some (''wait'', 5))]"
proof -
  obtain c where c: "build_approval_card example_notification ''pending'' = Inr c"
    by (simp add: build_approval_card_def example_notification_valid)
      (simp add: example_notification_def card_states_def)
  from card_buttons_read_back [OF c] show ?thesis
    using c by (auto simp: example_notification_def)
qed

end
