(* ===== verification/Delivery.thy ===== *)
theory Delivery
  imports Complex_Main Snapshot
begin

text \<open>
  \<^verbatim>\<open>app/services/feishu_delivery.py\<close> and \<^verbatim>\<open>app/services/feishu_messaging.py\<close>: sending with bounded
  retries. What each attempt answers and the random numbers are inputs; the delays are exact.
\<close>

section \<open>Answers\<close>

text \<open>
  What one call of \<open>send_once\<close> comes to: a response, with the result of \<open>success()\<close>, the code as an
  integer when it is one, and the message's identifier; an exception that is an \<open>OSError\<close> (as
  \<open>TimeoutError\<close> and \<open>ConnectionError\<close> are), by its name; or any other exception.
\<close>

datatype answer =
    Response (succeeded: bool) (code_of: "int option") (message_id_of: "string option")
  | Transport string
  | Throws exn

record delivery_result =
  dr_sent :: bool
  dr_attempts :: int
  dr_failure_reason :: "string option"
  dr_message_id :: "string option"

definition TRANSIENT_RESPONSE_CODES :: "int set" where
  "TRANSIENT_RESPONSE_CODES = {99991400, 99991663}"

definition delivered :: "bool \<Rightarrow> int \<Rightarrow> string option \<Rightarrow> string option \<Rightarrow> delivery_result" where
  "delivered sent attempt reason message_id =
     \<lparr>dr_sent = sent, dr_attempts = attempt, dr_failure_reason = reason, dr_message_id = message_id\<rparr>"

text \<open>What one attempt leads to: a result, an exception, or a delay before the next attempt.\<close>

datatype verdict = Ends delivery_result | Breaks exn | Waits

definition one_attempt :: "answer \<Rightarrow> int \<Rightarrow> int \<Rightarrow> verdict" where
  "one_attempt a attempt max_attempts =
     (case a of
        Transport name \<Rightarrow>
          if attempt = max_attempts then Ends (delivered False attempt (Some ''transport_error'') None) else Waits
      | Throws x \<Rightarrow> Breaks x
      | Response ok code message_id \<Rightarrow>
          if ok then Ends (delivered True attempt None message_id)
          else (case code of
              None \<Rightarrow> Breaks (OtherException ''TypeError'')
            | Some c \<Rightarrow>
                if c \<notin> TRANSIENT_RESPONSE_CODES
                then Ends (delivered False attempt (Some ''permanent_error'') None)
                else if attempt = max_attempts
                then Ends (delivered False attempt (Some ''rate_limited'') None)
                else Waits))"

text \<open>\<open>delay + delay * random_value()\<close> with \<open>delay = backoff_seconds * 2 ** (attempt - 1)\<close>.\<close>

definition pause :: "rat \<Rightarrow> (int \<Rightarrow> rat) \<Rightarrow> int \<Rightarrow> rat" where
  "pause backoff rnd attempt = (let delay = backoff * 2 ^ nat (attempt - 1) in delay + delay * rnd attempt)"

text \<open>The loop, with the pauses slept so far; after the last attempt it has returned.\<close>

function attempts_from ::
  "(int \<Rightarrow> answer) \<Rightarrow> (int \<Rightarrow> rat) \<Rightarrow> int \<Rightarrow> rat \<Rightarrow> int \<Rightarrow> rat list \<Rightarrow> delivery_result result \<times> rat list" where
  "attempts_from send rnd max_attempts backoff attempt slept =
     (if attempt > max_attempts then (Inl (OtherException ''AssertionError''), slept)
      else (case one_attempt (send attempt) attempt max_attempts of
          Ends r \<Rightarrow> (Inr r, slept)
        | Breaks x \<Rightarrow> (Inl x, slept)
        | Waits \<Rightarrow> attempts_from send rnd max_attempts backoff (attempt + 1)
            (slept @ [pause backoff rnd attempt])))"
  by pat_completeness simp_all

termination
  by (relation "measure (\<lambda>(_, _, m, _, k, _). nat (m + 1 - k))") auto

declare attempts_from.simps [simp del]

definition deliver_with_retry ::
  "(int \<Rightarrow> answer) \<Rightarrow> (int \<Rightarrow> rat) \<Rightarrow> int \<Rightarrow> rat \<Rightarrow> delivery_result result \<times> rat list" where
  "deliver_with_retry send rnd max_attempts backoff_seconds =
     (if max_attempts < 1 then (Inl (ValueError ''max_attempts must be at least 1''), [])
      else if backoff_seconds < 0 then (Inl (ValueError ''backoff_seconds cannot be negative''), [])
      else attempts_from send rnd max_attempts backoff_seconds 1 [])"

section \<open>Messages\<close>

text \<open>\<open>_extract_message_id\<close>: an empty identifier is none. The request, as the client receives it.\<close>

definition extract_message_id :: "string option \<Rightarrow> string option" where
  "extract_message_id message_id = (if falsy message_id then None else message_id)"

record message_request =
  mr_chat_id :: string
  mr_type :: string
  mr_content :: dvalue

definition with_message_id :: "answer \<Rightarrow> answer" where
  "with_message_id a =
     (case a of Response ok code message_id \<Rightarrow> Response ok code (extract_message_id message_id) | _ \<Rightarrow> a)"

definition send_structured_text ::
  "(message_request \<Rightarrow> int \<Rightarrow> answer) \<Rightarrow> (int \<Rightarrow> rat) \<Rightarrow> string \<Rightarrow> string \<Rightarrow> int \<Rightarrow> rat \<Rightarrow> delivery_result result" where
  "send_structured_text client rnd chat_id text max_attempts backoff_seconds =
     (if chat_id = [] then Inl (ValueError ''supervision chat is not configured'')
      else fst (deliver_with_retry
        (with_message_id \<circ> client \<lparr>mr_chat_id = chat_id, mr_type = ''text'',
           mr_content = DObj [(''text'', DStr text)]\<rparr>)
        rnd max_attempts backoff_seconds))"

definition send_interactive_card ::
  "(message_request \<Rightarrow> int \<Rightarrow> answer) \<Rightarrow> (int \<Rightarrow> rat) \<Rightarrow> string \<Rightarrow> dvalue \<Rightarrow> int \<Rightarrow> rat \<Rightarrow> delivery_result result" where
  "send_interactive_card client rnd chat_id content max_attempts backoff_seconds =
     (if chat_id = [] then Inl (ValueError ''supervision chat is not configured'')
      else fst (deliver_with_retry
        (with_message_id \<circ> client \<lparr>mr_chat_id = chat_id, mr_type = ''interactive'', mr_content = content\<rparr>)
        rnd max_attempts backoff_seconds))"

section \<open>Bounds\<close>

text \<open>One answer decides: the first that is not to be retried, or the last that is allowed.\<close>

definition retried :: "answer \<Rightarrow> bool" where
  "retried a = (case a of
       Transport _ \<Rightarrow> True
     | Throws _ \<Rightarrow> False
     | Response ok code _ \<Rightarrow> \<not> ok \<and> (\<exists>c \<in> TRANSIENT_RESPONSE_CODES. code = Some c))"

lemma one_attempt_waits: "one_attempt a k m = Waits \<longleftrightarrow> retried a \<and> k \<noteq> m"
  by (cases a) (auto simp: one_attempt_def retried_def split: option.splits)

lemma one_attempt_ends: "one_attempt a k m = Ends r \<Longrightarrow>
    dr_attempts r = k \<and> dr_sent r = (case a of Response ok _ _ \<Rightarrow> ok | _ \<Rightarrow> False) \<and>
    (dr_sent r \<longrightarrow> dr_failure_reason r = None \<and> dr_message_id r = message_id_of a) \<and>
    (\<not> dr_sent r \<longrightarrow> dr_failure_reason r \<noteq> None \<and> dr_message_id r = None)"
  by (cases a) (auto simp: one_attempt_def delivered_def split: if_splits option.splits)

definition pauses :: "rat \<Rightarrow> (int \<Rightarrow> rat) \<Rightarrow> int \<Rightarrow> int \<Rightarrow> rat list" where
  "pauses backoff rnd k n = map (pause backoff rnd) [k..n - 1]"

lemma pauses_Cons: "k < n \<Longrightarrow> pauses b rnd k n = pause b rnd k # pauses b rnd (k + 1) n"
  by (simp add: pauses_def upto_rec1)

lemma attempts_from_end:
  assumes "attempts_from send rnd m b k slept = (r, slept')" "k \<le> m"
  shows "\<exists>n. k \<le> n \<and> n \<le> m \<and> (\<forall>j. k \<le> j \<and> j < n \<longrightarrow> retried (send j)) \<and> (n = m \<or> \<not> retried (send n)) \<and>
     slept' = slept @ pauses b rnd k n \<and>
     one_attempt (send n) n m = (case r of Inr x \<Rightarrow> Ends x | Inl x \<Rightarrow> Breaks x)"
  using assms
proof (induction send rnd m b k slept arbitrary: r slept' rule: attempts_from.induct)
  case (1 send rnd m b k slept)
  show ?case
  proof (cases "one_attempt (send k) k m = Waits")
    case True
    then have wait: "retried (send k)" "k \<noteq> m" by (simp_all add: one_attempt_waits)
    with 1(3) have "k + 1 \<le> m" by simp
    moreover have "attempts_from send rnd m b (k + 1) (slept @ [pause b rnd k]) = (r, slept')"
      using 1(2,3) True by (subst (asm) attempts_from.simps) simp
    ultimately obtain n where n: "k + 1 \<le> n" "n \<le> m" "\<forall>j. k + 1 \<le> j \<and> j < n \<longrightarrow> retried (send j)"
      "n = m \<or> \<not> retried (send n)" "slept' = (slept @ [pause b rnd k]) @ pauses b rnd (k + 1) n"
      "one_attempt (send n) n m = (case r of Inr x \<Rightarrow> Ends x | Inl x \<Rightarrow> Breaks x)"
      using 1(1) [OF _ True] 1(3) by auto
    have "retried (send j)" if "k \<le> j" "j < n" for j
      using that n(3) wait(1) by (cases "j = k") auto
    moreover have "slept' = slept @ pauses b rnd k n" using n(1,5) by (simp add: pauses_Cons)
    ultimately show ?thesis using n by (intro exI [of _ n]) auto
  next
    case False
    then have "k = m \<or> \<not> retried (send k)" by (auto simp: one_attempt_waits)
    moreover have "slept' = slept @ pauses b rnd k k" by (use 1(2,3) False in
        \<open>subst (asm) attempts_from.simps, auto simp: pauses_def split: verdict.splits\<close>)
    moreover have "one_attempt (send k) k m = (case r of Inr x \<Rightarrow> Ends x | Inl x \<Rightarrow> Breaks x)"
      by (use 1(2,3) False in \<open>subst (asm) attempts_from.simps, auto split: verdict.splits\<close>)
    ultimately show ?thesis using 1(3) by (intro exI [of _ k]) auto
  qed
qed

lemma pause_bounds:
  assumes "0 \<le> b" "0 \<le> rnd k" "rnd k < 1" "1 \<le> k"
  shows "b * 2 ^ nat (k - 1) \<le> pause b rnd k" "pause b rnd k \<le> b * 2 ^ nat k"
proof -
  define d where "d = b * 2 ^ nat (k - 1)"
  have d: "0 \<le> d" using assms(1) by (simp add: d_def)
  have "nat k = Suc (nat (k - 1))" using assms(4) by simp
  then have "b * 2 ^ nat k = d + d" by (simp add: d_def)
  moreover have "0 \<le> d * rnd k" "d * rnd k \<le> d * 1"
    using d assms(2,3) mult_left_le [of "rnd k" d] by simp_all
  moreover have "pause b rnd k = d + d * rnd k" by (simp add: pause_def d_def Let_def)
  ultimately show "b * 2 ^ nat (k - 1) \<le> pause b rnd k" "pause b rnd k \<le> b * 2 ^ nat k"
    unfolding d_def [symmetric] by linarith+
qed

text \<open>The pauses of a whole delivery stay under twice the sum of a doubling series.\<close>

lemma sum_pauses:
  assumes "0 \<le> b" "\<forall>j. 0 \<le> rnd j \<and> rnd j < 1" "1 \<le> k" "k \<le> n"
  shows "sum_list (pauses b rnd k n) \<le> b * (2 ^ nat n - 2 ^ nat k)"
  using assms(4)
proof (induction n rule: int_ge_induct)
  case base
  then show ?case by (simp add: pauses_def)
next
  case (step n)
  have "pauses b rnd k (n + 1) = pauses b rnd k n @ [pause b rnd n]"
    using step(1) by (simp add: pauses_def upto_rec2)
  moreover have "pause b rnd n \<le> b * 2 ^ nat n"
    using assms step(1) by (intro pause_bounds) auto
  moreover have "nat (n + 1) = Suc (nat n)" using step(1) assms(3) by simp
  ultimately show ?case using step(2) by (simp add: algebra_simps)
qed

text \<open>A delivery that returns has called the sender between one and \<open>max_attempts\<close> times: every call
  but the last failed in a way that is retried, the last one decides whether the message was sent, and
  the pauses in between add up to at most the backoff times \<open>2 ^ attempts - 2\<close>.\<close>

lemma delivery_bounded:
  assumes "deliver_with_retry send rnd m b = (Inr r, slept)" and "\<forall>j. 0 \<le> rnd j \<and> rnd j < 1"
  shows "1 \<le> dr_attempts r \<and> dr_attempts r \<le> m \<and>
     (\<forall>j. 1 \<le> j \<and> j < dr_attempts r \<longrightarrow> retried (send j)) \<and>
     (dr_attempts r < m \<longrightarrow> \<not> retried (send (dr_attempts r))) \<and>
     dr_sent r = (\<exists>c i. send (dr_attempts r) = Response True c i) \<and>
     length slept = nat (dr_attempts r - 1) \<and> sum_list slept \<le> b * (2 ^ nat (dr_attempts r) - 2)"
proof -
  from assms(1) have m: "1 \<le> m" "0 \<le> b" and run: "attempts_from send rnd m b 1 [] = (Inr r, slept)"
    by (auto simp: deliver_with_retry_def split: if_splits)
  from attempts_from_end [OF run m(1)] obtain n where n: "1 \<le> n" "n \<le> m"
    "\<forall>j. 1 \<le> j \<and> j < n \<longrightarrow> retried (send j)" "n = m \<or> \<not> retried (send n)" "slept = pauses b rnd 1 n"
    "one_attempt (send n) n m = Ends r"
    by auto
  have "sum_list slept \<le> b * (2 ^ nat n - 2)"
    using sum_pauses [OF m(2) assms(2), of 1 n] n(1,5) by simp
  moreover have "length slept = nat (n - 1)" by (simp add: n(5) pauses_def)
  moreover have "dr_sent r = (\<exists>c i. send n = Response True c i)"
    using one_attempt_ends [OF n(6)] by (cases "send n") auto
  ultimately show ?thesis using one_attempt_ends [OF n(6)] n(1-4) by auto
qed

definition example_answers :: "int \<Rightarrow> answer" where
  "example_answers k = (if k = 1 then Transport ''TimeoutError'' else Response True (Some 0) (Some ''m''))"

lemma delivery_bounded_witness:
  "\<exists>r slept. deliver_with_retry example_answers (\<lambda>_. 0) 3 1 = (Inr r, slept) \<and> dr_sent r \<and>
     dr_attempts r = 2 \<and> sum_list slept \<le> 2"
proof -
  have run: "deliver_with_retry example_answers (\<lambda>_. 0) 3 1 = (Inr (delivered True 2 None (Some ''m'')), [1])"
    by (simp add: deliver_with_retry_def attempts_from.simps example_answers_def one_attempt_def pause_def)
  from delivery_bounded [OF run] show ?thesis unfolding run by (auto simp: delivered_def)
qed

end
