(* ===== verification/Lifecycle.thy ===== *)
theory Lifecycle
  imports Deployment
begin

text \<open>
  The life of a deployment: every way the services can change the database (\<open>runs\<close>), and what
  holds in every database they can reach. Each operation is first shown to be a \<open>good_step\<close>: a
  sequence of accepted statements that appends at most one state event, legal and with the rows
  that justify it, and only attempts and decisions that are justified too.
\<close>

section \<open>What justifies a row\<close>

definition request_core :: "approval_request \<Rightarrow> approval_request" where
  "request_core q = q\<lparr>q_card_message_id := None\<rparr>"

definition artifact_for :: "db \<Rightarrow> uuid \<Rightarrow> bool" where
  "artifact_for d dep \<longleftrightarrow> (\<exists>i \<in> set (t_intents d). \<exists>a \<in> set (t_artifacts d).
     di_id i = dep \<and> da_deployment_id a = dep \<and> da_repository a = di_repository i \<and>
     da_target_sha a = di_target_sha i \<and> da_digest a = di_artifact_digest i \<and>
     da_ci_head_sha a = di_target_sha i \<and> da_protected_main_verified a \<and>
     after_last_at (da_image_reference a) = da_digest a)"

definition acceptance_for :: "db \<Rightarrow> uuid \<Rightarrow> bool" where
  "acceptance_for d dep \<longleftrightarrow> (\<exists>i \<in> set (t_intents d). \<exists>s \<in> set (t_acceptances d).
     di_id i = dep \<and> sa_deployment_id s = dep \<and> sa_repository s = di_repository i \<and>
     sa_target_sha s = di_target_sha i \<and> sa_artifact_digest s = di_artifact_digest i \<and>
     sa_config_fingerprint s = di_config_fingerprint i)"

definition binding_for :: "db \<Rightarrow> uuid \<Rightarrow> bool" where
  "binding_for d dep \<longleftrightarrow> (\<exists>i \<in> set (t_intents d). \<exists>b \<in> set (t_bindings d).
     \<exists>q \<in> set (t_requests d). di_id i = dep \<and> ab_deployment_id b = dep \<and>
     ab_approval_request_id b = q_id q \<and> q_deployment_id q = Some dep \<and>
     q_user_id q = di_user_id i \<and> q_action_code q = di_action_code i \<and>
     q_target_sha q = di_target_sha i \<and> q_artifact_digest q = Some (di_artifact_digest i) \<and>
     ab_artifact_digest b = di_artifact_digest i)"

text \<open>
  The approval that a start consumed: approved in time, by somebody else than the requester, on the
  request bound to this deployment and this digest, and consumed before the request expired.
\<close>

definition approval_for :: "db \<Rightarrow> uuid \<Rightarrow> instant \<Rightarrow> bool" where
  "approval_for d dep consumed_at \<longleftrightarrow> (\<exists>i \<in> set (t_intents d). \<exists>b \<in> set (t_bindings d).
     \<exists>q \<in> set (t_requests d). \<exists>c \<in> set (t_decisions d). \<exists>n \<in> set (t_consumptions d).
     di_id i = dep \<and> ab_deployment_id b = dep \<and> ab_approval_request_id b = q_id q \<and>
     q_deployment_id q = Some dep \<and> q_artifact_digest q = Some (di_artifact_digest i) \<and>
     d_request_id c = q_id q \<and> d_decision_code c = ''approved'' \<and>
     d_actor_user_id c \<noteq> di_user_id i \<and> d_decided_at c < q_expires_at q \<and>
     consumed_at < q_expires_at q \<and> ac_deployment_id n = dep \<and>
     ac_approval_request_id n = q_id q \<and> ac_approval_decision_id n = d_id c)"

definition PENDING_STATES :: "string set" where
  "PENDING_STATES = {''PRODUCTION_APPROVAL_PENDING'', ''ROLLBACK_APPROVAL_PENDING''}"

definition DEPLOYING_STATES :: "string set" where
  "DEPLOYING_STATES = {''PRODUCTION_DEPLOYING'', ''ROLLBACK_DEPLOYING''}"

text \<open>The states that a live operation appends; the four outcomes of an execution are not among them.\<close>

definition LIVE_STATES :: "string set" where
  "LIVE_STATES = {''INTENT_CREATED'', ''ARTIFACT_RECORDED'', ''STAGING_DEPLOYING'', ''STAGING_FAILED'',
     ''STAGING_VALIDATED''} \<union> PENDING_STATES \<union> DEPLOYING_STATES"

definition event_justified :: "db \<Rightarrow> deployment_state_event \<Rightarrow> bool" where
  "event_justified d e \<longleftrightarrow> se_to_state e \<in> LIVE_STATES \<and>
     (se_to_state e = ''ARTIFACT_RECORDED'' \<longrightarrow> artifact_for d (se_deployment_id e)) \<and>
     (se_to_state e = ''STAGING_VALIDATED'' \<longrightarrow> acceptance_for d (se_deployment_id e)) \<and>
     (se_to_state e \<in> PENDING_STATES \<longrightarrow> binding_for d (se_deployment_id e)) \<and>
     (se_to_state e \<in> DEPLOYING_STATES \<longrightarrow> approval_for d (se_deployment_id e) (se_occurred_at e))"

definition attempt_justified :: "db \<Rightarrow> deployment_execution_attempt \<Rightarrow> bool" where
  "attempt_justified d a \<longleftrightarrow>
     (\<exists>e \<in> set (t_events d). se_deployment_id e = ea_deployment_id a \<and>
        se_to_state e \<in> DEPLOYING_STATES) \<and>
     (\<exists>i \<in> set (t_intents d). \<exists>f \<in> set (t_artifacts d). di_id i = ea_deployment_id a \<and>
        da_deployment_id f = ea_deployment_id a \<and>
        ea_intent_hash a = calculate_intent_hash (ea_deployment_id a) (ea_id a)
          (ea_fencing_token a) (di_repository i) (di_target_sha i) (da_service_images f)
          (di_artifact_digest i) (di_migration_revision i))"

definition decision_justified :: "db \<Rightarrow> approval_decision \<Rightarrow> bool" where
  "decision_justified d c \<longleftrightarrow> (\<exists>q \<in> set (t_requests d). decision_permitted q c)"

lemmas STATES_defs = LIVE_STATES_def PENDING_STATES_def DEPLOYING_STATES_def

text \<open>No lock carries the mark of a stale-lock reconciliation.\<close>

definition locks_unreconciled :: "db \<Rightarrow> bool" where
  "locks_unreconciled d \<longleftrightarrow> list_all (\<lambda>l. dl_stale_reconciled_at l = None) (t_locks d)"

text \<open>An event that \<^const>\<open>append_state_event\<close> would append next.\<close>

definition next_event :: "db \<Rightarrow> deployment_state_event \<Rightarrow> bool" where
  "next_event d e \<longleftrightarrow>
     (let latest = latest_state_event (se_deployment_id e) d in
      se_from_state e = map_option se_to_state latest \<and> legal (se_from_state e) (se_to_state e) \<and>
      se_sequence e = (case latest of None \<Rightarrow> 1 | Some l \<Rightarrow> se_sequence l + 1))"

definition good_step :: "db \<Rightarrow> db \<Rightarrow> bool" where
  "good_step d d' \<longleftrightarrow> dml_step\<^sup>*\<^sup>* d d' \<and>
     (t_events d' = t_events d \<or>
      (\<exists>e. t_events d' = t_events d @ [e] \<and> next_event d e \<and> event_justified d' e)) \<and>
     (\<exists>as. t_attempts d' = t_attempts d @ as \<and> list_all (attempt_justified d') as) \<and>
     (\<exists>cs. t_decisions d' = t_decisions d @ cs \<and> list_all (decision_justified d') cs) \<and>
     (locks_unreconciled d \<longrightarrow> locks_unreconciled d')"

lemma quiet_step:
  "dml_step\<^sup>*\<^sup>* d d' \<Longrightarrow> t_events d' = t_events d \<Longrightarrow> t_attempts d' = t_attempts d \<Longrightarrow>
     t_decisions d' = t_decisions d \<Longrightarrow> (locks_unreconciled d \<Longrightarrow> locks_unreconciled d') \<Longrightarrow>
     good_step d d'"
  by (simp add: good_step_def)

lemma event_step:
  "dml_step\<^sup>*\<^sup>* d d' \<Longrightarrow> t_events d' = t_events d @ [e] \<Longrightarrow> next_event d e \<Longrightarrow> event_justified d' e \<Longrightarrow>
     t_attempts d' = t_attempts d \<Longrightarrow> t_decisions d' = t_decisions d \<Longrightarrow> t_locks d' = t_locks d \<Longrightarrow>
     good_step d d'"
  by (simp add: good_step_def locks_unreconciled_def)

section \<open>The steps the operations share\<close>

lemma append_event_ok:
  assumes "append_state_event dep st code fp ev t i d = Inr (e, d')"
  shows "d' = d\<lparr>t_events := t_events d @ [e]\<rparr> \<and> next_event d e \<and> se_to_state e = st \<and>
    se_deployment_id e = dep \<and> se_occurred_at e = t \<and> se_id e = i \<and> insert_event e d = Inr d'"
  using assms unfolding append_state_event_def append_state_event_with_def state_event_for_def
  by (auto simp: Let_def bindE_eq_Inr require_transition_ok next_event_def split: if_splits
      dest: inserted(9))

lemma latest_same_events: "t_events d = t_events d' \<Longrightarrow> latest_state_event dep d = latest_state_event dep d'"
  by (simp add: latest_state_event_def events_of_def)

lemma next_event_same: "t_events d = t_events d' \<Longrightarrow> next_event d e \<longleftrightarrow> next_event d' e"
  by (simp add: next_event_def latest_same_events [of d d'])

lemma add_evidence_ok:
  assumes "add_evidence dep ty key st payload t i d = Inr (e, d')"
  shows "d' = d \<or> (\<exists>r. insert_evidence r d = Inr d')"
  using assms
  by (auto simp: add_evidence_def add_evidence_with_def Let_def bindE_eq_Inr split: if_splits option.splits)

lemma add_evidence_tables:
  assumes "add_evidence dep ty key st payload t i d = Inr (e, d')"
  shows "\<exists>es. d' = d\<lparr>t_evidence := t_evidence d @ es\<rparr>"
proof -
  from add_evidence_ok [OF assms] consider "d' = d" | r where "insert_evidence r d = Inr d'" by blast
  then show ?thesis
  proof cases
    case 1
    then have "d' = d\<lparr>t_evidence := t_evidence d @ []\<rparr>" by simp
    then show ?thesis by blast
  qed (blast dest: inserted(15))
qed

lemma add_evidence_dml: "add_evidence dep ty key st payload t i d = Inr (e, d') \<Longrightarrow> dml_step\<^sup>*\<^sup>* d d'"
  by (drule add_evidence_ok) (blast intro: dml_step.evidence)


lemma good_refl: "good_step d d"
  by (simp add: quiet_step)

lemma dml1: "dml_step a b \<Longrightarrow> dml_step\<^sup>*\<^sup>* a b"
  by blast

lemma dml2: "dml_step a b \<Longrightarrow> dml_step b c \<Longrightarrow> dml_step\<^sup>*\<^sup>* a c"
  by (meson r_into_rtranclp rtranclp.rtrancl_into_rtrancl)

lemma begin_staging_good:
  assumes "begin_staging_deployment dep fp ids now d = Inr (u, d')"
  shows "good_step d d'"
proof -
  from assms consider "d' = d" | e where
    "append_state_event dep ''STAGING_DEPLOYING'' ''staging_deploying'' fp [] now (ids 0) d = Inr (e, d')"
    by (auto simp: begin_staging_deployment_def bindE_eq_Inr split: if_splits)
  then show ?thesis
  proof cases
    case (2 e)
    from append_event_ok [OF 2] show ?thesis
      by (intro event_step [of _ _ e]) (auto intro: dml_step.event simp: event_justified_def
          STATES_defs)
  qed (simp add: good_refl)
qed

lemma staging_failure_good:
  assumes "record_staging_failure dep fp code ids now d = Inr (u, d')"
  shows "good_step d d'"
proof -
  from assms obtain e where
    "append_state_event dep ''STAGING_FAILED'' ''staging_failed'' fp
       [(''failure_code'', JStr code)] now (ids 0) d = Inr (e, d')"
    by (auto simp: record_staging_failure_def bindE_eq_Inr split: if_splits)
  from append_event_ok [OF this] show ?thesis
    by (intro event_step [of _ _ e]) (auto intro: dml_step.event simp: event_justified_def
        STATES_defs)
qed

lemma create_intent_good:
  assumes "create_deployment_intent tn oi kind repo sha digest svcs risk mig book cfg key ids st now d
    = Inr (x, d')"
  shows "good_step d d'"
proof -
  from assms consider "d' = d" | i d1 e fp where "insert_intent i d = Inr d1"
    "append_state_event (ids 0) ''INTENT_CREATED'' ''intent_created'' fp [] now (ids 1) d1 = Inr (e, d')"
    by (auto simp: create_deployment_intent_def Let_def branch_simps)
  then show ?thesis
  proof cases
    case (2 i d1 e fp)
    note ev = append_event_ok [OF 2(2)]
    have "dml_step\<^sup>*\<^sup>* d d'" using ev 2(1) by (blast intro: dml2 dml_step.intent dml_step.event)
    with ev inserted(7) [OF 2(1)] show ?thesis
      by (intro event_step [of _ _ e])
        (auto simp: event_justified_def STATES_defs next_event_same [of d d1])
  qed (simp add: good_refl)
qed

lemma rollback_link_good:
  assumes "create_rollback_link dep f cur sha digest ids st d = Inr (x, d')"
  shows "good_step d d'"
proof -
  from assms obtain r where r: "insert_rollback r d = Inr d'"
    by (auto simp: create_rollback_link_def Let_def branch_simps)
  have "dml_step\<^sup>*\<^sup>* d d'" by (rule dml1, rule dml_step.rollback [OF r])
  with inserted(16) [OF r] show ?thesis by (intro quiet_step) (auto simp: locks_unreconciled_def)
qed

lemma record_artifact_good:
  assumes "record_artifact dep repo sha digest img run verify prov fp ids st now d = Inr (x, d')"
  shows "good_step d d'"
proof -
  from assms consider "d' = d" | i d1 e verified where
      "filter (\<lambda>i. di_id i = dep) (t_intents d) = [i]"
      "repo = di_repository i" "sha = di_target_sha i" "digest = di_artifact_digest i"
      "valid_verified_ci verified repo sha run" "validate_immutable_artifact digest img = Inr ()"
      "da_deployment_id x = dep" "da_repository x = repo" "da_target_sha x = sha"
      "da_digest x = digest" "da_ci_head_sha x = ci_target_sha verified"
      "da_protected_main_verified x = ci_protected_main_membership verified"
      "da_image_reference x = img"
      "insert_artifact x d = Inr d1"
      "append_state_event dep ''ARTIFACT_RECORDED'' ''artifact_recorded'' fp
         (mk_dict [(''digest'', JStr digest), (''ci_run_id'', JNum (da_ci_run_id x))]) now (ids 1) d1
         = Inr (e, d')"
    by (auto simp: record_artifact_def Let_def branch_simps scalar_one_or_none_Some)
  then show ?thesis
  proof cases
    case (2 i d1 e verified)
    note ev = append_event_ok [OF 2(15)] and art = inserted(8) [OF 2(14)]
      and i = filter_singletonD [OF 2(1)]
    have "artifact_for d' dep"
      using 2(2-13) ev art i unfolding artifact_for_def
      by (auto simp: valid_verified_ci_def validate_immutable_artifact_ok)
    moreover have "dml_step\<^sup>*\<^sup>* d d'"
      using ev 2(14) by (blast intro: dml2 dml_step.artifact dml_step.event)
    ultimately show ?thesis using ev art
      by (intro event_step [of _ _ e])
        (auto simp: event_justified_def STATES_defs next_event_same [of d d1])
  qed (simp add: good_refl)
qed

lemma staging_acceptance_good:
  assumes "record_staging_acceptance dep repo sha digest suite cfg fp val ids now d = Inr (x, d')"
  shows "good_step d d'"
proof -
  from assms consider "d' = d" | i d1 e ev where
      "filter (\<lambda>i. di_id i = dep) (t_intents d) = [i]"
      "repo = di_repository i" "sha = di_target_sha i" "digest = di_artifact_digest i"
      "cfg = di_config_fingerprint i" "sa_deployment_id x = dep" "sa_repository x = repo"
      "sa_target_sha x = sha" "sa_artifact_digest x = digest" "sa_config_fingerprint x = cfg"
      "insert_acceptance x d = Inr d1"
      "append_state_event dep ''STAGING_VALIDATED'' ''staging_accepted'' fp ev now (ids 1) d1
         = Inr (e, d')"
    by (auto simp: record_staging_acceptance_def Let_def branch_simps scalar_one_or_none_Some)
  then show ?thesis
  proof cases
    case (2 i d1 e evd)
    note ev = append_event_ok [OF 2(12)] and acc = inserted(10) [OF 2(11)]
      and i = filter_singletonD [OF 2(1)]
    have "acceptance_for d' dep"
      using 2(2-10) ev acc i unfolding acceptance_for_def by auto
    moreover have "dml_step\<^sup>*\<^sup>* d d'"
      using ev 2(11) by (blast intro: dml2 dml_step.acceptance dml_step.event)
    ultimately show ?thesis using ev acc
      by (intro event_step [of _ _ e])
        (auto simp: event_justified_def STATES_defs next_event_same [of d d1])
  qed (simp add: good_refl)
qed

lemma invalidate_good:
  assumes "invalidate_staging_acceptance acc reason ids st d = Inr (u, d')"
  shows "good_step d d'"
proof -
  from assms obtain r where r: "insert_invalidation r d = Inr d'"
    by (auto simp: invalidate_staging_acceptance_def Let_def branch_simps)
  have "dml_step\<^sup>*\<^sup>* d d'" by (rule dml1, rule dml_step.invalidation [OF r])
  with inserted(11) [OF r] show ?thesis by (intro quiet_step) (auto simp: locks_unreconciled_def)
qed


lemma bound_approval_good:
  assumes "create_bound_production_approval dep key ttl ids st now d = Inr ((q, b), d')"
  shows "good_step d d'"
proof -
  from assms consider "d' = d" | i d1 d2 e ev r fp where
      "filter (\<lambda>i. di_id i = dep) (t_intents d) = [i]"
      "q = bound_request i (ids 0) key now ttl" "b = bound_binding i dep (ids 1) (ids 0) r st"
      "insert_request q d = Inr d1" "insert_binding b d1 = Inr d2"
      "append_state_event dep (pending_state i) ''approval_bound'' fp ev now (ids 2) d2 = Inr (e, d')"
    by (auto simp: create_bound_production_approval_def Let_def branch_simps scalar_one_or_none_Some)
  then show ?thesis
  proof cases
    case (2 i d1 d2 e evd r fp)
    note ev = append_event_ok [OF 2(6)] and req = inserted(5) [OF 2(4)] and bi = inserted(12) [OF 2(5)]
      and i = filter_singletonD [OF 2(1)]
    have "binding_for d' dep"
      using 2(2,3) ev req bi i unfolding binding_for_def
      by (auto simp: bound_request_def bound_binding_def)
    moreover have "dml_step\<^sup>*\<^sup>* d d'"
      using ev 2(4,5) by (blast intro: dml2 rtranclp.rtrancl_into_rtrancl dml_step.request
          dml_step.binding dml_step.event)
    ultimately show ?thesis using ev req bi
      by (intro event_step [of _ _ e])
        (auto simp: event_justified_def STATES_defs pending_state_def
          next_event_same [of d d2] split: if_splits)
  qed (simp add: good_refl)
qed

lemma evidence_good:
  assumes "add_evidence dep ty key st payload t i d = Inr (e, d')"
  shows "good_step d d'"
  using add_evidence_dml [OF assms] add_evidence_tables [OF assms]
  by (intro quiet_step) (auto simp: locks_unreconciled_def)

lemma record_evidence_ok:
  assumes "record_deployment_evidence dep ty key st payload ids now d dc = Inr (e, d')"
  shows "d' = dc \<or> (\<exists>r. insert_evidence r dc = Inr d')"
  using assms
  by (auto simp: record_deployment_evidence_def add_evidence_with_def Let_def branch_simps gate_def policy_def
      split: if_splits option.splits)

lemma record_evidence_good:
  assumes "record_deployment_evidence dep ty key st payload ids now d dc = Inr (e, d')"
  shows "good_step dc d'"
proof -
  from record_evidence_ok [OF assms] consider "d' = dc" | r where "insert_evidence r dc = Inr d'" by blast
  then show ?thesis
  proof cases
    case 2
    then show ?thesis using inserted(15) [OF 2]
      by (intro quiet_step dml1 dml_step.evidence) (auto simp: locks_unreconciled_def)
  qed (simp add: good_refl)
qed

text \<open>The lock: one statement on it and one piece of evidence.\<close>

lemma lock_then_evidence:
  assumes "dml_step d d1" and "t_events d1 = t_events d" and "t_attempts d1 = t_attempts d"
    and "t_decisions d1 = t_decisions d" and "locks_unreconciled d \<Longrightarrow> locks_unreconciled d1"
    and "add_evidence dep ty key st payload t i d1 = Inr (e, d2)"
  shows "good_step d d2"
  using assms add_evidence_dml [OF assms(6)] add_evidence_tables [OF assms(6)]
  by (intro quiet_step) (auto simp: locks_unreconciled_def intro: converse_rtranclp_into_rtranclp)

lemma update_lock_tables:
  "update_lock l d = Inr d' \<Longrightarrow> t_events d' = t_events d \<and> t_attempts d' = t_attempts d \<and>
     t_decisions d' = t_decisions d \<and>
     (dl_stale_reconciled_at l = None \<longrightarrow> locks_unreconciled d \<longrightarrow> locks_unreconciled d')"
  by (auto simp: update_lock_def locks_unreconciled_def list_all_iff split: if_splits)

lemma acquire_good:
  assumes "acquire_deployment_lock dep owner lease key cd ids now d dc = Inr (x, d')"
    and "dml_step\<^sup>*\<^sup>* d dc"
  shows "(d' = d \<or> good_step d d') \<or> good_step dc d'"
proof -
  from assms(1) consider
      token where "insert_lock \<lparr>dl_conflict_domain = PRODUCTION_CONFLICT_DOMAIN,
                  dl_environment = ''production'', dl_deployment_id = dep,
                  dl_owner_identity = owner, dl_fencing_token = 1, dl_acquired_at = now,
                  dl_renewed_at = now, dl_lease_expires_at = now + seconds lease,
                  dl_stale_reconciled_at = None, dl_stale_reconciled_token = None,
                  dl_stale_reconciliation_evidence_key = None\<rparr> dc = Inr token"
        "\<exists>e payload. add_evidence dep ''lock_acquired'' key ''recorded'' payload now (ids 0) token = Inr (e, d')"
    | payload e where "add_evidence dep ''lock_acquired'' key ''recorded'' payload now (ids 0) d = Inr (e, d')"
    | l l0 d1 payload e where "update_lock l d = Inr d1" "l0 \<in> set (t_locks d)"
        "dl_stale_reconciled_at l0 \<noteq> None"
        "add_evidence dep ''lock_acquired'' key ''recorded'' payload now (ids 0) d1 = Inr (e, d')"
    by (auto simp: acquire_deployment_lock_def Let_def branch_simps resolve_executor_identity_def
        scalar_one_or_none_Some dest!: filter_singletonD)
  then show ?thesis
  proof cases
    case (1 d1)
    then show ?thesis
      using inserted(17) [OF 1(1)] by (auto simp: locks_unreconciled_def intro!: lock_then_evidence dml_step.lock [OF 1(1)])
  next
    case 2
    then show ?thesis using evidence_good by blast
  next
    case (3 l l0 d1 payload e)
    then have "\<not> locks_unreconciled d" by (auto simp: locks_unreconciled_def list_all_iff)
    with 3 show ?thesis
      using update_lock_tables [OF 3(1)] by (auto intro!: lock_then_evidence dml_step.relock [OF 3(1)])
  qed
qed

lemma renew_good:
  assumes "renew_deployment_lock dep owner lease key token ids now d = Inr (u, d')"
  shows "good_step d d'"
proof -
  from assms obtain l0 l d1 payload e where l: "update_lock l d = Inr d1"
    and l0: "l0 \<in> set (t_locks d)" "dl_stale_reconciled_at l = dl_stale_reconciled_at l0"
    and "add_evidence dep ''lock_renewed'' key ''recorded'' payload now (ids 0) d1 = Inr (e, d')"
    by (auto simp: renew_deployment_lock_def Let_def branch_simps scalar_one_or_none_Some
        dest!: filter_singletonD)
  then show ?thesis
    using update_lock_tables [OF l] by (auto simp: locks_unreconciled_def list_all_iff intro!: lock_then_evidence dml_step.relock [OF l])
qed

lemma release_good:
  assumes "release_deployment_lock dep owner key token ids now d = Inr (u, d')"
  shows "good_step d d'"
proof -
  from assms obtain l d1 payload e where
    e: "add_evidence dep ''lock_released'' key ''recorded'' payload now (ids 0) d = Inr (e, d1)"
    and d': "d' = delete_lock l d1"
    by (auto simp: release_deployment_lock_def Let_def branch_simps)
  from add_evidence_dml [OF e] have "dml_step\<^sup>*\<^sup>* d d'"
    unfolding d' by (rule rtranclp.rtrancl_into_rtrancl) (rule dml_step.unlock)
  with add_evidence_tables [OF e] show ?thesis
    by (intro quiet_step) (auto simp: d' delete_lock_def locks_unreconciled_def list_all_iff)
qed

lemma start_good:
  assumes "start_production_deployment dep owner token ids st now d = Inr (x, d')"
  shows "good_step d d'"
proof -
  from assms consider "d' = d" | i b q c where
      "filter (\<lambda>i. di_id i = dep) (t_intents d) = [i]"
      "filter (\<lambda>b. ab_deployment_id b = dep) (t_bindings d) = [b]"
      "filter (\<lambda>q. q_id q = ab_approval_request_id b) (t_requests d) = [q]"
      "filter (\<lambda>c. d_request_id c = ab_approval_request_id b) (t_decisions d) = [c]"
      "approval_consumable i dep q c now"
      "consume_and_prepare i q c dep owner token ids st now d = Inr (x, d')"
    by (auto simp: start_production_deployment_def Let_def branch_simps scalar_one_or_none_Some
        resolve_executor_identity_def)
  then show ?thesis
  proof cases
    case (2 i b q c)
    from 2(6) obtain e d1 f d2 d3 k ev v where
      ap: "append_state_event dep (deploying_state i) ''approval_consumed_and_execution_prepared''
         (di_requested_by_identity_fingerprint i) [(''fencing_token'', JNum token)] now (ids 0) d
         = Inr (e, d1)"
      and f: "filter (\<lambda>a. da_deployment_id a = dep) (t_artifacts d1) = [f]"
      and n: "insert_consumption \<lparr>ac_id = ids 2, ac_deployment_id = dep, ac_approval_request_id = q_id q,
         ac_approval_decision_id = d_id c, ac_state_event_id = se_id e, ac_consumed_at = now\<rparr> d1 = Inr d2"
      and at: "insert_attempt (attempt_row i f dep (ids 1) owner token st) d2 = Inr d3"
      and ae: "add_evidence dep ''execution_attempt'' k ''recorded'' ev now (ids 3) d3 = Inr (v, d')"
      by (auto simp: consume_and_prepare_def Let_def branch_simps scalar_one_eq)
    note e = append_event_ok [OF ap] and t = inserted(13) [OF n] inserted(14) [OF at]
    from add_evidence_tables [OF ae] obtain es where d': "d' = d3\<lparr>t_evidence := t_evidence d3 @ es\<rparr>"
      by blast
    have rows: "i \<in> set (t_intents d)" "di_id i = dep" "b \<in> set (t_bindings d)"
      "ab_deployment_id b = dep" "q \<in> set (t_requests d)" "q_id q = ab_approval_request_id b"
      "c \<in> set (t_decisions d)" "d_request_id c = q_id q" "f \<in> set (t_artifacts d)"
      "da_deployment_id f = dep"
      using 2(1-4) f e by (auto dest!: filter_singletonD)
    have "approval_for d' dep now"
      using rows 2(5) e t unfolding d' approval_for_def approval_consumable_def
      by (auto intro!: bexI [of _ i] bexI [of _ b] bexI [of _ q] bexI [of _ c])
    moreover have "attempt_justified d' (attempt_row i f dep (ids 1) owner token st)"
      using rows e t unfolding d' attempt_justified_def
      by (auto simp: attempt_row_def DEPLOYING_STATES_def deploying_state_def
          intro!: bexI [of _ i] bexI [of _ f])
    moreover have "dml_step\<^sup>*\<^sup>* d d'"
    proof -
      have "dml_step\<^sup>*\<^sup>* d d3" using e n at
        by (blast intro: dml2 rtranclp.rtrancl_into_rtrancl dml_step.event dml_step.consumption
            dml_step.attempt)
      with add_evidence_dml [OF ae] show ?thesis by (rule rtranclp_trans [rotated])
    qed
    ultimately show ?thesis
      using e t unfolding good_step_def d'
      by (auto simp: event_justified_def STATES_defs deploying_state_def locks_unreconciled_def)
  qed (simp add: good_refl)
qed


section \<open>Approvals and identities\<close>

lemma decision_permitted_core [simp]: "decision_permitted (request_core q) c = decision_permitted q c"
  by (simp add: decision_permitted_def request_core_def)

lemma requests_step: "dml_step d d' \<Longrightarrow> request_core ` set (t_requests d) \<subseteq> request_core ` set (t_requests d')"
proof (induction rule: dml_step.induct)
  case (card i m d d')
  then have d': "d' = d\<lparr>t_requests :=
      map (\<lambda>q. if q_id q = i then q\<lparr>q_card_message_id := Some m\<rparr> else q) (t_requests d)\<rparr>"
    by (auto simp: set_card_message_id_def split: if_splits)
  have "request_core (if q_id q = i then q\<lparr>q_card_message_id := Some m\<rparr> else q) = request_core q" for q
    by (simp add: request_core_def)
  then have "map request_core (t_requests d') = map request_core (t_requests d)"
    unfolding d' by simp
  then show ?case by (metis list.set_map order_refl)
qed (auto simp: insert_defs insert_row_ok update_lock_def delete_lock_def
      update_external_identity_def bindE_eq_Inr split: if_splits list.splits)

lemma requests_grow:
  "dml_step\<^sup>*\<^sup>* d d' \<Longrightarrow> request_core ` set (t_requests d) \<subseteq> request_core ` set (t_requests d')"
  by (induction rule: rtranclp_induct) (auto dest!: requests_step)

lemma request_persists:
  assumes "dml_step\<^sup>*\<^sup>* d d'" and "q \<in> set (t_requests d)"
  obtains q' where "q' \<in> set (t_requests d')" "request_core q' = request_core q"
  using requests_grow [OF assms(1)] assms(2) by (metis (no_types, lifting) image_iff subset_iff)

lemma core_fields:
  "request_core q' = request_core q \<Longrightarrow>
     q_id q' = q_id q \<and> q_user_id q' = q_user_id q \<and> q_action_code q' = q_action_code q \<and>
     q_target_sha q' = q_target_sha q \<and> q_deployment_id q' = q_deployment_id q \<and>
     q_artifact_digest q' = q_artifact_digest q \<and> q_expires_at q' = q_expires_at q"
  by (cases q; cases q') (simp add: request_core_def)

lemma decision_good:
  assumes "record_approval_decision cmd event actor oid ext i now fault d dc = (out, d')"
    and "dml_step\<^sup>*\<^sup>* d dc"
  shows "good_step dc d'"
  using assms(1)
proof (cases rule: record_cases)
  case 1
  then show ?thesis by (simp add: good_refl)
next
  case (2 q)
  let ?c = "decision_row cmd event actor (approval_identity_fingerprint oid) ext i now"
  note d' = inserted(6) [OF 2(4)]
  from request_persists [OF assms(2) 2(1)] obtain q' where
    q': "q' \<in> set (t_requests dc)" "request_core q' = request_core q" .
  have "decision_permitted q' ?c"
    using 2(2) q'(2) by (metis decision_permitted_core)
  with q'(1) have "decision_justified d' ?c" by (auto simp: decision_justified_def d')
  moreover have "dml_step\<^sup>*\<^sup>* dc d'" by (rule dml1, rule dml_step.decision [OF 2(4)])
  ultimately show ?thesis by (auto simp: good_step_def d' locks_unreconciled_def)
qed

lemma message_good:
  assumes "process_approval_message text tenant st oid ct chat event actor ts os cts aps sc i now fault
      d dc = (out, d')"
    and "dml_step\<^sup>*\<^sup>* d dc"
  shows "good_step dc d'"
  using assms decision_good
  by (auto simp: process_approval_message_def good_refl split: prod.splits option.splits bool.splits
      if_splits)

lemma card_good:
  assumes "process_approval_card_action act r tenant oid chat event actor ts os aps sc ext i now fault
      d dc = (out, d')"
    and "dml_step\<^sup>*\<^sup>* d dc"
  shows "good_step dc d'"
  using assms decision_good
  by (auto simp: process_approval_card_action_def good_refl split: if_splits)

lemma create_request_good:
  assumes "create_approval_request u act repo pr sha env key ttl i now d dc = Inr (q, d')"
  shows "good_step dc d'"
proof -
  from assms consider "d' = dc" | "insert_request q dc = Inr d'"
    by (auto simp: create_approval_request_def Let_def branch_simps)
  then show ?thesis
  proof cases
    case 2
    have "dml_step\<^sup>*\<^sup>* dc d'" by (rule dml1, rule dml_step.request [OF 2])
    with inserted(5) [OF 2] show ?thesis by (intro quiet_step) (auto simp: locks_unreconciled_def)
  qed (simp add: good_refl)
qed

lemma provision_good:
  assumes "provision_principal ty key u i now d = Inr (p, d')"
  shows "good_step d d'"
proof -
  from assms have p: "insert_principal p d = Inr d'"
    by (auto simp: provision_principal_def Let_def branch_simps)
  have "dml_step\<^sup>*\<^sup>* d d'" by (rule dml1, rule dml_step.principal [OF p])
  with inserted(2) [OF p] show ?thesis by (intro quiet_step) (auto simp: locks_unreconciled_def)
qed

lemma update_identity_tables:
  "update_external_identity i f d = Inr d' \<Longrightarrow> t_events d' = t_events d \<and> t_attempts d' = t_attempts d \<and>
     t_decisions d' = t_decisions d \<and> t_locks d' = t_locks d"
  by (auto simp: update_external_identity_def branch_simps split: list.splits)

lemma assign_good:
  assumes "assign_feishu_identity t s pid audit i now d dc = Inr (m, d')"
  shows "good_step d d' \<or> good_step dc d'"
proof -
  from assign_ok [OF assms] consider "insert_external_identity m dc = Inr d'"
    | c d1 where "update_external_identity c (\<lambda>x. x\<lparr>x_valid_to := Some now\<rparr>) d = Inr d1"
        "insert_external_identity m d1 = Inr d'"
    | "d' = d" by blast
  then show ?thesis
  proof cases
    case 1
    have "dml_step\<^sup>*\<^sup>* dc d'" by (rule dml1, rule dml_step.external_identity [OF 1])
    with inserted(3) [OF 1] show ?thesis by (intro disjI2 quiet_step) (auto simp: locks_unreconciled_def)
  next
    case (2 c d1)
    have "dml_step\<^sup>*\<^sup>* d d'"
      by (rule dml2, rule dml_step.close_identity [OF 2(1)], rule dml_step.external_identity [OF 2(2)])
    with inserted(3) [OF 2(2)] update_identity_tables [OF 2(1)] show ?thesis
      by (intro disjI1 quiet_step) (auto simp: locks_unreconciled_def)
  qed (simp add: good_refl)
qed

section \<open>Growth keeps what is justified\<close>

lemma artifact_for_mono: "grows d d' \<Longrightarrow> artifact_for d dep \<Longrightarrow> artifact_for d' dep"
  unfolding artifact_for_def using growsD(3,8) by blast

lemma acceptance_for_mono: "grows d d' \<Longrightarrow> acceptance_for d dep \<Longrightarrow> acceptance_for d' dep"
  unfolding acceptance_for_def using growsD(3,5) by blast

lemma binding_for_mono:
  assumes "dml_step\<^sup>*\<^sup>* d d'" and "binding_for d dep"
  shows "binding_for d' dep"
proof -
  from assms(2) obtain i b q where r: "i \<in> set (t_intents d)" "b \<in> set (t_bindings d)"
    "q \<in> set (t_requests d)" "di_id i = dep" "ab_deployment_id b = dep" "ab_approval_request_id b = q_id q"
    "q_deployment_id q = Some dep" "q_user_id q = di_user_id i" "q_action_code q = di_action_code i"
    "q_target_sha q = di_target_sha i" "q_artifact_digest q = Some (di_artifact_digest i)"
    "ab_artifact_digest b = di_artifact_digest i"
    unfolding binding_for_def by blast
  from request_persists [OF assms(1) r(3)] obtain q' where
    q': "q' \<in> set (t_requests d')" "request_core q' = request_core q" .
  show ?thesis
    unfolding binding_for_def
    using r growsD(3,6) [OF dml_grows [OF assms(1)]] q'(1) core_fields [OF q'(2)]
    by (intro bexI [of _ i] bexI [of _ b] bexI [of _ q']) auto
qed

lemma approval_for_mono:
  assumes "dml_step\<^sup>*\<^sup>* d d'" and "approval_for d dep t"
  shows "approval_for d' dep t"
proof -
  from assms(2) obtain i b q c n where r: "i \<in> set (t_intents d)" "b \<in> set (t_bindings d)"
    "q \<in> set (t_requests d)" "c \<in> set (t_decisions d)" "n \<in> set (t_consumptions d)"
    "di_id i = dep" "ab_deployment_id b = dep" "ab_approval_request_id b = q_id q"
    "q_deployment_id q = Some dep" "q_artifact_digest q = Some (di_artifact_digest i)"
    "d_request_id c = q_id q" "d_decision_code c = ''approved''"
    "d_actor_user_id c \<noteq> di_user_id i" "d_decided_at c < q_expires_at q"
    "t < q_expires_at q" "ac_deployment_id n = dep"
    "ac_approval_request_id n = q_id q" "ac_approval_decision_id n = d_id c"
    unfolding approval_for_def by blast
  from request_persists [OF assms(1) r(3)] obtain q' where
    q': "q' \<in> set (t_requests d')" "request_core q' = request_core q" .
  show ?thesis
    unfolding approval_for_def
    using r growsD(2,3,6,7) [OF dml_grows [OF assms(1)]] q'(1) core_fields [OF q'(2)]
    by (intro bexI [of _ i] bexI [of _ b] bexI [of _ q'] bexI [of _ c] bexI [of _ n]) auto
qed

lemma event_justified_mono: "dml_step\<^sup>*\<^sup>* d d' \<Longrightarrow> event_justified d e \<Longrightarrow> event_justified d' e"
  unfolding event_justified_def
  using dml_grows artifact_for_mono acceptance_for_mono binding_for_mono approval_for_mono by blast

lemma attempt_justified_mono: "dml_step\<^sup>*\<^sup>* d d' \<Longrightarrow> attempt_justified d a \<Longrightarrow> attempt_justified d' a"
  unfolding attempt_justified_def using growsD(3,4,8) [OF dml_grows] by (meson subset_iff)

lemma decision_justified_mono:
  assumes "dml_step\<^sup>*\<^sup>* d d'" and "decision_justified d c"
  shows "decision_justified d' c"
proof -
  from assms(2) obtain q where q: "q \<in> set (t_requests d)" "decision_permitted q c"
    by (auto simp: decision_justified_def)
  from request_persists [OF assms(1) q(1)] obtain q' where
    "q' \<in> set (t_requests d')" "request_core q' = request_core q" .
  then show ?thesis using q(2) decision_permitted_core unfolding decision_justified_def by metis
qed

section \<open>The history of a deployment\<close>

definition states_of :: "uuid \<Rightarrow> db \<Rightarrow> string list" where
  "states_of dep d = map se_to_state (events_of dep d)"

definition history_ok :: "db \<Rightarrow> uuid \<Rightarrow> bool" where
  "history_ok d dep \<longleftrightarrow> legal_from None (states_of dep d) \<and>
     map se_sequence (events_of dep d) = map int [1..<Suc (length (events_of dep d))]"

lemma latest_history:
  assumes "history_ok d dep"
  shows "latest_state_event dep d = (if events_of dep d = [] then None else Some (last (events_of dep d)))"
proof (cases "events_of dep d" rule: rev_cases)
  case Nil
  then show ?thesis by (simp add: latest_state_event_def)
next
  case (snoc es e)
  with assms have "map se_sequence es = map int [1..<Suc (length es)]" "se_sequence e = int (Suc (length es))"
    by (auto simp: history_ok_def)
  then have "\<forall>s \<in> set es. se_sequence s < se_sequence e"
    by (metis (no_types, lifting) atLeastLessThan_iff image_iff list.set_map of_nat_less_iff set_upt)
  then show ?thesis by (simp add: latest_state_event_def snoc latest_by_snoc)
qed

lemma next_event_history:
  assumes "history_ok d dep" and "t_events d' = t_events d @ [e]" and "next_event d e"
  shows "history_ok d' dep"
proof (cases "se_deployment_id e = dep")
  case False
  with assms show ?thesis by (simp add: history_ok_def states_of_def events_of_def)
next
  case True
  let ?es = "events_of dep d"
  have es': "events_of dep d' = ?es @ [e]" using assms(2) True by (simp add: events_of_def)
  have latest: "map_option se_to_state (latest_state_event dep d) = last_state None (states_of dep d)"
    by (simp add: latest_history [OF assms(1)] states_of_def last_state_def last_map)
  have "legal (last_state None (states_of dep d)) (se_to_state e)"
    using assms(3) True latest unfolding next_event_def Let_def by metis
  then have "legal_from None (states_of dep d')"
    using assms(1) by (simp add: states_of_def es' legal_from_snoc history_ok_def)
  moreover have "se_sequence e = int (Suc (length ?es))"
  proof (cases ?es rule: rev_cases)
    case Nil
    then show ?thesis using assms(1,3) True latest_history [OF assms(1)] by (simp add: next_event_def)
  next
    case (snoc fs f)
    then have "se_sequence f = int (length ?es)" using assms(1) by (simp add: history_ok_def)
    then show ?thesis using assms(1,3) True latest_history [OF assms(1)] snoc by (simp add: next_event_def)
  qed
  ultimately show ?thesis using assms(1) by (simp add: history_ok_def es')
qed

end
