(* ===== verification/Reach.thy ===== *)
theory Reach
  imports Lifecycle
begin

text \<open>
  The databases the services can reach: \<open>runs d d'\<close> is a run of their operations from \<open>d\<close> to
  \<open>d'\<close>, in any order and with any arguments, clock readings, identifiers, verifiers and database
  faults. An operation that commits on a later database than it read takes a run between the two.
\<close>

section \<open>Runs\<close>

inductive runs :: "db \<Rightarrow> db \<Rightarrow> bool" where
  none: "runs d0 d0"
| provision: "runs d0 d \<Longrightarrow> provision_principal ty ikey u i now d = Inr (p, d') \<Longrightarrow> runs d0 d'"
| assign: "runs d0 d \<Longrightarrow> runs d dc \<Longrightarrow>
    assign_feishu_identity t s pid audit i now d dc = Inr (m, d') \<Longrightarrow> runs d0 d'"
| new_request: "runs d0 d \<Longrightarrow> runs d dc \<Longrightarrow>
    create_approval_request u act repo pr sha env key ttl i now d dc = Inr (q, d') \<Longrightarrow> runs d0 d'"
| message: "runs d0 d \<Longrightarrow> runs d dc \<Longrightarrow>
    process_approval_message msg tenant st oid ct chat event actor ts os cts aps sc i now fault d dc
      = (reply, d') \<Longrightarrow> runs d0 d'"
| card: "runs d0 d \<Longrightarrow> runs d dc \<Longrightarrow>
    process_approval_card_action act r tenant oid chat event actor ts os aps sc ext i now fault d dc
      = (out, d') \<Longrightarrow> runs d0 d'"
| card_id: "runs d0 d \<Longrightarrow> set_card_message_id r m d = Inr d' \<Longrightarrow> runs d0 d'"
| intent: "runs d0 d \<Longrightarrow>
    create_deployment_intent tn oi kind repo sha digest svcs risk mig book cfg key ids st now d
      = Inr (intent, d') \<Longrightarrow> runs d0 d'"
| rollback: "runs d0 d \<Longrightarrow>
    create_rollback_link dep failed cur sha digest ids st d = Inr (link, d') \<Longrightarrow> runs d0 d'"
| artifact: "runs d0 d \<Longrightarrow>
    record_artifact dep repo sha digest img run verify prov fp ids st now d = Inr (artifact, d') \<Longrightarrow>
    runs d0 d'"
| staging: "runs d0 d \<Longrightarrow> begin_staging_deployment dep fp ids now d = Inr (u, d') \<Longrightarrow> runs d0 d'"
| staging_failed: "runs d0 d \<Longrightarrow> record_staging_failure dep fp code ids now d = Inr (u, d') \<Longrightarrow>
    runs d0 d'"
| accepted: "runs d0 d \<Longrightarrow>
    record_staging_acceptance dep repo sha digest suite cfg fp val ids now d = Inr (acc, d') \<Longrightarrow>
    runs d0 d'"
| invalidated: "runs d0 d \<Longrightarrow> invalidate_staging_acceptance aid reason ids st d = Inr (u, d') \<Longrightarrow>
    runs d0 d'"
| bound: "runs d0 d \<Longrightarrow>
    create_bound_production_approval dep key ttl ids st now d = Inr (pair, d') \<Longrightarrow> runs d0 d'"
| evidence: "runs d0 d \<Longrightarrow> runs d dc \<Longrightarrow>
    record_deployment_evidence dep ty key st payload ids now d dc = Inr (e, d') \<Longrightarrow> runs d0 d'"
| authority_evidence: "runs d0 d \<Longrightarrow> insert_evidence r d = Inr d' \<Longrightarrow> runs d0 d'"
| raw_input: "runs d0 d \<Longrightarrow> insert_raw_input r d = Inr d' \<Longrightarrow> runs d0 d'"
| acquire: "runs d0 d \<Longrightarrow> runs d dc \<Longrightarrow>
    acquire_deployment_lock dep owner lease key cd ids now d dc = Inr (pl, d') \<Longrightarrow> runs d0 d'"
| renew: "runs d0 d \<Longrightarrow> renew_deployment_lock dep owner lease key token ids now d = Inr (u, d') \<Longrightarrow>
    runs d0 d'"
| release: "runs d0 d \<Longrightarrow> release_deployment_lock dep owner key token ids now d = Inr (u, d') \<Longrightarrow>
    runs d0 d'"
| start: "runs d0 d \<Longrightarrow> start_production_deployment dep owner token ids st now d = Inr (so, d') \<Longrightarrow>
    runs d0 d'"

section \<open>What every reachable database satisfies\<close>

definition sound :: "db \<Rightarrow> bool" where
  "sound d \<longleftrightarrow> schema_ok d \<and> list_all (event_justified d) (t_events d) \<and>
     list_all (attempt_justified d) (t_attempts d) \<and>
     list_all (decision_justified d) (t_decisions d) \<and> (\<forall>dep. history_ok d dep) \<and>
     locks_unreconciled d"

lemma history_same: "t_events d' = t_events d \<Longrightarrow> history_ok d' dep = history_ok d dep"
  by (simp add: history_ok_def states_of_def events_of_def)

lemma good_step_sound:
  assumes "good_step d d'" and "sound d"
  shows "sound d'"
proof -
  have steps: "dml_step\<^sup>*\<^sup>* d d'" using assms(1) by (simp add: good_step_def)
  from assms(2) have s: "schema_ok d" "list_all (event_justified d) (t_events d)"
    "list_all (attempt_justified d) (t_attempts d)" "list_all (decision_justified d) (t_decisions d)"
    "\<And>dep. history_ok d dep" "locks_unreconciled d"
    by (auto simp: sound_def)
  note old = list_all_mono [OF s(2) event_justified_mono [OF steps]]
    list_all_mono [OF s(3) attempt_justified_mono [OF steps]]
    list_all_mono [OF s(4) decision_justified_mono [OF steps]]
  have new: "list_all (event_justified d') (t_events d') \<and> (\<forall>dep. history_ok d' dep)"
  proof (cases "t_events d' = t_events d")
    case True
    then show ?thesis using history_same [OF True] s(5) old(1) by simp
  next
    case False
    with assms(1) obtain e where e: "t_events d' = t_events d @ [e]" "next_event d e" "event_justified d' e"
      by (auto simp: good_step_def)
    have "history_ok d' dep" for dep by (rule next_event_history [OF s(5) e(1,2)])
    then show ?thesis using e(1,3) old(1) by simp
  qed
  have "list_all (attempt_justified d') (t_attempts d')"
    "list_all (decision_justified d') (t_decisions d')" "locks_unreconciled d'"
    using assms(1) old(2,3) s(6) by (auto simp: good_step_def)
  with new schema_dml [OF steps s(1)] show ?thesis by (simp add: sound_def)
qed

definition preserves :: "db \<Rightarrow> db \<Rightarrow> bool" where
  "preserves d d' \<longleftrightarrow> dml_step\<^sup>*\<^sup>* d d' \<and> (sound d \<longrightarrow> sound d')"

lemma preserves_refl: "preserves d d"
  by (simp add: preserves_def)

lemma preserves_step: "preserves d0 d \<Longrightarrow> good_step d d' \<Longrightarrow> preserves d0 d'"
  unfolding preserves_def using good_step_sound by (auto simp: good_step_def)

lemma preserves_trans: "preserves d0 d \<Longrightarrow> preserves d dc \<Longrightarrow> preserves d0 dc"
  unfolding preserves_def by auto

lemma card_id_good: "set_card_message_id r m d = Inr d' \<Longrightarrow> good_step d d'"
  by (intro quiet_step dml1 dml_step.card)
    (auto simp: set_card_message_id_def locks_unreconciled_def split: if_splits)

lemma authority_evidence_good: "insert_evidence r d = Inr d' \<Longrightarrow> good_step d d'"
  using inserted(15) [of r d d']
  by (intro quiet_step dml1 dml_step.evidence) (auto simp: locks_unreconciled_def)

lemma raw_input_good: "insert_raw_input r d = Inr d' \<Longrightarrow> good_step d d'"
  using inserted(4) [of r d d']
  by (intro quiet_step dml1 dml_step.raw_input) (auto simp: locks_unreconciled_def)

lemma preserves_dml: "preserves d d' \<Longrightarrow> dml_step\<^sup>*\<^sup>* d d'"
  by (simp add: preserves_def)

lemmas good_ops =
  provision_good card_id_good create_intent_good rollback_link_good record_artifact_good
  begin_staging_good staging_failure_good staging_acceptance_good invalidate_good
  authority_evidence_good raw_input_good renew_good release_good start_good

lemma bound_good:
  "create_bound_production_approval dep key ttl ids st now d = Inr (pair, d') \<Longrightarrow> good_step d d'"
  by (cases pair) (auto intro: bound_approval_good)

lemma runs_preserves: "runs d0 d \<Longrightarrow> preserves d0 d"
proof (induction rule: runs.induct)
  case assign
  from assign_good [OF assign.hyps(3)] show ?case
    using assign.IH preserves_step preserves_trans by blast
next
  case new_request
  show ?case
    by (rule preserves_step [OF preserves_trans [OF new_request.IH]
          create_request_good [OF new_request.hyps(3)]])
next
  case message
  show ?case
    by (rule preserves_step [OF preserves_trans [OF message.IH]
          message_good [OF message.hyps(3) preserves_dml [OF message.IH(2)]]])
next
  case card
  show ?case
    by (rule preserves_step [OF preserves_trans [OF card.IH]
          card_good [OF card.hyps(3) preserves_dml [OF card.IH(2)]]])
next
  case evidence
  from record_evidence_good [OF evidence.hyps(3)] show ?case
    using evidence.IH preserves_step preserves_trans by blast
next
  case acquire
  from acquire_good [OF acquire.hyps(3) preserves_dml [OF acquire.IH(2)]] show ?case
    using acquire.IH preserves_step preserves_trans by blast
qed (blast intro: preserves_refl preserves_step good_ops bound_good)+

lemma runs_dml: "runs d0 d \<Longrightarrow> dml_step\<^sup>*\<^sup>* d0 d"
  using runs_preserves preserves_dml by blast

lemma runs_sound: "runs d0 d \<Longrightarrow> sound d0 \<Longrightarrow> sound d"
  using runs_preserves by (simp add: preserves_def)

end
