(* ===== verification/Inbox.thy ===== *)
theory Inbox
  imports Notice Delivery Reach
begin

text \<open>
  \<^verbatim>\<open>app/feishu_worker.py\<close>, \<^verbatim>\<open>app/services/worker_health.py\<close> and \<^verbatim>\<open>app/config.py\<close>: the worker that
  records messages and approval decisions. The events are what the SDK delivers, whose fields are
  strings or absent; what the database, the network and the clock do is the environment's.
\<close>

section \<open>Settings\<close>

fun split_comma :: "string \<Rightarrow> string list" where
  "split_comma [] = [[]]"
| "split_comma (c # s) =
     (if c = CHR '','' then [] # split_comma s else (c # hd (split_comma s)) # tl (split_comma s))"

definition parse_csv_set :: "string \<Rightarrow> string set" where
  "parse_csv_set v = set (filter (\<lambda>item. item \<noteq> []) (map strip (split_comma v)))"

record settings =
  st_default_user_id :: uuid
  st_allowed_tenant_keys :: string
  st_allowed_open_ids :: string
  st_allowed_chat_types :: string
  st_supervision_chat_id :: string
  st_approver_open_ids :: string
  st_approval_ttl_seconds :: int
  st_reply_max_attempts :: int
  st_reply_backoff_seconds :: rat
  st_github_repository :: string
  st_github_repository_id :: int
  st_github_workflow_id :: int
  st_github_workflow_path :: string

definition allowed_tenant_keys :: "settings \<Rightarrow> string set" where
  "allowed_tenant_keys s = parse_csv_set (st_allowed_tenant_keys s)"

definition allowed_open_ids :: "settings \<Rightarrow> string set" where
  "allowed_open_ids s = parse_csv_set (st_allowed_open_ids s)"

definition allowed_chat_types :: "settings \<Rightarrow> string set" where
  "allowed_chat_types s = parse_csv_set (st_allowed_chat_types s)"

definition approver_open_ids :: "settings \<Rightarrow> string set" where
  "approver_open_ids s = parse_csv_set (st_approver_open_ids s)"

definition approval_configuration_valid :: "settings \<Rightarrow> bool" where
  "approval_configuration_valid s \<longleftrightarrow> strip (st_supervision_chat_id s) \<noteq> [] \<and> approver_open_ids s \<noteq> {}"

section \<open>Health\<close>

record worker_health =
  wh_status :: string
  wh_connected :: bool
  wh_started_at :: instant
  wh_connected_at :: "instant option"
  wh_last_event_at :: "instant option"
  wh_last_success_at :: "instant option"
  wh_last_failure_at :: "instant option"
  wh_events_received :: int
  wh_events_succeeded :: int
  wh_events_failed :: int

definition new_health :: "instant \<Rightarrow> worker_health" where
  "new_health now = \<lparr>wh_status = ''starting'', wh_connected = False, wh_started_at = now,
     wh_connected_at = None, wh_last_event_at = None, wh_last_success_at = None,
     wh_last_failure_at = None, wh_events_received = 0, wh_events_succeeded = 0, wh_events_failed = 0\<rparr>"

definition mark_connected :: "instant \<Rightarrow> worker_health \<Rightarrow> worker_health" where
  "mark_connected now h = h\<lparr>wh_status := ''ready'', wh_connected := True, wh_connected_at := Some now\<rparr>"

definition mark_reconnecting :: "worker_health \<Rightarrow> worker_health" where
  "mark_reconnecting h = h\<lparr>wh_status := ''reconnecting'', wh_connected := False\<rparr>"

definition mark_event_received :: "instant \<Rightarrow> worker_health \<Rightarrow> worker_health" where
  "mark_event_received now h = h\<lparr>wh_last_event_at := Some now, wh_events_received := wh_events_received h + 1\<rparr>"

definition mark_event_succeeded :: "instant \<Rightarrow> worker_health \<Rightarrow> worker_health" where
  "mark_event_succeeded now h =
     h\<lparr>wh_last_success_at := Some now, wh_events_succeeded := wh_events_succeeded h + 1\<rparr>"

definition mark_event_failed :: "instant \<Rightarrow> worker_health \<Rightarrow> worker_health" where
  "mark_event_failed now h = h\<lparr>wh_last_failure_at := Some now, wh_events_failed := wh_events_failed h + 1\<rparr>"

definition optional_time :: "instant option \<Rightarrow> dvalue" where
  "optional_time t = (case t of None \<Rightarrow> DNull | Some i \<Rightarrow> DStr (isoformat i))"

definition snapshot_json :: "worker_health \<Rightarrow> dvalue" where
  "snapshot_json h = DObj
     [(''status'', DStr (wh_status h)), (''connected'', DBool (wh_connected h)),
      (''started_at'', DStr (isoformat (wh_started_at h))), (''connected_at'', optional_time (wh_connected_at h)),
      (''last_event_at'', optional_time (wh_last_event_at h)),
      (''last_success_at'', optional_time (wh_last_success_at h)),
      (''last_failure_at'', optional_time (wh_last_failure_at h)),
      (''events_received'', DInt (wh_events_received h)), (''events_succeeded'', DInt (wh_events_succeeded h)),
      (''events_failed'', DInt (wh_events_failed h))]"

text \<open>\<open>do_GET\<close>: the status, and the body unless the path is unknown.\<close>

definition do_GET :: "string \<Rightarrow> worker_health \<Rightarrow> int \<times> dvalue option" where
  "do_GET path h =
     (if path \<noteq> ''/health'' then (404, None)
      else (if wh_connected h then 200 else 503, Some (snapshot_json h)))"

section \<open>The worker\<close>

record worker =
  wk_db :: db
  wk_health :: worker_health
  wk_replies :: "(string \<times> string) list"

text \<open>
  What the environment does during one event: the two clock readings of the health state, the commits
  of other sessions, the identifiers, the clock and the faults of the transactions, the lookups of a
  request that fail, and what the network answers. \<open>str\<close> of a value that is not a string is \<open>ee_shown\<close>.
\<close>

record event_env =
  ee_received_at :: instant
  ee_finished_at :: instant
  ee_others :: "db \<Rightarrow> db"
  ee_decision_id :: uuid
  ee_decided_at :: instant
  ee_fault :: db_fault
  ee_lookup :: "exn option"
  ee_lookup_again :: "exn option"
  ee_input_id :: uuid
  ee_input_at :: instant
  ee_input_fault :: db_fault
  ee_answer :: "int \<Rightarrow> answer"
  ee_random :: "int \<Rightarrow> rat"
  ee_shown :: "dvalue \<Rightarrow> string"

record message_event =
  me_tenant_key :: "string option"
  me_event_id :: "string option"
  me_sender_type :: "string option"
  me_open_id :: "string option"
  me_union_id :: "string option"
  me_chat_type :: "string option"
  me_message_id :: "string option"
  me_message_type :: "string option"
  me_content :: "string option"
  me_chat_id :: "string option"
  me_create_time :: "string option"

text \<open>The texts of the replies.\<close>

definition recorded_reply :: string where
  "recorded_reply = (zh [0x5df2, 0x8bb0, 0x5f55, 0x3002])"

definition duplicate_reply :: string where
  "duplicate_reply = (zh [0x8fd9, 0x6761, 0x6d88, 0x606f, 0x5df2, 0x7ecf, 0x8bb0, 0x5f55, 0x8fc7, 0x4e86,
    0x3002])"

definition text_only_reply :: string where
  "text_only_reply = (zh [0x6d88, 0x606f, 0x5df2, 0x6536, 0x5230, 0x3002, 0x76ee, 0x524d, 0x7b2c, 0x4e00,
    0x7248, 0x53ea, 0x652f, 0x6301, 0x6587, 0x5b57, 0x8bb0, 0x5f55, 0xff0c, 0x56fe, 0x7247, 0x529f,
      0x80fd, 0x7a0d, 0x540e, 0x63a5, 0x5165, 0x3002])"

definition empty_reply :: string where
  "empty_reply = (zh [0x6ca1, 0x6709, 0x8bc6, 0x522b, 0x5230, 0x6709, 0x6548, 0x6587, 0x5b57, 0x5185,
    0x5bb9, 0x3002])"

text \<open>\<open>reply_text\<close>: the result of a delivery is only logged; an exception of the sender escapes.\<close>

definition reply_text :: "settings \<Rightarrow> event_env \<Rightarrow> string \<Rightarrow> string \<Rightarrow> worker \<Rightarrow> exn option \<times> worker" where
  "reply_text s e message_id text w =
     (case fst (deliver_with_retry (ee_answer e) (ee_random e) (st_reply_max_attempts s) (st_reply_backoff_seconds s)) of
        Inl x \<Rightarrow> (Some x, w)
      | Inr r \<Rightarrow> (None, if dr_sent r then w\<lparr>wk_replies := wk_replies w @ [(message_id, text)]\<rparr> else w))"

definition optional_str :: "string option \<Rightarrow> json" where
  "optional_str s = (case s of None \<Rightarrow> JNull | Some t \<Rightarrow> JStr t)"

definition input_of :: "settings \<Rightarrow> event_env \<Rightarrow> message_event \<Rightarrow> string \<Rightarrow> string \<Rightarrow> raw_input" where
  "input_of s e m message_id text =
     \<lparr>r_id = ee_input_id e, r_user_id = st_default_user_id s, r_channel_code = ''feishu'',
      r_external_message_id = Some message_id, r_input_type = ''text'', r_text_content = Some text,
      r_received_at = ee_input_at e, r_processing_status = ''pending'',
      r_metadata = mk_dict [(''event_id'', optional_str (me_event_id m)),
        (''sender_open_id'', optional_str (me_open_id m)), (''sender_union_id'', optional_str (me_union_id m)),
        (''chat_id'', optional_str (me_chat_id m)), (''chat_type'', optional_str (me_chat_type m)),
        (''create_time'', optional_str (me_create_time m))],
      r_created_at = ee_input_at e\<rparr>"

text \<open>The commit of the record: whether it was created, or the exception; an \<open>IntegrityError\<close> is a duplicate.\<close>

definition commit_input :: "db_fault \<Rightarrow> raw_input \<Rightarrow> db \<Rightarrow> bool result \<times> db" where
  "commit_input fault r d =
     (case (fault, insert_raw_input r d) of
        (Abort IntegrityError, _) \<Rightarrow> (Inr False, d)
      | (Abort x, _) \<Rightarrow> (Inl x, d)
      | (_, Inl IntegrityError) \<Rightarrow> (Inr False, d)
      | (_, Inl x) \<Rightarrow> (Inl x, d)
      | (NoFault, Inr d') \<Rightarrow> (Inr True, d')
      | (LostAck IntegrityError, Inr d') \<Rightarrow> (Inr False, d')
      | (LostAck x, Inr d') \<Rightarrow> (Inl x, d'))"

text \<open>\<open>str(content.get("text") or "").strip()\<close> of the decoded content, or the exception.\<close>

definition text_of :: "event_env \<Rightarrow> string option \<Rightarrow> string result" where
  "text_of e content =
     (case json_loads (if falsy content then ''{}'' else the content) of
        None \<Rightarrow> Inl (OtherException ''JSONDecodeError'')
      | Some v \<Rightarrow> bindE (dget ''text'' DNull v) (\<lambda>t. Inr (strip (case t of
            DStr s \<Rightarrow> s | DNull \<Rightarrow> [] | DBool False \<Rightarrow> [] | DInt i \<Rightarrow> if i = 0 then [] else int_str i
          | DList [] \<Rightarrow> [] | DObj [] \<Rightarrow> [] | DFloat m x \<Rightarrow> if m = 0 then [] else ee_shown e t
          | _ \<Rightarrow> ee_shown e t))))"

definition message_authorized :: "settings \<Rightarrow> message_event \<Rightarrow> bool" where
  "message_authorized s m \<longleftrightarrow> fst (authorize_feishu_message (me_tenant_key m) (me_sender_type m) (me_open_id m)
     (me_chat_type m) (allowed_tenant_keys s) (allowed_open_ids s) (allowed_chat_types s))"

definition record_message :: "settings \<Rightarrow> event_env \<Rightarrow> message_event \<Rightarrow> string \<Rightarrow> string \<Rightarrow> worker \<Rightarrow> exn option \<times> worker" where
  "record_message s e m message_id text w =
     (case commit_input (ee_input_fault e) (input_of s e m message_id text) (wk_db w) of
        (Inl x, d') \<Rightarrow> (Some x, w\<lparr>wk_db := d'\<rparr>)
      | (Inr created, d') \<Rightarrow>
          reply_text s e message_id (if created then recorded_reply else duplicate_reply) (w\<lparr>wk_db := d'\<rparr>))"

definition accept_text :: "settings \<Rightarrow> event_env \<Rightarrow> message_event \<Rightarrow> string \<Rightarrow> string \<Rightarrow> worker \<Rightarrow> exn option \<times> worker" where
  "accept_text s e m message_id text w =
     (case process_approval_message text (me_tenant_key m) (me_sender_type m) (me_open_id m) (me_chat_type m)
         (me_chat_id m) (if falsy (me_event_id m) then message_id else the (me_event_id m))
         (st_default_user_id s) (allowed_tenant_keys s) (allowed_open_ids s) (allowed_chat_types s)
         (approver_open_ids s) (strip (st_supervision_chat_id s)) (ee_decision_id e) (ee_decided_at e)
         (ee_fault e) (wk_db w) (ee_others e (wk_db w)) of
        (Some out, d') \<Rightarrow>
          (case approval_outcome_reply out of
             Inl x \<Rightarrow> (Some x, w\<lparr>wk_db := d'\<rparr>)
           | Inr text' \<Rightarrow> reply_text s e message_id text' (w\<lparr>wk_db := d'\<rparr>))
      | (None, d') \<Rightarrow> record_message s e m message_id text (w\<lparr>wk_db := d'\<rparr>))"

definition message_body :: "settings \<Rightarrow> event_env \<Rightarrow> message_event \<Rightarrow> worker \<Rightarrow> exn option \<times> worker" where
  "message_body s e m w =
     (if \<not> message_authorized s m then (None, w)
      else if falsy (me_message_id m) then (None, w)
      else
        let message_id = the (me_message_id m) in
        if me_message_type m \<noteq> Some ''text'' then reply_text s e message_id text_only_reply w
        else (case text_of e (me_content m) of
            Inl x \<Rightarrow> (Some x, w)
          | Inr text \<Rightarrow>
              if text = [] then reply_text s e message_id empty_reply w
              else accept_text s e m message_id text w))"

text \<open>Every exception is caught and counted.\<close>

definition counted :: "event_env \<Rightarrow> bool \<Rightarrow> worker \<Rightarrow> worker" where
  "counted e failed w = w\<lparr>wk_health :=
     (if failed then mark_event_failed else mark_event_succeeded) (ee_finished_at e) (wk_health w)\<rparr>"

definition handle_message :: "settings \<Rightarrow> event_env \<Rightarrow> message_event \<Rightarrow> worker \<Rightarrow> worker" where
  "handle_message s e m w =
     (case message_body s e m (w\<lparr>wk_health := mark_event_received (ee_received_at e) (wk_health w)\<rparr>) of
        (x, w') \<Rightarrow> counted e (x \<noteq> None) w')"

section \<open>Card actions\<close>

record card_event =
  ce_tenant_key :: "string option"
  ce_operator_tenant_key :: "string option"
  ce_event_id :: "string option"
  ce_open_id :: "string option"
  ce_chat_id :: "string option"
  ce_value :: dvalue

definition approval_notification_from_request :: "approval_request \<Rightarrow> supervision_notification" where
  "approval_notification_from_request q =
     \<lparr>sn_event_type = ''approval_required'', sn_repository = q_repository q, sn_target_sha = q_target_sha q,
      sn_pull_request_number = q_pull_request_number q, sn_target_environment = Some (q_target_environment q),
      sn_approval_request_id = Some (q_id q), sn_action_code = Some (q_action_code q),
      sn_expires_at = Some (Aware (q_expires_at q)), sn_deployment_id = q_deployment_id q,
      sn_artifact_digest = q_artifact_digest q\<rparr>"

definition or_else :: "string option \<Rightarrow> string option \<Rightarrow> string option" where
  "or_else a b = (if falsy a then b else a)"

definition text_or_empty :: "string option \<Rightarrow> string" where
  "text_or_empty a = (case a of None \<Rightarrow> [] | Some t \<Rightarrow> t)"

text \<open>The actor and, for a request that is bound to a deployment, the mapping it was resolved by.\<close>

definition card_actor :: "settings \<Rightarrow> card_event \<Rightarrow> approval_request option \<Rightarrow> db \<Rightarrow> (uuid \<times> uuid option) result" where
  "card_actor s c request d =
     (case request of
        Some q \<Rightarrow>
          if q_deployment_id q \<noteq> None
          then bindE (resolve_feishu_principal (text_or_empty (or_else (ce_tenant_key c) (ce_operator_tenant_key c)))
              (text_or_empty (ce_open_id c)) d) (\<lambda>r. Inr (rh_user_id r, Some (rh_mapping_id r)))
          else Inr (st_default_user_id s, None)
      | None \<Rightarrow> Inr (st_default_user_id s, None))"

definition raised :: "exn option \<Rightarrow> unit result" where
  "raised x = (case x of None \<Rightarrow> Inr () | Some y \<Rightarrow> Inl y)"

definition decide_card ::
  "settings \<Rightarrow> event_env \<Rightarrow> card_event \<Rightarrow> string \<Rightarrow> uuid \<Rightarrow> uuid \<times> uuid option \<Rightarrow> db \<Rightarrow> approval_outcome \<times> db" where
  "decide_card s e c action request_id actor d =
     process_approval_card_action action request_id (or_else (ce_tenant_key c) (ce_operator_tenant_key c))
       (ce_open_id c) (ce_chat_id c) (text_or_empty (ce_event_id c)) (fst actor) (allowed_tenant_keys s)
       (allowed_open_ids s) (approver_open_ids s) (strip (st_supervision_chat_id s)) (snd actor)
       (ee_decision_id e) (ee_decided_at e) (ee_fault e) d (ee_others e d)"

definition shown_request :: "event_env \<Rightarrow> approval_outcome \<Rightarrow> uuid \<Rightarrow> db \<Rightarrow> supervision_notification option result" where
  "shown_request e out request_id d =
     (if out_code out \<in> {''recorded'', ''duplicate'', ''waiting''}
      then bindE (raised (ee_lookup_again e)) (\<lambda>_.
        Inr (map_option approval_notification_from_request (get_row q_id request_id (t_requests d))))
      else Inr None)"

text \<open>The response or the exception, and the database after it.\<close>

definition card_body :: "settings \<Rightarrow> event_env \<Rightarrow> card_event \<Rightarrow> db \<Rightarrow> dvalue result \<times> db" where
  "card_body s e c d =
     (case parse_approval_card_action (json_of (ce_value c)) of
        Inl x \<Rightarrow> (Inl x, d)
      | Inr None \<Rightarrow> (build_card_callback_response (outcome ''malformed'') None, d)
      | Inr (Some (action, request_id)) \<Rightarrow>
          (case bindE (raised (ee_lookup e)) (\<lambda>_. card_actor s c (get_row q_id request_id (t_requests d)) d) of
             Inl x \<Rightarrow> (Inl x, d)
           | Inr actor \<Rightarrow>
               (case decide_card s e c action request_id actor d of
                  (out, d') \<Rightarrow>
                    (bindE (shown_request e out request_id d') (build_card_callback_response out), d'))))"

text \<open>\<open>except (json.JSONDecodeError, TypeError, ValueError)\<close>, with the subclasses of \<open>ValueError\<close>.\<close>

definition invalid_callback :: "exn \<Rightarrow> bool" where
  "invalid_callback x =
     (case x of
        ValueError _ \<Rightarrow> True
      | NotificationValidationError _ \<Rightarrow> True
      | DeploymentPolicyError _ \<Rightarrow> True
      | ApprovalValidationError _ \<Rightarrow> True
      | OtherException n \<Rightarrow> n \<in> {''JSONDecodeError'', ''TypeError'', ''UnicodeDecodeError''}
      | _ \<Rightarrow> False)"

definition handle_card_action :: "settings \<Rightarrow> event_env \<Rightarrow> card_event \<Rightarrow> worker \<Rightarrow> dvalue result \<times> worker" where
  "handle_card_action s e c w =
     (let w1 = w\<lparr>wk_health := mark_event_received (ee_received_at e) (wk_health w)\<rparr> in
      case card_body s e c (wk_db w1) of
        (Inr response, d') \<Rightarrow> (Inr response, counted e False (w1\<lparr>wk_db := d'\<rparr>))
      | (Inl x, d') \<Rightarrow>
          (build_card_callback_response (outcome (if invalid_callback x then ''malformed'' else ''unavailable'')) None,
           counted e True (w1\<lparr>wk_db := d'\<rparr>)))"

end
