(* ===== verification/Steady.thy ===== *)
theory Steady
  imports Reach
begin

text \<open>
  What the operations of the services do to the locks, the approval requests and the intents: every
  request of a reachable database is well formed, and the operations that are not about locks leave
  the locks alone.
\<close>

section \<open>Operations that leave locks, requests, intents and attempts alone\<close>

definition steady :: "db \<Rightarrow> db \<Rightarrow> bool" where
  "steady d d' \<longleftrightarrow> t_locks d' = t_locks d \<and> t_requests d' = t_requests d \<and> t_intents d' = t_intents d \<and>
     t_attempts d' = t_attempts d"

lemma steady_refl [simp]: "steady d d"
  by (simp add: steady_def)

lemma steady_trans: "steady d d1 \<Longrightarrow> steady d1 d2 \<Longrightarrow> steady d d2"
  by (simp add: steady_def)

lemma steady_evidence: "add_evidence dep ty key st payload t i d = Inr (e, d') \<Longrightarrow> steady d d'"
  by (drule add_evidence_tables) (auto simp: steady_def)

lemma steady_event: "append_state_event dep st code fp ev t i d = Inr (e, d') \<Longrightarrow> steady d d'"
  by (drule append_event_ok) (auto simp: steady_def)

lemma steady_inserts:
  "insert_user r0 d = Inr d' \<Longrightarrow> steady d d'" "insert_principal r1 d = Inr d' \<Longrightarrow> steady d d'"
  "insert_external_identity r2 d = Inr d' \<Longrightarrow> steady d d'" "insert_raw_input r3 d = Inr d' \<Longrightarrow> steady d d'"
  "insert_decision r5 d = Inr d' \<Longrightarrow> steady d d'"
  "insert_artifact r7 d = Inr d' \<Longrightarrow> steady d d'" "insert_acceptance r9 d = Inr d' \<Longrightarrow> steady d d'"
  "insert_invalidation r10 d = Inr d' \<Longrightarrow> steady d d'" "insert_binding r11 d = Inr d' \<Longrightarrow> steady d d'"
  "insert_consumption r12 d = Inr d' \<Longrightarrow> steady d d'"
  "insert_evidence r14 d = Inr d' \<Longrightarrow> steady d d'" "insert_rollback r15 d = Inr d' \<Longrightarrow> steady d d'"
  by (auto simp: steady_def dest: inserted)

lemmas steady_steps = steady_evidence steady_event steady_inserts

lemma steady_provision: "provision_principal ty ikey u i now d = Inr (p, d') \<Longrightarrow> steady d d'"
  by (auto simp: provision_principal_def Let_def branch_simps intro: steady_steps)

lemma steady_rollback: "create_rollback_link dep f cur sha digest ids st d = Inr (x, d') \<Longrightarrow> steady d d'"
  by (auto simp: create_rollback_link_def Let_def branch_simps intro: steady_steps)

lemma steady_artifact: "record_artifact dep repo sha digest img run verify prov fp ids st now d = Inr (x, d') \<Longrightarrow>
    steady d d'"
  by (auto simp: record_artifact_def Let_def branch_simps intro: steady_trans steady_steps)

lemma steady_staging: "begin_staging_deployment dep fp ids now d = Inr (u, d') \<Longrightarrow> steady d d'"
  "record_staging_failure dep fp code ids now d = Inr (u, d') \<Longrightarrow> steady d d'"
  by (auto simp: begin_staging_deployment_def record_staging_failure_def branch_simps intro: steady_steps)

lemma steady_acceptance: "record_staging_acceptance dep repo sha digest suite cfg fp val ids now d = Inr (acc, d') \<Longrightarrow>
    steady d d'"
  by (auto simp: record_staging_acceptance_def Let_def branch_simps intro: steady_trans steady_steps)

lemma steady_invalidate: "invalidate_staging_acceptance acc reason ids st d = Inr (u, d') \<Longrightarrow> steady d d'"
  by (auto simp: invalidate_staging_acceptance_def Let_def branch_simps intro: steady_steps)

lemma steady_record_evidence: "record_deployment_evidence dep ty key st payload ids now d dc = Inr (e, d') \<Longrightarrow>
    steady dc d'"
  by (drule record_evidence_ok) (auto intro: steady_steps)

text \<open>The start of Production adds an attempt, but only under a lock.\<close>

lemma consume_tables:
  assumes "consume_and_prepare i q c dep owner token ids st now d = Inr (so, d')"
  shows "t_locks d' = t_locks d \<and> t_requests d' = t_requests d \<and> t_intents d' = t_intents d"
proof -
  from assms obtain e d1 f d2 d3 k ev v where
    ap: "append_state_event dep (deploying_state i) ''approval_consumed_and_execution_prepared''
         (di_requested_by_identity_fingerprint i) [(''fencing_token'', JNum token)] now (ids 0) d
         = Inr (e, d1)"
    and n: "insert_consumption \<lparr>ac_id = ids 2, ac_deployment_id = dep, ac_approval_request_id = q_id q,
         ac_approval_decision_id = d_id c, ac_state_event_id = se_id e, ac_consumed_at = now\<rparr> d1 = Inr d2"
    and at: "insert_attempt (attempt_row i f dep (ids 1) owner token st) d2 = Inr d3"
    and ae: "add_evidence dep ''execution_attempt'' k ''recorded'' ev now (ids 3) d3 = Inr (v, d')"
    by (auto simp: consume_and_prepare_def Let_def branch_simps scalar_one_eq)
  from steady_event [OF ap] steady_inserts(10) [OF n] inserted(14) [OF at] steady_evidence [OF ae]
  show ?thesis by (simp add: steady_def)
qed

lemma start_tables:
  assumes "start_production_deployment dep owner token ids st now d = Inr (so, d')"
  shows "t_locks d' = t_locks d" "t_requests d' = t_requests d" "t_intents d' = t_intents d"
    "t_locks d = [] \<Longrightarrow> t_attempts d' = t_attempts d"
proof -
  have "d' = d \<or> (t_locks d \<noteq> [] \<and> (\<exists>i q c. consume_and_prepare i q c dep owner token ids st now d = Inr (so, d')))"
    using assms
    by (auto simp: start_production_deployment_def Let_def branch_simps resolve_executor_identity_def gate_def
        scalar_one_or_none_Some)
  then show "t_locks d' = t_locks d" "t_requests d' = t_requests d" "t_intents d' = t_intents d"
    "t_locks d = [] \<Longrightarrow> t_attempts d' = t_attempts d"
    using consume_tables by blast+
qed

lemma steady_decision:
  "record_approval_decision command ev actor oid ext i now fault d dc = (out, d') \<Longrightarrow> steady dc d'"
  by (erule record_cases) (auto intro: steady_steps)

lemma steady_message: "process_approval_message msg tenant st oid ct chat event actor ts os cts aps sc i now fault d dc
    = (reply, d') \<Longrightarrow> steady dc d'"
  by (auto simp: process_approval_message_def intro: steady_decision split: prod.splits option.splits bool.splits if_splits)

lemma steady_card: "process_approval_card_action act r tenant oid chat event actor ts os aps sc ext i now fault d dc
    = (out, d') \<Longrightarrow> steady dc d'"
  by (auto simp: process_approval_card_action_def intro: steady_decision split: if_splits)

lemma steady_assign:
  assumes "assign_feishu_identity t s pid audit i now d dc = Inr (m, d')"
  shows "steady d d' \<or> steady dc d'"
proof -
  from assign_ok [OF assms] consider "insert_external_identity m dc = Inr d'"
    | c d1 where "update_external_identity c (\<lambda>x. x\<lparr>x_valid_to := Some now\<rparr>) d = Inr d1"
        "insert_external_identity m d1 = Inr d'"
    | "d' = d" by blast
  then show ?thesis
  proof cases
    case (2 c d1)
    from 2(1) have "steady d d1"
      by (auto simp: update_external_identity_def branch_simps steady_def split: list.splits)
    then show ?thesis using steady_inserts(3) [OF 2(2)] steady_trans by blast
  qed (auto intro: steady_steps)
qed

section \<open>The operations on requests and intents\<close>

lemma intent_tables:
  assumes "create_deployment_intent tn oi kind repo sha digest svcs risk mig book cfg key ids st now d = Inr (x, d')"
  shows "t_locks d' = t_locks d" "t_attempts d' = t_attempts d" "t_requests d' = t_requests d"
    "t_intents d' = t_intents d \<or> (\<exists>i. t_intents d' = t_intents d @ [i] \<and> di_repository i = repo \<and> di_artifact_digest i = digest \<and>
       REPOSITORY_PATTERN repo \<and> \<not> ends_with ''.git'' repo \<and> DIGEST_PATTERN digest)"
proof -
  from assms consider "d' = d" | i d1 fp e where "insert_intent i d = Inr d1" "di_repository i = repo" "di_artifact_digest i = digest"
      "append_state_event (ids 0) ''INTENT_CREATED'' ''intent_created'' fp [] now (ids 1) d1 = Inr (e, d')"
    by (auto simp: create_deployment_intent_def Let_def branch_simps)
  moreover have "REPOSITORY_PATTERN repo" "\<not> ends_with ''.git'' repo" "DIGEST_PATTERN digest"
    using assms by (auto simp: create_deployment_intent_def validate_intent_fields_def policy_def Let_def branch_simps)
  ultimately show "t_locks d' = t_locks d" "t_attempts d' = t_attempts d" "t_requests d' = t_requests d"
    "t_intents d' = t_intents d \<or> (\<exists>i. t_intents d' = t_intents d @ [i] \<and> di_repository i = repo \<and> di_artifact_digest i = digest \<and>
       REPOSITORY_PATTERN repo \<and> \<not> ends_with ''.git'' repo \<and> DIGEST_PATTERN digest)"
    by (cases; auto simp: steady_def dest!: inserted steady_event)+
qed

text \<open>What is inserted by the two operations on requests.\<close>

lemma request_checked: "insert_request q d = Inr d' \<Longrightarrow> approval_request_checks q \<and> d' = d\<lparr>t_requests := t_requests d @ [q]\<rparr>"
  by (simp add: insert_request_def insert_row_ok)

lemma new_request_tables:
  assumes "create_approval_request u act repo pr sha env key ttl i now d dc = Inr (q, d')"
  obtains "d' = dc" | "insert_request q dc = Inr d'" "q_repository q = repo" "q_action_code q = act"
    "q_pull_request_number q = pr" "q_target_sha q = sha" "q_target_environment q = env"
    "q_deployment_id q = None" "q_artifact_digest q = None"
    "validate_approval_request_fields act repo pr sha env key ttl = Inr ()"
  using assms that by (auto simp: create_approval_request_def Let_def branch_simps)

lemma bound_tables:
  assumes "create_bound_production_approval dep key ttl ids st now d = Inr (pair, d')"
  shows "t_locks d' = t_locks d" "t_attempts d' = t_attempts d" "t_intents d' = t_intents d"
    "t_requests d' = t_requests d \<or> (\<exists>i \<in> set (t_intents d).
       t_requests d' = t_requests d @ [bound_request i (ids 0) key now ttl] \<and>
       approval_request_checks (bound_request i (ids 0) key now ttl))"
proof -
  from assms consider "d' = d" | i b d1 d2 e fp ev where "i \<in> set (t_intents d)"
      "insert_request (bound_request i (ids 0) key now ttl) d = Inr d1" "insert_binding b d1 = Inr d2"
      "append_state_event dep (pending_state i) ''approval_bound'' fp ev now (ids 2) d2 = Inr (e, d')"
    by (auto simp: create_bound_production_approval_def gate_def policy_def Let_def branch_simps
        scalar_one_or_none_Some dest!: filter_singletonD)
  then have "t_locks d' = t_locks d \<and> t_attempts d' = t_attempts d \<and> t_intents d' = t_intents d \<and>
      (t_requests d' = t_requests d \<or> (\<exists>i \<in> set (t_intents d).
         t_requests d' = t_requests d @ [bound_request i (ids 0) key now ttl] \<and>
         approval_request_checks (bound_request i (ids 0) key now ttl)))"
  proof cases
    case (2 i b d1 d2 e fp ev)
    from request_checked [OF 2(2)] steady_inserts(9) [OF 2(3)] steady_event [OF 2(4)] 2(1)
    show ?thesis unfolding steady_def by simp blast
  qed simp
  then show "t_locks d' = t_locks d" "t_attempts d' = t_attempts d" "t_intents d' = t_intents d"
    "t_requests d' = t_requests d \<or> (\<exists>i \<in> set (t_intents d).
       t_requests d' = t_requests d @ [bound_request i (ids 0) key now ttl] \<and>
       approval_request_checks (bound_request i (ids 0) key now ttl))"
    by blast+
qed

section \<open>Requests that can be shown\<close>

text \<open>What the columns do not ensure: the repository's name, and a digest exactly with a deployment.\<close>

definition well_formed_request :: "approval_request \<Rightarrow> bool" where
  "well_formed_request q \<longleftrightarrow> approval_request_checks q \<and>
     REPOSITORY_PATTERN (q_repository q) \<and> \<not> ends_with ''.git'' (q_repository q) \<and>
     (q_deployment_id q = None) = (q_artifact_digest q = None) \<and>
     (case q_artifact_digest q of None \<Rightarrow> True | Some g \<Rightarrow> DIGEST_PATTERN g)"

definition well_formed_intent :: "deployment_intent \<Rightarrow> bool" where
  "well_formed_intent i \<longleftrightarrow> REPOSITORY_PATTERN (di_repository i) \<and> \<not> ends_with ''.git'' (di_repository i) \<and>
     DIGEST_PATTERN (di_artifact_digest i)"

definition well_requested :: "db \<Rightarrow> bool" where
  "well_requested d \<longleftrightarrow> list_all well_formed_request (t_requests d) \<and> list_all well_formed_intent (t_intents d)"

lemma well_requested_same:
  "t_requests d' = t_requests d \<Longrightarrow> t_intents d' = t_intents d \<Longrightarrow> well_requested d \<Longrightarrow> well_requested d'"
  by (simp add: well_requested_def)

lemma well_requested_steady: "well_requested d \<Longrightarrow> steady d d' \<Longrightarrow> well_requested d'"
  by (simp add: well_requested_def steady_def)

lemma well_requested_new:
  assumes "create_approval_request u act repo pr sha env key ttl i now d dc = Inr (q, d')" and "well_requested dc"
  shows "well_requested d'"
  using assms(1)
  by (rule new_request_tables)
    (use assms(2) in \<open>auto simp: well_requested_def well_formed_request_def validate_approval_request_fields_def
      branch_simps dest!: request_checked\<close>)

lemma well_requested_intent:
  assumes "create_deployment_intent tn oi kind repo sha digest svcs risk mig book cfg key ids st now d = Inr (x, d')"
    and "well_requested d"
  shows "well_requested d'"
  using intent_tables [OF assms(1)] assms(2) by (auto simp: well_requested_def well_formed_intent_def)

lemma well_requested_bound:
  assumes "create_bound_production_approval dep key ttl ids st now d = Inr (pair, d')" and "well_requested d"
  shows "well_requested d'"
  using bound_tables [OF assms(1)] assms(2)
  by (auto simp: well_requested_def well_formed_intent_def well_formed_request_def bound_request_def list_all_iff)

lemma well_requested_card_id: "set_card_message_id r m d = Inr d' \<Longrightarrow> well_requested d \<Longrightarrow> well_requested d'"
  by (auto simp: set_card_message_id_def well_requested_def well_formed_request_def approval_request_checks_def
      list.pred_map split: if_splits elim!: list.pred_mono_strong)

lemma well_requested_evidence: "add_evidence dep ty key st payload t i d = Inr (e, d') \<Longrightarrow> well_requested d \<Longrightarrow>
    well_requested d'"
  using steady_evidence well_requested_steady by blast

lemma well_requested_locks:
  "insert_lock l d = Inr d' \<Longrightarrow> well_requested d \<Longrightarrow> well_requested d'"
  "update_lock l d = Inr d' \<Longrightarrow> well_requested d \<Longrightarrow> well_requested d'"
  "well_requested d \<Longrightarrow> well_requested (delete_lock l d)"
  by (auto simp: well_requested_def delete_lock_def update_lock_def branch_simps dest!: inserted(17))

lemma well_requested_acquire:
  assumes "acquire_deployment_lock dep owner lease key cd ids now d dc = Inr (x, d')"
    and "well_requested d" "well_requested dc"
  shows "well_requested d'"
proof -
  from assms(1) consider
      l d1 p e where "insert_lock l dc = Inr d1"
        "add_evidence dep ''lock_acquired'' key ''recorded'' p now (ids 0) d1 = Inr (e, d')"
    | p e where "add_evidence dep ''lock_acquired'' key ''recorded'' p now (ids 0) d = Inr (e, d')"
    | l d1 p e where "update_lock l d = Inr d1"
        "add_evidence dep ''lock_acquired'' key ''recorded'' p now (ids 0) d1 = Inr (e, d')"
    by (auto simp: acquire_deployment_lock_def Let_def branch_simps)
  then show ?thesis using assms(2,3) by cases (blast intro: well_requested_locks well_requested_evidence)+
qed

lemma well_requested_renew:
  "renew_deployment_lock dep owner lease key token ids now d = Inr (u, d') \<Longrightarrow> well_requested d \<Longrightarrow> well_requested d'"
  by (auto simp: renew_deployment_lock_def Let_def branch_simps
      dest!: well_requested_locks(2) intro: well_requested_evidence)

lemma well_requested_release:
  "release_deployment_lock dep owner key token ids now d = Inr (u, d') \<Longrightarrow> well_requested d \<Longrightarrow> well_requested d'"
  by (auto simp: release_deployment_lock_def Let_def branch_simps
      intro: well_requested_locks(3) well_requested_evidence)

text \<open>The operations that leave the three tables alone.\<close>

lemmas steady_ops =
  steady_provision steady_rollback steady_artifact steady_staging steady_acceptance steady_invalidate

lemma runs_well_requested: "runs d0 d \<Longrightarrow> well_requested d0 \<Longrightarrow> well_requested d"
proof (induction rule: runs.induct)
  case assign
  from steady_assign [OF assign.hyps(3)] show ?case
    using assign.IH assign.prems well_requested_steady by blast
next
  case new_request
  then show ?case using well_requested_new by blast
next
  case message
  show ?case
    by (rule well_requested_steady [OF _ steady_message [OF message.hyps(3)]]) (use message.IH message.prems in blast)
next
  case card
  show ?case
    by (rule well_requested_steady [OF _ steady_card [OF card.hyps(3)]]) (use card.IH card.prems in blast)
next
  case evidence
  from steady_record_evidence [OF evidence.hyps(3)] show ?case
    using evidence.IH evidence.prems well_requested_steady by blast
next
  case acquire
  then show ?case using well_requested_acquire by blast
next
  case start
  then show ?case using start_tables(2,3) [OF start.hyps(2)] well_requested_same by blast
qed (blast intro: well_requested_steady steady_ops steady_inserts well_requested_card_id well_requested_intent
    well_requested_bound well_requested_renew well_requested_release)+

text \<open>C39. Every approval request of a database that the services reach from one without requests and intents is
  well formed: its repository, commit, environment and pull request fit its action, and it carries the
  digest of an artifact exactly when it is bound to a deployment, which the columns do not ensure.\<close>

theorem requests_well_formed:
  assumes "runs d0 d" and "t_requests d0 = []" and "t_intents d0 = []"
  shows "list_all well_formed_request (t_requests d)"
proof -
  have "well_requested d0" using assms(2,3) by (simp add: well_requested_def)
  with runs_well_requested [OF assms(1)] show ?thesis by (simp add: well_requested_def)
qed

section \<open>Runs\<close>

lemma runs_trans:
  assumes "runs d d'" and "runs d0 d"
  shows "runs d0 d'"
  using assms by (induction rule: runs.induct) (blast intro: runs.intros)+

text \<open>A run that leaves the locks alone, and without a lock the attempts.\<close>

definition calm :: "db \<Rightarrow> db \<Rightarrow> bool" where
  "calm d d' \<longleftrightarrow> runs d d' \<and> t_locks d' = t_locks d \<and> (t_locks d = [] \<longrightarrow> t_attempts d' = t_attempts d)"

lemma calm_refl [simp]: "calm d d"
  by (simp add: calm_def runs.none)

lemma calm_trans: "calm d d1 \<Longrightarrow> calm d1 d2 \<Longrightarrow> calm d d2"
  unfolding calm_def using runs_trans by auto

end
