(* ===== verification/Intake.thy ===== *)
theory Intake
  imports Inbox Steady
begin

text \<open>
  What the Feishu worker guarantees: it implements an inbox that keeps the first text of every message,
  its steps are runs of the services that leave the locks alone, its counters balance, and it answers
  every callback of a card.
\<close>

section \<open>The inbox\<close>

text \<open>The abstract state: the text of every Feishu message that was recorded.\<close>

definition is_message :: "string \<Rightarrow> raw_input \<Rightarrow> bool" where
  "is_message i r \<longleftrightarrow> r_channel_code r = ''feishu'' \<and> r_external_message_id r = Some i"

definition inbox :: "db \<Rightarrow> string \<Rightarrow> string option" where
  "inbox d i = (case filter (is_message i) (t_raw_inputs d) of [] \<Rightarrow> None | r # _ \<Rightarrow> r_text_content r)"

text \<open>What an event offers to the inbox: an authorised text that is not meant as a decision.\<close>

definition offered :: "settings \<Rightarrow> event_env \<Rightarrow> message_event \<Rightarrow> (string \<times> string) option" where
  "offered s e m =
     (if message_authorized s m \<and> \<not> falsy (me_message_id m) \<and> me_message_type m = Some ''text''
      then (case text_of e (me_content m) of
          Inl _ \<Rightarrow> None
        | Inr text \<Rightarrow>
            if text = [] \<or> fst (parse_approval_command text) then None
            else Some (the (me_message_id m), text))
      else None)"

text \<open>The abstract operation: a message is ignored, or a new one is kept.\<close>

definition inbox_receive ::
  "(string \<times> string) option \<Rightarrow> (string \<Rightarrow> string option) \<Rightarrow> (string \<Rightarrow> string option) \<Rightarrow> bool" where
  "inbox_receive message box box' \<longleftrightarrow> box' = box \<or>
     (case message of None \<Rightarrow> False | Some (i, text) \<Rightarrow> box i = None \<and> box' = box(i \<mapsto> text))"

lemma inbox_same: "t_raw_inputs d' = t_raw_inputs d \<Longrightarrow> inbox d' = inbox d"
  by (simp add: inbox_def fun_eq_iff)

lemma input_fields [simp]:
  "r_channel_code (input_of s e m i text) = ''feishu''" "r_external_message_id (input_of s e m i text) = Some i"
  "r_text_content (input_of s e m i text) = Some text" "r_user_id (input_of s e m i text) = st_default_user_id s"
  by (simp_all add: input_of_def)

lemma insert_input_inbox:
  assumes "insert_raw_input (input_of s e m i text) d = Inr d'"
  shows "inbox d i = None" "inbox d' = (inbox d)(i \<mapsto> text)"
proof -
  from assms have "\<not> clash (\<lambda>r. map_option (\<lambda>m. [AS (r_channel_code r), AS m]) (r_external_message_id r))
      (t_raw_inputs d) (input_of s e m i text)"
    by (simp add: insert_raw_input_def insert_row_ok raw_input_keys_def)
  then have none: "filter (is_message i) (t_raw_inputs d) = []"
    by (auto simp: clash_def is_message_def filter_empty_conv list_ex_iff)
  then show "inbox d i = None" by (simp add: inbox_def)
  have "is_message j (input_of s e m i text) \<longleftrightarrow> j = i" for j by (auto simp: is_message_def)
  with none show "inbox d' = (inbox d)(i \<mapsto> text)"
    unfolding inserted(4) [OF assms]
    by (auto simp: inbox_def fun_eq_iff split: list.splits)
qed

text \<open>A commit of the record adds it or leaves the database; when it reports a new record, it was added.\<close>

lemma commit_input_cases:
  assumes "commit_input fault r d = (x, d')"
  obtains "d' = d" "x \<noteq> Inr True" | "insert_raw_input r d = Inr d'"
  using assms that by (auto simp: commit_input_def split: db_fault.splits sum.splits exn.splits)

section \<open>The worker's transactions\<close>

text \<open>The database after a handler: what others left, with at most one transaction of the worker.\<close>

lemma reply_text_db: "reply_text s e i text w = (x, w') \<Longrightarrow> wk_db w' = wk_db w \<and> wk_health w' = wk_health w \<and>
    (wk_replies w' = wk_replies w \<or> wk_replies w' = wk_replies w @ [(i, text)])"
  by (auto simp: reply_text_def split: sum.splits if_splits)

lemma not_a_command:
  assumes "process_approval_message text tk st oid ct ci ev act ts os cts aps sc i now fault d dc = (out, d')"
  shows "(out = None) = (\<not> fst (parse_approval_command text))" "out = None \<Longrightarrow> d' = dc"
  using assms by (auto simp: process_approval_message_def split: prod.splits option.splits bool.splits if_splits)

lemma message_inputs:
  assumes "process_approval_message text tk st oid ct ci ev act ts os cts aps sc i now fault d dc = (out, d')"
  shows "t_raw_inputs d' = t_raw_inputs dc"
proof -
  have "record_approval_decision command ev act oid' ext i now fault d dc = (out', d') \<Longrightarrow>
      t_raw_inputs d' = t_raw_inputs dc" for command oid' ext out'
    by (erule record_cases) (auto dest: inserted(6))
  with assms show ?thesis
    by (auto simp: process_approval_message_def split: prod.splits option.splits bool.splits if_splits)
qed

definition others_calm :: "event_env \<Rightarrow> bool" where
  "others_calm e \<longleftrightarrow> (\<forall>d. calm d (ee_others e d))"

lemma calm_message:
  assumes "process_approval_message text tk st oid ct ci ev act ts os cts aps sc i now fault d dc = (out, d')"
    and "calm d dc"
  shows "calm d d'"
  using assms runs.message [OF runs.none _ assms(1)] steady_message [OF assms(1)] by (simp add: calm_def steady_def)

lemma calm_card:
  assumes "process_approval_card_action act r tenant oid chat ev actor ts os aps sc ext i now fault d dc = (out, d')"
    and "calm d dc"
  shows "calm d d'"
  using assms runs.card [OF runs.none _ assms(1)] steady_card [OF assms(1)] by (simp add: calm_def steady_def)

lemma calm_raw_input: "insert_raw_input r d = Inr d' \<Longrightarrow> calm d d'"
  using runs.raw_input [OF runs.none] inserted(4) by (fastforce simp: calm_def)

text \<open>The replies that a handler adds.\<close>

definition new_replies :: "worker \<Rightarrow> worker \<Rightarrow> (string \<times> string) list" where
  "new_replies w w' = drop (length (wk_replies w)) (wk_replies w')"

lemma reply_text_new: "reply_text s e i t w = (x, w') \<Longrightarrow> new_replies w w' = [] \<or> new_replies w w' = [(i, t)]"
  using reply_text_db by (fastforce simp: new_replies_def)

text \<open>Texts that begin with different code points of three bytes are different.\<close>

lemma char_of_less: "char_of a = (char_of b :: char) \<Longrightarrow> a < 256 \<Longrightarrow> b < 256 \<Longrightarrow> a = b" for a b :: nat
  by (metis mod_less of_char_of)

lemma zh_first:
  assumes "2048 \<le> n" "n < 65536" "2048 \<le> m" "m < 65536" "zh (n # ns) @ x = zh (m # ms) @ y"
  shows "n = m"
proof -
  have "take 3 (zh (n # ns) @ x) = take 3 (zh (m # ms) @ y)" by (simp add: assms(5))
  then have c: "char_of (224 + n div 4096) = (char_of (224 + m div 4096) :: char)"
    "char_of (128 + n div 64 mod 64) = (char_of (128 + m div 64 mod 64) :: char)"
    "char_of (128 + n mod 64) = (char_of (128 + m mod 64) :: char)"
    using assms(1-4) by (simp_all add: zh_def utf8_bytes_def)
  have small: "n div 4096 < 32" "m div 4096 < 32" using assms(2,4) by (simp_all add: less_mult_imp_div_less)
  have rest: "k mod 64 < 64" for k :: nat by simp
  have "224 + n div 4096 = 224 + m div 4096" by (rule char_of_less [OF c(1)]) (use small in simp_all)
  moreover have "128 + n div 64 mod 64 = 128 + m div 64 mod 64"
    by (rule char_of_less [OF c(2)]) (use rest [of "n div 64"] rest [of "m div 64"] in linarith)+
  moreover have "128 + n mod 64 = 128 + m mod 64"
    by (rule char_of_less [OF c(3)]) (use rest [of n] rest [of m] in linarith)+
  moreover have parts: "k div 64 = k div 4096 * 64 + k div 64 mod 64" "k = k div 64 * 64 + k mod 64" for k :: nat
    using div_mult_mod_eq [of "k div 64" 64] div_mult_mod_eq [of k 64] by (simp_all add: div_mult2_eq [symmetric])
  ultimately have "n div 64 = m div 64" "n mod 64 = m mod 64" using parts(1) [of n] parts(1) [of m] by simp_all
  then show ?thesis using parts(2) [of n] parts(2) [of m] by simp
qed

lemma zh_differ:
  assumes "2048 \<le> n" "n < 65536" "2048 \<le> m" "m < 65536" "n \<noteq> m"
  shows "zh (n # ns) \<noteq> zh (m # ms)" "zh (n # ns) @ x \<noteq> zh (m # ms)"
  using zh_first [of n m ns _ ms "[]"] assms by (metis append_Nil2)+

lemma other_replies: "recorded_reply \<noteq> duplicate_reply" "recorded_reply \<noteq> text_only_reply" "recorded_reply \<noteq> empty_reply"
  unfolding recorded_reply_def duplicate_reply_def text_only_reply_def empty_reply_def
  by (simp_all add: zh_differ)

lemma outcome_reply_other: "approval_outcome_reply out = Inr t \<Longrightarrow> t \<noteq> recorded_reply"
  unfolding approval_outcome_reply_def replies_def recorded_reply_def
  by (auto simp: zh_differ split: if_splits)

text \<open>What the two branches after a text do.\<close>

lemma record_message_ok:
  assumes "record_message s e m i t w = (x, w')"
  shows "wk_health w' = wk_health w \<and> (\<exists>y. commit_input (ee_input_fault e) (input_of s e m i t) (wk_db w) = (y, wk_db w') \<and>
     (\<forall>p \<in> set (new_replies w w'). p = (i, if y = Inr True then recorded_reply else duplicate_reply)))"
proof (cases "commit_input (ee_input_fault e) (input_of s e m i t) (wk_db w)")
  case (Pair y d')
  show ?thesis
  proof (cases y)
    case (Inl a)
    with Pair assms show ?thesis by (auto simp: record_message_def new_replies_def)
  next
    case (Inr created)
    with Pair assms have "reply_text s e i (if created then recorded_reply else duplicate_reply) (w\<lparr>wk_db := d'\<rparr>) = (x, w')"
      by (simp add: record_message_def)
    from reply_text_db [OF this] reply_text_new [OF this] show ?thesis
      using Pair Inr by (auto simp: new_replies_def)
  qed
qed

lemma accept_text_ok:
  assumes "accept_text s e m i t w = (x, w')"
  shows "wk_health w' = wk_health w \<and>
    (if fst (parse_approval_command t)
     then t_raw_inputs (wk_db w') = t_raw_inputs (ee_others e (wk_db w)) \<and>
       (\<forall>p \<in> set (new_replies w w'). snd p \<noteq> recorded_reply) \<and>
       (calm (wk_db w) (ee_others e (wk_db w)) \<longrightarrow> calm (wk_db w) (wk_db w'))
     else (\<exists>y. commit_input (ee_input_fault e) (input_of s e m i t) (ee_others e (wk_db w)) = (y, wk_db w') \<and>
       (\<forall>p \<in> set (new_replies w w'). p = (i, if y = Inr True then recorded_reply else duplicate_reply))))"
proof -
  let ?others = "ee_others e (wk_db w)"
  obtain out d' where run: "process_approval_message t (me_tenant_key m) (me_sender_type m) (me_open_id m)
      (me_chat_type m) (me_chat_id m) (if falsy (me_event_id m) then i else the (me_event_id m))
      (st_default_user_id s) (allowed_tenant_keys s) (allowed_open_ids s) (allowed_chat_types s)
      (approver_open_ids s) (strip (st_supervision_chat_id s)) (ee_decision_id e) (ee_decided_at e)
      (ee_fault e) (wk_db w) ?others = (out, d')" by fastforce
  show ?thesis
  proof (cases out)
    case None
    with run assms have "record_message s e m i t (w\<lparr>wk_db := ?others\<rparr>) = (x, w')" "\<not> fst (parse_approval_command t)"
      using not_a_command [OF run] by (simp_all add: accept_text_def)
    from record_message_ok [OF this(1)] this(2) show ?thesis by (simp add: new_replies_def)
  next
    case (Some a)
    have command: "fst (parse_approval_command t)" using not_a_command [OF run] Some by simp
    have "wk_health w' = wk_health w \<and> wk_db w' = d' \<and> (\<forall>p \<in> set (new_replies w w'). snd p \<noteq> recorded_reply)"
    proof (cases "approval_outcome_reply a")
      case (Inl b)
      with run Some assms show ?thesis by (auto simp: accept_text_def new_replies_def)
    next
      case (Inr text')
      with run Some assms have "reply_text s e i text' (w\<lparr>wk_db := d'\<rparr>) = (x, w')" by (simp add: accept_text_def)
      from reply_text_db [OF this] reply_text_new [OF this] outcome_reply_other [OF Inr] show ?thesis
        by (auto simp: new_replies_def)
    qed
    then show ?thesis using command message_inputs [OF run] calm_message [OF run] by simp
  qed
qed

text \<open>A message as a whole.\<close>

lemma message_cases:
  assumes "message_body s e m w = (x, w')"
  obtains (quiet) "offered s e m = None" "wk_db w' = wk_db w" "\<forall>p \<in> set (new_replies w w'). snd p \<noteq> recorded_reply"
  | (decision) "offered s e m = None" "t_raw_inputs (wk_db w') = t_raw_inputs (ee_others e (wk_db w))"
      "calm (wk_db w) (ee_others e (wk_db w)) \<longrightarrow> calm (wk_db w) (wk_db w')"
      "\<forall>p \<in> set (new_replies w w'). snd p \<noteq> recorded_reply"
  | (kept) i t y where "offered s e m = Some (i, t)"
      "commit_input (ee_input_fault e) (input_of s e m i t) (ee_others e (wk_db w)) = (y, wk_db w')"
      "\<forall>p \<in> set (new_replies w w'). p = (i, if y = Inr True then recorded_reply else duplicate_reply)"
proof -
  let ?i = "the (me_message_id m)"
  have quiet_reply: thesis if "offered s e m = None" "reply_text s e ?i t w = (x, w')" "t \<noteq> recorded_reply" for t
    using that reply_text_db [OF that(2)] reply_text_new [OF that(2)] by (intro quiet) auto
  show thesis
  proof (cases "message_authorized s m \<and> \<not> falsy (me_message_id m)")
    case False
    with assms show thesis by (intro quiet) (auto simp: message_body_def offered_def new_replies_def split: if_splits)
  next
    case ok: True
    show thesis
    proof (cases "me_message_type m = Some ''text''")
      case False
      with ok assms quiet_reply [of text_only_reply] other_replies(2) show thesis
        by (auto simp: message_body_def offered_def)
    next
      case typed: True
      show thesis
      proof (cases "text_of e (me_content m)")
        case (Inl a)
        with ok typed assms show thesis by (intro quiet) (auto simp: message_body_def offered_def new_replies_def)
      next
        case (Inr t)
        show thesis
        proof (cases "t = []")
          case True
          with ok typed Inr assms quiet_reply [of empty_reply] other_replies(3) show thesis
            by (auto simp: message_body_def offered_def)
        next
          case False
          with ok typed Inr assms have run: "accept_text s e m ?i t w = (x, w')"
            by (simp add: message_body_def Let_def)
          show thesis
          proof (cases "fst (parse_approval_command t)")
            case True
            with ok typed Inr accept_text_ok [OF run] show thesis by (intro decision) (auto simp: offered_def)
          next
            case False
            with \<open>t \<noteq> []\<close> ok typed Inr have "offered s e m = Some (?i, t)" by (simp add: offered_def)
            with False accept_text_ok [OF run] kept show thesis by simp blast
          qed
        qed
      qed
    qed
  qed
qed

text \<open>The handler: the health state is counted before and after.\<close>

lemma handle_message_cases:
  obtains x w1 where "message_body s e m (w\<lparr>wk_health := mark_event_received (ee_received_at e) (wk_health w)\<rparr>) = (x, w1)"
    "handle_message s e m w = counted e (x \<noteq> None) w1"
    "wk_db (handle_message s e m w) = wk_db w1"
    "new_replies w (handle_message s e m w) = new_replies (w\<lparr>wk_health := mark_event_received (ee_received_at e) (wk_health w)\<rparr>) w1"
  using that by (cases "message_body s e m (w\<lparr>wk_health := mark_event_received (ee_received_at e) (wk_health w)\<rparr>)")
    (fastforce simp: handle_message_def counted_def new_replies_def)

section \<open>The inbox is implemented\<close>

text \<open>C16. The worker implements the inbox: relative to a database that was current during the event, a
  message either leaves all recorded texts as they are or adds the text that was offered, under an
  identifier that had none; no text is ever replaced.\<close>

theorem inbox_refines:
  "\<exists>d0. (d0 = wk_db w \<or> d0 = ee_others e (wk_db w)) \<and>
     inbox_receive (offered s e m) (inbox d0) (inbox (wk_db (handle_message s e m w)))"
proof -
  obtain x w1 where run: "message_body s e m (w\<lparr>wk_health := mark_event_received (ee_received_at e) (wk_health w)\<rparr>) = (x, w1)"
    "wk_db (handle_message s e m w) = wk_db w1" by (rule handle_message_cases)
  from run(1) show ?thesis
  proof (cases rule: message_cases)
    case quiet
    then show ?thesis by (auto simp: run(2) inbox_receive_def)
  next
    case decision
    from inbox_same [OF decision(2)] show ?thesis by (auto simp: run(2) inbox_receive_def)
  next
    case (kept i t y)
    then have "commit_input (ee_input_fault e) (input_of s e m i t) (ee_others e (wk_db w)) = (y, wk_db w1)" by simp
    then show ?thesis
      by (cases rule: commit_input_cases)
        (auto simp: run(2) inbox_receive_def kept(1) dest: insert_input_inbox)
  qed
qed

text \<open>C18. The reply that a message was recorded is the truth: whenever the worker sends it, the text it was
  offered is in the inbox under the message's identifier.\<close>

theorem recorded_reply_sound:
  assumes "(i, recorded_reply) \<in> set (new_replies w (handle_message s e m w))"
  shows "\<exists>t. offered s e m = Some (i, t) \<and> inbox (wk_db (handle_message s e m w)) i = Some t"
proof -
  obtain x w1 where run: "message_body s e m (w\<lparr>wk_health := mark_event_received (ee_received_at e) (wk_health w)\<rparr>) = (x, w1)"
    "wk_db (handle_message s e m w) = wk_db w1"
    "new_replies w (handle_message s e m w) = new_replies (w\<lparr>wk_health := mark_event_received (ee_received_at e) (wk_health w)\<rparr>) w1"
    by (rule handle_message_cases)
  from run(1) show ?thesis
  proof (cases rule: message_cases)
    case (kept j t y)
    with assms run(3) other_replies(1) have y: "j = i" "y = Inr True" by (auto split: if_splits)
    with kept(2) have "commit_input (ee_input_fault e) (input_of s e m i t) (ee_others e (wk_db w)) = (Inr True, wk_db w1)" by simp
    then show ?thesis
      by (cases rule: commit_input_cases) (auto simp: run(2) kept(1) y(1) dest: insert_input_inbox)
  qed (use assms run(3) in auto)
qed

lemma column_lengths: "py_len ''text'' \<le> 32" "py_len ''feishu'' \<le> 32" "py_len ''pending'' \<le> 32"
  by code_simp+

text \<open>The commit of a message that the columns can hold: it is in the inbox afterwards.\<close>

lemma commit_stores:
  assumes "py_len i \<le> 200" "exists_row u_id (st_default_user_id s) (t_users d)"
    and "\<forall>r \<in> set (t_raw_inputs d). r_id r \<noteq> ee_input_id e \<and> (is_message i r \<longrightarrow> r_text_content r \<noteq> None)"
    and "commit_input NoFault (input_of s e m i t) d = (y, d')"
  shows "y = Inr (inbox d i = None) \<and> inbox d' i = (case inbox d i of None \<Rightarrow> Some t | Some t' \<Rightarrow> Some t')"
proof (cases "filter (is_message i) (t_raw_inputs d)")
  case Nil
  then have "list_all (\<lambda>r. \<not> is_message i r) (t_raw_inputs d)"
    by (simp add: filter_empty_conv list_all_iff)
  then have "insert_raw_input (input_of s e m i t) d = Inr (d\<lparr>t_raw_inputs := t_raw_inputs d @ [input_of s e m i t]\<rparr>)"
    using assms(1-3)
    by (auto simp: insert_raw_input_def insert_row_def raw_input_fits_def raw_input_keys_def clash_def input_of_def
        varchar_def varchar_opt_def list_ex_iff list_all_iff is_message_def column_lengths)
  with assms(4) have ok: "y = Inr True" "insert_raw_input (input_of s e m i t) d = Inr d'"
    by (auto simp: commit_input_def)
  from insert_input_inbox [OF ok(2)] ok(1) show ?thesis by simp
next
  case (Cons r rs)
  then have r: "r \<in> set (t_raw_inputs d)" "is_message i r" by (auto dest: filter_ConsD)
  then obtain t' where "inbox d i = Some t'" using assms(3) Cons by (auto simp: inbox_def)
  moreover have "insert_raw_input (input_of s e m i t) d = Inl IntegrityError"
    using r assms(1,2) by (auto simp: insert_raw_input_def insert_row_def raw_input_fits_def raw_input_keys_def
        clash_def input_of_def varchar_def varchar_opt_def list_ex_iff is_message_def column_lengths)
  ultimately show ?thesis using assms(4) by (auto simp: commit_input_def)
qed

text \<open>C17. No message is lost: an authorised text that is no decision is in the inbox after its event, unless
  the database fails: the first text of its identifier, which is this one when the identifier is new.\<close>

theorem message_stored:
  assumes "offered s e m = Some (i, t)" and "ee_input_fault e = NoFault" and "py_len i \<le> 200"
    and "ee_others e (wk_db w) = d" and "exists_row u_id (st_default_user_id s) (t_users d)"
    and "\<forall>r \<in> set (t_raw_inputs d). r_id r \<noteq> ee_input_id e \<and> (is_message i r \<longrightarrow> r_text_content r \<noteq> None)"
  shows "inbox (wk_db (handle_message s e m w)) i = (case inbox d i of None \<Rightarrow> Some t | Some t' \<Rightarrow> Some t')"
proof -
  obtain x w1 where run: "message_body s e m (w\<lparr>wk_health := mark_event_received (ee_received_at e) (wk_health w)\<rparr>) = (x, w1)"
    "wk_db (handle_message s e m w) = wk_db w1" by (rule handle_message_cases)
  from run(1) show ?thesis
  proof (cases rule: message_cases)
    case (kept j t' y)
    with assms(1,2,4) have "commit_input NoFault (input_of s e m i t) d = (y, wk_db w1)" by simp
    from commit_stores [OF assms(3,5,6) this] show ?thesis by (simp add: run(2))
  qed (use assms(1) in simp_all)
qed

text \<open>A foreign key that fails is taken for a duplicate: what is answered is not what is stored.\<close>

lemma unknown_user_commit:
  assumes "\<not> exists_row u_id (st_default_user_id s) (t_users d)"
  shows "commit_input NoFault (input_of s e m i t) d \<in> {(Inr False, d), (Inl SQLAlchemyError, d)}"
  using assms by (auto simp: commit_input_def insert_raw_input_def insert_row_def split: if_splits)

lemma message_calm:
  assumes "others_calm e"
  shows "calm (wk_db w) (wk_db (handle_message s e m w))"
proof -
  obtain x w1 where run: "message_body s e m (w\<lparr>wk_health := mark_event_received (ee_received_at e) (wk_health w)\<rparr>) = (x, w1)"
    "wk_db (handle_message s e m w) = wk_db w1" by (rule handle_message_cases)
  have others: "calm d (ee_others e d)" for d using assms by (simp add: others_calm_def)
  from run(1) show ?thesis
  proof (cases rule: message_cases)
    case (kept i t y)
    then have "commit_input (ee_input_fault e) (input_of s e m i t) (ee_others e (wk_db w)) = (y, wk_db w1)" by simp
    then show ?thesis
      by (cases rule: commit_input_cases)
        (use others [of "wk_db w"] calm_raw_input calm_trans in \<open>auto simp: run(2)\<close>)
  qed (use others [of "wk_db w"] in \<open>simp_all add: run(2)\<close>)
qed

section \<open>Cards\<close>

lemma card_calm:
  assumes "others_calm e"
  shows "calm (wk_db w) (wk_db (snd (handle_card_action s e c w)))"
proof -
  have others: "calm d (ee_others e d)" for d using assms by (simp add: others_calm_def)
  have "calm d (snd (card_body s e c d))" for d
    unfolding card_body_def decide_card_def
    by (auto intro: calm_card [OF _ others] split: sum.splits option.splits prod.splits)
  then show ?thesis
    by (simp add: handle_card_action_def counted_def Let_def split: prod.splits sum.splits) (metis snd_conv)
qed

lemma callback_plain: "code \<in> {''malformed'', ''unavailable''} \<Longrightarrow>
    \<exists>response. build_card_callback_response (outcome code) None = Inr response"
  by (auto simp: build_card_callback_response_def toasts_def outcome_def)

text \<open>Every callback of a card is answered: whatever the event holds and whatever the database and the
  lookups do, the handler returns a response, and counts the event once.\<close>

theorem card_answered:
  "\<exists>response. fst (handle_card_action s e c w) = Inr response \<and>
     wk_health (snd (handle_card_action s e c w)) \<in>
       (\<lambda>mark. mark (ee_finished_at e) (mark_event_received (ee_received_at e) (wk_health w))) `
         {mark_event_succeeded, mark_event_failed}"
  using callback_plain
  by (auto simp: handle_card_action_def counted_def Let_def split: prod.splits sum.splits)

lemma displayable:
  assumes "well_formed_request q"
  shows "validate_notification (approval_notification_from_request q) = Inr ()"
proof -
  have "\<not> starts_with ''staging_'' ''approval_required''" by code_simp
  with assms show ?thesis
    by (auto simp: validate_notification_def validate_approval_event_def approval_notification_from_request_def
        well_formed_request_def approval_request_checks_def NOTIFICATION_EVENTS_def APPROVAL_ACTIONS_def
        TARGET_ENVIRONMENTS_def expected_environment_def split: option.splits)
qed

definition card_elements :: "dvalue \<Rightarrow> dvalue list" where
  "card_elements shown =
     (case shown of
        DObj kvs \<Rightarrow> (case map_of kvs ''elements'' of Some (DList es) \<Rightarrow> es | _ \<Rightarrow> [])
      | _ \<Rightarrow> [])"

definition has_buttons :: "dvalue \<Rightarrow> bool" where
  "has_buttons shown \<longleftrightarrow>
     list_ex (\<lambda>e. case e of DObj kvs \<Rightarrow> map_of kvs ''tag'' = Some (DStr ''action'') | _ \<Rightarrow> False) (card_elements shown)"

lemma card_built:
  assumes "well_formed_request q" and "state \<in> {''pending'', ''waiting'', ''approved'', ''rejected''}"
  obtains shown where "build_approval_card (approval_notification_from_request q) state = Inr shown"
    "has_buttons shown \<longleftrightarrow> state \<in> {''pending'', ''waiting''}"
  using that displayable [OF assms(1)] assms(2)
  by (auto simp: build_approval_card_def card_states_def has_buttons_def card_elements_def card_actions_def Let_def
      approval_notification_from_request_def)

definition decision_of :: "string \<Rightarrow> string" where
  "decision_of action = (if action = ''approve'' then ''approved'' else ''rejected'')"

lemma decided:
  assumes "process_approval_card_action act r tenant oid chat ev actor ts os aps sc ext i now NoFault d dc = (out, d')"
    and "t_decisions d' = t_decisions dc @ [c]"
  shows "act \<in> {''approve'', ''reject''} \<and> d_request_id c = r \<and> d_decision_code c = decision_of act \<and>
    out = \<lparr>out_code = ''recorded'', out_decision_code = Some (d_decision_code c)\<rparr> \<and>
    t_requests d' = t_requests dc \<and> (\<exists>q \<in> set (t_requests d). q_id q = r)"
proof -
  from assms have act: "act \<in> {''approve'', ''reject''}" and run: "record_approval_decision
      \<lparr>cmd_decision_code = decision_of act, cmd_request_id = r\<rparr> ev actor (the oid) ext i now NoFault d dc = (out, d')"
    by (auto simp: process_approval_card_action_def decision_of_def split: if_splits)
  then have "settle NoFault (decide \<lparr>cmd_decision_code = decision_of act,
      cmd_request_id = r\<rparr> ev actor (approval_identity_fingerprint (the oid)) ext i now d dc) dc = (out, d')"
    using assms(2) by (auto simp: record_approval_decision_def split: if_splits)
  with assms(2) act show ?thesis
    by (auto simp: settle_def decide_def decision_row_def branch_simps scalar_one_or_none_Some
        dest!: filter_singletonD inserted(6) split: sum.splits)
qed

lemma card_body_decided:
  assumes "card_body s e c d = (x, d')" and "ee_fault e = NoFault" "ee_lookup_again e = None"
    and "t_decisions d' = t_decisions (ee_others e d) @ [dd]" "t_decisions d' \<noteq> t_decisions d"
  obtains act q where "parse_approval_card_action (json_of (ce_value c)) = Inr (Some (act, d_request_id dd))"
    "act \<in> {''approve'', ''reject''}" "d_decision_code dd = decision_of act"
    "t_requests d' = t_requests (ee_others e d)" "q \<in> set (t_requests d)" "q_id q = d_request_id dd"
    "x = build_card_callback_response \<lparr>out_code = ''recorded'', out_decision_code = Some (d_decision_code dd)\<rparr>
       (map_option approval_notification_from_request (get_row q_id (d_request_id dd) (t_requests d')))"
proof -
  from assms(1,5) obtain act r actor out where parsed: "parse_approval_card_action (json_of (ce_value c)) = Inr (Some (act, r))"
    and run: "decide_card s e c act r actor d = (out, d')"
    and x: "x = bindE (shown_request e out r d') (build_card_callback_response out)"
    by (auto simp: card_body_def split: sum.splits option.splits prod.splits)
  note made = decided [OF run [unfolded decide_card_def assms(2)] assms(4)]
  then obtain q where q: "q \<in> set (t_requests d)" "q_id q = r" by blast
  from made have r: "r = d_request_id dd" and out: "out = \<lparr>out_code = ''recorded'', out_decision_code = Some (d_decision_code dd)\<rparr>"
    by simp_all
  show thesis
    using made q parsed x assms(3) unfolding r out
    by (intro that [of act q]) (simp_all add: shown_request_def raised_def)
qed

text \<open>C19. A decision that is recorded by a card is shown as such: in every reachable database, when no
  transaction or lookup fails and the callback has added the decision \<open>dd\<close>, the button said this decision about
  this request, and the response has the toast of a success and the card of the request of \<open>dd\<close> in the state
  that \<open>dd\<close> gives it, approved or rejected, which has no buttons any more.\<close>

theorem decision_shown:
  assumes "runs d0 (wk_db w)" and "t_requests d0 = []" "t_intents d0 = []"
    and "runs (wk_db w) (ee_others e (wk_db w))"
    and "ee_fault e = NoFault" "ee_lookup_again e = None"
    and "t_decisions (wk_db (snd (handle_card_action s e c w))) = t_decisions (ee_others e (wk_db w)) @ [dd]"
  shows "\<exists>q shown. q \<in> set (t_requests (wk_db (snd (handle_card_action s e c w)))) \<and> q_id q = d_request_id dd \<and>
     (parse_approval_card_action (json_of (ce_value c)) = Inr (Some (''approve'', q_id q)) \<and> d_decision_code dd = ''approved'' \<or>
      parse_approval_card_action (json_of (ce_value c)) = Inr (Some (''reject'', q_id q)) \<and> d_decision_code dd = ''rejected'') \<and>
     build_approval_card (approval_notification_from_request q) (d_decision_code dd) = Inr shown \<and> \<not> has_buttons shown \<and>
     fst (handle_card_action s e c w) = Inr (DObj
       [(''toast'', DObj [(''type'', DStr ''success''), (''content'', DStr (snd (the (map_of toasts ''recorded''))))]),
        (''card'', DObj [(''type'', DStr ''raw''), (''data'', shown)])])"
proof -
  let ?dc = "ee_others e (wk_db w)"
  obtain x d' where body: "card_body s e c (wk_db w) = (x, d')" by fastforce
  then have d': "wk_db (snd (handle_card_action s e c w)) = d'"
    by (simp add: handle_card_action_def counted_def Let_def split: sum.splits)
  have "prefix (t_decisions (wk_db w)) (t_decisions ?dc)"
    using dml_grows [OF runs_dml [OF assms(4)]] by (simp add: grows_def)
  with assms(7) have new: "t_decisions d' = t_decisions ?dc @ [dd]" "t_decisions d' \<noteq> t_decisions (wk_db w)"
    unfolding d' by (auto simp: prefix_def)
  obtain act q where act: "parse_approval_card_action (json_of (ce_value c)) = Inr (Some (act, d_request_id dd))"
    "act \<in> {''approve'', ''reject''}" "d_decision_code dd = decision_of act"
    and q: "t_requests d' = t_requests ?dc" "q \<in> set (t_requests (wk_db w))" "q_id q = d_request_id dd"
    and x: "x = build_card_callback_response \<lparr>out_code = ''recorded'', out_decision_code = Some (d_decision_code dd)\<rparr>
       (map_option approval_notification_from_request (get_row q_id (d_request_id dd) (t_requests d')))"
    by (rule card_body_decided [OF body assms(5,6) new])
  from request_persists [OF runs_dml [OF assms(4)] q(2)] obtain q1 where "q1 \<in> set (t_requests d')"
    "q_id q1 = d_request_id dd"
    using core_fields q(1,3) by metis
  then obtain q2 where q2: "get_row q_id (d_request_id dd) (t_requests d') = Some q2"
    unfolding get_row_def by (metis (mono_tags, lifting) find_None_iff not_None_eq)
  then have q2_in: "q2 \<in> set (t_requests d')" "q_id q2 = d_request_id dd" by (auto simp: get_row_def find_Some_iff)
  have "well_requested ?dc"
    using runs_well_requested [OF runs_trans [OF assms(4,1)]] assms(2,3) by (simp add: well_requested_def)
  with q2_in q(1) have ok: "well_formed_request q2" by (simp add: well_requested_def list_all_iff)
  have state: "d_decision_code dd \<in> {''approved'', ''rejected''}"
    "outcome_state \<lparr>out_code = ''recorded'', out_decision_code = Some (d_decision_code dd)\<rparr> = d_decision_code dd"
    using act(2,3) by (auto simp: decision_of_def outcome_state_def)
  from state(1) have "d_decision_code dd \<in> {''pending'', ''waiting'', ''approved'', ''rejected''}"
    "d_decision_code dd \<notin> {''pending'', ''waiting''}" by auto
  with card_built [OF ok] obtain shown where
    shown: "build_approval_card (approval_notification_from_request q2) (d_decision_code dd) = Inr shown" "\<not> has_buttons shown"
    by metis
  have response: "x = Inr (DObj [(''toast'', DObj [(''type'', DStr ''success''), (''content'', DStr (snd (the (map_of toasts ''recorded''))))]),
        (''card'', DObj [(''type'', DStr ''raw''), (''data'', shown)])])"
    using shown(1) by (simp add: x q2 build_card_callback_response_def toasts_def state(2))
  then have "fst (handle_card_action s e c w) = x"
    using body by (auto simp: handle_card_action_def Let_def)
  moreover have "parse_approval_card_action (json_of (ce_value c)) = Inr (Some (''approve'', q_id q2)) \<and> d_decision_code dd = ''approved'' \<or>
      parse_approval_card_action (json_of (ce_value c)) = Inr (Some (''reject'', q_id q2)) \<and> d_decision_code dd = ''rejected''"
    using act q2_in(2) by (auto simp: decision_of_def)
  ultimately show ?thesis using shown q2_in response unfolding d' by (intro exI [of _ q2] exI [of _ shown]) simp
qed

section \<open>Health\<close>

text \<open>The health state under any interleaving of the threads that mark it, with the events in flight.\<close>

inductive health_step :: "worker_health \<times> nat \<Rightarrow> worker_health \<times> nat \<Rightarrow> bool" where
  connected: "health_step (h, n) (mark_connected now h, n)"
| reconnecting: "health_step (h, n) (mark_reconnecting h, n)"
| received: "health_step (h, n) (mark_event_received now h, Suc n)"
| succeeded: "health_step (h, Suc n) (mark_event_succeeded now h, n)"
| failed: "health_step (h, Suc n) (mark_event_failed now h, n)"

definition health_ok :: "worker_health \<times> nat \<Rightarrow> bool" where
  "health_ok = (\<lambda>(h, n).
     wh_status h \<in> {''starting'', ''ready'', ''reconnecting''} \<and> (wh_connected h \<longleftrightarrow> wh_status h = ''ready'') \<and>
     (wh_connected h \<longrightarrow> wh_connected_at h \<noteq> None) \<and>
     wh_events_received h = wh_events_succeeded h + wh_events_failed h + int n \<and>
     0 \<le> wh_events_succeeded h \<and> 0 \<le> wh_events_failed h \<and>
     (0 < wh_events_received h \<longleftrightarrow> wh_last_event_at h \<noteq> None) \<and>
     (0 < wh_events_succeeded h \<longleftrightarrow> wh_last_success_at h \<noteq> None) \<and>
     (0 < wh_events_failed h \<longleftrightarrow> wh_last_failure_at h \<noteq> None))"

lemma health_step_ok: "health_step s s' \<Longrightarrow> health_ok s \<Longrightarrow> health_ok s'"
  by (induction rule: health_step.induct)
    (auto simp: health_ok_def mark_connected_def mark_reconnecting_def mark_event_received_def
      mark_event_succeeded_def mark_event_failed_def)

text \<open>The health state is well formed at every moment: the worker is connected exactly in the state
  \<open>ready\<close>, every event received has succeeded, failed or is in flight, a time is given exactly for what
  has happened, and the server answers 200 exactly when the worker is connected.\<close>

lemma health_well_formed:
  assumes "health_step\<^sup>*\<^sup>* (new_health t, 0) (h, n)"
  shows "health_ok (h, n) \<and> fst (do_GET ''/health'' h) = (if wh_status h = ''ready'' then 200 else 503)"
proof -
  have "health_ok s" if "health_step\<^sup>*\<^sup>* (new_health t, 0) s" for s
    using that
  proof (induction rule: rtranclp_induct)
    case base
    show ?case by (simp add: health_ok_def new_health_def)
  next
    case (step s s')
    then show ?case by (simp add: health_step_ok)
  qed
  with assms have "health_ok (h, n)" by blast
  then show ?thesis by (auto simp: health_ok_def do_GET_def)
qed

text \<open>A handler receives one event and then counts it as one result.\<close>

lemma handlers_step:
  "health_step\<^sup>*\<^sup>* (wk_health w, n) (wk_health (handle_message s e m w), n)"
  "health_step\<^sup>*\<^sup>* (wk_health w, n) (wk_health (snd (handle_card_action s e c w)), n)"
proof -
  have two: "health_step\<^sup>*\<^sup>* (h, n) (mark (ee_finished_at e) (mark_event_received t h), n)"
    if "mark \<in> {mark_event_succeeded, mark_event_failed}" for h t mark
    by (rule converse_rtranclp_into_rtranclp, rule health_step.received, rule r_into_rtranclp)
      (use that health_step.succeeded health_step.failed in auto)
  show "health_step\<^sup>*\<^sup>* (wk_health w, n) (wk_health (snd (handle_card_action s e c w)), n)"
    using two by (auto simp: handle_card_action_def counted_def Let_def split: prod.splits sum.splits)
  obtain x w1 where run: "message_body s e m (w\<lparr>wk_health := mark_event_received (ee_received_at e) (wk_health w)\<rparr>) = (x, w1)"
    "handle_message s e m w = counted e (x \<noteq> None) w1" by (rule handle_message_cases)
  have "wk_health w1 = mark_event_received (ee_received_at e) (wk_health w)"
    using run(1) accept_text_ok reply_text_db
    by (fastforce simp: message_body_def Let_def split: if_splits sum.splits)
  then show "health_step\<^sup>*\<^sup>* (wk_health w, n) (wk_health (handle_message s e m w), n)"
    using two by (simp add: run(2) counted_def)
qed

end
