(* ===== verification/Attempt.thy ===== *)
theory Attempt
  imports Snapshot Resources
begin

text \<open>
  \<^verbatim>\<open>SQLAlchemyAttemptAuthority\<close> of \<^verbatim>\<open>app/services/production_supervisor.py\<close>: the supervisor's reads
  and writes of the database. Each is a function of the database alone; how they fail when the
  database does is in the theory of the supervisor.
\<close>

definition SUPERVISOR_IDENTITY :: string where
  "SUPERVISOR_IDENTITY = ''maoxx-production-deployment-supervisor''"

definition supervisor :: "string \<Rightarrow> 'a result" where
  "supervisor code = Inl (SupervisorError code)"

lemma supervisor_simps [simp]: "supervisor c \<noteq> Inr x" "Inr x \<noteq> supervisor c"
  "bindE (supervisor c) k = supervisor c"
  by (simp_all add: supervisor_def)

section \<open>Loading an attempt\<close>

text \<open>\<open>except SupervisorError: raise\<close>, \<open>except Exception: raise SupervisorError("db_disconnected")\<close>.\<close>

definition or_disconnected :: "'a result \<Rightarrow> 'a result" where
  "or_disconnected r =
     (case r of
        Inl (SupervisorError c) \<Rightarrow> r
      | Inl _ \<Rightarrow> supervisor ''db_disconnected''
      | Inr _ \<Rightarrow> r)"

lemma or_disconnected_ok [branch_simps]: "or_disconnected r = Inr x \<longleftrightarrow> r = Inr x"
  by (auto simp: or_disconnected_def split: sum.splits exn.splits)

text \<open>The rows an attempt rests on.\<close>

record authority_rows =
  au_execution :: deployment_execution_attempt
  au_intent :: deployment_intent
  au_artifact :: deployment_artifact
  au_acceptance :: staging_acceptance
  au_lock :: deployment_lock
  au_binding :: deployment_approval_binding
  au_consumption :: deployment_approval_consumption
  au_request :: approval_request
  au_decision :: approval_decision
  au_backup :: deployment_evidence

definition load_authority_rows :: "uuid \<Rightarrow> db \<Rightarrow> authority_rows result" where
  "load_authority_rows execution_attempt_id d =
     bindE (scalar_one_or_none (\<lambda>a. ea_id a = execution_attempt_id) (t_attempts d)) (\<lambda>execution_row.
     case execution_row of
       None \<Rightarrow> supervisor ''unknown_execution_attempt''
     | Some execution \<Rightarrow>
       let dep = ea_deployment_id execution; intent = get_row di_id dep (t_intents d) in
       bindE (scalar_one_or_none (\<lambda>a. da_deployment_id a = dep) (t_artifacts d)) (\<lambda>artifact.
       bindE (scalar_one_or_none (\<lambda>a. sa_deployment_id a = dep) (t_acceptances d)) (\<lambda>acceptance.
       bindE (scalar_one_or_none (\<lambda>l. dl_conflict_domain l = PRODUCTION_CONFLICT_DOMAIN) (t_locks d))
         (\<lambda>lock.
       bindE (scalar_one_or_none (\<lambda>b. ab_deployment_id b = dep) (t_bindings d)) (\<lambda>binding.
       bindE (scalar_one_or_none (\<lambda>n. ac_deployment_id n = dep) (t_consumptions d)) (\<lambda>consumption.
       let request = (case binding of None \<Rightarrow> None
             | Some b \<Rightarrow> get_row q_id (ab_approval_request_id b) (t_requests d)) in
       bindE (case binding of None \<Rightarrow> Inr None
           | Some b \<Rightarrow> scalar_one_or_none (\<lambda>c. d_request_id c = ab_approval_request_id b) (t_decisions d))
         (\<lambda>decision.
       let backup = latest_by ev_occurred_at (filter (\<lambda>e. ev_deployment_id e = dep \<and>
             ev_evidence_type e = ''predeploy_backup'') (t_evidence d)) in
       case (intent, artifact, acceptance, lock, binding, consumption, request, decision, backup) of
         (Some i, Some a, Some s, Some l, Some b, Some n, Some q, Some c, Some e) \<Rightarrow>
           Inr \<lparr>au_execution = execution, au_intent = i, au_artifact = a, au_acceptance = s,
             au_lock = l, au_binding = b, au_consumption = n, au_request = q, au_decision = c,
             au_backup = e\<rparr>
       | _ \<Rightarrow> supervisor ''attempt_authority_incomplete'')))))))"

text \<open>
  The conditions are evaluated from left to right: \<open>rows_match\<close> are those that cannot raise, before
  the first timestamp of the backup is read. \<open>clock 0\<close>, \<open>clock 1\<close>, \<open>clock 2\<close> are the three readings.
\<close>

definition rows_match :: "authority_rows \<Rightarrow> instant \<Rightarrow> bool" where
  "rows_match r now \<longleftrightarrow>
     ea_intent_hash (au_execution r) = calculate_intent_hash (di_id (au_intent r))
       (ea_id (au_execution r)) (ea_fencing_token (au_execution r)) (di_repository (au_intent r))
       (di_target_sha (au_intent r)) (da_service_images (au_artifact r))
       (di_artifact_digest (au_intent r)) (di_migration_revision (au_intent r)) \<and>
     dl_deployment_id (au_lock r) = di_id (au_intent r) \<and>
     dl_fencing_token (au_lock r) = ea_fencing_token (au_execution r) \<and>
     dl_owner_identity (au_lock r) = SUPERVISOR_IDENTITY \<and>
     sa_artifact_digest (au_acceptance r) = di_artifact_digest (au_intent r) \<and>
     sa_valid_until (au_acceptance r) > now \<and>
     set (map fst (da_service_images (au_artifact r))) = set (di_service_set (au_intent r)) \<and>
     q_deployment_id (au_request r) = Some (di_id (au_intent r)) \<and>
     q_artifact_digest (au_request r) = Some (di_artifact_digest (au_intent r)) \<and>
     d_decision_code (au_decision r) = ''approved'' \<and>
     ac_approval_decision_id (au_consumption r) = d_id (au_decision r) \<and>
     ev_status_code (au_backup r) = ''passed'' \<and>
     str_field ''producer_identity'' (ev_payload (au_backup r)) = Some ''maoxx-production-backup-authority''"

text \<open>A timestamp that is missing, malformed or naive raises, when it is parsed or compared.\<close>

definition aware_field :: "string \<Rightarrow> dict \<Rightarrow> instant result" where
  "aware_field k payload =
     (case iso_field k payload of Some (Aware t) \<Rightarrow> Inr t | _ \<Rightarrow> Inl (ValueError k))"

definition attempt_of :: "authority_rows \<Rightarrow> supervisor_attempt" where
  "attempt_of r =
     \<lparr>at_deployment_id = di_id (au_intent r), at_execution_attempt_id = ea_id (au_execution r),
      at_fencing_epoch = ea_fencing_token (au_execution r), at_repository = di_repository (au_intent r),
      at_target_sha = di_target_sha (au_intent r), at_intent_hash = ea_intent_hash (au_execution r),
      at_service_images = da_service_images (au_artifact r),
      at_artifact_digest = di_artifact_digest (au_intent r),
      at_expected_migration_revision = di_migration_revision (au_intent r),
      at_staging_accepted_at = sa_completed_at (au_acceptance r)\<rparr>"

definition load_attempt ::
  "uuid \<Rightarrow> (string \<Rightarrow> string \<Rightarrow> int \<Rightarrow> ci_evidence result) \<Rightarrow> (nat \<Rightarrow> instant) \<Rightarrow> db \<Rightarrow>
     supervisor_attempt result" where
  "load_attempt execution_attempt_id verify clock d =
     or_disconnected
       (bindE (load_authority_rows execution_attempt_id d) (\<lambda>r.
        bindE (verify (di_repository (au_intent r)) (di_target_sha (au_intent r))
            (da_ci_run_id (au_artifact r))) (\<lambda>ci.
        if \<not> rows_match r (clock 0) then supervisor ''attempt_authority_mismatch''
        else
          bindE (aware_field ''created_at'' (ev_payload (au_backup r))) (\<lambda>created_at.
          if created_at < sa_completed_at (au_acceptance r)
          then supervisor ''attempt_authority_mismatch''
          else
            bindE (aware_field ''verified_at'' (ev_payload (au_backup r))) (\<lambda>verified_at.
            if verified_at + minutes 30 < clock 1 \<or> ci_repository ci \<noteq> di_repository (au_intent r) \<or>
              ci_target_sha ci \<noteq> di_target_sha (au_intent r) \<or>
              ci_run_id ci \<noteq> da_ci_run_id (au_artifact r) \<or>
              ci_verified_at ci + minutes 15 < clock 2
            then supervisor ''attempt_authority_mismatch''
            else Inr (attempt_of r))))))"

section \<open>Recording\<close>

definition sample_payload :: "trusted_resource_sample \<Rightarrow> json" where
  "sample_payload s =
     JObj (mk_dict [(''resource_check_id'', JUuid (ts_resource_check_id s)),
       (''deployment_id'', JUuid (ts_deployment_id s)), (''environment'', JStr (ts_environment s)),
       (''host_checkpoint'', JStr (ts_host_checkpoint s)),
       (''checkpoint_nonce'', JUuid (ts_checkpoint_nonce s)),
       (''captured_at'', JTime (Aware (ts_captured_at s))),
       (''monotonic_seconds'', JFloat (ts_monotonic s)),
       (''mem_available_bytes'', JNum (ts_mem_available_bytes s)),
       (''swap_free_bytes'', JNum (ts_swap_free_bytes s)),
       (''root_free_bytes'', JNum (ts_root_free_bytes s)),
       (''docker_free_bytes'', JNum (ts_docker_free_bytes s))])"

definition resource_evidence :: "trusted_resource_result \<Rightarrow> uuid \<Rightarrow> deployment_evidence" where
  "resource_evidence r i =
     \<lparr>ev_id = i, ev_deployment_id = tr_deployment_id r, ev_evidence_type = ''resource_gate'',
      ev_evidence_key = uuid_str (tr_checkpoint_nonce r),
      ev_status_code = (if tr_passed r then ''passed'' else ''failed''),
      ev_payload = mk_dict [(''resource_check_id'', JUuid (tr_resource_check_id r)),
        (''deployment_id'', JUuid (tr_deployment_id r)),
        (''checkpoint_nonce'', JUuid (tr_checkpoint_nonce r)),
        (''evaluated_at'', JTime (Aware (tr_evaluated_at r))),
        (''median_mem_available_bytes'', JNum (tr_median_mem_available_bytes r)),
        (''minimum_mem_available_bytes'', JNum (tr_minimum_mem_available_bytes r)),
        (''minimum_swap_free_bytes'', JNum (tr_minimum_swap_free_bytes r)),
        (''minimum_root_free_bytes'', JNum (tr_minimum_root_free_bytes r)),
        (''minimum_docker_free_bytes'', JNum (tr_minimum_docker_free_bytes r)),
        (''samples'', JList (map sample_payload (tr_samples r))),
        (''producer_identity'', JStr SUPERVISOR_IDENTITY)],
      ev_occurred_at = tr_evaluated_at r\<rparr>"

definition record_resource ::
  "trusted_resource_result \<Rightarrow> uuid \<Rightarrow> instant \<Rightarrow> db \<Rightarrow> (unit \<times> db) result" where
  "record_resource r i now d =
     bindE (require_fresh r now) (\<lambda>_.
     bindE (scalar_one_or_none (\<lambda>e. ev_deployment_id e = tr_deployment_id r \<and>
         ev_evidence_type e = ''resource_gate'' \<and> ev_evidence_key e = uuid_str (tr_checkpoint_nonce r))
         (t_evidence d)) (\<lambda>existing.
       if existing \<noteq> None then supervisor ''resource_checkpoint_already_used''
       else bindE (insert_evidence (resource_evidence r i) d) (\<lambda>d'. Inr ((), d'))))"

definition runtime_evidence ::
  "supervisor_attempt \<Rightarrow> runtime_state \<Rightarrow> string \<Rightarrow> uuid \<Rightarrow> instant \<Rightarrow> deployment_evidence" where
  "runtime_evidence attempt state source i now =
     \<lparr>ev_id = i, ev_deployment_id = at_deployment_id attempt,
      ev_evidence_type = ''supervisor_runtime_result'',
      ev_evidence_key = uuid_str (at_execution_attempt_id attempt) @ '':'' @ source @ '':'' @
        runtime_state_value state,
      ev_status_code = (if state = HEALTHY then ''passed'' else if state = FAILED then ''failed''
        else ''pending''),
      ev_payload = mk_dict [(''deployment_id'', JUuid (at_deployment_id attempt)),
        (''execution_attempt_id'', JUuid (at_execution_attempt_id attempt)),
        (''fencing_epoch'', JNum (at_fencing_epoch attempt)),
        (''intent_hash'', JStr (at_intent_hash attempt)),
        (''runtime_state'', JStr (runtime_state_value state)), (''source'', JStr source),
        (''producer_identity'', JStr SUPERVISOR_IDENTITY)],
      ev_occurred_at = now\<rparr>"

definition record_runtime_result ::
  "supervisor_attempt \<Rightarrow> runtime_state \<Rightarrow> string \<Rightarrow> uuid \<Rightarrow> instant \<Rightarrow> db \<Rightarrow> (unit \<times> db) result" where
  "record_runtime_result attempt state source i now d =
     bindE (insert_evidence (runtime_evidence attempt state source i now) d) (\<lambda>d'. Inr ((), d'))"

definition is_marker :: "supervisor_attempt \<Rightarrow> deployment_evidence \<Rightarrow> bool" where
  "is_marker attempt e \<longleftrightarrow> ev_deployment_id e = at_deployment_id attempt \<and>
     ev_evidence_type e = ''mutation_submitted'' \<and>
     ev_evidence_key e = uuid_str (at_execution_attempt_id attempt)"

definition marker_evidence :: "supervisor_attempt \<Rightarrow> uuid \<Rightarrow> instant \<Rightarrow> deployment_evidence" where
  "marker_evidence attempt i now =
     \<lparr>ev_id = i, ev_deployment_id = at_deployment_id attempt,
      ev_evidence_type = ''mutation_submitted'',
      ev_evidence_key = uuid_str (at_execution_attempt_id attempt), ev_status_code = ''recorded'',
      ev_payload = mk_dict [(''deployment_id'', JUuid (at_deployment_id attempt)),
        (''execution_attempt_id'', JUuid (at_execution_attempt_id attempt)),
        (''fencing_epoch'', JNum (at_fencing_epoch attempt)),
        (''intent_hash'', JStr (at_intent_hash attempt)),
        (''producer_identity'', JStr SUPERVISOR_IDENTITY)],
      ev_occurred_at = now\<rparr>"

definition record_mutation_submitted ::
  "supervisor_attempt \<Rightarrow> uuid \<Rightarrow> instant \<Rightarrow> db \<Rightarrow> (unit \<times> db) result" where
  "record_mutation_submitted attempt i now d =
     bindE (scalar_one_or_none (is_marker attempt) (t_evidence d)) (\<lambda>existing.
       if existing \<noteq> None then Inr ((), d)
       else bindE (insert_evidence (marker_evidence attempt i now) d) (\<lambda>d'. Inr ((), d')))"

definition mutation_submitted :: "supervisor_attempt \<Rightarrow> db \<Rightarrow> (bool \<times> db) result" where
  "mutation_submitted attempt d =
     bindE (scalar_one_or_none (is_marker attempt) (t_evidence d)) (\<lambda>row. Inr (row \<noteq> None, d))"

section \<open>What a loaded attempt rests on\<close>

lemma load_ok:
  assumes "load_attempt i verify clock d = Inr a"
  obtains r ci where "load_authority_rows i d = Inr r" "a = attempt_of r" "rows_match r (clock 0)"
    "verify (di_repository (au_intent r)) (di_target_sha (au_intent r)) (da_ci_run_id (au_artifact r)) = Inr ci"
    "ci_verified_at ci + minutes 15 \<ge> clock 2"
  using assms that unfolding load_attempt_def
  by (auto simp: Let_def branch_simps not_less)

lemma load_rows_in:
  assumes "load_authority_rows i d = Inr r"
  shows "au_execution r \<in> set (t_attempts d)" "ea_id (au_execution r) = i"
    "au_intent r \<in> set (t_intents d)" "di_id (au_intent r) = ea_deployment_id (au_execution r)"
    "au_artifact r \<in> set (t_artifacts d)" "da_deployment_id (au_artifact r) = di_id (au_intent r)"
    "au_acceptance r \<in> set (t_acceptances d)" "sa_deployment_id (au_acceptance r) = di_id (au_intent r)"
    "au_lock r \<in> set (t_locks d)" "au_request r \<in> set (t_requests d)"
    "au_decision r \<in> set (t_decisions d)" "d_request_id (au_decision r) = q_id (au_request r)"
  using assms unfolding load_authority_rows_def
  by (auto simp: Let_def branch_simps scalar_one_or_none_Some get_row_def find_Some_iff
      dest!: filter_singletonD)

lemma load_attempt_id: "load_attempt i verify clock d = Inr a \<Longrightarrow> at_execution_attempt_id a = i"
  by (erule load_ok) (simp add: attempt_of_def load_rows_in)

lemma marker_recorded:
  "record_mutation_submitted a i now d = Inr (u, d') \<Longrightarrow> \<exists>e \<in> set (t_evidence d'). is_marker a e"
  by (force simp: record_mutation_submitted_def branch_simps scalar_one_or_none_Some is_marker_def
      marker_evidence_def dest!: filter_singletonD inserted(15))

section \<open>Properties\<close>

text \<open>C8. The supervisor executes only what the database authorises: a loaded attempt is a recorded
  one, its hash covers the intent and the images, its lock is the supervisor's with the same token,
  its staging acceptance is for this digest and still valid, and the approval of this deployment and
  digest was given.\<close>

theorem loaded_attempt_authorised:
  assumes "load_attempt i verify clock d = Inr a"
  shows "\<exists>e \<in> set (t_attempts d). \<exists>x \<in> set (t_intents d). \<exists>f \<in> set (t_artifacts d).
     \<exists>s \<in> set (t_acceptances d). \<exists>l \<in> set (t_locks d). \<exists>q \<in> set (t_requests d). \<exists>c \<in> set (t_decisions d).
       ea_id e = i \<and> at_execution_attempt_id a = i \<and> di_id x = at_deployment_id a \<and>
       ea_deployment_id e = di_id x \<and> da_deployment_id f = di_id x \<and>
       at_service_images a = da_service_images f \<and> at_artifact_digest a = di_artifact_digest x \<and>
       at_intent_hash a = calculate_intent_hash (di_id x) i (at_fencing_epoch a) (di_repository x)
         (di_target_sha x) (at_service_images a) (at_artifact_digest a) (di_migration_revision x) \<and>
       dl_deployment_id l = di_id x \<and> dl_fencing_token l = at_fencing_epoch a \<and>
       dl_owner_identity l = SUPERVISOR_IDENTITY \<and>
       sa_deployment_id s = di_id x \<and> sa_artifact_digest s = at_artifact_digest a \<and>
       sa_valid_until s > clock 0 \<and>
       q_deployment_id q = Some (di_id x) \<and> q_artifact_digest q = Some (at_artifact_digest a) \<and>
       d_request_id c = q_id q \<and> d_decision_code c = ''approved''"
  using assms
proof (rule load_ok)
  fix r ci
  assume r: "load_authority_rows i d = Inr r" "a = attempt_of r" "rows_match r (clock 0)"
  note rows = load_rows_in [OF r(1)]
  show ?thesis
    by (rule bexI [OF _ rows(1)], rule bexI [OF _ rows(3)], rule bexI [OF _ rows(5)],
        rule bexI [OF _ rows(7)], rule bexI [OF _ rows(9)], rule bexI [OF _ rows(10)],
        rule bexI [OF _ rows(11)])
      (use r(3) rows in \<open>simp add: r(2) attempt_of_def rows_match_def\<close>)
qed

text \<open>The supervisor does not look at the lease of the lock or at invalidations of the staging
  acceptance: it loads the same attempt when the lease has expired or the acceptance was invalidated.\<close>

theorem load_ignores_lease_and_invalidation:
  "load_attempt i verify clock (d\<lparr>t_locks := map (\<lambda>l. l\<lparr>dl_lease_expires_at := expiry\<rparr>) (t_locks d),
     t_invalidations := invalidations\<rparr>) = load_attempt i verify clock d"
proof -
  let ?f = "\<lambda>l. l\<lparr>dl_lease_expires_at := expiry\<rparr>"
  let ?d = "d\<lparr>t_locks := map ?f (t_locks d), t_invalidations := invalidations\<rparr>"
  have locks: "scalar_one_or_none (\<lambda>l. dl_conflict_domain l = PRODUCTION_CONFLICT_DOMAIN) (map ?f ls) =
      (case scalar_one_or_none (\<lambda>l. dl_conflict_domain l = PRODUCTION_CONFLICT_DOMAIN) ls of
         Inl e \<Rightarrow> Inl e | Inr x \<Rightarrow> Inr (map_option ?f x))" for ls
    by (simp add: scalar_one_or_none_def filter_map o_def split: list.splits)
  have rows: "load_authority_rows i ?d =
      (case load_authority_rows i d of Inl e \<Rightarrow> Inl e | Inr r \<Rightarrow> Inr (r\<lparr>au_lock := ?f (au_lock r)\<rparr>))"
    by (simp add: load_authority_rows_def locks bindE_def Let_def split: sum.splits option.splits)
  have "rows_match (r\<lparr>au_lock := ?f (au_lock r)\<rparr>) t = rows_match r t"
    "attempt_of (r\<lparr>au_lock := ?f (au_lock r)\<rparr>) = attempt_of r" for r t
    by (simp_all add: rows_match_def attempt_of_def)
  then show ?thesis
    by (simp add: load_attempt_def rows bindE_def split: sum.splits)
qed

end
