(* ===== verification/Backup.thy ===== *)
theory Backup
  imports Attempt Json
begin

text \<open>
  \<^verbatim>\<open>app/services/backup_authority.py\<close>: a database backup that is made, checked and restored once on a
  canary database before its evidence is recorded. The commands it runs, the file and the clock are
  inputs; the effects are kept in the order in which they happen.
\<close>

section \<open>Effects\<close>

datatype backup_effect =
    Ran "string list"
  | Looked
  | Asked_time
  | Made_directory

text \<open>What an effect finds depends on the effects before it.\<close>

record backup_env =
  be_run :: "backup_effect list \<Rightarrow> string list \<Rightarrow> command_result result"
  be_file :: "backup_effect list \<Rightarrow> string option"
  be_now :: "backup_effect list \<Rightarrow> instant"
  be_mkdir :: "unit result"

type_synonym 'a backup = "backup_env \<Rightarrow> backup_effect list \<Rightarrow> 'a result \<times> backup_effect list"

definition retB :: "'a result \<Rightarrow> 'a backup" where
  "retB r \<epsilon> tr = (r, tr)"

definition bindB :: "'a backup \<Rightarrow> ('a \<Rightarrow> 'b backup) \<Rightarrow> 'b backup" where
  "bindB m k \<epsilon> tr = (case m \<epsilon> tr of (Inl x, tr') \<Rightarrow> (Inl x, tr') | (Inr y, tr') \<Rightarrow> k y \<epsilon> tr')"

text \<open>\<open>try: m\<close>, \<open>finally: f\<close>: what \<open>f\<close> raises takes precedence.\<close>

definition finallyB :: "'a backup \<Rightarrow> 'b backup \<Rightarrow> 'a backup" where
  "finallyB m f \<epsilon> tr =
     (case m \<epsilon> tr of (r, tr1) \<Rightarrow>
        (case f \<epsilon> tr1 of (Inl x, tr2) \<Rightarrow> (Inl x, tr2) | (Inr _, tr2) \<Rightarrow> (r, tr2)))"

definition run_command :: "string list \<Rightarrow> command_result backup" where
  "run_command argv \<epsilon> tr = (be_run \<epsilon> tr argv, tr @ [Ran argv])"

definition look :: "string option backup" where
  "look \<epsilon> tr = (Inr (be_file \<epsilon> tr), tr @ [Looked])"

definition ask_time :: "instant backup" where
  "ask_time \<epsilon> tr = (Inr (be_now \<epsilon> tr), tr @ [Asked_time])"

definition make_directory :: "unit backup" where
  "make_directory \<epsilon> tr = (be_mkdir \<epsilon>, tr @ [Made_directory])"

definition checkB :: "bool \<Rightarrow> string \<Rightarrow> unit backup" where
  "checkB c code = retB (if c then Inr () else Inl (BackupAuthorityError code))"

text \<open>\<open>_sha256\<close>; opening a file that is not there raises.\<close>

definition file_hash :: "string backup" where
  "file_hash = bindB look (\<lambda>contents. retB (case contents of
       None \<Rightarrow> Inl (OtherException ''FileNotFoundError'') | Some s \<Rightarrow> Inr (sha256_hexdigest s)))"

definition file_size :: "int backup" where
  "file_size = bindB look (\<lambda>contents. retB (case contents of
       None \<Rightarrow> Inl (OtherException ''FileNotFoundError'') | Some s \<Rightarrow> Inr (int (length s))))"

section \<open>The backup\<close>

definition BACKUP_PRODUCER :: string where
  "BACKUP_PRODUCER = ''maoxx-production-backup-authority''"

fun contains :: "string \<Rightarrow> string \<Rightarrow> bool" where
  "contains p [] \<longleftrightarrow> p = []"
| "contains p (c # s) \<longleftrightarrow> starts_with p (c # s) \<or> contains p s"

definition catalog_complete :: "string \<Rightarrow> bool" where
  "catalog_complete text \<longleftrightarrow>
     list_all (\<lambda>item. contains item text)
       [''SCHEMA - core'', ''TABLE core approval_requests'', ''TABLE core approval_decisions'']"

definition archive_path :: "string \<Rightarrow> uuid \<Rightarrow> uuid \<Rightarrow> string" where
  "archive_path root deployment_id operation_id =
     root @ ''/'' @ uuid_str deployment_id @ ''-'' @ uuid_str operation_id @ ''.dump''"

definition dump_args :: "string \<Rightarrow> string \<Rightarrow> string list" where
  "dump_args pg archive = [''pg_dump'', ''--dbname=service='' @ pg, ''--format=custom'', ''--file'', archive]"

definition list_args :: "string \<Rightarrow> string list" where
  "list_args archive = [''pg_restore'', ''--list'', archive]"

definition canary_name :: "uuid \<Rightarrow> string" where
  "canary_name operation_id = ''maoxx_restore_canary_'' @ uuid_hex operation_id"

definition createdb_args :: "string \<Rightarrow> uuid \<Rightarrow> string list" where
  "createdb_args pg op = [''createdb'', ''--maintenance-db=service='' @ pg, canary_name op]"

definition dropdb_args :: "string \<Rightarrow> uuid \<Rightarrow> string list" where
  "dropdb_args pg op = [''dropdb'', ''--maintenance-db=service='' @ pg, ''--if-exists'', canary_name op]"

definition canary_service :: "string \<Rightarrow> uuid \<Rightarrow> string" where
  "canary_service pg op = ''--dbname=service='' @ pg @ '' dbname='' @ canary_name op"

definition restore_args :: "string \<Rightarrow> uuid \<Rightarrow> string \<Rightarrow> string list" where
  "restore_args pg op archive =
     [''pg_restore'', canary_service pg op, ''--schema=core'', ''--table=approval_requests'',
      ''--table=approval_decisions'', archive]"

definition probe_args :: "string \<Rightarrow> uuid \<Rightarrow> string list" where
  "probe_args pg op =
     [''psql'', canary_service pg op, ''--tuples-only'', ''--command'',
      ''SELECT to_regclass('' @ [CHR 0x27] @ ''core.approval_requests'' @ [CHR 0x27] @ '') IS NOT NULL '' @
      ''AND to_regclass('' @ [CHR 0x27] @ ''core.approval_decisions'' @ [CHR 0x27] @ '') IS NOT NULL'']"

definition canary_restore :: "string \<Rightarrow> uuid \<Rightarrow> string \<Rightarrow> unit backup" where
  "canary_restore pg op archive =
     bindB (run_command (createdb_args pg op)) (\<lambda>created.
     bindB (checkB (cr_returncode created = 0) ''canary_database_create_failed'') (\<lambda>_.
     bindB (run_command (restore_args pg op archive)) (\<lambda>restore.
     bindB (run_command (probe_args pg op)) (\<lambda>probed.
       checkB (cr_returncode restore = 0 \<and> cr_returncode probed = 0 \<and> contains ''t'' (cr_stdout probed))
         ''canary_restore_failed''))))"

record verified_backup =
  vb_created_at :: instant
  vb_verified_at :: instant
  vb_sha256 :: string
  vb_size :: int

definition verify_backup :: "string \<Rightarrow> string \<Rightarrow> uuid \<Rightarrow> uuid \<Rightarrow> instant \<Rightarrow> verified_backup backup" where
  "verify_backup root pg deployment_id op accepted_at =
     (let archive = archive_path root deployment_id op in
      bindB ask_time (\<lambda>created_at.
      bindB (checkB (\<not> created_at < accepted_at) ''backup_precedes_staging_acceptance'') (\<lambda>_.
      bindB make_directory (\<lambda>_.
      bindB (run_command (dump_args pg archive)) (\<lambda>dump.
      bindB (if cr_returncode dump \<noteq> 0 then retB (Inr False)
          else bindB look (\<lambda>contents. retB (Inr (case contents of None \<Rightarrow> False | Some s \<Rightarrow> s \<noteq> []))))
        (\<lambda>dumped.
      bindB (checkB dumped ''backup_creation_failed'') (\<lambda>_.
      bindB file_hash (\<lambda>checksum.
      bindB (run_command (list_args archive)) (\<lambda>catalog.
      bindB (checkB (cr_returncode catalog = 0 \<and> catalog_complete (cr_stdout catalog)) ''backup_catalog_invalid'')
        (\<lambda>_.
      bindB (finallyB (canary_restore pg op archive) (run_command (dropdb_args pg op))) (\<lambda>_.
      bindB ask_time (\<lambda>verified_at.
      bindB file_hash (\<lambda>again.
      bindB (checkB (again = checksum) ''backup_checksum_changed'') (\<lambda>_.
      bindB (checkB (\<not> verified_at - created_at > minutes 30) ''backup_verification_stale'') (\<lambda>_.
      bindB file_size (\<lambda>size.
        retB (Inr \<lparr>vb_created_at = created_at, vb_verified_at = verified_at, vb_sha256 = checksum,
          vb_size = size\<rparr>)))))))))))))))))"

definition backup_evidence :: "string \<Rightarrow> uuid \<Rightarrow> uuid \<Rightarrow> uuid \<Rightarrow> verified_backup \<Rightarrow> deployment_evidence" where
  "backup_evidence root deployment_id op new_id b =
     \<lparr>ev_id = new_id, ev_deployment_id = deployment_id, ev_evidence_type = ''predeploy_backup'',
      ev_evidence_key = uuid_str op, ev_status_code = ''passed'',
      ev_payload = mk_dict
        [(''backup_operation_id'', JUuid op), (''deployment_id'', JUuid deployment_id),
         (''environment'', JStr ''production''), (''persistent_state_scope'', JStr ''postgresql:core''),
         (''artifact_path'', JStr (archive_path root deployment_id op)), (''size_bytes'', JNum (vb_size b)),
         (''sha256'', JStr (vb_sha256 b)), (''backup_format'', JStr ''postgresql-custom''),
         (''catalog_validated'', JBool True), (''canary_restore_validated'', JBool True),
         (''created_at'', JTime (Aware (vb_created_at b))), (''verified_at'', JTime (Aware (vb_verified_at b))),
         (''producer_identity'', JStr BACKUP_PRODUCER)],
      ev_occurred_at = vb_verified_at b\<rparr>"

text \<open>The acceptance is read from \<open>d\<close> in a session of its own; the evidence is written to \<open>dc\<close>.\<close>

definition create_and_verify ::
  "string \<Rightarrow> string \<Rightarrow> uuid \<Rightarrow> uuid \<Rightarrow> uuid \<Rightarrow> db \<Rightarrow> db \<Rightarrow> (deployment_evidence \<times> db) backup" where
  "create_and_verify root pg deployment_id op new_id d dc =
     bindB (retB (scalar_one_or_none (\<lambda>a. sa_deployment_id a = deployment_id) (t_acceptances d)))
       (\<lambda>acceptance.
     case acceptance of
       None \<Rightarrow> retB (Inl (BackupAuthorityError ''missing_staging_acceptance''))
     | Some a \<Rightarrow>
         bindB (checkB (sa_deployment_id a = deployment_id) ''wrong_deployment_binding'') (\<lambda>_.
         bindB (verify_backup root pg deployment_id op (sa_completed_at a)) (\<lambda>b.
           retB (let e = backup_evidence root deployment_id op new_id b in
             bindE (insert_evidence e dc) (\<lambda>d'. Inr (e, d'))))))"

section \<open>What a successful backup went through\<close>

named_theorems backup_simps \<open>the shape of a successful effect of the backup\<close>

lemma bindB_Inr [backup_simps]:
  "bindB m k \<epsilon> tr = (Inr y, tr') \<longleftrightarrow> (\<exists>x t. m \<epsilon> tr = (Inr x, t) \<and> k x \<epsilon> t = (Inr y, tr'))"
  by (auto simp: bindB_def split: prod.splits sum.splits)

lemma steps_Inr [backup_simps]:
  "retB r \<epsilon> tr = (Inr y, tr') \<longleftrightarrow> r = Inr y \<and> tr' = tr"
  "checkB c code \<epsilon> tr = (Inr u, tr') \<longleftrightarrow> c \<and> tr' = tr"
  "run_command argv \<epsilon> tr = (Inr x, tr') \<longleftrightarrow> be_run \<epsilon> tr argv = Inr x \<and> tr' = tr @ [Ran argv]"
  "look \<epsilon> tr = (Inr f, tr') \<longleftrightarrow> f = be_file \<epsilon> tr \<and> tr' = tr @ [Looked]"
  "ask_time \<epsilon> tr = (Inr n, tr') \<longleftrightarrow> n = be_now \<epsilon> tr \<and> tr' = tr @ [Asked_time]"
  "make_directory \<epsilon> tr = (Inr u, tr') \<longleftrightarrow> be_mkdir \<epsilon> = Inr u \<and> tr' = tr @ [Made_directory]"
  by (auto simp: retB_def checkB_def run_command_def look_def ask_time_def make_directory_def)

lemma file_Inr [backup_simps]:
  "file_hash \<epsilon> tr = (Inr h, tr') \<longleftrightarrow>
     (\<exists>s. be_file \<epsilon> tr = Some s \<and> h = sha256_hexdigest s) \<and> tr' = tr @ [Looked]"
  "file_size \<epsilon> tr = (Inr n, tr') \<longleftrightarrow> (\<exists>s. be_file \<epsilon> tr = Some s \<and> n = int (length s)) \<and> tr' = tr @ [Looked]"
  by (auto simp: file_hash_def file_size_def backup_simps split: option.splits)

lemma finally_Inr [backup_simps]:
  "finallyB m f \<epsilon> tr = (Inr y, tr') \<longleftrightarrow> (\<exists>t z. m \<epsilon> tr = (Inr y, t) \<and> f \<epsilon> t = (Inr z, tr'))"
  by (auto simp: finallyB_def split: prod.splits sum.splits)

text \<open>A command was run, and returned 0.\<close>

definition returned_0 :: "backup_env \<Rightarrow> backup_effect list \<Rightarrow> string list \<Rightarrow> (string \<Rightarrow> bool) \<Rightarrow> bool" where
  "returned_0 \<epsilon> tr argv printed \<longleftrightarrow>
     (\<exists>t r. prefix (t @ [Ran argv]) tr \<and> be_run \<epsilon> t argv = Inr r \<and> cr_returncode r = 0 \<and> printed (cr_stdout r))"

lemma returned_0I: "be_run \<epsilon> t argv = Inr r \<Longrightarrow> cr_returncode r = 0 \<Longrightarrow> printed (cr_stdout r) \<Longrightarrow>
    prefix (t @ [Ran argv]) tr \<Longrightarrow> returned_0 \<epsilon> tr argv printed"
  unfolding returned_0_def by blast

lemma returned_0_mono: "returned_0 \<epsilon> tr argv printed \<Longrightarrow> prefix tr tr' \<Longrightarrow> returned_0 \<epsilon> tr' argv printed"
  unfolding returned_0_def using prefix_order.trans by blast

definition any_text :: "string \<Rightarrow> bool" where
  "any_text text \<longleftrightarrow> True"

lemma canary_ok:
  assumes "canary_restore pg op archive \<epsilon> tr = (Inr u, tr')"
  shows "tr' = tr @ [Ran (createdb_args pg op), Ran (restore_args pg op archive), Ran (probe_args pg op)] \<and>
    returned_0 \<epsilon> tr' (createdb_args pg op) any_text \<and> returned_0 \<epsilon> tr' (restore_args pg op archive) any_text \<and>
    returned_0 \<epsilon> tr' (probe_args pg op) (contains ''t'')"
  using assms by (auto simp: canary_restore_def backup_simps any_text_def intro!: returned_0I)

text \<open>The archive as it was found twice, before and after a command.\<close>

definition unchanged_archive :: "backup_env \<Rightarrow> backup_effect list \<Rightarrow> string list \<Rightarrow> string \<Rightarrow> bool" where
  "unchanged_archive \<epsilon> tr argv h \<longleftrightarrow>
     (\<exists>t1 t t2 s1 s2. prefix (t1 @ [Looked]) t \<and> prefix (t @ [Ran argv]) t2 \<and> prefix (t2 @ [Looked]) tr \<and>
        be_file \<epsilon> t1 = Some s1 \<and> be_file \<epsilon> t2 = Some s2 \<and> sha256_hexdigest s1 = h \<and> sha256_hexdigest s2 = h)"

text \<open>A time that the clock gave.\<close>

definition clock_gave :: "backup_env \<Rightarrow> backup_effect list \<Rightarrow> instant \<Rightarrow> bool" where
  "clock_gave \<epsilon> tr now \<longleftrightarrow> (\<exists>t. prefix (t @ [Asked_time]) tr \<and> be_now \<epsilon> t = now)"

lemma verify_backup_ok:
  assumes "verify_backup root pg dep op accepted \<epsilon> tr = (Inr b, tr')"
  shows "accepted \<le> vb_created_at b \<and> vb_verified_at b - vb_created_at b \<le> minutes 30 \<and>
    clock_gave \<epsilon> tr' (vb_created_at b) \<and> clock_gave \<epsilon> tr' (vb_verified_at b) \<and>
    unchanged_archive \<epsilon> tr' (restore_args pg op (archive_path root dep op)) (vb_sha256 b) \<and>
    returned_0 \<epsilon> tr' (dump_args pg (archive_path root dep op)) any_text \<and>
    returned_0 \<epsilon> tr' (list_args (archive_path root dep op)) catalog_complete \<and>
    returned_0 \<epsilon> tr' (createdb_args pg op) any_text \<and>
    returned_0 \<epsilon> tr' (restore_args pg op (archive_path root dep op)) any_text \<and>
    returned_0 \<epsilon> tr' (probe_args pg op) (contains ''t'')"
proof -
  let ?archive = "archive_path root dep op"
  let ?t0 = "tr @ [Asked_time, Made_directory]"
  let ?t1 = "?t0 @ [Ran (dump_args pg ?archive), Looked]"
  let ?t2 = "?t1 @ [Looked, Ran (list_args ?archive)]"
  have dumped: "(if failed then retB (Inr False) else bindB look (\<lambda>contents. retB (Inr (case contents of None \<Rightarrow> False
      | Some s \<Rightarrow> s \<noteq> [])))) \<epsilon> t = (Inr True, t') \<longleftrightarrow> \<not> failed \<and> t' = t @ [Looked] \<and> (\<exists>s. be_file \<epsilon> t = Some s \<and> s \<noteq> [])"
    for failed t t'
    by (auto simp: backup_simps split: option.splits)
  from assms obtain r0 s1 r1 u t3 s2 where b: "accepted \<le> vb_created_at b"
      "vb_verified_at b - vb_created_at b \<le> minutes 30"
    and asked: "vb_created_at b = be_now \<epsilon> tr" "vb_verified_at b = be_now \<epsilon> (t3 @ [Ran (dropdb_args pg op)])"
    and dump: "be_run \<epsilon> ?t0 (dump_args pg ?archive) = Inr r0" "cr_returncode r0 = 0"
    and first: "be_file \<epsilon> ?t1 = Some s1" "sha256_hexdigest s1 = vb_sha256 b"
    and listed: "be_run \<epsilon> (?t1 @ [Looked]) (list_args ?archive) = Inr r1" "cr_returncode r1 = 0"
      "catalog_complete (cr_stdout r1)"
    and canary: "canary_restore pg op ?archive \<epsilon> ?t2 = (Inr u, t3)"
    and second: "be_file \<epsilon> (t3 @ [Ran (dropdb_args pg op), Asked_time]) = Some s2"
      "sha256_hexdigest s2 = vb_sha256 b"
    and tr': "tr' = t3 @ [Ran (dropdb_args pg op), Asked_time, Looked, Looked]"
    by (auto simp: verify_backup_def Let_def backup_simps dumped)
  note c = canary_ok [OF canary]
  then have t3: "t3 = ?t2 @ [Ran (createdb_args pg op), Ran (restore_args pg op ?archive), Ran (probe_args pg op)]"
    by simp
  have "unchanged_archive \<epsilon> tr' (restore_args pg op ?archive) (vb_sha256 b)"
    unfolding unchanged_archive_def tr'
    by (intro exI [of _ ?t1] exI [of _ "?t2 @ [Ran (createdb_args pg op)]"]
        exI [of _ "t3 @ [Ran (dropdb_args pg op), Asked_time]"] exI [of _ s1] exI [of _ s2])
      (use first second in \<open>simp add: t3\<close>)
  moreover have "prefix t3 tr'" by (simp add: tr')
  moreover have "clock_gave \<epsilon> tr' (vb_verified_at b)"
    unfolding clock_gave_def tr' asked(2) by (intro exI [of _ "t3 @ [Ran (dropdb_args pg op)]"]) simp
  moreover have "clock_gave \<epsilon> tr' (vb_created_at b)"
    unfolding clock_gave_def asked(1) by (intro exI [of _ tr]) (simp add: tr' t3)
  moreover have "returned_0 \<epsilon> tr' (dump_args pg ?archive) any_text"
    by (rule returned_0I [OF dump]) (simp_all add: any_text_def tr' t3 prefix_def)
  moreover have "returned_0 \<epsilon> tr' (list_args ?archive) catalog_complete"
    by (rule returned_0I, rule listed(1)) (simp_all add: listed tr' t3 prefix_def)
  ultimately show ?thesis using b c returned_0_mono by blast
qed

lemma backup_fields [simp]:
  "ev_deployment_id (backup_evidence root dep op i b) = dep"
  "ev_evidence_type (backup_evidence root dep op i b) = ''predeploy_backup''"
  "ev_status_code (backup_evidence root dep op i b) = ''passed''"
  "ev_occurred_at (backup_evidence root dep op i b) = vb_verified_at b"
  "str_field ''producer_identity'' (ev_payload (backup_evidence root dep op i b)) = Some BACKUP_PRODUCER"
  "str_field ''sha256'' (ev_payload (backup_evidence root dep op i b)) = Some (vb_sha256 b)"
  "aware_field ''created_at'' (ev_payload (backup_evidence root dep op i b)) = Inr (vb_created_at b)"
  "aware_field ''verified_at'' (ev_payload (backup_evidence root dep op i b)) = Inr (vb_verified_at b)"
  by (simp_all add: backup_evidence_def str_field_def aware_field_def iso_field_def)

lemma create_and_verify_ok:
  assumes "create_and_verify root pg dep op i d dc \<epsilon> tr = (Inr (e, d'), tr')"
  obtains a b where "a \<in> set (t_acceptances d)" "sa_deployment_id a = dep"
    "verify_backup root pg dep op (sa_completed_at a) \<epsilon> tr = (Inr b, tr')"
    "e = backup_evidence root dep op i b" "insert_evidence e dc = Inr d'"
  using assms
  by (auto simp: create_and_verify_def backup_simps bindE_eq_Inr Let_def scalar_one_or_none_Some
      dest!: filter_singletonD split: option.splits)

text \<open>C21. Evidence of a backup is recorded only when the archive was dumped, listed with its three entries and
  found with the hash it names before and after it was restored on a canary database, the probe of that database
  ended without an error and printed a text with \<open>t\<close> in it, the backup began after the staging acceptance of its
  deployment and was verified within 30 minutes, by the clock; it is appended, nothing else changes, and it has
  the status, the producer and the times that the supervisor asks of a backup when it loads the attempt.\<close>

theorem backup_sound:
  assumes "create_and_verify root pg dep op i d dc \<epsilon> [] = (Inr (e, d'), tr)"
  shows "d' = dc\<lparr>t_evidence := t_evidence dc @ [e]\<rparr> \<and> ev_deployment_id e = dep \<and>
     returned_0 \<epsilon> tr (dump_args pg (archive_path root dep op)) any_text \<and>
     returned_0 \<epsilon> tr (list_args (archive_path root dep op)) catalog_complete \<and>
     returned_0 \<epsilon> tr (createdb_args pg op) any_text \<and>
     returned_0 \<epsilon> tr (restore_args pg op (archive_path root dep op)) any_text \<and>
     returned_0 \<epsilon> tr (probe_args pg op) (contains ''t'') \<and>
     (\<exists>h. str_field ''sha256'' (ev_payload e) = Some h \<and>
        unchanged_archive \<epsilon> tr (restore_args pg op (archive_path root dep op)) h) \<and>
     ev_status_code e = ''passed'' \<and> str_field ''producer_identity'' (ev_payload e) = Some BACKUP_PRODUCER \<and>
     (\<exists>a \<in> set (t_acceptances d). \<exists>c v. sa_deployment_id a = dep \<and> aware_field ''created_at'' (ev_payload e) = Inr c \<and>
        aware_field ''verified_at'' (ev_payload e) = Inr v \<and> clock_gave \<epsilon> tr c \<and> clock_gave \<epsilon> tr v \<and>
        sa_completed_at a \<le> c \<and> v - c \<le> minutes 30 \<and> ev_occurred_at e = v)"
proof -
  from create_and_verify_ok [OF assms] obtain a b where ab: "a \<in> set (t_acceptances d)" "sa_deployment_id a = dep"
    "verify_backup root pg dep op (sa_completed_at a) \<epsilon> [] = (Inr b, tr)"
    "e = backup_evidence root dep op i b" "insert_evidence e dc = Inr d'" by blast
  note v = verify_backup_ok [OF ab(3)]
  have "\<exists>c v. sa_deployment_id a = dep \<and> aware_field ''created_at'' (ev_payload e) = Inr c \<and>
        aware_field ''verified_at'' (ev_payload e) = Inr v \<and> clock_gave \<epsilon> tr c \<and> clock_gave \<epsilon> tr v \<and>
        sa_completed_at a \<le> c \<and> v - c \<le> minutes 30 \<and> ev_occurred_at e = v"
    using v ab(2) by (simp add: ab(4))
  moreover have "\<exists>h. str_field ''sha256'' (ev_payload e) = Some h \<and>
      unchanged_archive \<epsilon> tr (restore_args pg op (archive_path root dep op)) h"
    using v by (simp add: ab(4))
  moreover have "d' = dc\<lparr>t_evidence := t_evidence dc @ [e]\<rparr>" by (rule inserted(15) [OF ab(5)])
  moreover have "ev_deployment_id e = dep" "ev_status_code e = ''passed''"
    "str_field ''producer_identity'' (ev_payload e) = Some BACKUP_PRODUCER"
    by (simp_all add: ab(4))
  ultimately show ?thesis using v ab(1) by blast
qed

section \<open>The canary database\<close>

text \<open>An effect adds to the trace; \<open>adds Q\<close> says what it adds, whatever its outcome.\<close>

definition adds :: "(backup_effect list \<Rightarrow> bool) \<Rightarrow> 'a backup \<Rightarrow> bool" where
  "adds Q m \<longleftrightarrow> (\<forall>\<epsilon> tr. \<exists>new. snd (m \<epsilon> tr) = tr @ new \<and> Q new)"

definition no_canary :: "string \<Rightarrow> uuid \<Rightarrow> backup_effect list \<Rightarrow> bool" where
  "no_canary pg op tr \<longleftrightarrow> Ran (createdb_args pg op) \<notin> set tr"

text \<open>After the last creation of the canary database comes its removal.\<close>

definition canary_dropped :: "string \<Rightarrow> uuid \<Rightarrow> backup_effect list \<Rightarrow> bool" where
  "canary_dropped pg op tr \<longleftrightarrow> no_canary pg op tr \<or>
     (\<exists>t1 t2. tr = t1 @ [Ran (dropdb_args pg op)] @ t2 \<and> no_canary pg op t2)"

lemma canary_dropped_Nil [simp]: "canary_dropped pg op []"
  by (simp add: canary_dropped_def no_canary_def)

lemma canary_dropped_append:
  assumes "canary_dropped pg op t" "canary_dropped pg op u"
  shows "canary_dropped pg op (t @ u)"
proof (cases "no_canary pg op u")
  case True
  from assms(1) show ?thesis
  proof (cases "no_canary pg op t")
    case False
    with assms(1) obtain t1 t2 where "t = t1 @ [Ran (dropdb_args pg op)] @ t2" "no_canary pg op t2"
      by (auto simp: canary_dropped_def)
    with True show ?thesis
      unfolding canary_dropped_def by (intro disjI2 exI [of _ t1] exI [of _ "t2 @ u"]) (simp add: no_canary_def)
  qed (use True in \<open>simp add: canary_dropped_def no_canary_def\<close>)
next
  case False
  with assms(2) obtain u1 u2 where "u = u1 @ [Ran (dropdb_args pg op)] @ u2" "no_canary pg op u2"
    by (auto simp: canary_dropped_def)
  then show ?thesis
    unfolding canary_dropped_def by (intro disjI2 exI [of _ "t @ u1"] exI [of _ u2]) simp
qed

named_theorems adds_intros \<open>what the effects of the backup add to the trace\<close>

lemma adds_bind [adds_intros]:
  assumes "adds (canary_dropped pg op) m" "\<And>x. adds (canary_dropped pg op) (k x)"
  shows "adds (canary_dropped pg op) (bindB m k)"
  unfolding adds_def
proof (intro allI)
  fix \<epsilon> tr
  obtain r t where m: "m \<epsilon> tr = (r, t)" by fastforce
  with assms(1) obtain n1 where n1: "t = tr @ n1" "canary_dropped pg op n1"
    unfolding adds_def by (metis snd_conv)
  show "\<exists>new. snd (bindB m k \<epsilon> tr) = tr @ new \<and> canary_dropped pg op new"
  proof (cases r)
    case (Inr x)
    from assms(2) [of x] obtain n2 where "snd (k x \<epsilon> t) = t @ n2" "canary_dropped pg op n2"
      unfolding adds_def by blast
    with n1 show ?thesis using canary_dropped_append by (auto simp: bindB_def m Inr)
  qed (use n1 in \<open>auto simp: bindB_def m\<close>)
qed

lemma adds_steps [adds_intros]:
  "adds (canary_dropped pg op) (retB r)" "adds (canary_dropped pg op) (checkB c code)"
  "adds (canary_dropped pg op) look" "adds (canary_dropped pg op) ask_time"
  "adds (canary_dropped pg op) make_directory"
  "argv \<noteq> createdb_args pg op \<Longrightarrow> adds (canary_dropped pg op) (run_command argv)"
  by (auto simp: adds_def retB_def checkB_def look_def ask_time_def make_directory_def run_command_def
      canary_dropped_def no_canary_def)

lemma adds_files [adds_intros]: "adds (canary_dropped pg op) file_hash" "adds (canary_dropped pg op) file_size"
  unfolding file_hash_def file_size_def by (intro adds_intros)+

lemma adds_branch [adds_intros]:
  "adds Q m \<Longrightarrow> adds Q m' \<Longrightarrow> adds Q (if c then m else m')"
  "adds Q m \<Longrightarrow> (\<And>x. adds Q (k x)) \<Longrightarrow> adds Q (case o' of None \<Rightarrow> m | Some x \<Rightarrow> k x)"
  by (simp_all split: option.splits)

lemma adds_something: "adds (\<lambda>_. True) m \<Longrightarrow> (\<And>x. adds (\<lambda>_. True) (k x)) \<Longrightarrow> adds (\<lambda>_. True) (bindB m k)"
  unfolding adds_def bindB_def by (simp split: prod.splits sum.splits) (metis append_assoc snd_conv)

lemma canary_adds: "adds (\<lambda>_. True) (canary_restore pg op archive)"
  unfolding canary_restore_def
  by (intro adds_something) (simp_all add: adds_def run_command_def checkB_def retB_def)

text \<open>The removal is the last effect of the \<open>try\<close> statement, however its body ends.\<close>

lemma adds_finally [adds_intros]:
  "adds (canary_dropped pg op) (finallyB (canary_restore pg op archive) (run_command (dropdb_args pg op)))"
  unfolding adds_def
proof (intro allI)
  fix \<epsilon> tr
  obtain r t where m: "canary_restore pg op archive \<epsilon> tr = (r, t)" by fastforce
  with canary_adds obtain new where "t = tr @ new" unfolding adds_def by (metis snd_conv)
  with m have "snd (finallyB (canary_restore pg op archive) (run_command (dropdb_args pg op)) \<epsilon> tr) =
      tr @ new @ [Ran (dropdb_args pg op)]"
    by (simp add: finallyB_def run_command_def split: sum.splits)
  moreover have "canary_dropped pg op (new @ [Ran (dropdb_args pg op)])"
    unfolding canary_dropped_def by (intro disjI2 exI [of _ new] exI [of _ "[]"]) (simp add: no_canary_def)
  ultimately show "\<exists>new. snd (finallyB (canary_restore pg op archive) (run_command (dropdb_args pg op)) \<epsilon> tr) =
      tr @ new \<and> canary_dropped pg op new" by blast
qed

lemma other_commands: "dump_args pg archive \<noteq> createdb_args pg' op" "list_args archive \<noteq> createdb_args pg' op"
  by (simp_all add: createdb_args_def dump_args_def list_args_def)

text \<open>C38. However a backup ends, by a result or by any exception: when it has asked for the canary
  database, it has asked for its removal afterwards.\<close>

theorem canary_always_dropped:
  "canary_dropped pg op (snd (create_and_verify root pg dep op i d dc \<epsilon> []))"
proof -
  have "adds (canary_dropped pg op) (create_and_verify root pg dep op i d dc)"
    unfolding create_and_verify_def verify_backup_def Let_def
    by (intro adds_intros other_commands)
  then show ?thesis unfolding adds_def by (metis append_Nil)
qed

end
