(* ===== verification/Runtime.thy ===== *)
theory Runtime
  imports Json Attempt
begin

text \<open>
  \<^verbatim>\<open>DockerComposeSupervisorRuntime\<close> of \<^verbatim>\<open>app/services/production_supervisor.py\<close>: the plan, the
  submission, the observation of the containers and the health contract, over the commands it runs.
  What a command prints and returns, the clock and the temporary file are the environment's.
\<close>

section \<open>Commands\<close>

text \<open>
  The arguments of a command line. \<open>Shown v\<close> is \<open>str(v)\<close> of a value that is not a string; the
  override is the file that holds the services with their images and labels.
\<close>

datatype arg =
    Text string
  | Shown dvalue
  | Moment instant
  | Span int
  | Compose_file
  | Override "(string \<times> string) list" "(string \<times> string) list"

text \<open>The effects of the runtime happen one after the other, at the ticks of its own count.\<close>

record runtime_env =
  re_run :: "nat \<Rightarrow> arg list \<Rightarrow> command_result result"
  re_now :: "nat \<Rightarrow> instant"
  re_override :: "nat \<Rightarrow> unit result"

type_synonym 'a runtime = "runtime_env \<Rightarrow> nat \<Rightarrow> 'a result \<times> nat"

definition ret :: "'a result \<Rightarrow> 'a runtime" where
  "ret r \<rho> n = (r, n)"

definition bindR :: "'a runtime \<Rightarrow> ('a \<Rightarrow> 'b runtime) \<Rightarrow> 'b runtime" where
  "bindR m k \<rho> n = (case m \<rho> n of (Inl x, n') \<Rightarrow> (Inl x, n') | (Inr y, n') \<Rightarrow> k y \<rho> n')"

definition command :: "arg list \<Rightarrow> command_result runtime" where
  "command args \<rho> n = (re_run \<rho> n args, Suc n)"

definition utc_now :: "instant runtime" where
  "utc_now \<rho> n = (Inr (re_now \<rho> n), Suc n)"

definition compose :: "arg list \<Rightarrow> command_result runtime" where
  "compose args = command ([Text ''docker'', Text ''compose'', Text ''-f'', Compose_file] @ args)"

text \<open>\<open>a and b\<close>, where \<open>b\<close> may raise and is only evaluated when \<open>a\<close> is true.\<close>

definition andE :: "bool result \<Rightarrow> bool result \<Rightarrow> bool result" where
  "andE a b = bindE a (\<lambda>x. if x then b else Inr False)"

text \<open>\<open>all(f(x) for x in xs)\<close> and \<open>any(f(x) for x in xs)\<close>.\<close>

fun allE :: "('a \<Rightarrow> bool result) \<Rightarrow> 'a list \<Rightarrow> bool result" where
  "allE f [] = Inr True"
| "allE f (x # xs) = bindE (f x) (\<lambda>b. if b then allE f xs else Inr False)"

fun anyE :: "('a \<Rightarrow> bool result) \<Rightarrow> 'a list \<Rightarrow> bool result" where
  "anyE f [] = Inr False"
| "anyE f (x # xs) = bindE (f x) (\<lambda>b. if b then Inr True else anyE f xs)"

fun mapE :: "('a \<Rightarrow> 'b result) \<Rightarrow> 'a list \<Rightarrow> 'b list result" where
  "mapE f [] = Inr []"
| "mapE f (x # xs) = bindE (f x) (\<lambda>y. bindE (mapE f xs) (\<lambda>ys. Inr (y # ys)))"

text \<open>\<open>v.get(k, {}).get(j, fallback)\<close>\<close>

definition dget2 :: "string \<Rightarrow> string \<Rightarrow> dvalue \<Rightarrow> dvalue \<Rightarrow> dvalue result" where
  "dget2 k j fallback v = bindE (dget k empty_obj v) (dget j fallback)"

definition type_error :: "'a result" where
  "type_error = Inl (OtherException ''TypeError'')"

section \<open>The plan and the submission\<close>

definition attempt_labels :: "supervisor_attempt \<Rightarrow> (string \<times> string) list" where
  "attempt_labels attempt =
     [(''com.maoxx.deployment_id'', uuid_str (at_deployment_id attempt)),
      (''com.maoxx.execution_attempt_id'', uuid_str (at_execution_attempt_id attempt)),
      (''com.maoxx.target_sha'', at_target_sha attempt),
      (''com.maoxx.image_digest'', at_artifact_digest attempt),
      (''com.maoxx.fencing_epoch'', int_str (at_fencing_epoch attempt)),
      (''com.maoxx.intent_hash'', at_intent_hash attempt)]"

definition override :: "supervisor_attempt \<Rightarrow> arg runtime" where
  "override attempt \<rho> n =
     (bindE (re_override \<rho> n) (\<lambda>_.
        Inr (Override (at_service_images attempt) (attempt_labels attempt))), Suc n)"

fun check_images :: "string \<Rightarrow> string list \<Rightarrow> unit result" where
  "check_images digest [] = Inr ()"
| "check_images digest (img # imgs) =
     (if \<not> IMMUTABLE_IMAGE_PATTERN img then supervisor ''mutable_or_invalid_image_reference''
      else if after_last_at img \<noteq> digest then supervisor ''staging_digest_mismatch''
      else check_images digest imgs)"

fun check_resolved :: "dvalue \<Rightarrow> (string \<times> string) list \<Rightarrow> unit result" where
  "check_resolved plan [] = Inr ()"
| "check_resolved plan ((service, img) # rest) =
     bindE (dget2 ''services'' service empty_obj plan) (\<lambda>resolved.
     bindE (dget ''image'' DNull resolved) (\<lambda>resolved_image.
     bindE (if resolved_image \<noteq> DStr img then Inr True
       else bindE (dget ''build'' DNull resolved) (\<lambda>b. Inr (b \<noteq> DNull))) (\<lambda>mutable.
       if mutable then supervisor ''resolved_plan_not_immutable'' else check_resolved plan rest)))"

definition validate_plan_docker :: "supervisor_attempt \<Rightarrow> unit runtime" where
  "validate_plan_docker attempt =
     (if \<not> SHA_PATTERN (at_target_sha attempt) \<or> \<not> DIGEST_PATTERN (at_artifact_digest attempt) \<or>
        at_service_images attempt = []
      then ret (supervisor ''invalid_immutable_attempt'')
      else
        bindR (ret (check_images (at_artifact_digest attempt) (map snd (at_service_images attempt)))) (\<lambda>_.
        bindR (override attempt) (\<lambda>file.
        bindR (compose [Text ''-f'', file, Text ''config'', Text ''--format'', Text ''json'']) (\<lambda>result.
          ret (if cr_returncode result \<noteq> 0 then supervisor ''compose_resolution_failed''
            else (case json_loads (cr_stdout result) of
                None \<Rightarrow> supervisor ''compose_resolution_malformed''
              | Some plan \<Rightarrow> check_resolved plan (at_service_images attempt)))))))"

definition submit_docker :: "supervisor_attempt \<Rightarrow> unit runtime" where
  "submit_docker attempt =
     bindR (override attempt) (\<lambda>file.
     bindR (compose ([Text ''-f'', file, Text ''up'', Text ''-d'', Text ''--no-build'', Text ''--no-deps''] @
         map Text (sort (map fst (at_service_images attempt))))) (\<lambda>result.
       ret (if cr_returncode result \<noteq> 0 then supervisor ''docker_mutation_failed'' else Inr ())))"

section \<open>Observing\<close>

text \<open>\<open>{row.get("Service"): row for row in rows if row.get("Service") in attempt.service_images}\<close>\<close>

fun select_rows :: "string list \<Rightarrow> dvalue list \<Rightarrow> (string \<times> dvalue) list \<Rightarrow> (string \<times> dvalue) list result" where
  "select_rows services [] found = Inr found"
| "select_rows services (row # rows) found =
     bindE (dget ''Service'' DNull row) (\<lambda>service.
       case service of
         DStr s \<Rightarrow> select_rows services rows (if s \<in> set services then put s row found else found)
       | DList _ \<Rightarrow> type_error
       | DObj _ \<Rightarrow> type_error
       | _ \<Rightarrow> select_rows services rows found)"

definition truthy :: "dvalue \<Rightarrow> bool" where
  "truthy v =
     (case v of
        DNull \<Rightarrow> False | DBool b \<Rightarrow> b | DInt i \<Rightarrow> i \<noteq> 0 | DFloat m _ \<Rightarrow> m \<noteq> 0 | DSpecial _ \<Rightarrow> True
      | DStr s \<Rightarrow> s \<noteq> [] | DList vs \<Rightarrow> vs \<noteq> [] | DObj kvs \<Rightarrow> kvs \<noteq> [])"

definition show_arg :: "dvalue \<Rightarrow> arg" where
  "show_arg v = (case v of DStr s \<Rightarrow> Text s | _ \<Rightarrow> Shown v)"

text \<open>\<open>str(row.get("ID") or row.get("Name") or "")\<close>\<close>

definition container_id :: "dvalue \<Rightarrow> arg result" where
  "container_id row =
     bindE (dget ''ID'' DNull row) (\<lambda>i.
       if truthy i then Inr (show_arg i)
       else bindE (dget ''Name'' DNull row) (\<lambda>name.
         Inr (if truthy name then show_arg name else Text [])))"

text \<open>
  \<open>json.loads(text)[0]\<close>: \<open>None\<close> for the exceptions that are caught, of the decoder, the index and the
  type; a dictionary has no key 0 and raises \<open>KeyError\<close>, which is not.
\<close>

definition first_item :: "string \<Rightarrow> dvalue option result" where
  "first_item text =
     (case json_loads text of
        Some (DList (v # _)) \<Rightarrow> Inr (Some v)
      | Some (DStr (c # s)) \<Rightarrow> Inr (Some (DStr (c # takeWhile utf8_continuation s)))
      | Some (DObj _) \<Rightarrow> Inl (OtherException ''KeyError'')
      | _ \<Rightarrow> Inr None)"

fun inspect_rows :: "(string \<times> dvalue) list \<Rightarrow> (string \<times> dvalue) list runtime" where
  "inspect_rows [] = ret (Inr [])"
| "inspect_rows ((service, row) # rows) =
     bindR (ret (container_id row)) (\<lambda>i.
     bindR (command [Text ''docker'', Text ''inspect'', i]) (\<lambda>inspected.
     bindR (if cr_returncode inspected \<noteq> 0 then ret (Inr None) else ret (first_item (cr_stdout inspected)))
       (\<lambda>detail.
     bindR (inspect_rows rows) (\<lambda>rest.
       ret (Inr (case detail of None \<Rightarrow> rest | Some v \<Rightarrow> (service, v) # rest))))))"

definition ascii_lower :: "string \<Rightarrow> string" where
  "ascii_lower s = map (\<lambda>c. if 65 \<le> (of_char c :: nat) \<and> (of_char c :: nat) \<le> 90
     then char_of ((of_char c :: nat) + 32) else c) s"

text \<open>What \<open>str\<close> shows of anything but a string is none of the states of a container.\<close>

definition is_transitional :: "dvalue \<Rightarrow> bool result" where
  "is_transitional detail =
     bindE (dget2 ''State'' ''Status'' (DStr []) detail) (\<lambda>status.
       Inr (case status of
           DStr s \<Rightarrow> ascii_lower s \<in> {''created'', ''restarting'', ''removing'', ''paused''}
         | _ \<Rightarrow> False))"

definition is_running :: "dvalue \<Rightarrow> bool result" where
  "is_running detail =
     bindE (dget2 ''State'' ''Running'' DNull detail) (\<lambda>v. Inr (v = DBool True))"

definition hashable :: "dvalue \<Rightarrow> bool" where
  "hashable v = (case v of DList _ \<Rightarrow> False | DObj _ \<Rightarrow> False | _ \<Rightarrow> True)"

text \<open>Whether the four labels of a container are those of the attempt; the tuple has to be hashable.\<close>

definition bound_labels :: "supervisor_attempt \<Rightarrow> dvalue \<Rightarrow> bool result" where
  "bound_labels attempt labels =
     bindE (dget ''com.maoxx.deployment_id'' DNull labels) (\<lambda>d.
     bindE (dget ''com.maoxx.execution_attempt_id'' DNull labels) (\<lambda>x.
     bindE (dget ''com.maoxx.fencing_epoch'' DNull labels) (\<lambda>f.
     bindE (dget ''com.maoxx.intent_hash'' DNull labels) (\<lambda>h.
       if list_all hashable [d, x, f, h]
       then Inr (d = DStr (uuid_str (at_deployment_id attempt)) \<and>
         x = DStr (uuid_str (at_execution_attempt_id attempt)) \<and>
         f = DStr (int_str (at_fencing_epoch attempt)) \<and> h = DStr (at_intent_hash attempt))
       else type_error))))"

definition docker_client_active :: "bool runtime" where
  "docker_client_active =
     bindR (command [Text ''pgrep'', Text ''-af'', Text ''docker( compose)? .*maoxx'']) (\<lambda>result.
       ret (Inr (cr_returncode result = 0 \<and> ascii_strip (cr_stdout result) \<noteq> [])))"

definition unknown_snapshot :: "instant \<Rightarrow> runtime_snapshot" where
  "unknown_snapshot now =
     \<lparr>rs_state = UNKNOWN, rs_deployment_id = None, rs_execution_attempt_id = None,
      rs_fencing_epoch = None, rs_intent_hash = None, rs_containers = [], rs_docker_event_cursor = None,
      rs_docker_client_active = True, rs_transitional = True, rs_observed_at = now\<rparr>"

definition observed_state :: "(string \<times> dvalue) list \<Rightarrow> bool \<Rightarrow> bool \<Rightarrow> bool \<Rightarrow> runtime_state" where
  "observed_state selected transitional binding_valid running =
     (if selected = [] then NOT_STARTED
      else if transitional then UNKNOWN
      else if \<not> binding_valid then UNKNOWN
      else if \<not> running then FAILED
      else MUTATION_COMPLETED_HEALTH_UNKNOWN)"

definition snapshot_of ::
  "supervisor_attempt \<Rightarrow> (string \<times> dvalue) list \<Rightarrow> bool \<Rightarrow> bool \<Rightarrow> bool \<Rightarrow> instant \<Rightarrow> bool \<Rightarrow> instant \<Rightarrow>
     runtime_snapshot" where
  "snapshot_of attempt selected transitional running binding_valid cursor active now =
     \<lparr>rs_state = observed_state selected transitional binding_valid running,
      rs_deployment_id = (if binding_valid then Some (at_deployment_id attempt) else None),
      rs_execution_attempt_id = (if binding_valid then Some (at_execution_attempt_id attempt) else None),
      rs_fencing_epoch = (if binding_valid then Some (at_fencing_epoch attempt) else None),
      rs_intent_hash = (if binding_valid then Some (at_intent_hash attempt) else None),
      rs_containers = selected, rs_docker_event_cursor = Some cursor,
      rs_docker_client_active = active, rs_transitional = transitional, rs_observed_at = now\<rparr>"

text \<open>What follows from the inspected containers, in the order in which the code looks at them.\<close>

definition judge :: "supervisor_attempt \<Rightarrow> (string \<times> dvalue) list \<Rightarrow> (bool \<times> bool \<times> bool) result" where
  "judge attempt selected =
     (let details = map snd selected in
      bindE (anyE is_transitional details) (\<lambda>transitional.
      bindE (andE (Inr (length selected = length (at_service_images attempt))) (allE is_running details))
        (\<lambda>running.
      bindE (mapE (dget2 ''Config'' ''Labels'' empty_obj) details) (\<lambda>labels.
      bindE (mapE (bound_labels attempt) labels) (\<lambda>bound.
        Inr (transitional, running, bound \<noteq> [] \<and> list_all id bound))))))"

text \<open>\<open>json.loads(result.stdout or "[]")\<close>, or an empty list when that is not JSON.\<close>

definition listed_rows :: "string \<Rightarrow> dvalue list" where
  "listed_rows text = (case json_loads (if text = [] then ''[]'' else text) of Some (DList rows) \<Rightarrow> rows | _ \<Rightarrow> [])"

definition observe_docker :: "supervisor_attempt \<Rightarrow> runtime_snapshot runtime" where
  "observe_docker attempt =
     bindR (compose [Text ''ps'', Text ''--format'', Text ''json'']) (\<lambda>result.
       if cr_returncode result \<noteq> 0 then bindR utc_now (\<lambda>now. ret (Inr (unknown_snapshot now)))
       else
         bindR (ret (select_rows (map fst (at_service_images attempt)) (listed_rows (cr_stdout result)) []))
           (\<lambda>rows.
         bindR (inspect_rows rows) (\<lambda>selected.
         bindR (ret (judge attempt selected)) (\<lambda>(transitional, running, binding_valid).
         bindR utc_now (\<lambda>cursor.
         bindR docker_client_active (\<lambda>active.
         bindR utc_now (\<lambda>now.
           ret (Inr (snapshot_of attempt selected transitional running binding_valid cursor active now)))))))))"

definition events_between_docker :: "runtime_snapshot \<Rightarrow> runtime_snapshot \<Rightarrow> bool runtime" where
  "events_between_docker first second =
     bindR (command [Text ''docker'', Text ''events'', Text ''--since'', Moment (rs_observed_at first),
         Text ''--until'', Moment (rs_observed_at second), Text ''--format'', Text ''{{json .}}''])
       (\<lambda>result. ret (Inr (cr_returncode result \<noteq> 0 \<or> ascii_strip (cr_stdout result) \<noteq> [])))"

section \<open>The health contract\<close>

text \<open>The keys of \<open>required_health_checks\<close>, each to be proved.\<close>

definition required_list :: "string list \<Rightarrow> string list" where
  "required_list services =
     [''artifact_digest'', ''revision_sha'', ''migration'', ''smoke'', ''critical_regression'',
      ''verification_within_timeout''] @
     (if ''api'' \<in> set services
      then [''api.alive'', ''api.ready'', ''api.live'', ''api.http'', ''api.dependency.db''] else []) @
     (if ''feishu-worker'' \<in> set services
      then [''feishu-worker.alive'', ''feishu-worker.ready'', ''feishu-worker.live'',
            ''feishu-worker.connected''] else [])"

lemma required_list: "set (required_list services) = required_health_checks services"
  by (auto simp: required_list_def required_health_checks_def)

text \<open>\<open>==\<close> of two values, where a bool is a number and the keys of a dictionary have no order.\<close>

definition number_of :: "dvalue \<Rightarrow> (int \<times> int) option" where
  "number_of v =
     (case v of DBool b \<Rightarrow> Some (if b then 1 else 0, 0) | DInt i \<Rightarrow> Some (i, 0) | DFloat m e \<Rightarrow> Some (m, e)
      | _ \<Rightarrow> None)"

definition same_number :: "int \<times> int \<Rightarrow> int \<times> int \<Rightarrow> bool" where
  "same_number a b \<longleftrightarrow> fst a * 10 ^ nat (snd a - min (snd a) (snd b)) = fst b * 10 ^ nat (snd b - min (snd a) (snd b))"

fun py_eq :: "dvalue \<Rightarrow> dvalue \<Rightarrow> bool" where
  "py_eq (DList xs) (DList ys) \<longleftrightarrow> list_all2 py_eq xs ys"
| "py_eq (DObj xs) (DObj ys) \<longleftrightarrow> length xs = length ys \<and>
     list_all (\<lambda>(k, v). list_ex (\<lambda>(j, w). j = k \<and> py_eq v w) ys) xs"
| "py_eq v w \<longleftrightarrow>
     (case (number_of v, number_of w) of
        (Some a, Some b) \<Rightarrow> same_number a b
      | _ \<Rightarrow> v = w \<and> v \<noteq> DSpecial ''NaN'')"

fun contains_text :: "string \<Rightarrow> string \<Rightarrow> bool" where
  "contains_text p [] = (p = [])"
| "contains_text p (c # s) = (starts_with p (c # s) \<or> contains_text p s)"

text \<open>\<open>s in v\<close>\<close>

definition string_in :: "string \<Rightarrow> dvalue \<Rightarrow> bool result" where
  "string_in s v =
     (case v of
        DList vs \<Rightarrow> Inr (DStr s \<in> set vs)
      | DObj kvs \<Rightarrow> Inr (s \<in> set (map fst kvs))
      | DStr t \<Rightarrow> Inr (contains_text s t)
      | _ \<Rightarrow> type_error)"

text \<open>\<open>int(v)\<close>; a float is truncated.\<close>

definition int_of :: "dvalue \<Rightarrow> int result" where
  "int_of v =
     (case v of
        DInt i \<Rightarrow> Inr i
      | DBool b \<Rightarrow> Inr (if b then 1 else 0)
      | DFloat m e \<Rightarrow> Inr (if 0 \<le> e then m * 10 ^ nat e else sgn m * (\<bar>m\<bar> div 10 ^ nat (- e)))
      | DSpecial t \<Rightarrow> Inl (if t = ''NaN'' then ValueError t else OtherException ''OverflowError'')
      | DStr s \<Rightarrow> (case py_int (ascii_strip s) of None \<Rightarrow> Inl (ValueError s) | Some i \<Rightarrow> Inr i)
      | _ \<Rightarrow> type_error)"

definition labels_hold :: "supervisor_attempt \<Rightarrow> dvalue \<Rightarrow> bool result" where
  "labels_hold attempt labels =
     allE (\<lambda>(key, v). bindE (dget key DNull labels) (\<lambda>x. Inr (x = DStr v))) (attempt_labels attempt)"

text \<open>The container runs the image that was asked for, by its digest, with the labels of the attempt.\<close>

definition immutable_ok :: "supervisor_attempt \<Rightarrow> string \<Rightarrow> dvalue \<Rightarrow> dvalue \<Rightarrow> dvalue \<Rightarrow> dvalue \<Rightarrow> bool result" where
  "immutable_ok attempt expected_image detail image_id image_detail labels =
     bindE (dget2 ''Config'' ''Image'' DNull detail) (\<lambda>running_image.
       andE (Inr (running_image = DStr expected_image))
         (bindE (dget ''RepoDigests'' (DList []) image_detail) (\<lambda>digests.
            andE (string_in expected_image digests)
              (bindE (dget ''Id'' DNull image_detail) (\<lambda>i.
                 andE (Inr (py_eq image_id i)) (labels_hold attempt labels))))))"

definition runtime_ok :: "dvalue \<Rightarrow> int \<Rightarrow> bool result" where
  "runtime_ok state restarts =
     bindE (dget ''Running'' DNull state) (\<lambda>running.
       andE (Inr (running = DBool True))
         (bindE (dget ''OOMKilled'' DNull state) (\<lambda>oom.
            andE (Inr (oom = DBool False))
              (andE (Inr (restarts = 0))
                (bindE (dget2 ''Health'' ''Status'' (DStr ''healthy'') state) (\<lambda>status.
                   Inr (status = DStr ''healthy'')))))))"

definition check :: "string \<Rightarrow> checks \<Rightarrow> bool" where
  "check key checks = (case map_of checks key of None \<Rightarrow> True | Some b \<Rightarrow> b)"

definition probe :: "string \<Rightarrow> instant \<Rightarrow> bool runtime" where
  "probe url deadline =
     bindR utc_now (\<lambda>now.
       if deadline - now \<le> 0 then ret (Inr False)
       else
         bindR (command [Text ''curl'', Text ''-fsS'', Text ''--max-time'', Span (min (seconds 5) (deadline - now)),
             Text url]) (\<lambda>result. ret (Inr (cr_returncode result = 0))))"

definition api_checks :: "string \<Rightarrow> instant \<Rightarrow> checks \<Rightarrow> checks runtime" where
  "api_checks service deadline checks =
     (if service = ''api'' then
        bindR (probe ''http://127.0.0.1:8000/health'' deadline) (\<lambda>http.
        bindR (probe ''http://127.0.0.1:8000/health/db'' deadline) (\<lambda>dep.
          ret (Inr (put ''api.dependency.db'' dep (put ''api.http'' http checks)))))
      else ret (Inr checks))"

definition worker_probe :: string where
  "worker_probe = ''import json,urllib.request; print(json.load(urllib.request.urlopen('' @ [CHR 0x27] @
     ''http://127.0.0.1:8081/health'' @ [CHR 0x27] @ '', timeout=5)))''"

definition worker_connected :: "command_result \<Rightarrow> bool result" where
  "worker_connected worker =
     (let payload = (case json_loads (cr_stdout worker) of None \<Rightarrow> empty_obj | Some v \<Rightarrow> v) in
      andE (Inr (cr_returncode worker = 0))
        (bindE (dget ''connected'' DNull payload) (\<lambda>v. Inr (v = DBool True))))"

definition worker_checks :: "string \<Rightarrow> checks \<Rightarrow> checks runtime" where
  "worker_checks service checks =
     (if service = ''feishu-worker'' then
        bindR (compose [Text ''exec'', Text ''-T'', Text ''feishu-worker'', Text ''python'', Text ''-c'',
            Text worker_probe]) (\<lambda>worker.
          ret (bindE (worker_connected worker) (\<lambda>b. Inr (put ''feishu-worker.connected'' b checks))))
      else ret (Inr checks))"

text \<open>What the containers' details say of one service, and the checks and restarts so far.\<close>

definition container_checks ::
  "supervisor_attempt \<Rightarrow> string \<Rightarrow> string \<Rightarrow> dvalue \<Rightarrow> dvalue \<Rightarrow> checks \<Rightarrow> (checks \<times> int) result" where
  "container_checks attempt service expected_image detail image_detail checks =
     bindE (dget ''State'' empty_obj detail) (\<lambda>state.
     bindE (dget2 ''Config'' ''Labels'' empty_obj detail) (\<lambda>labels.
     bindE (dget ''Image'' DNull detail) (\<lambda>image_id.
     bindE (bindE (dget ''RestartCount'' (DInt (-1)) detail) int_of) (\<lambda>restarts.
     bindE (immutable_ok attempt expected_image detail image_id image_detail labels) (\<lambda>immutable.
     bindE (runtime_ok state restarts) (\<lambda>running.
     let checks1 = put (service @ ''.live'') running (put (service @ ''.ready'') running
           (put (service @ ''.alive'') running checks));
         checks2 = put ''artifact_digest'' (check ''artifact_digest'' checks1 \<and> immutable) checks1 in
     bindE (andE (Inr (check ''revision_sha'' checks2))
         (bindE (dget ''com.maoxx.target_sha'' DNull labels) (\<lambda>v. Inr (v = DStr (at_target_sha attempt)))))
       (\<lambda>revision. Inr (put ''revision_sha'' revision checks2, restarts))))))))"

text \<open>\<open>json.loads(image_result.stdout)[0]\<close>, or an empty dictionary. The first look at the details of the
  container comes before the command, the image is read after it.\<close>

fun service_checks ::
  "supervisor_attempt \<Rightarrow> instant \<Rightarrow> (string \<times> dvalue) list \<Rightarrow> (string \<times> string) list \<Rightarrow> checks \<Rightarrow>
     (string \<times> int) list \<Rightarrow> (checks \<times> (string \<times> int) list) runtime" where
  "service_checks attempt deadline containers [] checks restarts = ret (Inr (checks, restarts))"
| "service_checks attempt deadline containers ((service, img) # rest) checks restarts =
     (let detail = (case map_of containers service of None \<Rightarrow> empty_obj | Some d \<Rightarrow> d) in
      bindR (ret (bindE (dget ''State'' empty_obj detail) (\<lambda>_.
          bindE (dget2 ''Config'' ''Labels'' empty_obj detail) (\<lambda>_. dget ''Image'' DNull detail)))) (\<lambda>_.
      bindR (command [Text ''docker'', Text ''image'', Text ''inspect'', Text img]) (\<lambda>image_result.
      bindR (ret (first_item (cr_stdout image_result))) (\<lambda>item.
      bindR (ret (container_checks attempt service img detail
          (case item of None \<Rightarrow> empty_obj | Some v \<Rightarrow> v) checks)) (\<lambda>(checks1, count).
      bindR (api_checks service deadline checks1) (\<lambda>checks2.
      bindR (worker_checks service checks2) (\<lambda>checks3.
        service_checks attempt deadline containers rest checks3 (put service count restarts))))))))"

definition actual_migration :: "command_result \<Rightarrow> string option" where
  "actual_migration result =
     (case py_split (cr_stdout result) of
        w # _ \<Rightarrow> if cr_returncode result = 0 then Some w else None
      | [] \<Rightarrow> None)"

definition final_checks ::
  "supervisor_attempt \<Rightarrow> checks \<Rightarrow> (string \<times> int) list \<Rightarrow> string option \<Rightarrow> bool \<Rightarrow> checks" where
  "final_checks attempt checks restarts migration in_time =
     (let migrated = (at_expected_migration_revision attempt = None \<or>
            migration = at_expected_migration_revision attempt);
          checks1 = put ''migration'' migrated checks;
          smoke = list_all (\<lambda>(name, b). ends_with ''.ready'' name \<longrightarrow> b) checks1 in
      put ''verification_within_timeout'' in_time
        (put ''critical_regression'' (list_all (\<lambda>(_, n). n = 0) restarts) (put ''smoke'' smoke checks1)))"

definition health_cycle_once :: "supervisor_attempt \<Rightarrow> instant \<Rightarrow> health_cycle runtime" where
  "health_cycle_once attempt deadline =
     bindR (observe_docker attempt) (\<lambda>snapshot.
     bindR utc_now (\<lambda>now.
     if deadline \<le> now \<or> rs_state snapshot \<noteq> MUTATION_COMPLETED_HEALTH_UNKNOWN
     then ret (supervisor ''health_timeout_or_runtime_unknown'')
     else
       bindR (service_checks attempt deadline (rs_containers snapshot) (at_service_images attempt)
           (put ''revision_sha'' True (put ''artifact_digest'' True
             (map (\<lambda>key. (key, False)) (required_list (map fst (at_service_images attempt)))))) [])
         (\<lambda>(checks, restarts).
       bindR (compose [Text ''exec'', Text ''-T'', Text ''api'', Text ''alembic'', Text ''current'']) (\<lambda>migration.
       bindR utc_now (\<lambda>checked.
       let checks' = final_checks attempt checks restarts (actual_migration migration) (checked < deadline) in
       if \<not> list_all snd checks' then ret (supervisor ''mandatory_health_check_failed'')
       else
         bindR utc_now (\<lambda>completed.
           ret (Inr \<lparr>hc_checks = checks', hc_observed_digest = at_artifact_digest attempt,
             hc_observed_sha = at_target_sha attempt, hc_migration_revision = actual_migration migration,
             hc_completed_at = completed, hc_restart_counts = restarts\<rparr>)))))))"

text \<open>
  Polling until the deadline. The sleep between two cycles takes time and has no other effect. A loop
  that never ends has no value.
\<close>

definition keep_error :: "exn option \<Rightarrow> exn \<Rightarrow> exn" where
  "keep_error earlier x =
     (case earlier of None \<Rightarrow> x
      | Some y \<Rightarrow> if x \<noteq> SupervisorError ''health_timeout_or_runtime_unknown'' then x else y)"

partial_function (option) poll_health ::
  "supervisor_attempt \<Rightarrow> instant \<Rightarrow> runtime_env \<Rightarrow> exn option \<Rightarrow> nat \<Rightarrow> (health_cycle result \<times> nat) option" where
  "poll_health attempt deadline \<rho> earlier n =
     (case health_cycle_once attempt deadline \<rho> n of
        (Inr cycle, n') \<Rightarrow> Some (Inr cycle, n')
      | (Inl (SupervisorError code), n') \<Rightarrow>
          let x = keep_error earlier (SupervisorError code) in
          if deadline \<le> re_now \<rho> n' then Some (Inl x, Suc n')
          else poll_health attempt deadline \<rho> (Some x) (Suc n')
      | (Inl x, n') \<Rightarrow> Some (Inl x, n'))"

definition verify_health_docker ::
  "supervisor_attempt \<Rightarrow> instant \<Rightarrow> runtime_env \<Rightarrow> (health_cycle result \<times> nat) option" where
  "verify_health_docker attempt deadline \<rho> = poll_health attempt deadline \<rho> None 0"

end
