(* ===== verification/Commands.thy ===== *)
theory Commands
  imports Intake Backup Runtime
begin

text \<open>
  \<^verbatim>\<open>app/supervision_cli.py\<close>: the command line that verifies and announces what happened on GitHub,
  requests approvals, provisions identities and makes backups. The processes it runs, the client, the
  clock and other sessions are inputs.
\<close>

section \<open>Asking GitHub\<close>

definition unverified :: "string \<Rightarrow> 'a result" where
  "unverified reason = Inl (GitHubVerificationError reason)"

lemma unverified_simps [simp]: "unverified r \<noteq> Inr x" "Inr x \<noteq> unverified r"
  by (simp_all add: unverified_def)

type_synonym gh = "string list \<Rightarrow> command_result result"

text \<open>
  \<open>subprocess.run\<close> of \<open>gh\<close> with \<open>check=True\<close>: its output, unless the program is missing or returns an
  error; any other exception escapes.
\<close>

definition gh_output :: "gh \<Rightarrow> string list \<Rightarrow> string \<Rightarrow> string result" where
  "gh_output gh arguments failure =
     (case gh (''gh'' # arguments) of
        Inl x \<Rightarrow> if x = OtherException ''FileNotFoundError'' then unverified failure else Inl x
      | Inr r \<Rightarrow> if cr_returncode r \<noteq> 0 then unverified failure else Inr (cr_stdout r))"

definition decoded :: "string \<Rightarrow> string \<Rightarrow> dvalue result" where
  "decoded failure s = (case json_loads s of None \<Rightarrow> unverified failure | Some v \<Rightarrow> Inr v)"

definition run_gh_json :: "gh \<Rightarrow> string list \<Rightarrow> dvalue result" where
  "run_gh_json gh arguments =
     bindE (gh_output gh arguments ''GitHub verification unavailable'')
       (decoded ''GitHub verification unavailable'')"

text \<open>\<open>str.splitlines\<close>: what ends a line, the two-character end first.\<close>

definition line_ends :: "string list" where
  "line_ends = [[CHR 0x0D, CHR 0x0A], [CHR 0x0A], [CHR 0x0D], [CHR 0x0B], [CHR 0x0C], [CHR 0x1C], [CHR 0x1D],
     [CHR 0x1E], zh [0x85], zh [0x2028], zh [0x2029]]"

function lines_from :: "string \<Rightarrow> string \<Rightarrow> string list" where
  "lines_from line s =
     (case s of
        [] \<Rightarrow> if line = [] then [] else [line]
      | c # t \<Rightarrow>
          (case List.find (\<lambda>e. starts_with e s) line_ends of
             Some e \<Rightarrow> line # lines_from [] (drop (length e - 1) t)
           | None \<Rightarrow> lines_from (line @ [c]) t))"
  by pat_completeness simp_all

termination
  by (relation "measure (length \<circ> snd)") auto

declare lines_from.simps [simp del]

definition splitlines :: "string \<Rightarrow> string list" where
  "splitlines s = lines_from [] s"

definition is_dict :: "dvalue \<Rightarrow> bool" where
  "is_dict v = (case v of DObj _ \<Rightarrow> True | _ \<Rightarrow> False)"

definition run_gh_paginated_check_runs :: "gh \<Rightarrow> string \<Rightarrow> dvalue list result" where
  "run_gh_paginated_check_runs gh endpoint =
     (let failure = ''GitHub paginated check verification unavailable'' in
      bindE (gh_output gh [''api'', ''--paginate'', endpoint, ''--jq'', ''.check_runs[] | @json''] failure) (\<lambda>out.
      bindE (mapE (decoded failure) (splitlines out)) (\<lambda>runs.
        if \<not> list_all is_dict runs then unverified ''GitHub check response invalid'' else Inr runs)))"

record github_evidence =
  ge_event_type :: string
  ge_repository :: string
  ge_target_sha :: string
  ge_pull_request_number :: "int option"

definition QUALITY_GATE_NAME :: string where
  "QUALITY_GATE_NAME = ''CI / Quality Gate''"

definition verify_commit :: "gh \<Rightarrow> github_evidence \<Rightarrow> unit result" where
  "verify_commit gh g =
     bindE (run_gh_json gh [''api'', ''repos/'' @ ge_repository g @ ''/commits/'' @ ge_target_sha g]) (\<lambda>commit.
     bindE (if is_dict commit then dget ''sha'' DNull commit else Inr DNull) (\<lambda>sha.
       if sha \<noteq> DStr (ge_target_sha g) then unverified ''GitHub commit SHA mismatch'' else Inr ()))"

definition verify_pull_request :: "gh \<Rightarrow> github_evidence \<Rightarrow> int \<Rightarrow> unit result" where
  "verify_pull_request gh g number =
     bindE (run_gh_json gh [''pr'', ''view'', int_str number, ''--repo'', ge_repository g, ''--json'',
         ''number,headRefOid,state'']) (\<lambda>pull.
     bindE (if is_dict pull then dget ''number'' DNull pull else Inr DNull) (\<lambda>n.
       if \<not> py_eq n (DInt number) then unverified ''GitHub PR mismatch''
       else if ge_event_type g \<notin> {''pr_created'', ''ci_passed'', ''ci_failed'', ''merge_pr''} then Inr ()
       else bindE (dget ''headRefOid'' DNull pull) (\<lambda>head.
         if head \<noteq> DStr (ge_target_sha g) then unverified ''GitHub PR head SHA mismatch'' else Inr ())))"

text \<open>The membership test of the last condition hashes the conclusion.\<close>

definition verify_conclusion :: "string \<Rightarrow> dvalue \<Rightarrow> unit result" where
  "verify_conclusion event_type conclusion =
     (if event_type = ''ci_passed'' \<and> conclusion \<noteq> DStr ''success''
      then unverified ''Quality Gate is not successful''
      else if event_type = ''ci_failed'' \<and> \<not> hashable conclusion then type_error
      else if event_type = ''ci_failed'' \<and>
        conclusion \<notin> {DStr ''failure'', DStr ''cancelled'', DStr ''timed_out''}
      then unverified ''Quality Gate failure not verified''
      else Inr ())"

definition named_gate :: "dvalue \<Rightarrow> bool" where
  "named_gate run = (dget ''name'' DNull run = Inr (DStr QUALITY_GATE_NAME))"

definition verify_quality_gate :: "gh \<Rightarrow> github_evidence \<Rightarrow> unit result" where
  "verify_quality_gate gh g =
     bindE (run_gh_paginated_check_runs gh (''repos/'' @ ge_repository g @ ''/commits/'' @ ge_target_sha g @
         ''/check-runs?filter=latest&per_page=100'')) (\<lambda>runs.
       (case filter named_gate runs of
          [] \<Rightarrow> unverified ''Quality Gate unavailable''
        | [run] \<Rightarrow>
            bindE (dget ''status'' DNull run) (\<lambda>status.
              if status \<noteq> DStr ''completed'' then unverified ''Quality Gate is not completed''
              else bindE (dget ''conclusion'' DNull run) (verify_conclusion (ge_event_type g)))
        | _ \<Rightarrow> unverified ''Quality Gate is ambiguous''))"

definition verify_github_state :: "gh \<Rightarrow> github_evidence \<Rightarrow> unit result" where
  "verify_github_state gh g =
     (if \<not> SHA_PATTERN (ge_target_sha g) then unverified ''GitHub target SHA invalid''
      else
        bindE (verify_commit gh g) (\<lambda>_.
        bindE (case ge_pull_request_number g of None \<Rightarrow> Inr () | Some n \<Rightarrow> verify_pull_request gh g n) (\<lambda>_.
          if ge_event_type g \<in> {''ci_passed'', ''ci_failed''} then verify_quality_gate gh g else Inr ())))"

section \<open>The environment of a command\<close>

text \<open>
  What a command meets: the processes, the client of the messages, the random numbers, and for its
  transactions the commits of other sessions before them, the identifiers, the clock and the faults.
\<close>

record command_env =
  cm_gh :: gh
  cm_client :: "message_request \<Rightarrow> int \<Rightarrow> answer"
  cm_random :: "int \<Rightarrow> rat"
  cm_backup :: backup_env
  cm_others :: "nat \<Rightarrow> db \<Rightarrow> db"
  cm_ids :: "nat \<Rightarrow> uuid"
  cm_started :: instant
  cm_now :: instant
  cm_fault :: "nat \<Rightarrow> db_fault"

text \<open>A session of the command: what it returned or raised, and the database after it.\<close>

definition session :: "db_fault \<Rightarrow> ('a \<times> db) result \<Rightarrow> db \<Rightarrow> 'a result \<times> db" where
  "session fault r d =
     (case (fault, r) of
        (Abort x, _) \<Rightarrow> (Inl x, d)
      | (_, Inl x) \<Rightarrow> (Inl x, d)
      | (NoFault, Inr (y, d')) \<Rightarrow> (Inr y, d')
      | (LostAck x, Inr (_, d')) \<Rightarrow> (Inl x, d'))"

section \<open>Sending\<close>

definition send_notification :: "settings \<Rightarrow> command_env \<Rightarrow> supervision_notification \<Rightarrow> delivery_result result" where
  "send_notification s e n =
     (if \<not> approval_configuration_valid s then unsafe ''supervision/approval configuration is incomplete''
      else
        let chat = strip (st_supervision_chat_id s) in
        if sn_event_type n = ''approval_required''
        then bindE (build_approval_card n ''pending'') (\<lambda>content.
          send_interactive_card (cm_client e) (cm_random e) chat content (st_reply_max_attempts s)
            (st_reply_backoff_seconds s))
        else bindE (format_notification n) (\<lambda>content.
          send_structured_text (cm_client e) (cm_random e) chat content (st_reply_max_attempts s)
            (st_reply_backoff_seconds s)))"

section \<open>The commands\<close>

text \<open>The arguments after parsing, by command, in the order of the parser.\<close>

datatype supervision_args =
    Notify string string string "int option" bool "string option"
  | Request_approval string string string "int option" bool string string
  | Provision_principal string string "uuid option"
  | Assign_feishu_identity string string uuid
  | Create_backup uuid string string

definition supervision_choices :: "supervision_args \<Rightarrow> bool" where
  "supervision_choices args =
     (case args of
        Notify event _ _ _ _ environment \<Rightarrow>
          event \<in> {''pr_created'', ''ci_passed'', ''ci_failed'', ''staging_started'', ''staging_passed'',
            ''staging_failed''} \<and>
          (\<forall>x \<in> set_option environment. x \<in> {''development'', ''staging'', ''production''})
      | Request_approval action _ _ _ _ environment _ \<Rightarrow>
          action \<in> {''development_plan'', ''merge_pr'', ''production_deploy''} \<and>
          environment \<in> {''development'', ''staging'', ''production''}
      | Provision_principal kind _ _ \<Rightarrow> kind \<in> {''HUMAN'', ''SERVICE'', ''EXECUTOR''}
      | _ \<Rightarrow> True)"

text \<open>\<open>_github_evidence_from_args\<close>, for the two commands that verify.\<close>

definition github_evidence_from_args :: "supervision_args \<Rightarrow> github_evidence" where
  "github_evidence_from_args args =
     (case args of
        Notify event repository sha pr _ _ \<Rightarrow>
          \<lparr>ge_event_type = event, ge_repository = repository, ge_target_sha = sha, ge_pull_request_number = pr\<rparr>
      | Request_approval action repository sha pr _ _ _ \<Rightarrow>
          \<lparr>ge_event_type = action, ge_repository = repository, ge_target_sha = sha, ge_pull_request_number = pr\<rparr>
      | _ \<Rightarrow> \<lparr>ge_event_type = [], ge_repository = [], ge_target_sha = [], ge_pull_request_number = None\<rparr>)"

definition status_notification :: "string \<Rightarrow> string \<Rightarrow> string \<Rightarrow> int option \<Rightarrow> string option \<Rightarrow> supervision_notification" where
  "status_notification event repository sha pr environment =
     \<lparr>sn_event_type = event, sn_repository = repository, sn_target_sha = sha, sn_pull_request_number = pr,
      sn_target_environment = environment, sn_approval_request_id = None, sn_action_code = None,
      sn_expires_at = None, sn_deployment_id = None, sn_artifact_digest = None\<rparr>"

definition request_notification :: "approval_request \<Rightarrow> supervision_notification" where
  "request_notification q =
     \<lparr>sn_event_type = ''approval_required'', sn_repository = q_repository q, sn_target_sha = q_target_sha q,
      sn_pull_request_number = q_pull_request_number q, sn_target_environment = Some (q_target_environment q),
      sn_approval_request_id = Some (q_id q), sn_action_code = Some (q_action_code q),
      sn_expires_at = Some (Aware (q_expires_at q)), sn_deployment_id = None, sn_artifact_digest = None\<rparr>"

definition verified_if :: "bool \<Rightarrow> command_env \<Rightarrow> supervision_args \<Rightarrow> unit result" where
  "verified_if verify e args =
     (if verify then verify_github_state (cm_gh e) (github_evidence_from_args args) else Inr ())"

definition exit_of :: "delivery_result \<Rightarrow> int" where
  "exit_of r = (if dr_sent r then 0 else 1)"

definition run_notify :: "settings \<Rightarrow> command_env \<Rightarrow> supervision_args \<Rightarrow> supervision_notification \<Rightarrow> bool \<Rightarrow> int result" where
  "run_notify s e args n verify =
     bindE (validate_notification n) (\<lambda>_.
     bindE (verified_if verify e args) (\<lambda>_.
     bindE (send_notification s e n) (\<lambda>r. Inr (exit_of r))))"

text \<open>After the card was sent, its identifier is stored in a second session.\<close>

definition store_card_id :: "command_env \<Rightarrow> approval_request \<Rightarrow> delivery_result \<Rightarrow> db \<Rightarrow> int result \<times> db" where
  "store_card_id e q r d =
     (if \<not> dr_sent r \<or> falsy (dr_message_id r) then (Inr (exit_of r), d)
      else
        let d1 = cm_others e 2 d in
        if get_row q_id (q_id q) (t_requests d1) = None then (Inr (exit_of r), d1)
        else (case session (cm_fault e 1)
              (bindE (set_card_message_id (q_id q) (the (dr_message_id r)) d1) (\<lambda>d'. Inr ((), d'))) d1 of
            (Inl x, d') \<Rightarrow> (Inl x, d')
          | (Inr _, d') \<Rightarrow> (Inr (exit_of r), d')))"

definition announce_request :: "settings \<Rightarrow> command_env \<Rightarrow> approval_request \<Rightarrow> db \<Rightarrow> int result \<times> db" where
  "announce_request s e q d =
     (let n = request_notification q in
      case bindE (validate_notification n) (\<lambda>_. send_notification s e n) of
        Inl x \<Rightarrow> (Inl x, d)
      | Inr r \<Rightarrow> store_card_id e q r d)"

text \<open>The result or the exception, what is printed, and the database.\<close>

definition supervision_run ::
  "settings \<Rightarrow> command_env \<Rightarrow> supervision_args \<Rightarrow> db \<Rightarrow> int result \<times> string list \<times> db" where
  "supervision_run s e args d =
     (let d1 = cm_others e 0 d; d2 = cm_others e 1 d1 in
      case args of
        Notify event repository sha pr verify environment \<Rightarrow>
          (run_notify s e args (status_notification event repository sha pr environment) verify, [], d)
      | Provision_principal kind identity_key user_id \<Rightarrow>
          (case session (cm_fault e 0)
              (provision_principal kind identity_key user_id (cm_ids e 0) (cm_now e) d1) d1 of
             (Inl x, d') \<Rightarrow> (Inl x, [], d')
           | (Inr p, d') \<Rightarrow> (Inr 0, [''principal_id='' @ uuid_str (p_id p)], d'))
      | Assign_feishu_identity tenant_id open_id principal_id \<Rightarrow>
          (case session (cm_fault e 0)
              (assign_feishu_identity tenant_id open_id principal_id (cm_ids e 1) (cm_ids e 0) (cm_now e) d1 d2) d2 of
             (Inl x, d') \<Rightarrow> (Inl x, [], d')
           | (Inr m, d') \<Rightarrow>
               (Inr 0, [''mapping_id='' @ uuid_str (x_id m) @ '' version='' @ int_str (x_mapping_version m)], d'))
      | Create_backup deployment_id folder pg \<Rightarrow>
          (case session (cm_fault e 0)
              (fst (create_and_verify folder pg deployment_id (cm_ids e 0) (cm_ids e 1) d1 d2 (cm_backup e) [])) d2 of
             (Inl x, d') \<Rightarrow> (Inl x, [], d')
           | (Inr v, d') \<Rightarrow>
               (Inr 0, [''backup_evidence_key='' @ ev_evidence_key v @ '' status='' @ ev_status_code v], d'))
      | Request_approval action repository sha pr verify environment key \<Rightarrow>
          (case verified_if verify e args of
             Inl x \<Rightarrow> (Inl x, [], d)
           | Inr _ \<Rightarrow>
               (case session (cm_fault e 0)
                   (create_approval_request (st_default_user_id s) action repository pr sha environment key
                     (st_approval_ttl_seconds s) (cm_ids e 0) (cm_now e) d1 d2) d2 of
                  (Inl x, d') \<Rightarrow> (Inl x, [], d')
                | (Inr q, d') \<Rightarrow> (case announce_request s e q d' of (r, d'') \<Rightarrow> (r, [], d'')))))"

section \<open>The program\<close>

text \<open>\<open>main\<close>: the exit status, the lines on standard output and on standard error, and the database.
  What the parser refuses ends with status 2 before anything is done.\<close>

definition supervision_rejection :: "exn \<Rightarrow> string option" where
  "supervision_rejection x =
     (case x of
        ApprovalValidationError m \<Rightarrow> Some m
      | NotificationValidationError m \<Rightarrow> Some m
      | GitHubVerificationError m \<Rightarrow> Some m
      | IdentityAuthorityError m \<Rightarrow> Some m
      | BackupAuthorityError m \<Rightarrow> Some m
      | _ \<Rightarrow> None)"

definition supervision_main ::
  "settings \<Rightarrow> command_env \<Rightarrow> supervision_args \<Rightarrow> db \<Rightarrow> (int \<times> string list \<times> string list) \<times> db" where
  "supervision_main s e args d =
     (if \<not> supervision_choices args then ((2, [], [''usage'']), d)
      else (case supervision_run s e args d of
          (Inr code, out, d') \<Rightarrow> ((code, out, []), d')
        | (Inl x, out, d') \<Rightarrow>
            ((2, out, [case supervision_rejection x of
                Some m \<Rightarrow> ''supervision request rejected: '' @ m
              | None \<Rightarrow> ''supervision operation failed closed'']), d')))"

section \<open>What was verified\<close>

text \<open>The key of a decoded object.\<close>

definition key_is :: "string \<Rightarrow> dvalue \<Rightarrow> dvalue \<Rightarrow> bool" where
  "key_is k v x \<longleftrightarrow> (\<exists>kvs. x = DObj kvs \<and> map_of kvs k = Some v)"

lemma dget_key: "dget k DNull x = Inr v \<Longrightarrow> v \<noteq> DNull \<Longrightarrow> key_is k v x"
  by (auto simp: dget_def key_is_def split: dvalue.splits option.splits)

text \<open>A program that was run without an error printed this.\<close>

definition gh_printed :: "gh \<Rightarrow> string list \<Rightarrow> string \<Rightarrow> bool" where
  "gh_printed gh arguments out \<longleftrightarrow>
     (\<exists>r. gh (''gh'' # arguments) = Inr r \<and> cr_returncode r = 0 \<and> cr_stdout r = out)"

lemma gh_output_ok: "gh_output gh arguments failure = Inr out \<Longrightarrow> gh_printed gh arguments out"
  by (auto simp: gh_output_def gh_printed_def split: sum.splits if_splits)

lemma decoded_ok [simp]: "decoded failure s = Inr v \<longleftrightarrow> json_loads s = Some v"
  by (simp add: decoded_def split: option.splits)

lemma run_gh_json_ok:
  "run_gh_json gh arguments = Inr v \<Longrightarrow> \<exists>out. gh_printed gh arguments out \<and> json_loads out = Some v"
  by (auto simp: run_gh_json_def bindE_eq_Inr dest: gh_output_ok)

definition commit_exists :: "gh \<Rightarrow> github_evidence \<Rightarrow> bool" where
  "commit_exists gh g \<longleftrightarrow> (\<exists>out v. gh_printed gh [''api'', ''repos/'' @ ge_repository g @ ''/commits/'' @ ge_target_sha g] out \<and>
     json_loads out = Some v \<and> key_is ''sha'' (DStr (ge_target_sha g)) v)"

definition is_head :: "gh \<Rightarrow> github_evidence \<Rightarrow> int \<Rightarrow> bool" where
  "is_head gh g n \<longleftrightarrow> (\<exists>out v. gh_printed gh [''pr'', ''view'', int_str n, ''--repo'', ge_repository g, ''--json'',
       ''number,headRefOid,state''] out \<and>
     json_loads out = Some v \<and> key_is ''headRefOid'' (DStr (ge_target_sha g)) v)"

text \<open>Of all the runs that were listed, line by line, one has the gate's name, and it ended this way.\<close>

definition gate_ended :: "gh \<Rightarrow> github_evidence \<Rightarrow> dvalue \<Rightarrow> bool" where
  "gate_ended gh g conclusion \<longleftrightarrow>
     (\<exists>out runs run. gh_printed gh [''api'', ''--paginate'', ''repos/'' @ ge_repository g @ ''/commits/'' @ ge_target_sha g @
         ''/check-runs?filter=latest&per_page=100'', ''--jq'', ''.check_runs[] | @json''] out \<and>
       map json_loads (splitlines out) = map Some runs \<and>
       filter (key_is ''name'' (DStr QUALITY_GATE_NAME)) runs = [run] \<and>
       key_is ''status'' (DStr ''completed'') run \<and> key_is ''conclusion'' conclusion run)"

lemma verify_commit_ok: "verify_commit gh g = Inr () \<Longrightarrow> commit_exists gh g"
  by (fastforce simp: verify_commit_def commit_exists_def bindE_eq_Inr
      dest!: run_gh_json_ok split: if_splits intro: dget_key)

lemma verify_head_ok:
  assumes "verify_pull_request gh g n = Inr ()"
    and "ge_event_type g \<in> {''pr_created'', ''ci_passed'', ''ci_failed'', ''merge_pr''}"
  shows "is_head gh g n"
  using assms by (fastforce simp: verify_pull_request_def is_head_def bindE_eq_Inr
      dest!: run_gh_json_ok split: if_splits intro: dget_key)

lemma named_gate_key: "named_gate run \<longleftrightarrow> key_is ''name'' (DStr QUALITY_GATE_NAME) run"
  by (auto simp: named_gate_def key_is_def dget_def split: dvalue.splits option.splits)

lemma mapE_Inr: "mapE f xs = Inr ys \<Longrightarrow> map f xs = map Inr ys"
  by (induction xs arbitrary: ys) (auto simp: bindE_eq_Inr)

lemma mapE_decoded: "mapE (decoded failure) xs = Inr vs \<Longrightarrow> map json_loads xs = map Some vs"
  by (induction xs arbitrary: vs) (auto simp: bindE_eq_Inr)

lemma verify_gate_ok:
  assumes "verify_quality_gate gh g = Inr ()" and "ge_event_type g \<in> {''ci_passed'', ''ci_failed''}"
  shows "\<exists>conclusion. gate_ended gh g conclusion \<and> verify_conclusion (ge_event_type g) conclusion = Inr ()"
proof -
  let ?endpoint = "''repos/'' @ ge_repository g @ ''/commits/'' @ ge_target_sha g @
    ''/check-runs?filter=latest&per_page=100''"
  from assms(1) obtain runs where listed: "run_gh_paginated_check_runs gh ?endpoint = Inr runs"
    and one: "(case filter named_gate runs of
          [] \<Rightarrow> unverified ''Quality Gate unavailable''
        | [run] \<Rightarrow>
            bindE (dget ''status'' DNull run) (\<lambda>status.
              if status \<noteq> DStr ''completed'' then unverified ''Quality Gate is not completed''
              else bindE (dget ''conclusion'' DNull run) (verify_conclusion (ge_event_type g)))
        | _ \<Rightarrow> unverified ''Quality Gate is ambiguous'') = Inr ()"
    by (simp only: verify_quality_gate_def bindE_eq_Inr) blast
  from one obtain run where single: "filter named_gate runs = [run]" by (auto split: list.splits)
  with one obtain conclusion where runs: "run_gh_paginated_check_runs gh ?endpoint = Inr runs"
    "filter named_gate runs = [run]" "dget ''status'' DNull run = Inr (DStr ''completed'')"
    "dget ''conclusion'' DNull run = Inr conclusion" "verify_conclusion (ge_event_type g) conclusion = Inr ()"
    using listed by (auto simp: bindE_eq_Inr split: if_splits)
  from runs(1) obtain out where "gh_printed gh [''api'', ''--paginate'', ?endpoint, ''--jq'', ''.check_runs[] | @json''] out"
    "map json_loads (splitlines out) = map Some runs"
    by (auto simp: run_gh_paginated_check_runs_def Let_def bindE_eq_Inr dest!: gh_output_ok mapE_decoded split: if_splits)
  moreover have "conclusion \<noteq> DNull" using runs(5) assms(2) by (auto simp: verify_conclusion_def hashable_def)
  ultimately have "gate_ended gh g conclusion"
    unfolding gate_ended_def using runs(2-4) dget_key by (auto simp: named_gate_key [abs_def])
  with runs(5) show ?thesis by blast
qed

lemma delivered_by:
  assumes "fst (deliver_with_retry send rnd m b) = Inr r" and "dr_sent r"
  shows "\<exists>k c i. send k = Response True c i"
proof -
  obtain slept where "deliver_with_retry send rnd m b = (Inr r, slept)" using assms(1) by (cases "deliver_with_retry send rnd m b") auto
  then have "1 \<le> m" "attempts_from send rnd m b 1 [] = (Inr r, slept)" by (auto simp: deliver_with_retry_def split: if_splits)
  from attempts_from_end [OF this(2,1)] obtain n where "one_attempt (send n) n m = Ends r" by auto
  from one_attempt_ends [OF this] assms(2) show ?thesis by (cases "send n") auto
qed

lemma with_message_id_True: "with_message_id a = Response True c i \<Longrightarrow> \<exists>j. a = Response True c j"
  by (cases a) (auto simp: with_message_id_def)

text \<open>The client took this text for the supervision chat.\<close>

definition text_delivered :: "settings \<Rightarrow> command_env \<Rightarrow> string \<Rightarrow> bool" where
  "text_delivered s e content \<longleftrightarrow> (\<exists>k c i. cm_client e \<lparr>mr_chat_id = strip (st_supervision_chat_id s), mr_type = ''text'',
     mr_content = DObj [(''text'', DStr content)]\<rparr> k = Response True c i)"

lemma send_text_ok:
  assumes "send_notification s e n = Inr r" "dr_sent r" "sn_event_type n \<noteq> ''approval_required''"
  shows "\<exists>content. format_notification n = Inr content \<and> text_delivered s e content"
proof -
  from assms obtain content where content: "format_notification n = Inr content"
    "fst (deliver_with_retry (with_message_id \<circ> cm_client e \<lparr>mr_chat_id = strip (st_supervision_chat_id s), mr_type = ''text'',
       mr_content = DObj [(''text'', DStr content)]\<rparr>) (cm_random e) (st_reply_max_attempts s) (st_reply_backoff_seconds s)) = Inr r"
    by (auto simp: send_notification_def send_structured_text_def Let_def bindE_eq_Inr split: if_splits)
  from delivered_by [OF content(2) assms(2)] have "text_delivered s e content"
    unfolding text_delivered_def comp_def using with_message_id_True by blast
  with content(1) show ?thesis by blast
qed

text \<open>C20. When the command that announces a passed pipeline with verification ends with status 0, GitHub had
  the commit, the pull request had it as its head, the quality gate was listed exactly once, completed
  and successful, and the announcement of this commit was taken by the client; nothing was stored.\<close>

theorem announced_pipeline_passed:
  assumes "supervision_main s e (Notify ''ci_passed'' repository sha (Some pr) True environment) d = ((0, out, err), d')"
  shows "d' = d \<and>
     (let g = \<lparr>ge_event_type = ''ci_passed'', ge_repository = repository, ge_target_sha = sha, ge_pull_request_number = Some pr\<rparr> in
      commit_exists (cm_gh e) g \<and> is_head (cm_gh e) g pr \<and> gate_ended (cm_gh e) g (DStr ''success'')) \<and>
     (\<exists>content. format_notification (status_notification ''ci_passed'' repository sha (Some pr) environment) = Inr content \<and>
        text_delivered s e content)"
proof -
  let ?args = "Notify ''ci_passed'' repository sha (Some pr) True environment"
  let ?n = "status_notification ''ci_passed'' repository sha (Some pr) environment"
  let ?g = "\<lparr>ge_event_type = ''ci_passed'', ge_repository = repository, ge_target_sha = sha, ge_pull_request_number = Some pr\<rparr>"
  from assms have run: "supervision_run s e ?args d = (Inr 0, out, d')"
    by (auto simp: supervision_main_def split: if_splits sum.splits prod.splits)
  then have d': "d' = d" and notify: "run_notify s e ?args ?n True = Inr 0" by (simp_all add: supervision_run_def Let_def)
  from notify obtain r where ok: "verify_github_state (cm_gh e) ?g = Inr ()" "send_notification s e ?n = Inr r" "dr_sent r"
    by (auto simp: run_notify_def verified_if_def github_evidence_from_args_def exit_of_def bindE_eq_Inr split: if_splits)
  from ok(1) have parts: "verify_commit (cm_gh e) ?g = Inr ()" "verify_pull_request (cm_gh e) ?g pr = Inr ()"
    "verify_quality_gate (cm_gh e) ?g = Inr ()"
    by (auto simp: verify_github_state_def bindE_eq_Inr split: if_splits)
  from verify_gate_ok [OF parts(3)] have "gate_ended (cm_gh e) ?g (DStr ''success'')"
    by (auto simp: verify_conclusion_def split: if_splits)
  moreover have "is_head (cm_gh e) ?g pr" by (rule verify_head_ok [OF parts(2)]) simp
  moreover note verify_commit_ok [OF parts(1)] send_text_ok [OF ok(2,3)] d'
  ultimately show ?thesis by (simp add: status_notification_def)
qed

section \<open>The commands as runs\<close>

definition sessions_calm :: "command_env \<Rightarrow> bool" where
  "sessions_calm e \<longleftrightarrow> (\<forall>k d. calm d (cm_others e k d))"

lemma session_calm:
  assumes "session fault r d = (x, d')" "calm d0 d" "\<And>y d1. r = Inr (y, d1) \<Longrightarrow> calm d0 d1"
  shows "calm d0 d'"
  using assms by (auto simp: session_def split: db_fault.splits sum.splits)

lemma calm_provision: "provision_principal ty key u i now d = Inr (p, d') \<Longrightarrow> calm d d'"
  using runs.provision [OF runs.none] steady_provision by (auto simp: calm_def steady_def)

lemma calm_assign:
  assumes "assign_feishu_identity t s pid audit i now d dc = Inr (m, d')" "calm d dc"
  shows "calm d d'"
proof -
  have "runs d dc" using assms(2) by (simp add: calm_def)
  from runs.assign [OF runs.none this assms(1)] steady_assign [OF assms(1)] assms(2) show ?thesis
    by (auto simp: calm_def steady_def)
qed

lemma calm_new_request:
  assumes "create_approval_request u act repo pr sha env key ttl i now d dc = Inr (q, d')" "calm d dc"
  shows "calm d d'"
proof -
  have "runs d dc" using assms(2) by (simp add: calm_def)
  from runs.new_request [OF runs.none this assms(1)] have "runs d d'" .
  moreover have "t_locks d' = t_locks d \<and> (t_locks d = [] \<longrightarrow> t_attempts d' = t_attempts d)"
    using assms(1) by (rule new_request_tables) (use assms(2) in \<open>auto simp: calm_def dest!: request_checked\<close>)
  ultimately show ?thesis by (simp add: calm_def)
qed

lemma calm_card_id: "set_card_message_id r m d = Inr d' \<Longrightarrow> calm d d'"
  using runs.card_id [OF runs.none, of r m d d'] by (auto simp: calm_def set_card_message_id_def split: if_splits)

lemma calm_evidence: "insert_evidence r d = Inr d' \<Longrightarrow> calm d d'"
  using runs.authority_evidence [OF runs.none] inserted(15) by (fastforce simp: calm_def)

lemma calm_backup:
  assumes "create_and_verify folder pg dep op i d dc be tr = (Inr (v, d'), tr')" "calm d dc"
  shows "calm d d'"
  using assms(1) by (rule create_and_verify_ok) (use assms(2) calm_evidence calm_trans in blast)

lemma announce_calm:
  assumes "announce_request s e q d = (x, d')" "sessions_calm e"
  shows "calm d d'"
proof -
  have others: "calm d1 (cm_others e k d1)" for k d1 using assms(2) by (simp add: sessions_calm_def)
  have store: "calm d (snd (store_card_id e q r d))" for r
    unfolding store_card_id_def Let_def using others [of d 2]
    by (auto split: prod.splits sum.splits elim!: session_calm simp: bindE_eq_Inr dest!: calm_card_id)
      (blast intro: calm_trans)+
  from assms(1) show ?thesis
    using store by (auto simp: announce_request_def Let_def split: sum.splits) (metis snd_conv)
qed

lemma supervision_calm:
  assumes "sessions_calm e"
  shows "calm d (snd (supervision_main s e args d))"
proof -
  have others: "calm d1 (cm_others e k d1)" for k d1 using assms by (simp add: sessions_calm_def)
  let ?d1 = "cm_others e 0 d" let ?d2 = "cm_others e 1 ?d1"
  have d1: "calm d ?d1" by (rule others)
  have d2: "calm d ?d2" by (rule calm_trans [OF d1 others])
  have run: "calm d d'" if ran: "supervision_run s e args d = (r, out, d')" for r out d'
  proof (cases args)
    case (Provision_principal kind key uid)
    then obtain x where "session (cm_fault e 0) (provision_principal kind key uid (cm_ids e 0) (cm_now e) ?d1) ?d1 = (x, d')"
      using ran by (auto simp: supervision_run_def Let_def split: prod.splits sum.splits)
    then show ?thesis by (rule session_calm [OF _ d1]) (blast intro: calm_trans [OF d1] calm_provision)
  next
    case (Assign_feishu_identity tn oi pid)
    then obtain x where "session (cm_fault e 0) (assign_feishu_identity tn oi pid (cm_ids e 1) (cm_ids e 0) (cm_now e) ?d1 ?d2) ?d2 = (x, d')"
      using ran by (auto simp: supervision_run_def Let_def split: prod.splits sum.splits)
    then show ?thesis by (rule session_calm [OF _ d2]) (blast intro: calm_trans [OF d1] calm_assign others)
  next
    case (Create_backup dep folder pg)
    then obtain x where "session (cm_fault e 0)
        (fst (create_and_verify folder pg dep (cm_ids e 0) (cm_ids e 1) ?d1 ?d2 (cm_backup e) [])) ?d2 = (x, d')"
      using ran by (auto simp: supervision_run_def Let_def split: prod.splits sum.splits)
    then show ?thesis
      by (rule session_calm [OF _ d2]) (metis calm_backup calm_trans [OF d1] others prod.collapse)
  next
    case (Request_approval action repo sha pr verify environment key)
    show ?thesis
    proof (cases "verified_if verify e args")
      case (Inr u)
      obtain x d3 where req: "session (cm_fault e 0)
          (create_approval_request (st_default_user_id s) action repo pr sha environment key
            (st_approval_ttl_seconds s) (cm_ids e 0) (cm_now e) ?d1 ?d2) ?d2 = (x, d3)" by fastforce
      then have "calm d d3" by (rule session_calm [OF _ d2]) (blast intro: calm_trans [OF d1] calm_new_request others)
      moreover have "d' = d3 \<or> (\<exists>q y. announce_request s e q d3 = (y, d'))"
        using ran Request_approval Inr req by (auto simp: supervision_run_def Let_def split: sum.splits prod.splits)
      ultimately show ?thesis using announce_calm [OF _ assms] calm_trans by blast
    qed (use ran Request_approval in \<open>simp add: supervision_run_def Let_def\<close>)
  qed (use ran in \<open>simp add: supervision_run_def Let_def\<close>)
  then show ?thesis by (auto simp: supervision_main_def split: prod.splits sum.splits)
qed

end
