(* ===== verification/Supervisor.thy ===== *)
theory Supervisor
  imports Attempt "HOL-Library.Sublist"
begin

text \<open>
  \<^verbatim>\<open>ProductionDeploymentSupervisor\<close> and \<^verbatim>\<open>DurableExecutionJournal\<close> of
  \<^verbatim>\<open>app/services/production_supervisor.py\<close>. An operation runs in a world that outlives it: the
  database, the journal files and the record of what was submitted to Docker. The environment
  decides, at each effect, what other sessions did to the database, whether the database, the file
  system or Docker fails, and whether the process dies there.
\<close>

section \<open>The journal\<close>

datatype journal_event =
    ATTEMPT_ACCEPTED | MUTATION_SUBMITTED | MUTATION_COMPLETED | MUTATION_FAILED | HEALTH_STARTED
  | HEALTH_PASSED | HEALTH_FAILED | RECONCILIATION_STARTED | RECONCILIATION_RESULT
  | DB_DISCONNECTED | ATTEMPT_TERMINAL

record journal_row =
  jr_event :: journal_event
  jr_deployment_id :: uuid
  jr_execution_attempt_id :: uuid
  jr_fencing_epoch :: int
  jr_intent_hash :: string
  jr_timestamp :: instant
  jr_outcome :: "(string \<times> string) list"

text \<open>
  A line is a record or what \<open>json.loads\<close> does not accept. A file whose last line lacks its
  newline is \<open>jf_open\<close>: what is appended next becomes part of that line and spoils it, unless
  the line is empty.
\<close>

datatype journal_line = Row journal_row | Corrupt

record journal_file =
  jf_lines :: "journal_line list"
  jf_open :: bool

text \<open>How much of a record \<open>os.write\<close> put in the file.\<close>

datatype written = Nothing | Part | All_but_newline | Everything

definition append_line :: "written \<Rightarrow> journal_row \<Rightarrow> journal_file \<Rightarrow> journal_file" where
  "append_line part row f =
     (let kept = (if jf_open f then butlast (jf_lines f) else jf_lines f);
          fresh = (if jf_open f \<or> part = Part then Corrupt else Row row) in
      case part of
        Nothing \<Rightarrow> f
      | Everything \<Rightarrow> \<lparr>jf_lines = kept @ [fresh], jf_open = False\<rparr>
      | _ \<Rightarrow> \<lparr>jf_lines = kept @ [fresh], jf_open = True\<rparr>)"

definition row_for ::
  "journal_event \<Rightarrow> supervisor_attempt \<Rightarrow> (string \<times> string) list \<Rightarrow> instant \<Rightarrow> journal_row" where
  "row_for event attempt details now =
     \<lparr>jr_event = event, jr_deployment_id = at_deployment_id attempt,
      jr_execution_attempt_id = at_execution_attempt_id attempt,
      jr_fencing_epoch = at_fencing_epoch attempt, jr_intent_hash = at_intent_hash attempt,
      jr_timestamp = now, jr_outcome = details\<rparr>"

definition bound_to :: "supervisor_attempt \<Rightarrow> journal_row \<Rightarrow> bool" where
  "bound_to attempt row \<longleftrightarrow>
     jr_deployment_id row = at_deployment_id attempt \<and>
     jr_execution_attempt_id row = at_execution_attempt_id attempt \<and>
     jr_fencing_epoch row = at_fencing_epoch attempt \<and> jr_intent_hash row = at_intent_hash attempt"

text \<open>Reading stops at the first line that is corrupt or belongs to another attempt.\<close>

fun load_lines :: "supervisor_attempt \<Rightarrow> journal_line list \<Rightarrow> journal_row list result" where
  "load_lines attempt [] = Inr []"
| "load_lines attempt (Corrupt # ls) = supervisor ''journal_corrupt''"
| "load_lines attempt (Row row # ls) =
     (if \<not> bound_to attempt row then supervisor ''journal_binding_mismatch''
      else bindE (load_lines attempt ls) (\<lambda>rows. Inr (row # rows)))"

definition load_file :: "supervisor_attempt \<Rightarrow> journal_file option \<Rightarrow> journal_row list result" where
  "load_file attempt file = (case file of None \<Rightarrow> Inr [] | Some f \<Rightarrow> load_lines attempt (jf_lines f))"

section \<open>The world and the environment\<close>

record world =
  w_db :: db
  w_journals :: "uuid \<Rightarrow> journal_file option"
  w_submitted :: "supervisor_attempt list"
  w_tick :: nat

text \<open>
  What one effect meets. A database transaction can be aborted, or be committed and then report an
  error. An append writes some of its record and then goes on, raises, or ends with the process; the
  call that submits to Docker returns, raises, or does not return before the process ends.
\<close>

datatype fate = Goes_on | Raises exn | Dies

record env =
  e_dies :: "nat \<Rightarrow> bool"
  e_now :: "nat \<Rightarrow> instant"
  e_new_id :: "nat \<Rightarrow> uuid"
  e_others :: "nat \<Rightarrow> db \<Rightarrow> db"
  e_db :: "nat \<Rightarrow> db_fault"
  e_ci :: "nat \<Rightarrow> string \<Rightarrow> string \<Rightarrow> int \<Rightarrow> ci_evidence result"
  e_host_lock :: "nat \<Rightarrow> exn option"
  e_journal_dir :: "nat \<Rightarrow> exn option"
  e_journal_read :: "nat \<Rightarrow> bool"
  e_append :: "nat \<Rightarrow> written \<times> fate"
  e_plan :: "nat \<Rightarrow> supervisor_attempt \<Rightarrow> unit result"
  e_submit :: "nat \<Rightarrow> supervisor_attempt \<Rightarrow> fate"
  e_observe :: "nat \<Rightarrow> supervisor_attempt \<Rightarrow> runtime_snapshot result"
  e_events :: "nat \<Rightarrow> runtime_snapshot \<Rightarrow> runtime_snapshot \<Rightarrow> bool result"
  e_health :: "nat \<Rightarrow> supervisor_attempt \<Rightarrow> instant \<Rightarrow> health_cycle result"
  e_collect :: "nat \<Rightarrow> uuid \<Rightarrow> trusted_resource_result result"

section \<open>Effects\<close>

datatype 'a ending = Done 'a | Raised exn | Died

type_synonym 'a effect = "env \<Rightarrow> world \<Rightarrow> 'a ending \<times> world"

definition give :: "'a \<Rightarrow> 'a effect" where
  "give x e w = (Done x, w)"

definition fail :: "exn \<Rightarrow> 'a effect" where
  "fail x e w = (Raised x, w)"

definition bindS :: "'a effect \<Rightarrow> ('a \<Rightarrow> 'b effect) \<Rightarrow> 'b effect" where
  "bindS m k e w =
     (case m e w of
        (Done x, w') \<Rightarrow> k x e w'
      | (Raised x, w') \<Rightarrow> (Raised x, w')
      | (Died, w') \<Rightarrow> (Died, w'))"

text \<open>\<open>try: m\<close>, \<open>except Exception as exc: h(exc)\<close>, \<open>else: k\<close>.\<close>

definition tryS :: "'a effect \<Rightarrow> (exn \<Rightarrow> 'b effect) \<Rightarrow> ('a \<Rightarrow> 'b effect) \<Rightarrow> 'b effect" where
  "tryS m h k e w =
     (case m e w of
        (Done x, w') \<Rightarrow> k x e w'
      | (Raised x, w') \<Rightarrow> h x e w'
      | (Died, w') \<Rightarrow> (Died, w'))"

definition of_result :: "'a result \<Rightarrow> 'a ending" where
  "of_result r = (case r of Inl x \<Rightarrow> Raised x | Inr y \<Rightarrow> Done y)"

definition give_result :: "'a result \<Rightarrow> 'a effect" where
  "give_result r e w = (of_result r, w)"

text \<open>An effect happens at a tick, or the process dies there.\<close>

definition at_tick :: "(env \<Rightarrow> nat \<Rightarrow> world \<Rightarrow> 'a ending \<times> world) \<Rightarrow> 'a effect" where
  "at_tick f e w =
     (let w' = w\<lparr>w_tick := Suc (w_tick w)\<rparr> in
      if e_dies e (w_tick w) then (Died, w') else f e (w_tick w) w')"

definition clock :: "instant effect" where
  "clock = at_tick (\<lambda>e t w. (Done (e_now e t), w))"

text \<open>A transaction. Other sessions may have changed the database before it.\<close>

definition transaction :: "(env \<Rightarrow> nat \<Rightarrow> db \<Rightarrow> ('a \<times> db) result) \<Rightarrow> 'a effect" where
  "transaction f = at_tick (\<lambda>e t w.
     let d = e_others e t (w_db w); unchanged = w\<lparr>w_db := d\<rparr> in
     case e_db e t of
       Abort x \<Rightarrow> (Raised x, unchanged)
     | NoFault \<Rightarrow> (case f e t d of Inl x \<Rightarrow> (Raised x, unchanged)
         | Inr (y, d') \<Rightarrow> (Done y, w\<lparr>w_db := d'\<rparr>))
     | LostAck x \<Rightarrow> (case f e t d of Inl y \<Rightarrow> (Raised y, unchanged)
         | Inr (_, d') \<Rightarrow> (Raised x, w\<lparr>w_db := d'\<rparr>)))"

section \<open>The operations on the journal\<close>

definition journal_open :: "unit effect" where
  "journal_open = at_tick (\<lambda>e t w.
     (case e_journal_dir e t of None \<Rightarrow> Done () | Some x \<Rightarrow> Raised x, w))"

definition journal_append ::
  "journal_event \<Rightarrow> supervisor_attempt \<Rightarrow> (string \<times> string) list \<Rightarrow> unit effect" where
  "journal_append event attempt details = at_tick (\<lambda>e t w.
     let i = at_execution_attempt_id attempt; (part, fate) = e_append e t;
         old = (case w_journals w i of None \<Rightarrow> \<lparr>jf_lines = [], jf_open = False\<rparr> | Some f \<Rightarrow> f);
         file = append_line part (row_for event attempt details (e_now e t)) old;
         w' = (if part = Nothing then w else w\<lparr>w_journals := (w_journals w)(i := Some file)\<rparr>) in
     case fate of Goes_on \<Rightarrow> (Done (), w') | Raises x \<Rightarrow> (Raised x, w') | Dies \<Rightarrow> (Died, w'))"

text \<open>\<open>OSError\<close> and \<open>UnicodeDecodeError\<close> while reading are \<open>journal_corrupt\<close>.\<close>

definition journal_load :: "supervisor_attempt \<Rightarrow> journal_row list effect" where
  "journal_load attempt = at_tick (\<lambda>e t w.
     (if \<not> e_journal_read e t then Raised (SupervisorError ''journal_corrupt'')
      else of_result (load_file attempt (w_journals w (at_execution_attempt_id attempt))), w))"

section \<open>The operations on the authority and the runtime\<close>

text \<open>The reads of an attempt change nothing; any failure but the supervisor's own is \<open>db_disconnected\<close>.\<close>

definition authority_load :: "uuid \<Rightarrow> supervisor_attempt effect" where
  "authority_load i = at_tick (\<lambda>e t w.
     let d = e_others e t (w_db w); w' = w\<lparr>w_db := d\<rparr> in
     case e_db e t of
       NoFault \<Rightarrow> (of_result (load_attempt i (e_ci e t) (\<lambda>k. e_now e (t + k)) d), w')
     | _ \<Rightarrow> (Raised (SupervisorError ''db_disconnected''), w'))"

definition do_record_resource :: "trusted_resource_result \<Rightarrow> unit effect" where
  "do_record_resource r = transaction (\<lambda>e t. record_resource r (e_new_id e t) (e_now e t))"

definition do_record_submitted :: "supervisor_attempt \<Rightarrow> unit effect" where
  "do_record_submitted attempt =
     transaction (\<lambda>e t. record_mutation_submitted attempt (e_new_id e t) (e_now e t))"

definition do_mutation_submitted :: "supervisor_attempt \<Rightarrow> bool effect" where
  "do_mutation_submitted attempt = transaction (\<lambda>e t. mutation_submitted attempt)"

definition do_record_result :: "supervisor_attempt \<Rightarrow> runtime_state \<Rightarrow> string \<Rightarrow> unit effect" where
  "do_record_result attempt state source =
     transaction (\<lambda>e t. record_runtime_result attempt state source (e_new_id e t) (e_now e t))"

definition validate_plan :: "supervisor_attempt \<Rightarrow> unit effect" where
  "validate_plan attempt = at_tick (\<lambda>e t w. (of_result (e_plan e t attempt), w))"

definition observe :: "supervisor_attempt \<Rightarrow> runtime_snapshot effect" where
  "observe attempt = at_tick (\<lambda>e t w. (of_result (e_observe e t attempt), w))"

definition events_between :: "runtime_snapshot \<Rightarrow> runtime_snapshot \<Rightarrow> bool effect" where
  "events_between first second = at_tick (\<lambda>e t w. (of_result (e_events e t first second), w))"

definition verify_health :: "supervisor_attempt \<Rightarrow> instant \<Rightarrow> health_cycle effect" where
  "verify_health attempt deadline = at_tick (\<lambda>e t w. (of_result (e_health e t attempt deadline), w))"

definition collect_resources :: "uuid \<Rightarrow> trusted_resource_result effect" where
  "collect_resources dep = at_tick (\<lambda>e t w. (of_result (e_collect e t dep), w))"

text \<open>Every call that reaches the runtime's \<open>submit\<close> is recorded, whatever comes of it.\<close>

definition submit :: "supervisor_attempt \<Rightarrow> unit effect" where
  "submit attempt = at_tick (\<lambda>e t w.
     let w' = w\<lparr>w_submitted := w_submitted w @ [attempt]\<rparr> in
     case e_submit e t attempt of
       Goes_on \<Rightarrow> (Done (), w') | Raises x \<Rightarrow> (Raised x, w') | Dies \<Rightarrow> (Died, w'))"

definition with_host_lock :: "'a effect \<Rightarrow> 'a effect" where
  "with_host_lock m =
     bindS (at_tick (\<lambda>e t w. (case e_host_lock e t of None \<Rightarrow> Done () | Some x \<Rightarrow> Raised x, w)))
       (\<lambda>_. m)"

section \<open>The supervisor\<close>

definition HEALTH_DEADLINE_SECONDS :: int where
  "HEALTH_DEADLINE_SECONDS = 120"

definition state_outcome :: "runtime_state \<Rightarrow> (string \<times> string) list" where
  "state_outcome s = [(''state'', runtime_state_value s)]"

definition exn_type :: "exn \<Rightarrow> string" where
  "exn_type x =
     (case x of
        DeploymentGateError _ \<Rightarrow> ''DeploymentGateError''
      | DeploymentPolicyError _ \<Rightarrow> ''DeploymentPolicyError''
      | ApprovalValidationError _ \<Rightarrow> ''ApprovalValidationError''
      | IdentityAuthorityError _ \<Rightarrow> ''IdentityAuthorityError''
      | NotificationValidationError _ \<Rightarrow> ''NotificationValidationError''
      | SupervisorError _ \<Rightarrow> ''SupervisorError''
      | ResourceAuthorityError _ \<Rightarrow> ''ResourceAuthorityError''
      | BackupAuthorityError _ \<Rightarrow> ''BackupAuthorityError''
      | GitHubVerificationError _ \<Rightarrow> ''GitHubVerificationError''
      | DeploymentCliError _ \<Rightarrow> ''DeploymentCliError''
      | ValueError _ \<Rightarrow> ''ValueError''
      | IntegrityError \<Rightarrow> ''IntegrityError''
      | SQLAlchemyError \<Rightarrow> ''SQLAlchemyError''
      | MultipleResultsFound \<Rightarrow> ''MultipleResultsFound''
      | NoResultFound \<Rightarrow> ''NoResultFound''
      | OtherException n \<Rightarrow> n)"

definition record_result_or_unknown ::
  "supervisor_attempt \<Rightarrow> runtime_state \<Rightarrow> string \<Rightarrow> runtime_state effect" where
  "record_result_or_unknown attempt state source =
     tryS (do_record_result attempt state source)
       (\<lambda>_. bindS (journal_append DB_DISCONNECTED attempt []) (\<lambda>_. give UNKNOWN))
       (\<lambda>_. give state)"

definition finish_with ::
  "supervisor_attempt \<Rightarrow> runtime_state \<Rightarrow> string \<Rightarrow> runtime_state effect" where
  "finish_with attempt state source =
     bindS (journal_append ATTEMPT_TERMINAL attempt (state_outcome state)) (\<lambda>_.
       record_result_or_unknown attempt state source)"

text \<open>The earliest record of the mutation being complete, or of the health check having begun.\<close>

definition health_anchor :: "journal_row list \<Rightarrow> instant option" where
  "health_anchor rows =
     map_option jr_timestamp
       (List.find (\<lambda>r. jr_event r \<in> {MUTATION_COMPLETED, HEALTH_STARTED}) rows)"

definition health_locked :: "supervisor_attempt \<Rightarrow> runtime_state effect" where
  "health_locked attempt =
     bindS (journal_append HEALTH_STARTED attempt []) (\<lambda>_.
     bindS (journal_load attempt) (\<lambda>records.
     case health_anchor records of
       None \<Rightarrow>
         bindS (journal_append HEALTH_FAILED attempt [(''error_type'', ''health_window_anchor_missing'')])
           (\<lambda>_. finish_with attempt FAILED ''health'')
     | Some completed_at \<Rightarrow>
         let deadline = completed_at + seconds HEALTH_DEADLINE_SECONDS in
         bindS (tryS (verify_health attempt deadline)
             (\<lambda>x. bindS (journal_append HEALTH_FAILED attempt [(''error_type'', exn_type x)])
               (\<lambda>_. give False))
             (\<lambda>cycle. give (cycle_passed attempt deadline cycle))) (\<lambda>passed.
           let state = (if passed then HEALTHY else FAILED) in
           bindS (journal_append (if passed then HEALTH_PASSED else HEALTH_FAILED) attempt
               (state_outcome state)) (\<lambda>_.
             finish_with attempt state ''health''))))"

definition reconcile_locked :: "supervisor_attempt \<Rightarrow> runtime_state effect" where
  "reconcile_locked attempt =
     bindS (journal_append RECONCILIATION_STARTED attempt []) (\<lambda>_.
     bindS (observe attempt) (\<lambda>snapshot.
     bindS (journal_append RECONCILIATION_RESULT attempt (state_outcome (rs_state snapshot))) (\<lambda>_.
       if rs_state snapshot = MUTATION_COMPLETED_HEALTH_UNKNOWN then health_locked attempt
       else if rs_state snapshot \<in> {HEALTHY, FAILED}
       then finish_with attempt (rs_state snapshot) ''reconciliation''
       else bindS (record_result_or_unknown attempt UNKNOWN ''reconciliation'') (\<lambda>_. give UNKNOWN))))"

text \<open>\<open>RuntimeState(text)\<close>.\<close>

definition state_of_value :: "string \<Rightarrow> runtime_state option" where
  "state_of_value s =
     List.find (\<lambda>x. runtime_state_value x = s)
       [NOT_STARTED, IN_PROGRESS, MUTATION_COMPLETED_HEALTH_UNKNOWN, FAILED, HEALTHY, UNKNOWN]"

definition terminal_state :: "journal_row list \<Rightarrow> runtime_state result" where
  "terminal_state records =
     (if records \<noteq> [] \<and> jr_event (last records) = DB_DISCONNECTED then Inr UNKNOWN
      else (case filter (\<lambda>r. jr_event r = ATTEMPT_TERMINAL) records of
          [r] \<Rightarrow>
            (case Option.bind (map_of (jr_outcome r) ''state'') state_of_value of
               None \<Rightarrow> supervisor ''journal_terminal_corrupt''
             | Some s \<Rightarrow> Inr s)
        | _ \<Rightarrow> supervisor ''journal_terminal_ambiguous''))"

text \<open>From the last durable record before the mutation to the end.\<close>

definition submit_and_verify :: "supervisor_attempt \<Rightarrow> runtime_state effect" where
  "submit_and_verify attempt =
     bindS (journal_append MUTATION_SUBMITTED attempt []) (\<lambda>_.
     tryS (submit attempt)
       (\<lambda>x.
          if x = SupervisorError ''docker_mutation_failed''
          then bindS (journal_append MUTATION_FAILED attempt [(''error_type'', ''SupervisorError'')]) (\<lambda>_.
            finish_with attempt FAILED ''mutation'')
          else reconcile_locked attempt)
       (\<lambda>_. bindS (journal_append MUTATION_COMPLETED attempt []) (\<lambda>_. health_locked attempt)))"

definition disconnected :: "supervisor_attempt \<Rightarrow> runtime_state effect" where
  "disconnected attempt = bindS (journal_append DB_DISCONNECTED attempt []) (\<lambda>_. give UNKNOWN)"

definition first_execution :: "supervisor_attempt \<Rightarrow> runtime_state effect" where
  "first_execution attempt =
     bindS (journal_append ATTEMPT_ACCEPTED attempt []) (\<lambda>_.
     bindS (validate_plan attempt) (\<lambda>_.
     bindS (collect_resources (at_deployment_id attempt)) (\<lambda>resources.
     bindS clock (\<lambda>now.
     bindS (give_result (require_fresh resources now)) (\<lambda>_.
     tryS (do_record_resource resources) (\<lambda>_. disconnected attempt) (\<lambda>_.
     tryS (do_record_submitted attempt) (\<lambda>_. disconnected attempt) (\<lambda>_.
       submit_and_verify attempt)))))))"

definition open_attempt :: "uuid \<Rightarrow> (supervisor_attempt \<times> journal_row list) effect" where
  "open_attempt i =
     bindS (authority_load i) (\<lambda>attempt.
     bindS journal_open (\<lambda>_.
     bindS (journal_load attempt) (\<lambda>prior. give (attempt, prior))))"

definition execute :: "uuid \<Rightarrow> runtime_state effect" where
  "execute i =
     with_host_lock
       (bindS (open_attempt i) (\<lambda>(attempt, prior).
          let events = map jr_event prior in
          if ATTEMPT_TERMINAL \<in> set events then give_result (terminal_state prior)
          else if MUTATION_SUBMITTED \<in> set events then reconcile_locked attempt
          else bindS (if events = [] then do_mutation_submitted attempt else give False) (\<lambda>submitted.
            if submitted then fail (SupervisorError ''journal_missing_after_db_submission'')
            else first_execution attempt)))"

definition reconcile :: "uuid \<Rightarrow> runtime_state effect" where
  "reconcile i = with_host_lock (bindS (open_attempt i) (\<lambda>(attempt, _). reconcile_locked attempt))"

definition takeover_safe :: "runtime_snapshot \<Rightarrow> runtime_snapshot \<Rightarrow> bool effect" where
  "takeover_safe first second =
     (if rs_docker_client_active second \<or> rs_transitional second then give False
      else
        bindS (give_result (stable_fingerprint first)) (\<lambda>f1.
        bindS (give_result (stable_fingerprint second)) (\<lambda>f2.
        if f1 \<noteq> f2 then give False
        else
          bindS (events_between first second) (\<lambda>events.
            give (\<not> events \<and> rs_state second \<in>
              {HEALTHY, FAILED, NOT_STARTED, MUTATION_COMPLETED_HEALTH_UNKNOWN})))))"

definition prove_quiescent_takeover :: "uuid \<Rightarrow> bool effect" where
  "prove_quiescent_takeover i =
     with_host_lock (bindS (open_attempt i) (\<lambda>(attempt, _).
     bindS (journal_append RECONCILIATION_STARTED attempt []) (\<lambda>_.
     bindS (observe attempt) (\<lambda>first.
     if rs_docker_client_active first \<or> rs_transitional first
     then bindS (journal_append RECONCILIATION_RESULT attempt (state_outcome UNKNOWN)) (\<lambda>_. give False)
     else
       bindS (observe attempt) (\<lambda>second.
       bindS (takeover_safe first second) (\<lambda>safe.
       bindS (journal_append RECONCILIATION_RESULT attempt
           (state_outcome (if safe then rs_state second else UNKNOWN))) (\<lambda>_. give safe)))))))"

end
