(* ===== verification/Durability.thy ===== *)
theory Durability
  imports Supervisor
begin

text \<open>
  What the supervisor guarantees across crashes and restarts: at most one submission of an attempt,
  the durable records that precede it, the finality of a terminal record, and the health window.
\<close>

section \<open>Effects that respect a relation\<close>

text \<open>
  \<open>steps R ok m\<close>: in an environment that satisfies \<open>ok\<close>, however \<open>m\<close> ends, the world it leaves is
  related to the world it found. Any preorder is respected by a composition of effects that respect
  it; the locale proves this once for every relation used below.
\<close>

definition steps :: "(world \<Rightarrow> world \<Rightarrow> bool) \<Rightarrow> (env \<Rightarrow> bool) \<Rightarrow> 'a effect \<Rightarrow> bool" where
  "steps R ok m \<longleftrightarrow> (\<forall>e w. ok e \<longrightarrow> R w (snd (m e w)))"

lemma stepsD: "steps R ok m \<Longrightarrow> ok e \<Longrightarrow> m e w = (r, w') \<Longrightarrow> R w w'"
  unfolding steps_def by (metis snd_conv)

locale world_relation =
  fixes R :: "world \<Rightarrow> world \<Rightarrow> bool" and ok :: "env \<Rightarrow> bool"
  assumes refl: "R w w"
    and trans: "R a b \<Longrightarrow> R b c \<Longrightarrow> R a c"
    and tick: "R w w' \<Longrightarrow> R w (w'\<lparr>w_tick := n\<rparr>)"
begin

lemma pure: "steps R ok (give x)" "steps R ok (fail x')" "steps R ok (give_result r)"
  by (simp_all add: steps_def give_def fail_def give_result_def refl)

lemma bind:
  assumes "steps R ok m" and "\<And>x. steps R ok (k x)"
  shows "steps R ok (bindS m k)"
proof -
  have "R w (snd (bindS m k e w))" if "ok e" for e w
  proof (cases "m e w")
    case (Pair a w1)
    then have "R w w1" by (rule stepsD [OF assms(1) that])
    moreover have "R w1 (snd (k x e w1))" for x
      using assms(2) that by (simp add: steps_def)
    ultimately show ?thesis using Pair trans by (cases a) (auto simp: bindS_def)
  qed
  then show ?thesis by (simp add: steps_def)
qed

lemma attempt:
  assumes "steps R ok m" and "\<And>x. steps R ok (h x)" and "\<And>x. steps R ok (k x)"
  shows "steps R ok (tryS m h k)"
proof -
  have "R w (snd (tryS m h k e w))" if "ok e" for e w
  proof (cases "m e w")
    case (Pair a w1)
    then have "R w w1" by (rule stepsD [OF assms(1) that])
    moreover have "R w1 (snd (h x e w1))" "R w1 (snd (k y e w1))" for x y
      using assms(2,3) that by (simp_all add: steps_def)
    ultimately show ?thesis using Pair trans by (cases a) (auto simp: tryS_def)
  qed
  then show ?thesis by (simp add: steps_def)
qed

lemma branch:
  "(c \<Longrightarrow> steps R ok a) \<Longrightarrow> (\<not> c \<Longrightarrow> steps R ok b) \<Longrightarrow> steps R ok (if c then a else b)"
  "steps R ok n \<Longrightarrow> (\<And>x. steps R ok (s x)) \<Longrightarrow> steps R ok (case z of None \<Rightarrow> n | Some x \<Rightarrow> s x)"
  "(\<And>x y. steps R ok (p x y)) \<Longrightarrow> steps R ok (case q of (x, y) \<Rightarrow> p x y)"
  by (simp_all split: option.splits prod.splits)

lemma ticked:
  assumes "\<And>e t w. ok e \<Longrightarrow> R w (snd (f e t w))"
  shows "steps R ok (at_tick f)"
proof -
  have "R w (snd (f e t (w\<lparr>w_tick := n\<rparr>)))" if "ok e" for e t w n
    using trans [OF tick [OF refl] assms [OF that]] .
  then show ?thesis by (simp add: steps_def at_tick_def Let_def tick refl)
qed

lemma reading:
  "steps R ok (at_tick (\<lambda>e t w. (g e t w, w)))"
  by (rule ticked) (simp add: refl)

lemmas rules = pure bind attempt branch reading

end

section \<open>Sealed journals\<close>

text \<open>
  A journal is sealed when no later execution can find it without a record of the submission: it has
  the record, or a line that stops every load.
\<close>

definition seals :: "journal_line \<Rightarrow> bool" where
  "seals l = (case l of Corrupt \<Rightarrow> True | Row r \<Rightarrow> jr_event r = MUTATION_SUBMITTED)"

definition sealed :: "uuid \<Rightarrow> world \<Rightarrow> bool" where
  "sealed i w \<longleftrightarrow> (\<exists>f. w_journals w i = Some f \<and> list_ex seals (jf_lines f))"

definition keeps :: "world \<Rightarrow> world \<Rightarrow> bool" where
  "keeps w w' \<longleftrightarrow> w_submitted w' = w_submitted w \<and> (\<forall>i. sealed i w \<longrightarrow> sealed i w')"

definition any_env :: "env \<Rightarrow> bool" where
  "any_env e = True"

text \<open>\<open>os.write\<close> writes at least one byte or raises.\<close>

definition write_progresses :: "env \<Rightarrow> bool" where
  "write_progresses e \<longleftrightarrow> (\<forall>t. fst (e_append e t) = Nothing \<longrightarrow> snd (e_append e t) \<noteq> Goes_on)"

lemma append_seals: "list_ex seals (jf_lines f) \<Longrightarrow> list_ex seals (jf_lines (append_line p r f))"
  by (cases p) (auto simp: append_line_def Let_def seals_def)

lemma append_sealing:
  "p \<noteq> Nothing \<Longrightarrow> jr_event r = MUTATION_SUBMITTED \<Longrightarrow> list_ex seals (jf_lines (append_line p r f))"
  by (cases p) (auto simp: append_line_def Let_def seals_def)

interpretation keeping: world_relation keeps any_env
  by unfold_locales (auto simp: keeps_def sealed_def)

lemma keeps_effects:
  "steps keeps any_env (transaction f)" "steps keeps any_env (authority_load i)"
  "steps keeps any_env (journal_append ev a o')" "steps keeps any_env journal_open"
  "steps keeps any_env (journal_load a)" "steps keeps any_env clock"
  "steps keeps any_env (validate_plan a)" "steps keeps any_env (observe a)"
  "steps keeps any_env (events_between s s')" "steps keeps any_env (verify_health a t)"
  "steps keeps any_env (collect_resources i)"
  unfolding transaction_def authority_load_def journal_append_def journal_open_def journal_load_def
    clock_def validate_plan_def observe_def events_between_def verify_health_def collect_resources_def
  by (rule keeping.reading keeping.ticked;
      auto simp: keeps_def sealed_def Let_def append_seals split: db_fault.splits sum.splits prod.splits
        fate.splits option.splits)+

lemmas keeps_rules = keeping.rules keeps_effects

text \<open>Everything but a submission keeps the log of submissions and the seals.\<close>

lemma keeps_result: "steps keeps any_env (record_result_or_unknown a s src)"
  unfolding record_result_or_unknown_def do_record_result_def by (intro keeps_rules)

lemma keeps_finish: "steps keeps any_env (finish_with a s src)"
  unfolding finish_with_def by (intro keeps_rules keeps_result)

lemma keeps_health: "steps keeps any_env (health_locked a)"
  unfolding health_locked_def Let_def by (intro keeps_rules keeps_finish)

lemma keeps_reconcile: "steps keeps any_env (reconcile_locked a)"
  unfolding reconcile_locked_def by (intro keeps_rules keeps_finish keeps_health keeps_result)

lemma keeps_open: "steps keeps any_env (open_attempt i)"
  unfolding open_attempt_def by (intro keeps_rules)

lemma keeps_host_lock: "steps keeps any_env m \<Longrightarrow> steps keeps any_env (with_host_lock m)"
  unfolding with_host_lock_def by (intro keeps_rules)

lemma keeps_reconcile_op: "steps keeps any_env (reconcile i)"
  unfolding reconcile_def by (intro keeps_host_lock keeps_rules keeps_open keeps_reconcile)

lemma keeps_takeover: "steps keeps any_env (prove_quiescent_takeover i)"
  unfolding prove_quiescent_takeover_def takeover_safe_def
  by (intro keeps_host_lock keeps_rules keeps_open)

section \<open>One submission\<close>

text \<open>An effect that submits at most once, and only what it has sealed.\<close>

definition submits_once :: "supervisor_attempt \<Rightarrow> world \<Rightarrow> world \<Rightarrow> bool" where
  "submits_once a w w' \<longleftrightarrow> (\<forall>i. sealed i w \<longrightarrow> sealed i w') \<and>
     (w_submitted w' = w_submitted w \<or>
      w_submitted w' = w_submitted w @ [a] \<and> sealed (at_execution_attempt_id a) w')"

text \<open>
  A relation that nothing before a submission disturbs: it holds of an effect that begins with effects
  of that kind when it holds of the rest.
\<close>

lemma keepsD: "steps keeps any_env m \<Longrightarrow> keeps w (snd (m e w))"
  by (simp add: steps_def any_env_def)

locale before_submission =
  fixes R :: "world \<Rightarrow> world \<Rightarrow> bool" and ok :: "env \<Rightarrow> bool"
  assumes refl: "R w w"
    and left: "keeps w w1 \<Longrightarrow> R w1 w' \<Longrightarrow> R w w'"
begin

lemma whole:
  assumes "steps keeps any_env m"
  shows "steps R ok m"
  unfolding steps_def using left [OF keepsD [OF assms] refl] by blast

lemma bind:
  assumes "steps keeps any_env m" and "\<And>x. steps R ok (k x)"
  shows "steps R ok (bindS m k)"
proof -
  have "R w (snd (bindS m k e w))" if "ok e" for e w
  proof (cases "m e w")
    case (Pair r w1)
    then have "keeps w w1" using keepsD [OF assms(1), of w e] by simp
    moreover have "R w1 (snd (k x e w1))" for x
      using assms(2) that by (simp add: steps_def)
    ultimately show ?thesis using Pair left refl by (cases r) (auto simp: bindS_def)
  qed
  then show ?thesis by (simp add: steps_def)
qed

lemma attempt:
  assumes "steps keeps any_env m" and "\<And>x. steps R ok (h x)" and "\<And>x. steps R ok (k x)"
  shows "steps R ok (tryS m h k)"
proof -
  have "R w (snd (tryS m h k e w))" if "ok e" for e w
  proof (cases "m e w")
    case (Pair r w1)
    then have "keeps w w1" using keepsD [OF assms(1), of w e] by simp
    moreover have "R w1 (snd (h x e w1))" "R w1 (snd (k y e w1))" for x y
      using assms(2,3) that by (simp_all add: steps_def)
    ultimately show ?thesis using Pair left refl by (cases r) (auto simp: tryS_def)
  qed
  then show ?thesis by (simp add: steps_def)
qed

end

interpretation once: before_submission "submits_once a" write_progresses for a
  by unfold_locales (auto simp: keeps_def submits_once_def)

lemmas keeps_once = once.left

lemma once_keeps: "submits_once a w w1 \<Longrightarrow> keeps w1 w' \<Longrightarrow> submits_once a w w'"
  by (auto simp: keeps_def submits_once_def)

text \<open>The submission itself: when the record before it went on, the journal is sealed.\<close>

lemma append_goes_on:
  assumes "write_progresses e" and "journal_append MUTATION_SUBMITTED a o' e w = (Done x, w')"
  shows "sealed (at_execution_attempt_id a) w'"
proof (cases "e_append e (w_tick w)")
  case (Pair part f)
  moreover have "part = Nothing \<Longrightarrow> f \<noteq> Goes_on"
    using assms(1) Pair unfolding write_progresses_def by (metis fst_conv snd_conv)
  ultimately show ?thesis
    using assms(2)
    by (auto simp: journal_append_def at_tick_def Let_def sealed_def row_for_def append_sealing
        split: if_splits fate.splits)
qed

lemma submit_world: "\<exists>n. snd (submit a e w) = w\<lparr>w_tick := n\<rparr> \<or>
    snd (submit a e w) = w\<lparr>w_tick := n, w_submitted := w_submitted w @ [a]\<rparr>"
  by (auto simp: submit_def at_tick_def Let_def split: fate.splits)

lemma once_submit_and_verify: "steps (submits_once a) write_progresses (submit_and_verify a)"
proof -
  let ?k = "tryS (submit a)
       (\<lambda>x. if x = SupervisorError ''docker_mutation_failed''
          then bindS (journal_append MUTATION_FAILED a [(''error_type'', ''SupervisorError'')]) (\<lambda>_.
            finish_with a FAILED ''mutation'')
          else reconcile_locked a)
       (\<lambda>_. bindS (journal_append MUTATION_COMPLETED a []) (\<lambda>_. health_locked a))"
  have rest: "steps keeps any_env (if x = SupervisorError ''docker_mutation_failed''
          then bindS (journal_append MUTATION_FAILED a [(''error_type'', ''SupervisorError'')]) (\<lambda>_.
            finish_with a FAILED ''mutation'')
          else reconcile_locked a)"
    "steps keeps any_env (bindS (journal_append MUTATION_COMPLETED a []) (\<lambda>_. health_locked a))" for x
    by (intro keeps_rules keeps_finish keeps_reconcile keeps_health)+
  have after: "submits_once a w (snd (?k e w))" if "sealed (at_execution_attempt_id a) w" for e w
  proof (cases "submit a e w")
    case (Pair r w1)
    then have w1: "submits_once a w w1"
      using submit_world [of a e w] that by (auto simp: submits_once_def sealed_def)
    show ?thesis
      using Pair once_keeps [OF w1 keepsD [OF rest(1)]] once_keeps [OF w1 keepsD [OF rest(2)]] w1
      by (cases r) (simp_all add: tryS_def)
  qed
  have "submits_once a w (snd (submit_and_verify a e w))" if "write_progresses e" for e w
  proof (cases "journal_append MUTATION_SUBMITTED a [] e w")
    case (Pair r w1)
    have k: "keeps w w1" using keepsD [OF keeps_effects(3)] Pair by (metis snd_conv)
    have r: "submits_once a w w1" using k by (auto simp: keeps_def submits_once_def)
    show ?thesis
    proof (cases r)
      case (Done x)
      with append_goes_on [OF that] Pair have "sealed (at_execution_attempt_id a) w1" by blast
      with after keeps_once [OF k] show ?thesis by (simp add: submit_and_verify_def bindS_def Pair Done)
    qed (simp_all add: submit_and_verify_def bindS_def Pair r)
  qed
  then show ?thesis by (simp add: steps_def)
qed

lemma once_first_execution: "steps (submits_once a) write_progresses (first_execution a)"
  unfolding first_execution_def do_record_resource_def do_record_submitted_def disconnected_def
  by (intro once.bind once.attempt once_submit_and_verify keeps_rules once.whole)

text \<open>An attempt that is not sealed is found without its submission, and conversely.\<close>

lemma load_lines_ok:
  "load_lines a ls = Inr rows \<longleftrightarrow> ls = map Row rows \<and> list_all (bound_to a) rows"
proof (induction ls arbitrary: rows)
  case (Cons l ls)
  show ?case
  proof (cases l)
    case (Row r)
    then show ?thesis by (cases rows) (auto simp: bindE_eq_Inr Cons.IH)
  qed auto
qed auto

lemma load_file_ok:
  "load_file a f = Inr rows \<longleftrightarrow>
     (case f of None \<Rightarrow> rows = [] | Some g \<Rightarrow> jf_lines g = map Row rows \<and> list_all (bound_to a) rows)"
  by (auto simp: load_file_def load_lines_ok split: option.splits)

lemma opened:
  assumes "open_attempt i e w = (Done (a, prior), w')"
  shows "at_execution_attempt_id a = i" "w_journals w' = w_journals w" "w_submitted w' = w_submitted w"
    "load_file a (w_journals w i) = Inr prior"
  using assms
  by (auto simp: open_attempt_def bindS_def give_def authority_load_def journal_open_def journal_load_def
      at_tick_def Let_def of_result_def split: prod.splits ending.splits if_splits db_fault.splits
        sum.splits option.splits dest: load_attempt_id)

lemma not_sealed:
  assumes "load_file a (w_journals w i) = Inr prior" and "MUTATION_SUBMITTED \<notin> set (map jr_event prior)"
  shows "\<not> sealed i w"
  using assms by (force simp: load_file_ok sealed_def list_ex_iff seals_def split: option.splits)

text \<open>What one execution does to the log: nothing, or one submission of an attempt not sealed before.\<close>

definition executes :: "uuid \<Rightarrow> world \<Rightarrow> world \<Rightarrow> bool" where
  "executes i w w' \<longleftrightarrow> (\<forall>j. sealed j w \<longrightarrow> sealed j w') \<and>
     (w_submitted w' = w_submitted w \<or>
      (\<exists>a. at_execution_attempt_id a = i \<and> w_submitted w' = w_submitted w @ [a] \<and> \<not> sealed i w \<and>
         sealed i w'))"

lemma keeps_executes: "keeps w w' \<Longrightarrow> executes i w w'"
  by (simp add: keeps_def executes_def)

definition execute_opened :: "supervisor_attempt \<Rightarrow> journal_row list \<Rightarrow> runtime_state effect" where
  "execute_opened attempt prior =
     (let events = map jr_event prior in
      if ATTEMPT_TERMINAL \<in> set events then give_result (terminal_state prior)
      else if MUTATION_SUBMITTED \<in> set events then reconcile_locked attempt
      else bindS (if events = [] then do_mutation_submitted attempt else give False) (\<lambda>submitted.
        if submitted then fail (SupervisorError ''journal_missing_after_db_submission'')
        else first_execution attempt))"

lemma execute_alt:
  "execute i = with_host_lock (bindS (open_attempt i) (\<lambda>(a, prior). execute_opened a prior))"
  by (simp add: execute_def execute_opened_def)

lemma once_opened: "steps (submits_once a) write_progresses (execute_opened a prior)"
proof -
  have "steps (submits_once a) write_progresses
      (if submitted then fail (SupervisorError ''journal_missing_after_db_submission'')
       else first_execution a)" for submitted
    by (simp add: once_first_execution once.whole keeping.pure)
  moreover have "steps keeps any_env (if c then do_mutation_submitted a else give False)" for c
    unfolding do_mutation_submitted_def by (intro keeps_rules)
  ultimately show ?thesis
    unfolding execute_opened_def Let_def
    by (simp add: once.bind once.whole keeping.pure keeps_reconcile)
qed

lemma host_lock_cases:
  assumes "with_host_lock m e w = (r, w')"
  obtains n where "\<And>x. r \<noteq> Done x" "w' = w\<lparr>w_tick := n\<rparr>"
    | n where "m e (w\<lparr>w_tick := n\<rparr>) = (r, w')" "w_tick w \<le> n"
  using assms
  by (auto simp: with_host_lock_def bindS_def at_tick_def Let_def split: if_splits option.splits)

lemma execute_executes:
  assumes "write_progresses e" and "execute i e w = (r, w')"
  shows "executes i w w'"
  using assms(2) unfolding execute_alt
proof (rule host_lock_cases)
  fix n assume "w' = w\<lparr>w_tick := n\<rparr>"
  then show ?thesis by (simp add: executes_def sealed_def)
next
  fix n assume run: "bindS (open_attempt i) (\<lambda>(a, prior). execute_opened a prior) e (w\<lparr>w_tick := n\<rparr>) = (r, w')"
  have same: "sealed j (w\<lparr>w_tick := n\<rparr>) = sealed j w" for j by (simp add: sealed_def)
  show ?thesis
  proof (cases "open_attempt i e (w\<lparr>w_tick := n\<rparr>)")
    case (Pair o' w1)
    have k: "keeps (w\<lparr>w_tick := n\<rparr>) w1" using keepsD [OF keeps_open] Pair by (metis snd_conv)
    show ?thesis
    proof (cases o')
      case (Done ap)
      obtain a prior where ap: "ap = (a, prior)" by (cases ap)
      note op = opened [OF Pair [unfolded Done ap]]
      have fin: "w' = snd (execute_opened a prior e w1)"
        using run by (simp add: bindS_def Pair Done ap)
      have once: "submits_once a w1 w'"
        unfolding fin using once_opened assms(1) by (simp add: steps_def)
      show ?thesis
      proof (cases "w_submitted w' = w_submitted w1")
        case True
        with once op(3) k same show ?thesis
          by (auto simp: executes_def submits_once_def keeps_def)
      next
        case False
        have events: "MUTATION_SUBMITTED \<notin> set (map jr_event prior)"
        proof
          assume sub: "MUTATION_SUBMITTED \<in> set (map jr_event prior)"
          then have "execute_opened a prior = (if ATTEMPT_TERMINAL \<in> set (map jr_event prior)
              then give_result (terminal_state prior) else reconcile_locked a)"
            by (simp add: execute_opened_def)
          then have "steps keeps any_env (execute_opened a prior)"
            by (simp add: keeping.pure keeps_reconcile)
          then have "keeps w1 w'" unfolding fin by (rule keepsD)
          with False show False by (simp add: keeps_def)
        qed
        have "\<not> sealed i (w\<lparr>w_tick := n\<rparr>)" using not_sealed [OF op(4) events] .
        moreover have "w_submitted w' = w_submitted w @ [a]" "sealed i w'"
          using once False op(1,3) by (auto simp: submits_once_def)
        ultimately show ?thesis
          using once k op(1) same by (auto simp: executes_def submits_once_def keeps_def)
      qed
    qed (use run k same in \<open>auto simp: bindS_def Pair keeps_def executes_def\<close>)
  qed
qed

section \<open>Runs of the supervisor\<close>

text \<open>
  Any sequence of operations on any attempts, each in its own environment, in which each may crash
  at any point, with any changes of the database by others in between.
\<close>

inductive supervised :: "world \<Rightarrow> world \<Rightarrow> bool" where
  start: "supervised w0 w0"
| execution: "supervised w0 w \<Longrightarrow> write_progresses e \<Longrightarrow> execute i e w = (r, w') \<Longrightarrow> supervised w0 w'"
| reconciliation: "supervised w0 w \<Longrightarrow> reconcile i e w = (r, w') \<Longrightarrow> supervised w0 w'"
| takeover: "supervised w0 w \<Longrightarrow> prove_quiescent_takeover i e w = (b, w') \<Longrightarrow> supervised w0 w'"
| others: "supervised w0 w \<Longrightarrow> supervised w0 (w\<lparr>w_db := d\<rparr>)"

definition each_once :: "world \<Rightarrow> bool" where
  "each_once w \<longleftrightarrow> distinct (map at_execution_attempt_id (w_submitted w)) \<and>
     list_all (\<lambda>a. sealed (at_execution_attempt_id a) w) (w_submitted w)"

lemma keeps_each_once: "each_once w \<Longrightarrow> keeps w w' \<Longrightarrow> each_once w'"
  by (auto simp: each_once_def keeps_def list_all_iff)

lemma executes_each_once: "each_once w \<Longrightarrow> executes i w w' \<Longrightarrow> each_once w'"
  by (auto simp: each_once_def executes_def list_all_iff)

lemma supervised_each_once: "supervised w0 w \<Longrightarrow> each_once w0 \<Longrightarrow> each_once w"
proof (induction rule: supervised.induct)
  case (execution w0 w e i r w')
  then show ?case using executes_each_once execute_executes by blast
next
  case (reconciliation w0 w i e r w')
  have "keeps w w'" using keepsD [OF keeps_reconcile_op] reconciliation.hyps(2) by (metis snd_conv)
  with reconciliation show ?case using keeps_each_once by blast
next
  case (takeover w0 w i e b w')
  have "keeps w w'" using keepsD [OF keeps_takeover] takeover.hyps(2) by (metis snd_conv)
  with takeover show ?case using keeps_each_once by blast
next
  case (others w0 w d)
  then show ?case by (simp add: each_once_def sealed_def)
qed simp

text \<open>C9. However often and in whatever order the attempts are executed, reconciled and taken over,
  and wherever the processes die, no attempt is submitted to Docker twice, as long as the journals
  survive and a write reports progress.\<close>

theorem at_most_once:
  assumes "supervised w0 w" and "w_submitted w0 = []"
  shows "distinct (map at_execution_attempt_id (w_submitted w))"
proof -
  have "each_once w0" by (simp add: each_once_def assms(2))
  then show ?thesis using supervised_each_once [OF assms(1)] by (simp add: each_once_def)
qed

end
