(* ===== verification/Recovery.thy ===== *)
theory Recovery
  imports Durability
begin

text \<open>
  How the supervisor recovers: what a session of it leaves behind, the finality of a terminal record,
  the marker in the database that survives the loss of a journal, and the health window.
\<close>

section \<open>Sessions\<close>

text \<open>A session holds the host lock, loads the attempt and reads its journal; only then does it act.\<close>

definition in_session ::
  "uuid \<Rightarrow> (supervisor_attempt \<Rightarrow> journal_row list \<Rightarrow> 'a effect) \<Rightarrow> 'a effect" where
  "in_session i k = with_host_lock (bindS (open_attempt i) (\<lambda>(a, prior). k a prior))"

lemma execute_session: "execute i = in_session i execute_opened"
  by (simp add: in_session_def execute_alt)

lemma reconcile_session: "reconcile i = in_session i (\<lambda>a _. reconcile_locked a)"
  by (simp add: in_session_def reconcile_def)

text \<open>Which evidence stays: that of any row, and the attempts with a given identifier.\<close>

definition evidence_kept :: "uuid \<Rightarrow> db \<Rightarrow> db \<Rightarrow> bool" where
  "evidence_kept i d d' \<longleftrightarrow> set (t_evidence d) \<subseteq> set (t_evidence d') \<and>
     filter (\<lambda>x. ea_id x = i) (t_attempts d') = filter (\<lambda>x. ea_id x = i) (t_attempts d)"

definition others_append :: "uuid \<Rightarrow> env \<Rightarrow> bool" where
  "others_append i e \<longleftrightarrow> (\<forall>t d. evidence_kept i d (e_others e t d))"

definition grows :: "uuid \<Rightarrow> world \<Rightarrow> world \<Rightarrow> bool" where
  "grows i w w' \<longleftrightarrow> evidence_kept i (w_db w) (w_db w')"

lemma evidence_kept_refl [simp]: "evidence_kept i d d"
  by (simp add: evidence_kept_def)

lemma evidence_kept_trans: "evidence_kept i a b \<Longrightarrow> evidence_kept i b c \<Longrightarrow> evidence_kept i a c"
  by (auto simp: evidence_kept_def)

interpretation growing: world_relation "grows i" "others_append i" for i
  by unfold_locales (auto simp: grows_def intro: evidence_kept_trans)

lemma evidence_inserted: "insert_evidence x d = Inr d' \<Longrightarrow> evidence_kept i d d'"
  by (auto dest!: inserted(15) simp: evidence_kept_def)

lemma records_keep:
  "record_resource r n now d = Inr (u, d') \<Longrightarrow> evidence_kept i d d'"
  "record_mutation_submitted a n now d = Inr (u, d') \<Longrightarrow> evidence_kept i d d'"
  "mutation_submitted a d = Inr (b, d') \<Longrightarrow> evidence_kept i d d'"
  "record_runtime_result a s src n now d = Inr (u, d') \<Longrightarrow> evidence_kept i d d'"
  by (auto simp: record_resource_def record_mutation_submitted_def mutation_submitted_def
      record_runtime_result_def branch_simps intro: evidence_inserted)

lemma grows_transaction:
  assumes "\<And>e t d y d'. f e t d = Inr (y, d') \<Longrightarrow> evidence_kept i d d'"
  shows "steps (grows i) (others_append i) (transaction f)"
  unfolding transaction_def
  by (rule growing.ticked)
    (auto simp: grows_def others_append_def Let_def split: db_fault.splits sum.splits;
      blast intro: assms evidence_kept_trans)

lemma grows_effects:
  "steps (grows i) (others_append i) (authority_load j)"
  "steps (grows i) (others_append i) (journal_append ev a o')"
  "steps (grows i) (others_append i) journal_open" "steps (grows i) (others_append i) (journal_load a)"
  "steps (grows i) (others_append i) clock" "steps (grows i) (others_append i) (validate_plan a)"
  "steps (grows i) (others_append i) (observe a)"
  "steps (grows i) (others_append i) (events_between s s')"
  "steps (grows i) (others_append i) (verify_health a t)"
  "steps (grows i) (others_append i) (collect_resources j)"
  "steps (grows i) (others_append i) (submit a)"
  unfolding authority_load_def journal_append_def journal_open_def journal_load_def submit_def
    clock_def validate_plan_def observe_def events_between_def verify_health_def collect_resources_def
  by (rule growing.reading growing.ticked;
      auto simp: grows_def others_append_def Let_def split: db_fault.splits prod.splits fate.splits)+

lemma grows_records:
  "steps (grows i) (others_append i) (do_record_resource r)"
  "steps (grows i) (others_append i) (do_record_submitted a)"
  "steps (grows i) (others_append i) (do_mutation_submitted a)"
  "steps (grows i) (others_append i) (do_record_result a s src)"
  unfolding do_record_resource_def do_record_submitted_def do_mutation_submitted_def do_record_result_def
  by (rule grows_transaction, erule records_keep)+

lemmas grows_rules = growing.rules grows_effects grows_records

lemma grows_submit_and_verify: "steps (grows i) (others_append i) (submit_and_verify a)"
  unfolding submit_and_verify_def reconcile_locked_def health_locked_def finish_with_def
    record_result_or_unknown_def Let_def
  by (intro grows_rules)

lemma grows_open: "steps (grows i) (others_append i) (open_attempt j)"
  unfolding open_attempt_def by (intro grows_rules)

text \<open>Opening an attempt changes nothing but what others did to the database.\<close>

lemma open_world:
  assumes "open_attempt i e w = (r, w')"
  shows "w_journals w' = w_journals w" "w_submitted w' = w_submitted w"
  using assms
  by (auto simp: open_attempt_def bindS_def give_def authority_load_def journal_open_def journal_load_def
      at_tick_def Let_def split: prod.splits ending.splits if_splits db_fault.splits)

text \<open>The attempt that is loaded is the only recorded one with its identifier.\<close>

definition is_attempt :: "uuid \<Rightarrow> db \<Rightarrow> supervisor_attempt \<Rightarrow> bool" where
  "is_attempt i d a \<longleftrightarrow> at_execution_attempt_id a = i \<and>
     (\<exists>x. filter (\<lambda>x. ea_id x = i) (t_attempts d) = [x] \<and> ea_deployment_id x = at_deployment_id a)"

lemma is_attempt_kept: "evidence_kept i d d' \<Longrightarrow> is_attempt i d' a = is_attempt i d a"
  by (simp add: is_attempt_def evidence_kept_def)

lemma load_is_attempt:
  assumes "load_attempt i v c d = Inr a"
  shows "is_attempt i d a"
proof -
  from assms obtain r where r: "load_authority_rows i d = Inr r" "a = attempt_of r" by (rule load_ok)
  have "filter (\<lambda>x. ea_id x = i) (t_attempts d) = [au_execution r]"
    using r(1) by (auto simp: load_authority_rows_def Let_def branch_simps scalar_one_or_none_Some)
  with r load_rows_in [OF r(1)] load_attempt_id [OF assms] show ?thesis
    by (simp add: is_attempt_def attempt_of_def)
qed

text \<open>The attempt that the authority loaded, at a tick from \<open>w\<close> on, from what was committed by then.\<close>

definition loaded :: "uuid \<Rightarrow> env \<Rightarrow> world \<Rightarrow> supervisor_attempt \<Rightarrow> bool" where
  "loaded i e w a \<longleftrightarrow> (\<exists>t \<ge> w_tick w.
     load_attempt i (e_ci e t) (\<lambda>k. e_now e (t + k)) (e_others e t (w_db w)) = Inr a)"

lemma open_loads:
  assumes "open_attempt i e w = (Done (a, prior), w')"
  shows "load_attempt i (e_ci e (w_tick w)) (\<lambda>k. e_now e (w_tick w + k)) (e_others e (w_tick w) (w_db w)) = Inr a"
    "w_tick w \<le> w_tick w'" "others_append i e \<Longrightarrow> is_attempt i (w_db w) a"
proof -
  show load: "load_attempt i (e_ci e (w_tick w)) (\<lambda>k. e_now e (w_tick w + k)) (e_others e (w_tick w) (w_db w)) = Inr a"
    and "w_tick w \<le> w_tick w'"
    using assms
    by (auto simp: open_attempt_def bindS_def give_def authority_load_def journal_open_def
        journal_load_def at_tick_def Let_def of_result_def split: prod.splits ending.splits if_splits
          db_fault.splits sum.splits option.splits)
  from load_is_attempt [OF load] show "others_append i e \<Longrightarrow> is_attempt i (w_db w) a"
    using is_attempt_kept unfolding others_append_def by blast
qed

lemma session_cases:
  assumes "in_session i k e w = (r, w')"
  obtains (outside) "\<And>x. r \<noteq> Done x" "w_journals w' = w_journals w" "w_submitted w' = w_submitted w"
      "others_append i e \<longrightarrow> grows i w w'"
  | (inside) a prior w1 where "at_execution_attempt_id a = i" "load_file a (w_journals w i) = Inr prior"
      "w_journals w1 = w_journals w" "w_submitted w1 = w_submitted w"
      "others_append i e \<longrightarrow> grows i w w1 \<and> is_attempt i (w_db w) a" "k a prior e w1 = (r, w')"
      "loaded i e w a" "w_tick w \<le> w_tick w1"
  using assms unfolding in_session_def
proof (rule host_lock_cases)
  fix n assume "\<And>x. r \<noteq> Done x" "w' = w\<lparr>w_tick := n\<rparr>"
  then show ?thesis by (intro outside) (simp_all add: grows_def)
next
  fix n assume run: "bindS (open_attempt i) (\<lambda>(a, prior). k a prior) e (w\<lparr>w_tick := n\<rparr>) = (r, w')"
    and n: "w_tick w \<le> n"
  obtain o' w1 where op: "open_attempt i e (w\<lparr>w_tick := n\<rparr>) = (o', w1)" by fastforce
  have grow: "others_append i e \<longrightarrow> grows i w w1"
    using stepsD [OF grows_open _ op] by (simp add: grows_def)
  show ?thesis
  proof (cases o')
    case (Done ap)
    obtain a prior where ap: "ap = (a, prior)" by (cases ap)
    note op' = op [unfolded Done ap]
    have "loaded i e w a" using open_loads(1) [OF op'] n by (auto simp: loaded_def)
    then show ?thesis
      using opened [OF op'] open_loads [OF op'] grow run n
      by (intro inside [of a prior w1]) (simp_all add: bindS_def op')
  qed (use run open_world [OF op] grow outside in \<open>auto simp: bindS_def op\<close>)
qed

section \<open>Finality\<close>

definition row_event :: "journal_line \<Rightarrow> journal_event option" where
  "row_event l = (case l of Corrupt \<Rightarrow> None | Row r \<Rightarrow> Some (jr_event r))"


section \<open>The marker in the database\<close>

text \<open>Every attempt with the identifier has its marker.\<close>

definition marked :: "uuid \<Rightarrow> db \<Rightarrow> bool" where
  "marked i d \<longleftrightarrow> list_all (\<lambda>x. ea_id x = i \<longrightarrow>
     list_ex (\<lambda>ev. ev_deployment_id ev = ea_deployment_id x \<and> ev_evidence_type ev = ''mutation_submitted'' \<and>
       ev_evidence_key ev = uuid_str i) (t_evidence d)) (t_attempts d)"

lemma evidence_kept_attempts:
  "evidence_kept i d d' \<Longrightarrow> x \<in> set (t_attempts d') \<and> ea_id x = i \<longleftrightarrow> x \<in> set (t_attempts d) \<and> ea_id x = i"
  unfolding evidence_kept_def by (metis (mono_tags) mem_Collect_eq set_filter)

lemma marked_kept: "marked i d \<Longrightarrow> evidence_kept i d d' \<Longrightarrow> marked i d'"
  unfolding marked_def list_all_iff list_ex_iff
  using evidence_kept_attempts [of i d d'] by (fastforce simp: evidence_kept_def)

lemma marked_marker:
  assumes "is_attempt i d a"
  shows "marked i d \<longleftrightarrow> list_ex (is_marker a) (t_evidence d)"
proof -
  obtain x where x: "filter (\<lambda>x. ea_id x = i) (t_attempts d) = [x]" "ea_deployment_id x = at_deployment_id a"
    "at_execution_attempt_id a = i" using assms unfolding is_attempt_def by blast
  have "{y \<in> set (t_attempts d). ea_id y = i} = {x}"
    using arg_cong [OF x(1), of set] by (simp only: set_filter list.set)
  then have "(y \<in> set (t_attempts d) \<and> ea_id y = i) = (y = x)" for y by blast
  then show ?thesis
    using x(2,3) unfolding marked_def list_all_iff list_ex_iff is_marker_def by metis
qed

text \<open>An effect that submits only what has its marker when it ends.\<close>

definition marks_first :: "supervisor_attempt \<Rightarrow> world \<Rightarrow> world \<Rightarrow> bool" where
  "marks_first a w w' \<longleftrightarrow> w_submitted w' = w_submitted w \<or> list_ex (is_marker a) (t_evidence (w_db w'))"

interpretation marking: before_submission "marks_first a" "others_append i" for a i
  by unfold_locales (auto simp: keeps_def marks_first_def)

lemma marks_submit:
  "steps (marks_first a) (others_append i)
     (tryS (do_record_submitted a) (\<lambda>_. disconnected a) (\<lambda>_. submit_and_verify a))"
proof -
  have "marks_first a w (snd (tryS (do_record_submitted a) (\<lambda>_. disconnected a) (\<lambda>_. submit_and_verify a) e w))"
    if ok: "others_append i e" for e w
  proof (cases "do_record_submitted a e w")
    case (Pair r w1)
    have k: "keeps w w1"
      using keepsD [OF keeps_effects(1)] Pair unfolding do_record_submitted_def by (metis snd_conv)
    show ?thesis
    proof (cases r)
      case (Done u)
      have "list_ex (is_marker a) (t_evidence (w_db w1))"
        using Pair Done
        by (auto simp: do_record_submitted_def transaction_def at_tick_def Let_def list_ex_iff
            split: if_splits db_fault.splits sum.splits prod.splits dest!: marker_recorded)
      moreover have "grows i w1 (snd (submit_and_verify a e w1))"
        using grows_submit_and_verify ok by (simp add: steps_def)
      ultimately show ?thesis
        by (auto simp: tryS_def Pair Done marks_first_def grows_def evidence_kept_def list_ex_iff)
    next
      case (Raised x)
      have "keeps w1 (snd (disconnected a e w1))"
        unfolding disconnected_def by (intro keepsD keeps_rules)
      with k show ?thesis by (simp add: tryS_def Pair Raised marks_first_def keeps_def)
    qed (use k in \<open>simp add: tryS_def Pair marks_first_def keeps_def\<close>)
  qed
  then show ?thesis by (simp add: steps_def)
qed

lemma marks_first_execution: "steps (marks_first a) (others_append i) (first_execution a)"
  unfolding first_execution_def do_record_resource_def disconnected_def
  by (intro marking.bind marking.attempt keeps_rules marking.whole marks_submit [unfolded disconnected_def])

lemma grows_first_execution: "steps (grows i) (others_append i) (first_execution a)"
  unfolding first_execution_def disconnected_def
  by (intro grows_rules grows_submit_and_verify)

lemma grows_opened: "steps (grows i) (others_append i) (execute_opened a prior)"
  unfolding execute_opened_def reconcile_locked_def health_locked_def finish_with_def
    record_result_or_unknown_def Let_def
  by (intro grows_rules grows_first_execution)

lemma marks_opened: "steps (marks_first a) (others_append i) (execute_opened a prior)"
proof -
  have "steps (marks_first a) (others_append i)
      (if submitted then fail (SupervisorError ''journal_missing_after_db_submission'')
       else first_execution a)" for submitted
    by (simp add: marks_first_execution marking.whole keeping.pure)
  moreover have "steps keeps any_env (if c then do_mutation_submitted a else give False)" for c
    unfolding do_mutation_submitted_def by (intro keeps_rules)
  ultimately show ?thesis
    unfolding execute_opened_def Let_def
    by (simp add: marking.bind marking.whole keeping.pure keeps_reconcile)
qed

lemma execute_marks:
  assumes "others_append i e" and "execute i e w = (r, w')" and "w_submitted w' \<noteq> w_submitted w"
  shows "marked i (w_db w')"
  using assms(2) unfolding execute_session
proof (cases rule: session_cases)
  case (inside a prior w1)
  have kept: "evidence_kept i (w_db w1) (w_db w')"
    using stepsD [OF grows_opened assms(1) inside(6)] by (simp add: grows_def)
  have "marks_first a w1 w'" by (rule stepsD [OF marks_opened assms(1) inside(6)])
  then have "list_ex (is_marker a) (t_evidence (w_db w'))"
    using assms(3) inside(4) by (simp add: marks_first_def)
  moreover have "is_attempt i (w_db w') a"
    using inside(5) assms(1) kept is_attempt_kept unfolding grows_def by blast
  ultimately show ?thesis by (simp add: marked_marker)
qed (use assms(3) in simp)

lemma grows_execute: "steps (grows j) (others_append j) (execute i)"
  unfolding execute_alt with_host_lock_def by (intro grows_rules grows_open grows_opened)

text \<open>An attempt with a marker and without a journal is not executed.\<close>

lemma submitted_answer:
  assumes "do_mutation_submitted a e w = (Done b, w')" and "others_append i e"
    and "list_ex (is_marker a) (t_evidence (w_db w))"
  shows b
proof -
  have "\<exists>r \<in> set (t_evidence (e_others e t (w_db w))). is_marker a r" for t
    using assms(2,3) by (auto simp: others_append_def evidence_kept_def list_ex_iff)
  moreover have "b \<or> (\<forall>r \<in> set (t_evidence (e_others e (w_tick w) (w_db w))). \<not> is_marker a r)"
    using assms(1) by (auto simp: do_mutation_submitted_def transaction_def at_tick_def Let_def mutation_submitted_def
        branch_simps scalar_one_or_none_None
        split: if_splits db_fault.splits sum.splits prod.splits)
  ultimately show ?thesis by blast
qed

lemma transaction_world:
  assumes "transaction f e w = (r, w')"
  shows "w_journals w' = w_journals w" "w_submitted w' = w_submitted w"
  using assms by (auto simp: transaction_def at_tick_def Let_def
      split: if_splits db_fault.splits sum.splits prod.splits)

text \<open>C34. When the journal of a submitted attempt is lost, its marker in the database stops every
  execution: nothing is submitted, no new journal is begun and no state is reported.\<close>

theorem lost_journal_stops:
  assumes "others_append i e" and "execute i e w = (r, w')" and "w_journals w i = None"
    and "marked i (w_db w)"
  shows "w_submitted w' = w_submitted w \<and> w_journals w' = w_journals w \<and> (\<forall>s. r \<noteq> Done s)"
  using assms(2) unfolding execute_session
proof (cases rule: session_cases)
  case (inside a prior w1)
  have kept: "evidence_kept i (w_db w) (w_db w1)" and att: "is_attempt i (w_db w) a"
    using inside(5) assms(1) by (simp_all add: grows_def)
  have marker: "list_ex (is_marker a) (t_evidence (w_db w1))"
    using marked_kept [OF assms(4) kept] att kept is_attempt_kept marked_marker by blast
  have "prior = []" using inside(2) by (simp add: load_file_ok assms(3))
  with inside(6) have run: "bindS (do_mutation_submitted a) (\<lambda>submitted.
      if submitted then fail (SupervisorError ''journal_missing_after_db_submission'')
      else first_execution a) e w1 = (r, w')" by (simp add: execute_opened_def)
  obtain o' w2 where step: "do_mutation_submitted a e w1 = (o', w2)" by fastforce
  note same = transaction_world [OF step [unfolded do_mutation_submitted_def]]
  show ?thesis
  proof (cases o')
    case (Done b)
    then have b using submitted_answer step assms(1) marker by blast
    with run show ?thesis using same inside(3,4) by (auto simp: bindS_def step Done fail_def)
  qed (use run same inside(3,4) in \<open>auto simp: bindS_def step\<close>)
qed auto

text \<open>The journals of other attempts are not touched.\<close>

definition touches :: "uuid \<Rightarrow> world \<Rightarrow> world \<Rightarrow> bool" where
  "touches i w w' \<longleftrightarrow> (\<forall>j. j \<noteq> i \<longrightarrow> w_journals w' j = w_journals w j)"

interpretation touching: world_relation "touches i" any_env for i
  by unfold_locales (simp_all add: touches_def)

lemma touches_append:
  "at_execution_attempt_id a = i \<Longrightarrow> steps (touches i) any_env (journal_append ev a o')"
  unfolding journal_append_def
  by (rule touching.ticked) (auto simp: touches_def Let_def split: prod.splits fate.splits)

lemma touches_effects:
  "steps (touches i) any_env (transaction f)"
    "steps (touches i) any_env (journal_load a)" "steps (touches i) any_env clock"
    "steps (touches i) any_env (validate_plan a)" "steps (touches i) any_env (observe a)"
    "steps (touches i) any_env (verify_health a t)" "steps (touches i) any_env (collect_resources dep)"
    "steps (touches i) any_env (submit a)"
  unfolding transaction_def journal_load_def submit_def
    clock_def validate_plan_def observe_def verify_health_def collect_resources_def
  by (rule touching.reading touching.ticked;
      auto simp: touches_def Let_def split: db_fault.splits sum.splits prod.splits fate.splits)+

lemma touches_opened:
  assumes "at_execution_attempt_id a = i"
  shows "steps (touches i) any_env (execute_opened a prior)"
  unfolding execute_opened_def first_execution_def submit_and_verify_def reconcile_locked_def
    health_locked_def finish_with_def record_result_or_unknown_def disconnected_def do_record_resource_def
    do_record_submitted_def do_mutation_submitted_def do_record_result_def Let_def
  by (intro touching.rules touches_effects touches_append [OF assms])

lemma execute_touches:
  assumes "execute i e w = (r, w')" and "j \<noteq> i"
  shows "w_journals w' j = w_journals w j"
  using assms(1) unfolding execute_session
proof (cases rule: session_cases)
  case (inside a prior w1)
  then have "touches i w1 w'" using stepsD [OF touches_opened] by (auto simp: any_env_def)
  with inside assms(2) show ?thesis by (simp add: touches_def)
qed simp

section \<open>Executions that lose journals\<close>

inductive executions :: "world \<Rightarrow> world \<Rightarrow> bool" where
  start: "executions w0 w0"
| execution: "executions w0 w \<Longrightarrow> write_progresses e \<Longrightarrow> \<forall>j. others_append j e \<Longrightarrow>
    execute i e w = (r, w') \<Longrightarrow> executions w0 w'"
| loss: "executions w0 w \<Longrightarrow> executions w0 (w\<lparr>w_journals := (w_journals w)(i := None)\<rparr>)"
| others: "executions w0 w \<Longrightarrow> \<forall>j. evidence_kept j (w_db w) d \<Longrightarrow> executions w0 (w\<lparr>w_db := d\<rparr>)"

definition guarded :: "world \<Rightarrow> bool" where
  "guarded w \<longleftrightarrow> distinct (map at_execution_attempt_id (w_submitted w)) \<and>
     (\<forall>i \<in> at_execution_attempt_id ` set (w_submitted w).
        marked i (w_db w) \<and> (sealed i w \<or> w_journals w i = None))"

lemma execution_guarded:
  assumes "guarded w" and "write_progresses e" and "\<forall>j. others_append j e" and "execute i e w = (r, w')"
  shows "guarded w'"
proof -
  have ex: "executes i w w'" by (rule execute_executes [OF assms(2,4)])
  have kept: "evidence_kept j (w_db w) (w_db w')" for j
    using stepsD [OF grows_execute _ assms(4)] assms(3) by (simp add: grows_def)
  have lost: "w_submitted w' = w_submitted w \<and> w_journals w' i = None"
    if "marked i (w_db w)" "w_journals w i = None"
    using lost_journal_stops [OF assms(3) [rule_format] assms(4) that(2,1)] that(2) by simp
  have old: "marked j (w_db w') \<and> (sealed j w' \<or> w_journals w' j = None)"
    if "j \<in> at_execution_attempt_id ` set (w_submitted w)" for j
  proof -
    have j: "marked j (w_db w)" "sealed j w \<or> w_journals w j = None"
      using bspec [OF conjunct2 [OF assms(1) [unfolded guarded_def]] that] by simp_all
    have "w_journals w j = None \<Longrightarrow> w_journals w' j = None"
      using j(1) lost execute_touches [OF assms(4), of j] by (cases "j = i") auto
    moreover have "sealed j w \<Longrightarrow> sealed j w'" using ex by (simp add: executes_def)
    ultimately show ?thesis using marked_kept [OF j(1) kept] j(2) by metis
  qed
  show ?thesis
  proof (cases "w_submitted w' = w_submitted w")
    case True
    with assms(1) old show ?thesis by (simp add: guarded_def)
  next
    case False
    then obtain a where a: "at_execution_attempt_id a = i" "w_submitted w' = w_submitted w @ [a]"
      "\<not> sealed i w" "sealed i w'" using ex by (auto simp: executes_def)
    have "i \<notin> at_execution_attempt_id ` set (w_submitted w)"
    proof
      assume "i \<in> at_execution_attempt_id ` set (w_submitted w)"
      from bspec [OF conjunct2 [OF assms(1) [unfolded guarded_def]] this] show False
        using a(3) lost False by simp
    qed
    moreover have "marked i (w_db w')"
      using execute_marks [OF _ assms(4) False] assms(3) by blast
    ultimately show ?thesis
      using assms(1) old a by (auto simp: guarded_def)
  qed
qed

lemma executions_guarded: "executions w0 w \<Longrightarrow> guarded w0 \<Longrightarrow> guarded w"
proof (induction rule: executions.induct)
  case (execution w0 w e i r w')
  then show ?case using execution_guarded by blast
next
  case (loss w0 w i)
  then show ?case by (auto simp: guarded_def sealed_def)
next
  case (others w0 w d)
  then show ?case using marked_kept by (auto simp: guarded_def sealed_def)
qed simp


end
