(* ===== verification/Outcomes.thy ===== *)
theory Outcomes
  imports Recovery
begin

text \<open>
  What an execution's result means: a HEALTHY result rests on a health cycle that passed inside the
  window, a result other than UNKNOWN is in the journal, and the next execution reports it again.
\<close>

section \<open>Triples\<close>

text \<open>
  \<open>triple P m Q E\<close>: begun where \<open>P\<close> holds, \<open>m\<close> returns only where \<open>Q\<close> holds and raises only where
  \<open>E\<close> holds. Nothing is said of a process that died.
\<close>

type_synonym assertion = "env \<Rightarrow> world \<Rightarrow> bool"

definition triple :: "assertion \<Rightarrow> 'a effect \<Rightarrow> ('a \<Rightarrow> assertion) \<Rightarrow> assertion \<Rightarrow> bool" where
  "triple P m Q E \<longleftrightarrow> (\<forall>e w. P e w \<longrightarrow>
     (case m e w of (Done x, w') \<Rightarrow> Q x e w' | (Raised x, w') \<Rightarrow> E e w' | (Died, w') \<Rightarrow> True))"

lemma tripleI:
  assumes "\<And>e w x w'. P e w \<Longrightarrow> m e w = (Done x, w') \<Longrightarrow> Q x e w'"
    and "\<And>e w x w'. P e w \<Longrightarrow> m e w = (Raised x, w') \<Longrightarrow> E e w'"
  shows "triple P m Q E"
  using assms by (auto simp: triple_def split: prod.splits ending.splits)

lemma triple_Done: "triple P m Q E \<Longrightarrow> P e w \<Longrightarrow> m e w = (Done x, w') \<Longrightarrow> Q x e w'"
  by (fastforce simp: triple_def)

lemma triple_Raised: "triple P m Q E \<Longrightarrow> P e w \<Longrightarrow> m e w = (Raised x, w') \<Longrightarrow> E e w'"
  by (fastforce simp: triple_def)

lemma triple_bind:
  assumes m: "triple P m R E" and k: "\<And>x. triple (R x) (k x) Q E"
  shows "triple P (bindS m k) Q E"
  unfolding triple_def
proof (intro allI impI)
  fix e w assume "P e w"
  note m' = m [unfolded triple_def, rule_format, OF this]
  obtain r w1 where r: "m e w = (r, w1)" by fastforce
  show "case bindS m k e w of (Done x, w') \<Rightarrow> Q x e w' | (Raised x, w') \<Rightarrow> E e w' | (Died, w') \<Rightarrow> True"
  proof (cases r)
    case (Done x)
    with m' r k [of x, unfolded triple_def, rule_format, of e w1] show ?thesis by (simp add: bindS_def)
  qed (use m' r in \<open>simp_all add: bindS_def\<close>)
qed

lemma triple_try:
  assumes m: "triple P m R E'" and h: "\<And>x. triple E' (h x) Q E" and k: "\<And>x. triple (R x) (k x) Q E"
  shows "triple P (tryS m h k) Q E"
  unfolding triple_def
proof (intro allI impI)
  fix e w assume "P e w"
  note m' = m [unfolded triple_def, rule_format, OF this]
  obtain r w1 where r: "m e w = (r, w1)" by fastforce
  show "case tryS m h k e w of (Done x, w') \<Rightarrow> Q x e w' | (Raised x, w') \<Rightarrow> E e w' | (Died, w') \<Rightarrow> True"
  proof (cases r)
    case (Done x)
    with m' r k [of x, unfolded triple_def, rule_format, of e w1] show ?thesis by (simp add: tryS_def)
  next
    case (Raised x)
    with m' r h [of x, unfolded triple_def, rule_format, of e w1] show ?thesis by (simp add: tryS_def)
  qed (use r in \<open>simp add: tryS_def\<close>)
qed

text \<open>An effect that keeps an assertion whatever it returns.\<close>

abbreviation keeping_triple :: "assertion \<Rightarrow> 'a effect \<Rightarrow> bool" where
  "keeping_triple I m \<equiv> triple I m (\<lambda>_. I) I"

lemma triple_weaken: "triple P m Q E \<Longrightarrow> (\<And>x e w. Q x e w \<Longrightarrow> Q' x e w) \<Longrightarrow> triple P m Q' E"
  by (fastforce simp: triple_def split: prod.splits ending.splits)

lemma triple_give: "(\<And>e w. P e w \<Longrightarrow> Q x e w) \<Longrightarrow> triple P (give x) Q E"
  by (simp add: triple_def give_def)

lemma triple_fail: "(\<And>e w. P e w \<Longrightarrow> E e w) \<Longrightarrow> triple P (fail x) Q E"
  by (simp add: triple_def fail_def)

lemma triple_result: "(\<And>y e w. P e w \<Longrightarrow> r = Inr y \<Longrightarrow> Q y e w) \<Longrightarrow> (\<And>e w. P e w \<Longrightarrow> E e w) \<Longrightarrow>
    triple P (give_result r) Q E"
  by (auto simp: triple_def give_result_def of_result_def split: sum.splits)

text \<open>What is said only of one journal is kept by everything that does not write it.\<close>

definition of_journal :: "uuid \<Rightarrow> (env \<Rightarrow> journal_line list \<Rightarrow> bool \<Rightarrow> bool) \<Rightarrow> assertion" where
  "of_journal i A e w =
     (case w_journals w i of None \<Rightarrow> A e [] False | Some f \<Rightarrow> A e (jf_lines f) (jf_open f))"

lemma journal_kept:
  "keeping_triple (of_journal i A) (transaction f)" "keeping_triple (of_journal i A) (journal_load a)"
  "keeping_triple (of_journal i A) clock" "keeping_triple (of_journal i A) (validate_plan a)"
  "keeping_triple (of_journal i A) (observe a)" "keeping_triple (of_journal i A) (verify_health a t)"
  "keeping_triple (of_journal i A) (collect_resources dep)" "keeping_triple (of_journal i A) (submit a)"
  unfolding transaction_def journal_load_def clock_def validate_plan_def observe_def verify_health_def
    collect_resources_def submit_def
  by (auto simp: triple_def at_tick_def of_journal_def Let_def of_result_def
      split: prod.splits ending.splits sum.splits db_fault.splits fate.splits)

text \<open>Nothing is asked of what is raised.\<close>

abbreviation anything :: assertion where
  "anything \<equiv> \<lambda>_ _. True"

lemma triple_careless: "triple P m Q E \<Longrightarrow> triple P m Q anything"
  by (fastforce simp: triple_def split: prod.splits ending.splits)

lemma triple_trivial: "(\<And>x e w. Q x e w) \<Longrightarrow> triple P m Q anything"
  by (simp add: triple_def split: prod.splits ending.splits)

section \<open>From the health check to the whole execution\<close>

text \<open>A postcondition that fixes the next assertion of a family only up to a property.\<close>

lemma triple_ex:
  assumes "\<And>m. R m \<Longrightarrow> triple (I m) k Q E"
  shows "triple (\<lambda>e w. \<exists>m. I m e w \<and> R m) k Q E"
  unfolding triple_def
proof (intro allI impI)
  fix e w assume "\<exists>m. I m e w \<and> R m"
  then obtain m where "I m e w" "R m" by blast
  with assms [OF this(2), unfolded triple_def, rule_format, OF this(1)]
  show "case k e w of (Done x, w') \<Rightarrow> Q x e w' | (Raised x, w') \<Rightarrow> E e w' | (Died, w') \<Rightarrow> True" by simp
qed

text \<open>
  The assertion \<open>I n\<close> says, among others, that tick \<open>n\<close> is past. Every step but a terminal record keeps it,
  and a state is only recorded as terminal when it is \<open>permitted\<close> by what has happened up to \<open>n\<close>: FAILED always,
  HEALTHY when the anchor of the window is one of \<open>anchors\<close> and the cycle that passed was \<open>reported\<close> later.
  Then whatever an execution returns satisfies \<open>Q\<close>.
\<close>

locale outcome_logic =
  fixes a :: supervisor_attempt and I :: "nat \<Rightarrow> assertion" and Q :: "runtime_state \<Rightarrow> assertion"
    and permitted :: "nat \<Rightarrow> runtime_state \<Rightarrow> bool" and anchors :: "nat \<Rightarrow> instant option \<Rightarrow> bool"
    and reported :: "nat \<Rightarrow> nat \<Rightarrow> instant \<Rightarrow> health_cycle \<Rightarrow> bool"
  assumes append: "ev \<noteq> ATTEMPT_TERMINAL \<Longrightarrow> keeping_triple (I n) (journal_append ev a o')"
    and db: "keeping_triple (I n) (transaction (f :: env \<Rightarrow> nat \<Rightarrow> db \<Rightarrow> (unit \<times> db) result))"
      "keeping_triple (I n) (transaction (g :: env \<Rightarrow> nat \<Rightarrow> db \<Rightarrow> (bool \<times> db) result))"
    and ticks: "keeping_triple (I n) clock" "keeping_triple (I n) (validate_plan a)" "keeping_triple (I n) (submit a)"
      "keeping_triple (I n) (collect_resources dep)"
    and observed: "triple (I n) (observe a) (\<lambda>s e w. \<exists>m. I m e w \<and> permitted m (rs_state s)) (I n)"
    and loaded: "triple (I n) (journal_load a) (\<lambda>rows e w. \<exists>m. I m e w \<and> anchors m (health_anchor rows)) (I n)"
    and cycled: "triple (I n) (verify_health a d) (\<lambda>c e w. \<exists>m. I m e w \<and> reported n m d c) (I n)"
    and unknown: "Q UNKNOWN e w"
    and failed: "permitted n FAILED"
    and healthy: "anchors n (Some t0) \<Longrightarrow> reported n m (t0 + seconds 120) c \<Longrightarrow>
        cycle_passed a (t0 + seconds 120) c \<Longrightarrow> permitted m HEALTHY"
    and finish: "permitted n s \<Longrightarrow> triple (I n) (finish_with a s src) Q anything"
begin

lemma appended: "ev \<noteq> ATTEMPT_TERMINAL \<Longrightarrow> triple (I n) m Q anything \<Longrightarrow>
    triple (I n) (bindS (journal_append ev a o') (\<lambda>_. m)) Q anything"
  by (rule triple_bind [OF triple_careless [OF append]])

lemma health_check:
  assumes "anchors n (Some t0)" and "deadline = t0 + seconds 120"
  shows "triple (I n) (tryS (verify_health a deadline)
      (\<lambda>x. bindS (journal_append HEALTH_FAILED a (o' x)) (\<lambda>_. give False))
      (\<lambda>cycle. give (cycle_passed a deadline cycle)))
    (\<lambda>passed e w. \<exists>m. I m e w \<and> permitted m (if passed then HEALTHY else FAILED)) anything"
proof (rule triple_try [OF cycled])
  show "triple (I n) (bindS (journal_append HEALTH_FAILED a (o' x)) (\<lambda>_. give False))
      (\<lambda>passed e w. \<exists>m. I m e w \<and> permitted m (if passed then HEALTHY else FAILED)) anything" for x
    by (rule triple_bind [OF triple_careless [OF append]], simp, rule triple_give) (use failed in auto)
  show "triple (\<lambda>e w. \<exists>m. I m e w \<and> reported n m deadline c) (give (cycle_passed a deadline c))
      (\<lambda>passed e w. \<exists>m. I m e w \<and> permitted m (if passed then HEALTHY else FAILED)) anything" for c
    using healthy [OF assms(1)] assms(2) failed by (auto intro!: triple_give)
qed

lemma health: "triple (I n) (health_locked a) Q anything"
proof -
  have passing: "triple (\<lambda>e w. \<exists>m. I m e w \<and> permitted m (if passed then HEALTHY else FAILED))
      (bindS (journal_append (if passed then HEALTH_PASSED else HEALTH_FAILED) a o')
        (\<lambda>_. finish_with a (if passed then HEALTHY else FAILED) src)) Q anything" for passed o' src
    by (rule triple_ex, rule appended) (simp_all add: finish)
  have after: "anchors m (health_anchor rows) \<Longrightarrow> triple (I m) (case health_anchor rows of
       None \<Rightarrow> bindS (journal_append HEALTH_FAILED a [(''error_type'', ''health_window_anchor_missing'')])
           (\<lambda>_. finish_with a FAILED ''health'')
     | Some completed_at \<Rightarrow> bindS (tryS (verify_health a (completed_at + seconds 120))
             (\<lambda>x. bindS (journal_append HEALTH_FAILED a [(''error_type'', exn_type x)]) (\<lambda>_. give False))
             (\<lambda>cycle. give (cycle_passed a (completed_at + seconds 120) cycle))) (\<lambda>passed.
           bindS (journal_append (if passed then HEALTH_PASSED else HEALTH_FAILED) a
               (state_outcome (if passed then HEALTHY else FAILED))) (\<lambda>_.
             finish_with a (if passed then HEALTHY else FAILED) ''health''))) Q anything" for rows m
    by (cases "health_anchor rows")
      (simp_all add: appended finish failed triple_bind [OF health_check passing])
  show ?thesis
    unfolding health_locked_def Let_def HEALTH_DEADLINE_SECONDS_def
    by (rule appended, simp, rule triple_bind [OF triple_careless [OF loaded]], rule triple_ex)
      (rule after)
qed

lemma disconnected: "triple P (disconnected a) Q anything"
  unfolding disconnected_def
  by (rule triple_bind [where R = "\<lambda>_. anything"])
    (auto intro: triple_trivial triple_give simp: unknown)

lemma reconcile_locked: "triple (I n) (reconcile_locked a) Q anything"
  unfolding reconcile_locked_def
proof (rule triple_bind [OF triple_careless [OF append]])
  show "triple (I n) (bindS (observe a) (\<lambda>snapshot.
      bindS (journal_append RECONCILIATION_RESULT a (state_outcome (rs_state snapshot))) (\<lambda>_.
        if rs_state snapshot = MUTATION_COMPLETED_HEALTH_UNKNOWN then health_locked a
        else if rs_state snapshot \<in> {HEALTHY, FAILED}
        then finish_with a (rs_state snapshot) ''reconciliation''
        else bindS (record_result_or_unknown a UNKNOWN ''reconciliation'') (\<lambda>_. give UNKNOWN)))) Q anything"
  proof (rule triple_bind [OF triple_careless [OF observed]], rule triple_ex)
    fix s m
    let ?rest = "if rs_state s = MUTATION_COMPLETED_HEALTH_UNKNOWN then health_locked a
        else if rs_state s \<in> {HEALTHY, FAILED} then finish_with a (rs_state s) ''reconciliation''
        else bindS (record_result_or_unknown a UNKNOWN ''reconciliation'') (\<lambda>_. give UNKNOWN)"
    assume "permitted m (rs_state s)"
    moreover have "triple (I m) (bindS (record_result_or_unknown a UNKNOWN ''reconciliation'') (\<lambda>_. give UNKNOWN)) Q anything"
      by (rule triple_bind [where R = "\<lambda>_. anything"])
        (auto intro: triple_trivial triple_give simp: unknown)
    ultimately have "triple (I m) ?rest Q anything"
      using health finish by simp
    then show "triple (I m) (bindS (journal_append RECONCILIATION_RESULT a
        (state_outcome (rs_state s))) (\<lambda>_. ?rest)) Q anything"
      by (intro triple_bind [OF triple_careless [OF append]]) auto
  qed
qed simp

lemma submit_and_verify: "triple (I n) (submit_and_verify a) Q anything"
  unfolding submit_and_verify_def
  by (rule triple_bind [OF triple_careless [OF append]], simp,
      rule triple_try [OF ticks(3)])
    (auto intro!: appended finish failed health reconcile_locked)

lemma first_execution: "triple (I n) (first_execution a) Q anything"
  unfolding first_execution_def do_record_resource_def do_record_submitted_def
  by (intro triple_bind [OF triple_careless [OF append]] triple_bind [OF triple_careless [OF ticks(1)]]
      triple_bind [OF triple_careless [OF ticks(2)]] triple_bind [OF triple_careless [OF ticks(4)]]
      triple_bind [where R = "\<lambda>_. I n", OF triple_result] triple_try [OF db(1)] disconnected submit_and_verify) auto

lemma execute_opened:
  assumes "ATTEMPT_TERMINAL \<notin> set (map jr_event prior)"
  shows "triple (I n) (execute_opened a prior) Q anything"
proof -
  let ?asked = "if map jr_event prior = [] then do_mutation_submitted a else give False"
  have asked: "keeping_triple (I n) ?asked"
    unfolding do_mutation_submitted_def by (simp add: db(2) triple_give)
  have "triple (I n) (bindS ?asked (\<lambda>submitted.
      if submitted then fail (SupervisorError ''journal_missing_after_db_submission'')
      else first_execution a)) Q anything"
    by (rule triple_bind [OF triple_careless [OF asked]]) (simp add: first_execution triple_fail)
  then show ?thesis
    using assms unfolding execute_opened_def Let_def by (simp add: reconcile_locked)
qed

end

section \<open>What the journal holds at the end\<close>

text \<open>
  \<open>terminals\<close>: the terminal records of a journal. After a result other than UNKNOWN the journal has
  one more, as its last record, or cannot be loaded.
\<close>

definition terminals :: "journal_line list \<Rightarrow> journal_line list" where
  "terminals ls = filter (\<lambda>l. row_event l = Some ATTEMPT_TERMINAL) ls"

definition open_with :: "journal_line list \<Rightarrow> env \<Rightarrow> journal_line list \<Rightarrow> bool \<Rightarrow> bool" where
  "open_with ts e ls unfinished \<longleftrightarrow> write_progresses e \<and> (Corrupt \<in> set ls \<or> terminals ls = ts)"

definition closed_with ::
  "journal_line list \<Rightarrow> runtime_state \<Rightarrow> env \<Rightarrow> journal_line list \<Rightarrow> bool \<Rightarrow> bool" where
  "closed_with ts s e ls unfinished \<longleftrightarrow> s = UNKNOWN \<or> Corrupt \<in> set ls \<or>
     (\<exists>row. jr_event row = ATTEMPT_TERMINAL \<and> jr_outcome row = state_outcome s \<and>
       terminals ls = ts @ [Row row] \<and> ls \<noteq> [] \<and> last ls = Row row)"

lemma open_append:
  assumes "at_execution_attempt_id a = i" and "ev \<noteq> ATTEMPT_TERMINAL"
  shows "keeping_triple (of_journal i (open_with ts)) (journal_append ev a o')"
  using assms(2)
  by (auto simp: triple_def journal_append_def at_tick_def of_journal_def open_with_def Let_def assms(1)
      append_line_def terminals_def row_event_def row_for_def
      split: prod.splits ending.splits fate.splits written.splits option.splits if_splits)

lemma closing_append:
  assumes "at_execution_attempt_id a = i"
  shows "triple (of_journal i (open_with ts)) (journal_append ATTEMPT_TERMINAL a (state_outcome s))
    (\<lambda>_. of_journal i (closed_with ts s)) anything"
proof (rule tripleI)
  fix e w x w'
  assume before: "of_journal i (open_with ts) e w"
    and run: "journal_append ATTEMPT_TERMINAL a (state_outcome s) e w = (Done x, w')"
  obtain part f where p: "e_append e (w_tick w) = (part, f)" by fastforce
  have "write_progresses e" using before by (auto simp: of_journal_def open_with_def split: option.splits)
  then have "part = Nothing \<Longrightarrow> f \<noteq> Goes_on"
    using p unfolding write_progresses_def by (metis fst_conv snd_conv)
  then show "of_journal i (closed_with ts s) e w'"
    using before run p assms
    by (cases part) (auto simp: journal_append_def at_tick_def of_journal_def open_with_def closed_with_def
      Let_def append_line_def terminals_def row_event_def row_for_def
      split: fate.splits option.splits if_splits)
qed simp

lemma closed_unknown: "of_journal i (closed_with ts UNKNOWN) e w"
  by (simp add: of_journal_def closed_with_def split: option.splits)

lemma closing_finish:
  assumes "at_execution_attempt_id a = i"
  shows "triple (of_journal i (open_with ts)) (finish_with a s src)
    (\<lambda>s'. of_journal i (closed_with ts s')) anything"
  unfolding finish_with_def record_result_or_unknown_def do_record_result_def
proof (rule triple_bind [OF closing_append [OF assms]], rule triple_try [OF journal_kept(1)])
  show "triple (of_journal i (closed_with ts s)) (bindS (journal_append DB_DISCONNECTED a []) (\<lambda>_. give UNKNOWN))
      (\<lambda>s'. of_journal i (closed_with ts s')) anything" for s
    by (rule triple_bind [where R = "\<lambda>_. anything"])
      (auto intro: triple_trivial triple_give simp: closed_unknown)
qed (rule triple_give)

interpretation closing: outcome_logic a "\<lambda>_. of_journal (at_execution_attempt_id a) (open_with ts)"
    "\<lambda>s. of_journal (at_execution_attempt_id a) (closed_with ts s)" "\<lambda>_ _. True" "\<lambda>_ _. True" "\<lambda>_ _ _ _. True"
  for a ts
  by unfold_locales (simp_all add: open_append journal_kept closing_finish closed_unknown)

text \<open>Back from the session to the operation.\<close>

lemma session_outcome:
  assumes "in_session i k e w = (Done s, w')"
    and "\<And>w1. w_journals w1 = w_journals w \<Longrightarrow> w_tick w \<le> w_tick w1 \<Longrightarrow> P e w1"
    and "\<And>a prior. at_execution_attempt_id a = i \<Longrightarrow> load_file a (w_journals w i) = Inr prior \<Longrightarrow>
      loaded i e w a \<Longrightarrow> triple P (k a prior) Q anything"
  shows "Q s e w'"
  using assms(1)
proof (cases rule: session_cases)
  case (inside a prior w1)
  then show ?thesis using assms(2) [OF inside(3,8)] assms(3) [OF inside(1,2,7)] by (blast intro: triple_Done)
qed blast

text \<open>The terminal records of a journal that loads decide what the next execution reports.\<close>

lemma terminals_rows: "terminals (map Row rows) = map Row (filter (\<lambda>r. jr_event r = ATTEMPT_TERMINAL) rows)"
  by (simp add: terminals_def filter_map o_def row_event_def)

lemma execute_not_corrupt:
  assumes "execute i e w = (Done s, w')" and "w_journals w i = Some f"
  shows "Corrupt \<notin> set (jf_lines f)"
  using assms(1) unfolding execute_session
proof (cases rule: session_cases)
  case (inside a prior w1)
  then show ?thesis by (auto simp: load_file_ok assms(2))
qed blast

lemma execute_terminal:
  assumes "execute i e w = (Done s, w')" and "w_journals w i = Some f" and "terminals (jf_lines f) \<noteq> []"
  obtains rows where "jf_lines f = map Row rows" "terminal_state rows = Inr s" "w_journals w' = w_journals w"
  using assms(1) unfolding execute_session
proof (cases rule: session_cases)
  case (inside a prior w1)
  then have lines: "jf_lines f = map Row prior" by (simp add: load_file_ok assms(2))
  then have "ATTEMPT_TERMINAL \<in> set (map jr_event prior)"
    using assms(3) by (force simp: terminals_rows filter_empty_conv image_iff)
  with inside(6) have "terminal_state prior = Inr s" "w' = w1"
    by (auto simp: execute_opened_def give_result_def of_result_def split: sum.splits)
  with inside lines that show ?thesis by simp
qed blast

lemma state_of_state [simp]: "state_of_value (runtime_state_value s) = Some s"
  by (cases s) (simp_all add: state_of_value_def runtime_state_value_def)

lemma terminal_state_single:
  assumes "filter (\<lambda>r. jr_event r = ATTEMPT_TERMINAL) rows = [row]" and "jr_outcome row = state_outcome s"
    and "last rows = row" "jr_event row = ATTEMPT_TERMINAL"
  shows "terminal_state rows = Inr s"
  using assms by (simp add: terminal_state_def state_outcome_def)

lemma last_rows: "map Row rows \<noteq> [] \<Longrightarrow> last (map Row rows) = Row row \<Longrightarrow> last rows = row"
  by (simp add: last_map)


text \<open>A reconciliation that ends in a result after the journal already held one makes the journal
  ambiguous: no later execution returns a result, though both records may agree.\<close>

theorem reconcile_after_terminal:
  assumes "write_progresses e" and "reconcile i e w = (Done s, w1)" and "s \<noteq> UNKNOWN"
    and "w_journals w i = Some f" and "terminals (jf_lines f) \<noteq> []" and "execute i e' w1 = (r, w2)"
  shows "r \<noteq> Done s'"
proof
  assume "r = Done s'"
  with assms(6) have run: "execute i e' w1 = (Done s', w2)" by simp
  have "of_journal i (closed_with (terminals (jf_lines f)) s) e w1"
  proof (rule session_outcome [OF assms(2) [unfolded reconcile_session], of "of_journal i (open_with (terminals (jf_lines f)))"])
    show "of_journal i (open_with (terminals (jf_lines f))) e v" if "w_journals v = w_journals w" for v
      using assms(1,4) that by (simp add: of_journal_def open_with_def)
    fix a :: supervisor_attempt assume "at_execution_attempt_id a = i"
    then show "triple (of_journal i (open_with (terminals (jf_lines f)))) (reconcile_locked a)
        (\<lambda>s. of_journal i (closed_with (terminals (jf_lines f)) s)) anything"
      using closing.reconcile_locked by blast
  qed
  then obtain g where g: "w_journals w1 i = Some g" "closed_with (terminals (jf_lines f)) s e (jf_lines g) (jf_open g)"
    using assms(3) by (auto simp: of_journal_def closed_with_def split: option.splits)
  from g(2) assms(3) execute_not_corrupt [OF run g(1)] obtain row where
    row: "jr_event row = ATTEMPT_TERMINAL" "terminals (jf_lines g) = terminals (jf_lines f) @ [Row row]"
      "jf_lines g \<noteq> []" "last (jf_lines g) = Row row"
    by (auto simp: closed_with_def)
  from execute_terminal [OF run g(1)] row(2) obtain rows where
    rows: "jf_lines g = map Row rows" "terminal_state rows = Inr s'" by auto
  have "length (filter (\<lambda>r. jr_event r = ATTEMPT_TERMINAL) rows) \<ge> 2"
    using arg_cong [OF row(2), of length] assms(5) by (simp add: rows(1) terminals_rows Suc_le_eq)
  moreover have "last rows = row" by (rule last_rows) (use row(3,4) rows(1) in auto)
  ultimately show False
    using rows(2) row(1) by (auto simp: terminal_state_def split: list.splits)
qed

section \<open>The health window\<close>

text \<open>The time of the first line that tells of the mutation being complete or the check having begun.\<close>

definition anchor_line :: "journal_line \<Rightarrow> instant option" where
  "anchor_line l =
     (case l of
        Row r \<Rightarrow> if jr_event r \<in> {MUTATION_COMPLETED, HEALTH_STARTED} then Some (jr_timestamp r) else None
      | Corrupt \<Rightarrow> None)"

fun lines_anchor :: "journal_line list \<Rightarrow> instant option" where
  "lines_anchor [] = None"
| "lines_anchor (l # ls) = (case anchor_line l of Some t \<Rightarrow> Some t | None \<Rightarrow> lines_anchor ls)"

lemma lines_anchor_rows: "lines_anchor (map Row rows) = health_anchor rows"
  by (induction rows) (auto simp: anchor_line_def health_anchor_def)

lemma lines_anchor_append:
  "lines_anchor (ls @ ms) = (case lines_anchor ls of Some t \<Rightarrow> Some t | None \<Rightarrow> lines_anchor ms)"
  by (induction ls) (auto split: option.splits)

text \<open>The anchor: the one that the journal held at first, or else a time that the clock gave from tick \<open>k\<close> on
  and before tick \<open>n\<close>.\<close>

definition anchored :: "env \<Rightarrow> nat \<Rightarrow> instant option \<Rightarrow> nat \<Rightarrow> instant \<Rightarrow> bool" where
  "anchored e k anchor n t0 \<longleftrightarrow>
     (case anchor of Some t \<Rightarrow> t0 = t | None \<Rightarrow> \<exists>j. k \<le> j \<and> j < n \<and> t0 = e_now e j)"

definition kept_anchor :: "env \<Rightarrow> nat \<Rightarrow> instant option \<Rightarrow> nat \<Rightarrow> journal_line list \<Rightarrow> bool" where
  "kept_anchor e k anchor n ls \<longleftrightarrow> Corrupt \<in> set ls \<or>
     (case lines_anchor ls of None \<Rightarrow> anchor = None | Some t0 \<Rightarrow> anchored e k anchor n t0)"

definition window :: "env \<Rightarrow> nat \<Rightarrow> instant option \<Rightarrow> uuid \<Rightarrow> nat \<Rightarrow> assertion" where
  "window e0 k anchor i n e w \<longleftrightarrow> e = e0 \<and> k \<le> n \<and> n \<le> w_tick w \<and>
     of_journal i (\<lambda>_ ls _. kept_anchor e0 k anchor (w_tick w) ls) e w"

text \<open>What a result HEALTHY rests on, up to tick \<open>n\<close>: a cycle that passed, in time for the anchor, or a snapshot.\<close>

definition verified :: "env \<Rightarrow> nat \<Rightarrow> instant option \<Rightarrow> supervisor_attempt \<Rightarrow> nat \<Rightarrow> runtime_state \<Rightarrow> bool" where
  "verified e k anchor a n s \<longleftrightarrow> s \<noteq> HEALTHY \<or>
     (\<exists>t x. k \<le> t \<and> t < n \<and> e_observe e t a = Inr x \<and> rs_state x = HEALTHY) \<or>
     (\<exists>t t0 c. k \<le> t \<and> t < n \<and> anchored e k anchor t t0 \<and> e_health e t a (t0 + seconds 120) = Inr c \<and>
        cycle_passed a (t0 + seconds 120) c)"

lemma anchored_mono: "anchored e k anchor n t0 \<Longrightarrow> n \<le> m \<Longrightarrow> anchored e k anchor m t0"
  by (auto simp: anchored_def split: option.splits intro: less_le_trans)

lemma kept_anchor_mono: "kept_anchor e k anchor n ls \<Longrightarrow> n \<le> m \<Longrightarrow> kept_anchor e k anchor m ls"
  using anchored_mono by (auto simp: kept_anchor_def split: option.splits)

lemma verified_mono: "verified e k anchor a n s \<Longrightarrow> n \<le> m \<Longrightarrow> verified e k anchor a m s"
  unfolding verified_def by (meson less_le_trans)

text \<open>Whatever leaves the journals alone and takes a tick.\<close>

lemma window_later:
  assumes "window e0 k anchor i n e w" and "w_journals w' = w_journals w" and "w_tick w' = Suc (w_tick w)" and "m \<le> w_tick w'" "k \<le> m"
  shows "window e0 k anchor i m e w'"
  using assms kept_anchor_mono [of e0 k anchor "w_tick w" _ "Suc (w_tick w)"]
  by (auto simp: window_def of_journal_def split: option.splits)

lemma window_tick:
  assumes "\<And>e t w r w'. f e t w = (r, w') \<Longrightarrow> w_journals w' = w_journals w \<and> w_tick w' = w_tick w"
  shows "keeping_triple (window e0 k anchor i n) (at_tick f)"
proof -
  have "window e0 k anchor i n e w'" if "window e0 k anchor i n e w" "at_tick f e w = (r, w')" for e w r w'
  proof (rule window_later [OF that(1)])
    have "w_journals w' = w_journals w \<and> w_tick w' = Suc (w_tick w)"
      using that(2) assms by (fastforce simp: at_tick_def Let_def split: if_splits)
    then show "w_journals w' = w_journals w" "w_tick w' = Suc (w_tick w)" "n \<le> w_tick w'" "k \<le> n"
      using that(1) by (auto simp: window_def)
  qed
  then show ?thesis by (intro tripleI) blast+
qed

lemma window_kept:
  "keeping_triple (window e0 k anchor i n) (transaction f)" "keeping_triple (window e0 k anchor i n) clock"
  "keeping_triple (window e0 k anchor i n) (validate_plan a)" "keeping_triple (window e0 k anchor i n) (submit a)"
  "keeping_triple (window e0 k anchor i n) (collect_resources dep)"
  unfolding transaction_def clock_def validate_plan_def submit_def collect_resources_def
  by (rule window_tick; auto simp: Let_def split: db_fault.splits sum.splits prod.splits fate.splits)+

text \<open>A record keeps what is said of the lines; a first anchor has the time of its tick.\<close>

lemma kept_anchor_append:
  assumes "kept_anchor e k anchor n (jf_lines f)" and "k \<le> n"
  shows "kept_anchor e k anchor (Suc n) (jf_lines (append_line part (row_for ev a o' (e_now e n)) f))"
proof (cases "part = Nothing \<or> jf_open f \<or> part = Part")
  case True
  with kept_anchor_mono [OF assms(1), of "Suc n"] show ?thesis
    by (cases part) (auto simp: append_line_def kept_anchor_def Let_def)
next
  case False
  then have lines: "jf_lines (append_line part (row_for ev a o' (e_now e n)) f) =
      jf_lines f @ [Row (row_for ev a o' (e_now e n))]"
    by (cases part) (auto simp: append_line_def Let_def)
  have "anchored e k None (Suc n) (e_now e n)" using assms(2) by (auto simp: anchored_def)
  moreover have "lines_anchor [Row (row_for ev a o' (e_now e n))] \<in> {None, Some (e_now e n)}"
    by (simp add: anchor_line_def row_for_def)
  ultimately show ?thesis
    using kept_anchor_mono [OF assms(1), of "Suc n"] unfolding lines
    by (auto simp: kept_anchor_def lines_anchor_append simp del: lines_anchor.simps split: option.splits)
qed

lemma window_append:
  "keeping_triple (window e0 k anchor i n) (journal_append ev a o')"
proof -
  have "window e0 k anchor i n e w'" if w: "window e0 k anchor i n e w" and run: "journal_append ev a o' e w = (r, w')" for e w r w'
  proof (cases "w_journals w' i = w_journals w i")
    case True
    moreover have "w_tick w' = Suc (w_tick w)"
      using run by (auto simp: journal_append_def at_tick_def Let_def split: prod.splits fate.splits if_splits)
    ultimately show ?thesis
      using w kept_anchor_mono [of e0 k anchor "w_tick w" _ "Suc (w_tick w)"]
      by (auto simp: window_def of_journal_def split: option.splits)
  next
    case False
    let ?old = "case w_journals w i of None \<Rightarrow> \<lparr>jf_lines = [], jf_open = False\<rparr> | Some f \<Rightarrow> f"
    from False run obtain part where appended: "w_journals w' i = Some (append_line part (row_for ev a o' (e_now e (w_tick w))) ?old)"
      "w_tick w' = Suc (w_tick w)"
      by (auto simp: journal_append_def at_tick_def Let_def split: prod.splits fate.splits if_splits)
    have "kept_anchor e0 k anchor (w_tick w) (jf_lines ?old)" "k \<le> w_tick w" "e = e0" "k \<le> n" "n \<le> w_tick w"
      using w by (auto simp: window_def of_journal_def split: option.splits)
    with kept_anchor_append [OF this(1,2)] appended show ?thesis
      by (simp add: window_def of_journal_def)
  qed
  then show ?thesis by (intro tripleI) blast+
qed

lemma window_load:
  assumes "at_execution_attempt_id a = i"
  shows "triple (window e0 k anchor i n) (journal_load a)
    (\<lambda>rows e w. \<exists>m. window e0 k anchor i m e w \<and> k \<le> m \<and>
       (case health_anchor rows of None \<Rightarrow> True | Some t0 \<Rightarrow> anchored e0 k anchor m t0))
    (window e0 k anchor i n)"
proof (rule tripleI)
  fix e w x w' assume w: "window e0 k anchor i n e w" and run: "journal_load a e w = (Raised x, w')"
  have "keeping_triple (window e0 k anchor i n) (journal_load a)"
    unfolding journal_load_def by (rule window_tick) auto
  from triple_Raised [OF this w run] show "window e0 k anchor i n e w'" .
next
  fix e w rows w' assume w: "window e0 k anchor i n e w" and run: "journal_load a e w = (Done rows, w')"
  then have w': "w' = w\<lparr>w_tick := Suc (w_tick w)\<rparr>" and rows: "load_file a (w_journals w i) = Inr rows"
    by (auto simp: journal_load_def at_tick_def Let_def of_result_def assms split: if_splits sum.splits)
  have later: "window e0 k anchor i (Suc (w_tick w)) e w'"
    by (rule window_later [OF w]) (use w in \<open>auto simp: w' window_def\<close>)
  have "case health_anchor rows of None \<Rightarrow> True | Some t0 \<Rightarrow> anchored e0 k anchor (Suc (w_tick w)) t0"
    using later rows
    by (auto simp: window_def of_journal_def kept_anchor_def w' load_file_ok lines_anchor_rows health_anchor_def
        split: option.splits)
  with later w show "\<exists>m. window e0 k anchor i m e w' \<and> k \<le> m \<and>
       (case health_anchor rows of None \<Rightarrow> True | Some t0 \<Rightarrow> anchored e0 k anchor m t0)"
    by (intro exI [of _ "Suc (w_tick w)"]) (auto simp: window_def)
qed

lemma window_observe:
  "triple (window e0 k anchor i n) (observe a)
    (\<lambda>s e w. \<exists>m. window e0 k anchor i m e w \<and> verified e0 k anchor a m (rs_state s))
    (window e0 k anchor i n)"
proof (rule tripleI)
  fix e w x w' assume w: "window e0 k anchor i n e w" and run: "observe a e w = (Raised x, w')"
  have "keeping_triple (window e0 k anchor i n) (observe a)"
    unfolding observe_def by (rule window_tick) auto
  from triple_Raised [OF this w run] show "window e0 k anchor i n e w'" .
next
  fix e w s w' assume w: "window e0 k anchor i n e w" and run: "observe a e w = (Done s, w')"
  then have w': "w' = w\<lparr>w_tick := Suc (w_tick w)\<rparr>" and s: "e_observe e (w_tick w) a = Inr s"
    by (auto simp: observe_def at_tick_def Let_def of_result_def split: if_splits sum.splits)
  have "window e0 k anchor i (Suc (w_tick w)) e w'"
    by (rule window_later [OF w]) (use w in \<open>auto simp: w' window_def\<close>)
  moreover have "verified e0 k anchor a (Suc (w_tick w)) (rs_state s)"
    using w s unfolding verified_def window_def by (metis lessI order_trans)
  ultimately show "\<exists>m. window e0 k anchor i m e w' \<and> verified e0 k anchor a m (rs_state s)" by blast
qed

lemma window_cycle:
  "triple (window e0 k anchor i n) (verify_health a d)
    (\<lambda>c e w. \<exists>m. window e0 k anchor i m e w \<and> (\<exists>t. n \<le> t \<and> k \<le> t \<and> t < m \<and> e_health e0 t a d = Inr c))
    (window e0 k anchor i n)"
proof (rule tripleI)
  fix e w x w' assume w: "window e0 k anchor i n e w" and run: "verify_health a d e w = (Raised x, w')"
  have "keeping_triple (window e0 k anchor i n) (verify_health a d)"
    unfolding verify_health_def by (rule window_tick) auto
  from triple_Raised [OF this w run] show "window e0 k anchor i n e w'" .
next
  fix e w c w' assume w: "window e0 k anchor i n e w" and run: "verify_health a d e w = (Done c, w')"
  then have w': "w' = w\<lparr>w_tick := Suc (w_tick w)\<rparr>" and c: "e_health e (w_tick w) a d = Inr c"
    by (auto simp: verify_health_def at_tick_def Let_def of_result_def split: if_splits sum.splits)
  have "window e0 k anchor i (Suc (w_tick w)) e w'"
    by (rule window_later [OF w]) (use w in \<open>auto simp: w' window_def\<close>)
  moreover have "n \<le> w_tick w \<and> k \<le> w_tick w \<and> w_tick w < Suc (w_tick w) \<and> e_health e0 (w_tick w) a d = Inr c"
    using w c by (auto simp: window_def)
  ultimately show "\<exists>m. window e0 k anchor i m e w' \<and> (\<exists>t. n \<le> t \<and> k \<le> t \<and> t < m \<and> e_health e0 t a d = Inr c)"
    by blast
qed

text \<open>The result that is recorded is the one that was verified, or UNKNOWN.\<close>

lemma tick_kept:
  "keeping_triple (\<lambda>_ w. n \<le> w_tick w) (journal_append ev a o')"
  "keeping_triple (\<lambda>_ w. n \<le> w_tick w) (transaction f)"
  by (auto simp: triple_def journal_append_def transaction_def at_tick_def Let_def
      split: prod.splits ending.splits fate.splits db_fault.splits sum.splits)

lemma verified_finish:
  assumes "verified e0 k anchor a n s"
  shows "triple (window e0 k anchor i n) (finish_with a s src) (\<lambda>s' _ w. verified e0 k anchor a (w_tick w) s') anything"
proof -
  let ?later = "\<lambda>_ w. n \<le> w_tick w"
  have unknown: "triple ?later (bindS (journal_append DB_DISCONNECTED a []) (\<lambda>_. give UNKNOWN))
      (\<lambda>s' _ w. verified e0 k anchor a (w_tick w) s') anything"
    by (rule triple_bind [where R = "\<lambda>_. anything"])
      (auto intro: triple_trivial triple_give simp: verified_def)
  have "triple ?later (record_result_or_unknown a s src) (\<lambda>s' _ w. verified e0 k anchor a (w_tick w) s') anything"
    unfolding record_result_or_unknown_def do_record_result_def
    by (rule triple_try [OF tick_kept(2)]) (auto intro: unknown triple_give verified_mono [OF assms])
  then have "triple ?later (finish_with a s src) (\<lambda>s' _ w. verified e0 k anchor a (w_tick w) s') anything"
    unfolding finish_with_def by (rule triple_bind [OF triple_careless [OF tick_kept(1)]])
  then show ?thesis by (auto simp: triple_def window_def)
qed

interpretation window: outcome_logic a "window e0 k anchor (at_execution_attempt_id a)"
    "\<lambda>s _ w. verified e0 k anchor a (w_tick w) s" "verified e0 k anchor a"
    "\<lambda>n x. k \<le> n \<and> (case x of None \<Rightarrow> True | Some t0 \<Rightarrow> anchored e0 k anchor n t0)"
    "\<lambda>n m d c. \<exists>t. n \<le> t \<and> k \<le> t \<and> t < m \<and> e_health e0 t a d = Inr c"
  for a e0 k anchor
proof unfold_locales
  show "verified e0 k anchor a m HEALTHY"
    if "k \<le> n \<and> (case Some t0 of None \<Rightarrow> True | Some t0 \<Rightarrow> anchored e0 k anchor n t0)"
      "\<exists>t. n \<le> t \<and> k \<le> t \<and> t < m \<and> e_health e0 t a (t0 + seconds 120) = Inr c"
      "cycle_passed a (t0 + seconds 120) c" for n t0 m c
    using that anchored_mono [of e0 k anchor n t0] unfolding verified_def by auto
qed (simp_all add: window_append window_kept window_load window_observe window_cycle verified_finish,
     simp_all add: verified_def)

lemma healthy_is_verified:
  assumes "execute i e w = (Done HEALTHY, w')"
    and "case w_journals w i of None \<Rightarrow> True | Some f \<Rightarrow> terminals (jf_lines f) = []"
    and "anchor = (case w_journals w i of None \<Rightarrow> None | Some f \<Rightarrow> lines_anchor (jf_lines f))"
  shows "\<exists>a. loaded i e w a \<and> verified e (w_tick w) anchor a (w_tick w') HEALTHY"
proof (rule session_outcome [OF assms(1) [unfolded execute_session],
      where P = "window e (w_tick w) anchor i (w_tick w)"
        and Q = "\<lambda>s _ v. \<exists>a. loaded i e w a \<and> verified e (w_tick w) anchor a (w_tick v) s"])
  show "window e (w_tick w) anchor i (w_tick w) e v" if "w_journals v = w_journals w" "w_tick w \<le> w_tick v" for v
    using assms(3) that by (auto simp: of_journal_def window_def kept_anchor_def anchored_def split: option.splits)
  fix a :: supervisor_attempt and prior
  assume a: "at_execution_attempt_id a = i" "load_file a (w_journals w i) = Inr prior" "loaded i e w a"
  have "ATTEMPT_TERMINAL \<notin> set (map jr_event prior)"
    using assms(2) a(2) by (force simp: load_file_ok terminals_rows filter_empty_conv split: option.splits)
  from window.execute_opened [OF this, of e "w_tick w" anchor a "w_tick w"] a(1)
  have "triple (window e (w_tick w) anchor i (w_tick w)) (execute_opened a prior)
      (\<lambda>s _ v. verified e (w_tick w) anchor a (w_tick v) s) anything" by simp
  then show "triple (window e (w_tick w) anchor i (w_tick w)) (execute_opened a prior)
      (\<lambda>s _ v. \<exists>a. loaded i e w a \<and> verified e (w_tick w) anchor a (w_tick v) s) anything"
    by (rule triple_weaken) (use a(3) in blast)
qed

text \<open>C10. An execution that begins without a terminal record and returns HEALTHY has, for the attempt that it
  loaded from the database, either seen the runtime report the state HEALTHY, which a reconciliation takes over
  without a health cycle, or had a health cycle that passed all of its checks with a deadline 120 seconds
  after the window's anchor. The anchor is the one that the journal already held, so that restarts do not
  extend the window, and in a journal without one it is a time that the clock gave in this execution before
  the cycle began.\<close>

theorem healthy_verified:
  assumes "execute i e w = (Done HEALTHY, w')"
    and "case w_journals w i of None \<Rightarrow> True | Some f \<Rightarrow> terminals (jf_lines f) = []"
  shows "\<exists>a. loaded i e w a \<and>
     ((\<exists>t s. w_tick w \<le> t \<and> t < w_tick w' \<and> e_observe e t a = Inr s \<and> rs_state s = HEALTHY) \<or>
      (\<exists>t t0 c. w_tick w \<le> t \<and> t < w_tick w' \<and> e_health e t a (t0 + seconds 120) = Inr c \<and>
         cycle_passed a (t0 + seconds 120) c \<and>
         (case Option.bind (w_journals w i) (\<lambda>f. lines_anchor (jf_lines f)) of
            Some anchor \<Rightarrow> t0 = anchor
          | None \<Rightarrow> \<exists>j. w_tick w \<le> j \<and> j < t \<and> t0 = e_now e j)))"
proof -
  have "(case w_journals w i of None \<Rightarrow> None | Some f \<Rightarrow> lines_anchor (jf_lines f)) =
      Option.bind (w_journals w i) (\<lambda>f. lines_anchor (jf_lines f))"
    by (simp split: option.split)
  from healthy_is_verified [OF assms this [symmetric]] show ?thesis
    unfolding verified_def anchored_def by blast
qed

end
