(* ===== verification/Contract.thy ===== *)
theory Contract
  imports Runtime Outcomes
begin

text \<open>
  What the Docker runtime promises the supervisor: what a state that it observes says of the
  containers, what a health cycle that it returns has checked, and that its polling ends.
\<close>

section \<open>Successful effects\<close>

named_theorems runtime_simps \<open>the shape of a successful effect of the runtime\<close>

lemma bindR_Inr [runtime_simps]:
  "bindR m k \<rho> n = (Inr y, n') \<longleftrightarrow> (\<exists>x n1. m \<rho> n = (Inr x, n1) \<and> k x \<rho> n1 = (Inr y, n'))"
  by (auto simp: bindR_def split: prod.splits sum.splits)

lemma ret_Inr [runtime_simps]: "ret r \<rho> n = (Inr y, n') \<longleftrightarrow> r = Inr y \<and> n' = n"
  by (auto simp: ret_def)

lemma utc_now_Inr [runtime_simps]: "utc_now \<rho> n = (Inr y, n') \<longleftrightarrow> y = re_now \<rho> n \<and> n' = Suc n"
  by (auto simp: utc_now_def)

lemma command_Inr [runtime_simps]: "command as \<rho> n = (Inr y, n') \<longleftrightarrow> re_run \<rho> n as = Inr y \<and> n' = Suc n"
  by (auto simp: command_def)

lemma andE_true: "andE a b = Inr True \<longleftrightarrow> a = Inr True \<and> b = Inr True"
  by (auto simp: andE_def bindE_eq_Inr split: if_splits)

lemma allE_true: "allE f xs = Inr True \<longleftrightarrow> (\<forall>x \<in> set xs. f x = Inr True)"
  by (induction xs) (auto simp: bindE_eq_Inr split: if_splits)

lemma mapE_ok: "mapE f xs = Inr ys \<longleftrightarrow> list_all2 (\<lambda>x y. f x = Inr y) xs ys"
  by (induction xs arbitrary: ys) (auto simp: bindE_eq_Inr list_all2_Cons1)

section \<open>Paths\<close>

lemma dget_value: "dget k x v = Inr y \<Longrightarrow> y \<noteq> x \<Longrightarrow> at_path [k] v = Some y"
  by (auto simp: dget_def at_path.simps split: dvalue.splits option.splits)

lemma dget2_value:
  assumes "dget2 k j x v = Inr y" and "y \<noteq> x"
  shows "at_path [k, j] v = Some y"
  using assms by (auto simp: dget2_def dget_def at_path.simps bindE_eq_Inr split: dvalue.splits option.splits)

definition bound_container :: "supervisor_attempt \<Rightarrow> dvalue \<Rightarrow> bool" where
  "bound_container a d \<longleftrightarrow>
     at_path [''Config'', ''Labels'', ''com.maoxx.deployment_id''] d = Some (DStr (uuid_str (at_deployment_id a))) \<and>
     at_path [''Config'', ''Labels'', ''com.maoxx.execution_attempt_id''] d =
       Some (DStr (uuid_str (at_execution_attempt_id a))) \<and>
     at_path [''Config'', ''Labels'', ''com.maoxx.fencing_epoch''] d = Some (DStr (int_str (at_fencing_epoch a))) \<and>
     at_path [''Config'', ''Labels'', ''com.maoxx.intent_hash''] d = Some (DStr (at_intent_hash a))"

lemma dget2_path:
  "dget2 k j empty_obj v = Inr y \<Longrightarrow> dget l x y = Inr z \<Longrightarrow> z \<noteq> x \<Longrightarrow> at_path [k, j, l] v = Some z"
  by (auto simp: dget2_def dget_def at_path.simps bindE_eq_Inr split: dvalue.splits option.splits)

lemma bound_labels_true:
  assumes "dget2 ''Config'' ''Labels'' empty_obj d = Inr labels" and "bound_labels a labels = Inr True"
  shows "bound_container a d"
  using assms unfolding bound_labels_def bound_container_def
  by (auto simp: bindE_eq_Inr type_error_def split: if_splits intro!: dget2_path)

section \<open>Observing\<close>

lemma select_rows_keys:
  "select_rows services rows found = Inr sel \<Longrightarrow> distinct (map fst found) \<Longrightarrow>
     set (map fst found) \<subseteq> set services \<Longrightarrow> distinct (map fst sel) \<and> set (map fst sel) \<subseteq> set services"
proof (induction services rows found rule: select_rows.induct)
  case row: (2 services row rows found)
  from row.prems(1) obtain v where v: "dget ''Service'' DNull row = Inr v" by (auto simp: bindE_eq_Inr)
  show ?case
  proof (cases v)
    case (DStr s)
    have "distinct (map fst (if s \<in> set services then put s row found else found))"
      "set (map fst (if s \<in> set services then put s row found else found)) \<subseteq> set services"
      using row.prems(2,3) by (auto simp: distinct_put)
    moreover have "select_rows services rows (if s \<in> set services then put s row found else found) = Inr sel"
      using row.prems(1) by (simp add: v DStr)
    ultimately show ?thesis using row.IH DStr by blast
  qed (use row v in \<open>simp_all add: type_error_def\<close>)
qed simp

lemma inspect_rows_keys:
  "inspect_rows rows \<rho> n = (Inr sel, n') \<Longrightarrow> subseq (map fst sel) (map fst rows)"
proof (induction rows arbitrary: n sel n')
  case (Cons r rows)
  then show ?case
    by (cases r) (fastforce simp: runtime_simps split: option.splits)
qed (simp add: runtime_simps)

lemma judge_ok:
  assumes "judge a selected = Inr (transitional, running, bound)"
  shows "running \<Longrightarrow> length selected = length (at_service_images a) \<and>
      list_all (\<lambda>d. at_path [''State'', ''Running''] d = Some (DBool True)) (map snd selected)"
    and "bound \<Longrightarrow> selected \<noteq> [] \<and> list_all (bound_container a) (map snd selected)"
proof -
  assume running
  then have "andE (Inr (length selected = length (at_service_images a))) (allE is_running (map snd selected)) = Inr True"
    using assms by (auto simp: judge_def Let_def bindE_eq_Inr)
  then show "length selected = length (at_service_images a) \<and>
      list_all (\<lambda>d. at_path [''State'', ''Running''] d = Some (DBool True)) (map snd selected)"
    by (auto simp: andE_true allE_true list_all_iff is_running_def bindE_eq_Inr intro!: dget2_value)
next
  assume bound
  then obtain labels bs where l: "list_all2 (\<lambda>d y. dget2 ''Config'' ''Labels'' empty_obj d = Inr y) (map snd selected) labels"
    "list_all2 (\<lambda>l b. bound_labels a l = Inr b) labels bs" "bs \<noteq> []" "list_all id bs"
    using assms by (auto simp: judge_def Let_def bindE_eq_Inr mapE_ok)
  have "bound_container a d" if "d \<in> set (map snd selected)" for d
  proof -
    from that obtain k where k: "k < length selected" "d = map snd selected ! k" by (auto simp: in_set_conv_nth)
    with l have "dget2 ''Config'' ''Labels'' empty_obj d = Inr (labels ! k)" "bound_labels a (labels ! k) = Inr (bs ! k)"
      "bs ! k" by (auto simp: list_all2_conv_all_nth list_all_length)
    then show ?thesis by (simp add: bound_labels_true)
  qed
  moreover have "selected \<noteq> []" using l(1,2,3) by (auto simp: list_all2_Cons1)
  ultimately show "selected \<noteq> [] \<and> list_all (bound_container a) (map snd selected)"
    by (simp add: list_all_iff)
qed

text \<open>The two shapes of a snapshot.\<close>

lemma observe_docker_cases:
  assumes "observe_docker a \<rho> n = (Inr s, n')"
  obtains "rs_state s = UNKNOWN"
  | ls rows n1 sel n2 t r b c ac now where "select_rows (map fst (at_service_images a)) ls [] = Inr rows"
      "inspect_rows rows \<rho> n1 = (Inr sel, n2)" "judge a sel = Inr (t, r, b)" "s = snapshot_of a sel t r b c ac now"
proof -
  have "rs_state s = UNKNOWN \<or> (\<exists>ls rows n1 sel n2 t r b c ac now.
      select_rows (map fst (at_service_images a)) ls [] = Inr rows \<and> inspect_rows rows \<rho> n1 = (Inr sel, n2) \<and>
      judge a sel = Inr (t, r, b) \<and> s = snapshot_of a sel t r b c ac now)"
    using assms
    by (auto simp: observe_docker_def compose_def runtime_simps unknown_snapshot_def split: if_splits prod.splits;
      blast)
  then show ?thesis using that by blast
qed

lemma observe_docker_not_healthy: "observe_docker a \<rho> n = (Inr s, n') \<Longrightarrow> rs_state s \<noteq> HEALTHY"
  by (erule observe_docker_cases) (simp_all add: snapshot_of_def observed_state_def)

text \<open>C13. The runtime never observes HEALTHY; it observes MUTATION_COMPLETED_HEALTH_UNKNOWN only when
  it has inspected one container of every service of the attempt and each of them is running and
  carries the labels of the attempt.\<close>

theorem observed_state_sound:
  assumes "observe_docker a \<rho> n = (Inr s, n')"
  shows "rs_state s \<noteq> HEALTHY \<and>
     (rs_state s = MUTATION_COMPLETED_HEALTH_UNKNOWN \<longrightarrow>
        length (rs_containers s) = length (at_service_images a) \<and>
        distinct (map fst (rs_containers s)) \<and>
        set (map fst (rs_containers s)) \<subseteq> set (map fst (at_service_images a)) \<and>
        list_all (\<lambda>(service, d). at_path [''State'', ''Running''] d = Some (DBool True) \<and> bound_container a d)
          (rs_containers s))"
  using assms
proof (cases rule: observe_docker_cases)
  case (2 ls rows n1 sel n2 t r b c ac now)
  obtain N where N: "map fst sel = nths (map fst rows) N"
    using inspect_rows_keys [OF 2(2)] by (auto simp: subseq_conv_nths)
  have keys: "distinct (map fst sel)" "set (map fst sel) \<subseteq> set (map fst (at_service_images a))"
    using select_rows_keys [OF 2(1)] set_nths_subset [of "map fst rows" N] unfolding N
    by (simp_all add: distinct_nthsI subset_trans)
  show ?thesis
    using judge_ok [OF 2(3)] keys
    by (auto simp: 2(4) snapshot_of_def observed_state_def list_all_iff split_beta split: if_splits)
qed simp

text \<open>Output of \<open>docker compose ps\<close> that is not a JSON list, such as the one object per line that
  newer releases print, is taken for the absence of all containers, and the state for NOT_STARTED.\<close>

theorem unlisted_is_not_started:
  assumes "observe_docker a \<rho> n = (Inr s, n')"
    and "re_run \<rho> n [Text ''docker'', Text ''compose'', Text ''-f'', Compose_file, Text ''ps'', Text ''--format'',
      Text ''json''] = Inr result"
    and "cr_returncode result = 0" and "listed_rows (cr_stdout result) = []"
  shows "rs_state s = NOT_STARTED \<and> rs_containers s = [] \<and> \<not> rs_transitional s"
  using assms
  by (auto simp: observe_docker_def compose_def runtime_simps judge_def andE_def snapshot_of_def
      observed_state_def bindE_eq_Inr split: if_splits)

section \<open>A health cycle\<close>

text \<open>Everything that a cycle has seen of one container.\<close>

definition healthy_container :: "supervisor_attempt \<Rightarrow> string \<Rightarrow> dvalue \<Rightarrow> bool" where
  "healthy_container a img d \<longleftrightarrow>
     at_path [''State'', ''Running''] d = Some (DBool True) \<and>
     at_path [''State'', ''OOMKilled''] d = Some (DBool False) \<and>
     (\<exists>v. at_path [''RestartCount''] d = Some v \<and> int_of v = Inr 0) \<and>
     at_path [''Config'', ''Image''] d = Some (DStr img) \<and>
     list_all (\<lambda>(k, v). at_path [''Config'', ''Labels'', k] d = Some (DStr v)) (attempt_labels a)"

lemma path_of_state: "dget ''State'' empty_obj d = Inr st \<Longrightarrow> dget k x st = Inr y \<Longrightarrow> y \<noteq> x \<Longrightarrow>
    at_path [''State'', k] d = Some y"
  by (rule dget2_value) (simp_all add: dget2_def)

lemma container_keys [simp]:
  "s @ ''.alive'' \<noteq> ''artifact_digest''" "s @ ''.ready'' \<noteq> ''artifact_digest''" "s @ ''.live'' \<noteq> ''artifact_digest''"
  "s @ ''.alive'' \<noteq> ''revision_sha''" "s @ ''.alive'' \<noteq> t @ ''.ready''" "s @ ''.alive'' \<noteq> ''api.http''"
  "s @ ''.alive'' \<noteq> ''api.dependency.db''" "s @ ''.alive'' \<noteq> ''feishu-worker.connected''"
  "s @ ''.alive'' \<noteq> ''migration''" "s @ ''.alive'' \<noteq> ''critical_regression''"
  "s @ ''.alive'' \<noteq> ''verification_within_timeout''"
  by (auto dest!: arg_cong [of _ _ last])

lemma container_smoke [simp]: "s @ ''.alive'' \<noteq> ''smoke''"
  by (auto dest!: arg_cong [of _ _ length])

lemma container_live [simp]: "s @ ''.alive'' \<noteq> t @ ''.live''"
  by (auto dest!: arg_cong [of _ _ "\<lambda>x. rev x ! 4"] simp: rev_nth)

text \<open>The two verdicts on a container, and that together they make it healthy.\<close>

lemma verdicts:
  assumes "dget ''State'' empty_obj d = Inr state" "dget2 ''Config'' ''Labels'' empty_obj d = Inr labels"
    and "dget ''RestartCount'' (DInt (-1)) d = Inr count" "int_of count = Inr restarts"
    and "immutable_ok a img d image_id image_detail labels = Inr True" "runtime_ok state restarts = Inr True"
  shows "restarts = 0 \<and> healthy_container a img d"
proof -
  have run: "restarts = 0" "dget ''Running'' DNull state = Inr (DBool True)" "dget ''OOMKilled'' DNull state = Inr (DBool False)"
    using assms(6) by (auto simp: runtime_ok_def bindE_eq_Inr andE_true)
  have "labels_hold a labels = Inr True" and image: "dget2 ''Config'' ''Image'' DNull d = Inr (DStr img)"
    using assms(5) by (auto simp: immutable_ok_def bindE_eq_Inr andE_true)
  then have "list_all (\<lambda>(k, v). dget k DNull labels = Inr (DStr v)) (attempt_labels a)"
    by (auto simp: labels_hold_def allE_true bindE_eq_Inr list_all_iff)
  then have "list_all (\<lambda>(k, v). at_path [''Config'', ''Labels'', k] d = Some (DStr v)) (attempt_labels a)"
    by (auto simp: list_all_iff dest!: bspec intro: dget2_path [OF assms(2)])
  moreover have "at_path [''RestartCount''] d = Some count"
    by (rule dget_value [OF assms(3)]) (use assms(4) run(1) in \<open>auto simp: int_of_def\<close>)
  ultimately show ?thesis
    using run image assms(1,4) path_of_state
    by (auto simp: healthy_container_def intro: dget2_value)
qed

lemma container_checks_ok:
  assumes "container_checks a service img d image_detail checks = Inr (checks', restarts)"
  obtains running immutable where
    "map_of checks' (service @ ''.alive'') = Some running"
    "map_of checks' ''artifact_digest'' = Some (check ''artifact_digest'' checks \<and> immutable)"
    "\<And>k. k \<noteq> service \<Longrightarrow> map_of checks' (k @ ''.alive'') = map_of checks (k @ ''.alive'')"
    "running \<Longrightarrow> immutable \<Longrightarrow> healthy_container a img d"
proof -
  from assms obtain state labels image_id count immutable running revision where
    v: "dget ''State'' empty_obj d = Inr state" "dget2 ''Config'' ''Labels'' empty_obj d = Inr labels"
      "dget ''RestartCount'' (DInt (-1)) d = Inr count" "int_of count = Inr restarts"
      "immutable_ok a img d image_id image_detail labels = Inr immutable" "runtime_ok state restarts = Inr running"
    and c: "checks' = put ''revision_sha'' revision (put ''artifact_digest'' (check ''artifact_digest'' (put
        (service @ ''.live'') running (put (service @ ''.ready'') running (put (service @ ''.alive'') running checks)))
        \<and> immutable) (put (service @ ''.live'') running (put (service @ ''.ready'') running
          (put (service @ ''.alive'') running checks))))"
    by (auto simp: container_checks_def bindE_eq_Inr Let_def)
  have keys: "''artifact_digest'' \<noteq> service @ ''.alive''" "''artifact_digest'' \<noteq> service @ ''.ready''"
    "''artifact_digest'' \<noteq> service @ ''.live''" by (metis container_keys(1-3))+
  show ?thesis
    by (rule that [of running immutable])
      (use verdicts [OF v(1-4)] v(5,6) keys in \<open>auto simp: c check_def\<close>)
qed

definition same_verdicts :: "checks \<Rightarrow> checks \<Rightarrow> bool" where
  "same_verdicts c c' \<longleftrightarrow> map_of c' ''artifact_digest'' = map_of c ''artifact_digest'' \<and>
     (\<forall>k. map_of c' (k @ ''.alive'') = map_of c (k @ ''.alive''))"

lemma other_checks:
  "api_checks service deadline c \<rho> n = (Inr c', n') \<Longrightarrow> same_verdicts c c'"
  "worker_checks service c \<rho> n = (Inr c', n') \<Longrightarrow> same_verdicts c c'"
  by (auto simp: api_checks_def worker_checks_def same_verdicts_def runtime_simps bindE_eq_Inr
      split: if_splits)

lemma service_checks_ok:
  assumes "service_checks a deadline cs svcs c rs \<rho> n = (Inr (c', rs'), n')" and "distinct (map fst svcs)"
  shows "k \<notin> set (map fst svcs) \<Longrightarrow> map_of c' (k @ ''.alive'') = map_of c (k @ ''.alive'')"
    and "check ''artifact_digest'' c' \<Longrightarrow> check ''artifact_digest'' c"
    and "check ''artifact_digest'' c' \<Longrightarrow> (service, img) \<in> set svcs \<Longrightarrow>
      map_of c' (service @ ''.alive'') \<noteq> Some False \<Longrightarrow>
      \<exists>d. map_of cs service = Some d \<and> healthy_container a img d"
proof -
  have all: "(\<forall>k. k \<notin> set (map fst svcs) \<longrightarrow> map_of c' (k @ ''.alive'') = map_of c (k @ ''.alive'')) \<and>
      (check ''artifact_digest'' c' \<longrightarrow> check ''artifact_digest'' c \<and>
        (\<forall>(service, img) \<in> set svcs. map_of c' (service @ ''.alive'') \<noteq> Some False \<longrightarrow>
          (\<exists>d. map_of cs service = Some d \<and> healthy_container a img d)))"
    using assms
  proof (induction svcs arbitrary: c rs n)
    case (Cons p svcs)
    obtain service img where p: "p = (service, img)" by (cases p)
    let ?d = "case map_of cs service of None \<Rightarrow> empty_obj | Some d \<Rightarrow> d"
    from Cons.prems(1) obtain image_detail c1 count n1 c2 n2 c3 n3 where
      c1: "container_checks a service img ?d image_detail c = Inr (c1, count)" and
      c2: "api_checks service deadline c1 \<rho> n1 = (Inr c2, n2)" and
      c3: "worker_checks service c2 \<rho> n2 = (Inr c3, n3)" and
      rest: "service_checks a deadline cs svcs c3 (put service count rs) \<rho> n3 = (Inr (c', rs'), n')"
      by (auto simp: p Let_def runtime_simps split: prod.splits)
    obtain running immutable where r: "map_of c1 (service @ ''.alive'') = Some running"
      "map_of c1 ''artifact_digest'' = Some (check ''artifact_digest'' c \<and> immutable)"
      "\<And>k. k \<noteq> service \<Longrightarrow> map_of c1 (k @ ''.alive'') = map_of c (k @ ''.alive'')"
      "running \<Longrightarrow> immutable \<Longrightarrow> healthy_container a img ?d"
      using container_checks_ok [OF c1] by metis
    have same: "map_of c3 ''artifact_digest'' = map_of c1 ''artifact_digest''"
      "map_of c3 (k @ ''.alive'') = map_of c1 (k @ ''.alive'')" for k
      using other_checks(1) [OF c2] other_checks(2) [OF c3] by (simp_all add: same_verdicts_def)
    have IH: "(\<forall>k. k \<notin> set (map fst svcs) \<longrightarrow> map_of c' (k @ ''.alive'') = map_of c3 (k @ ''.alive'')) \<and>
      (check ''artifact_digest'' c' \<longrightarrow> check ''artifact_digest'' c3 \<and>
        (\<forall>(service, img) \<in> set svcs. map_of c' (service @ ''.alive'') \<noteq> Some False \<longrightarrow>
          (\<exists>d. map_of cs service = Some d \<and> healthy_container a img d)))"
      using Cons.IH [OF rest] Cons.prems(2) by simp
    have alive: "map_of c' (service @ ''.alive'') = Some running"
      using IH Cons.prems(2) same(2) r(1) by (simp add: p)
    have none: "\<not> healthy_container a img empty_obj" by (simp add: healthy_container_def at_path.simps)
    have verdict: "check ''artifact_digest'' c3 \<longleftrightarrow> check ''artifact_digest'' c \<and> immutable"
      using same(1) r(2) by (simp add: check_def)
    have here: "running \<Longrightarrow> immutable \<Longrightarrow> \<exists>d. map_of cs service = Some d \<and> healthy_container a img d"
      using r(4) none by (cases "map_of cs service") auto
    have "\<forall>k. k \<notin> set (map fst (p # svcs)) \<longrightarrow> map_of c' (k @ ''.alive'') = map_of c (k @ ''.alive'')"
      using IH same(2) r(3) by (simp add: p)
    moreover have "check ''artifact_digest'' c' \<Longrightarrow> check ''artifact_digest'' c \<and> immutable"
      using IH verdict by blast
    ultimately show ?case using IH alive here by (auto simp: p)
  qed (simp add: runtime_simps)
  then show "k \<notin> set (map fst svcs) \<Longrightarrow> map_of c' (k @ ''.alive'') = map_of c (k @ ''.alive'')"
    and "check ''artifact_digest'' c' \<Longrightarrow> check ''artifact_digest'' c"
    and "check ''artifact_digest'' c' \<Longrightarrow> (service, img) \<in> set svcs \<Longrightarrow>
      map_of c' (service @ ''.alive'') \<noteq> Some False \<Longrightarrow>
      \<exists>d. map_of cs service = Some d \<and> healthy_container a img d"
    by blast+
qed

text \<open>What a cycle that passed saw: a snapshot with a healthy container of every service.\<close>

definition cycle_seen :: "supervisor_attempt \<Rightarrow> runtime_snapshot \<Rightarrow> health_cycle \<Rightarrow> bool" where
  "cycle_seen a s c \<longleftrightarrow>
     rs_state s = MUTATION_COMPLETED_HEALTH_UNKNOWN \<and> list_all snd (hc_checks c) \<and>
     hc_observed_digest c = at_artifact_digest a \<and> hc_observed_sha c = at_target_sha a \<and>
     list_all (\<lambda>(service, img). case map_of (rs_containers s) service of
         None \<Rightarrow> False | Some d \<Rightarrow> healthy_container a img d) (at_service_images a)"

lemma list_all_snd_map_of: "list_all snd c \<Longrightarrow> map_of c k \<noteq> Some False"
  by (auto simp: list_all_iff dest!: map_of_SomeD)

lemma health_cycle_seen:
  assumes "health_cycle_once a deadline \<rho> n = (Inr c, n')" and "distinct (map fst (at_service_images a))"
  shows "\<exists>s n1. observe_docker a \<rho> n = (Inr s, n1) \<and> cycle_seen a s c"
proof -
  define c0 where "c0 = put ''revision_sha'' True (put ''artifact_digest'' True
       (map (\<lambda>key. (key, False)) (required_list (map fst (at_service_images a)))))"
  from assms(1) obtain s n1 c1 rs n2 n3 m t where
    s: "observe_docker a \<rho> n = (Inr s, n1)" "rs_state s = MUTATION_COMPLETED_HEALTH_UNKNOWN" and
    c1: "service_checks a deadline (rs_containers s) (at_service_images a) c0 [] \<rho> n2 = (Inr (c1, rs), n3)" and
    c: "hc_checks c = final_checks a c1 rs (actual_migration m) t" "list_all snd (hc_checks c)"
      "hc_observed_digest c = at_artifact_digest a" "hc_observed_sha c = at_target_sha a"
    by (auto simp: health_cycle_once_def compose_def runtime_simps Let_def supervisor_def c0_def [symmetric]
        split: if_splits prod.splits)
  have "map_of (hc_checks c) (k @ ''.alive'') = map_of c1 (k @ ''.alive'')" for k
    by (simp add: c(1) final_checks_def Let_def)
  then have alive: "map_of c1 (k @ ''.alive'') \<noteq> Some False" for k
    using list_all_snd_map_of [OF c(2), of "k @ ''.alive''"] by simp
  have "map_of (hc_checks c) ''artifact_digest'' = map_of c1 ''artifact_digest''"
    by (simp add: c(1) final_checks_def Let_def)
  then have "check ''artifact_digest'' c1"
    using list_all_snd_map_of [OF c(2), of "''artifact_digest''"]
    by (auto simp: check_def split: option.splits)
  then have "case map_of (rs_containers s) service of None \<Rightarrow> False | Some d \<Rightarrow> healthy_container a img d"
    if "(service, img) \<in> set (at_service_images a)" for service img
    using service_checks_ok(3) [OF c1 assms(2) _ that alive] by auto
  then have "cycle_seen a s c"
    using s(2) c by (auto simp: cycle_seen_def list_all_iff)
  with s(1) show ?thesis by blast
qed

section \<open>Polling\<close>

text \<open>A cycle that a polling returns is one that it ran to its end.\<close>

lemma poll_health_ran:
  "poll_health a deadline \<rho> earlier n = Some r \<Longrightarrow> fst r = Inr c \<Longrightarrow>
    \<exists>k. health_cycle_once a deadline \<rho> k = (Inr c, snd r)"
proof (induction a deadline \<rho> earlier n r
    rule: poll_health.raw_induct [rotated, consumes 1, case_names poll])
  case (poll poll a deadline \<rho> earlier n r)
  obtain x n1 where run: "health_cycle_once a deadline \<rho> n = (x, n1)" by fastforce
  show ?case
  proof (cases x)
    case (Inr y)
    with poll(2,3) run have "x = Inr c" "n1 = snd r" by auto
    with run show ?thesis by blast
  next
    case (Inl y)
    from poll(2) have "\<exists>z k. poll a deadline \<rho> z k = Some r"
      using poll(3) by (cases y) (auto simp: run Inl Let_def split: if_splits)
    then show ?thesis using poll(1,3) by blast
  qed
qed

text \<open>Ticks only go forward, so the clock passes the deadline.\<close>

definition forward :: "'a runtime \<Rightarrow> bool" where
  "forward m \<longleftrightarrow> (\<forall>\<rho> n. n \<le> snd (m \<rho> n))"

lemma forwardD: "forward m \<Longrightarrow> m \<rho> n = (r, n') \<Longrightarrow> n \<le> n'"
  unfolding forward_def by (metis snd_conv)

named_theorems forward_intros \<open>effects of the runtime whose ticks go forward\<close>

lemma forward_ret [forward_intros]: "forward (ret r)"
  by (simp add: forward_def ret_def)

lemma forward_base [forward_intros]: "forward utc_now" "forward (command as)" "forward (compose as)"
  by (simp_all add: forward_def utc_now_def command_def compose_def)

lemma forward_bind [forward_intros]:
  assumes "forward m" and "\<And>x. forward (k x)"
  shows "forward (bindR m k)"
proof -
  have "n \<le> snd (bindR m k \<rho> n)" for \<rho> n
  proof (cases "m \<rho> n")
    case (Pair r n1)
    then have "n \<le> n1" by (rule forwardD [OF assms(1)])
    moreover have "n1 \<le> snd (k x \<rho> n1)" for x using assms(2) by (simp add: forward_def)
    ultimately show ?thesis using Pair le_trans by (cases r) (fastforce simp: bindR_def)+
  qed
  then show ?thesis by (simp add: forward_def)
qed

lemma forward_branch [forward_intros]:
  "forward a \<Longrightarrow> forward b \<Longrightarrow> forward (if c then a else b)"
  "(\<And>x y. forward (p x y)) \<Longrightarrow> forward (case q of (x, y) \<Rightarrow> p x y)"
  by (simp_all split: prod.splits)

lemma forward_inspect: "forward (inspect_rows rows)"
  by (induction rows) (auto simp: split_beta intro!: forward_intros split: prod.splits)

lemma forward_observe: "forward (observe_docker a)"
  unfolding observe_docker_def docker_client_active_def by (intro forward_intros forward_inspect)

lemma forward_service_checks: "forward (service_checks a deadline cs svcs c rs)"
proof (induction svcs arbitrary: c rs)
  case (Cons p svcs)
  then show ?case
    by (cases p) (auto simp: Let_def api_checks_def worker_checks_def probe_def intro!: forward_intros)
qed (simp add: forward_ret)

lemma forward_cycle: "forward (health_cycle_once a deadline)"
  unfolding health_cycle_once_def Let_def
  by (intro forward_intros forward_observe forward_service_checks)

text \<open>C15. Polling ends when the clock reaches the deadline at some tick and stays past it: it returns a
  cycle or raises.\<close>

theorem verify_health_ends:
  assumes "\<forall>k \<ge> N. deadline \<le> re_now \<rho> k"
  shows "verify_health_docker a deadline \<rho> \<noteq> None"
proof -
  have "poll_health a deadline \<rho> earlier n \<noteq> None" for earlier n
  proof (induction "N - n" arbitrary: earlier n rule: less_induct)
    case less
    show ?case
    proof (cases "health_cycle_once a deadline \<rho> n")
      case (Pair r n')
      have "n \<le> n'" by (rule forwardD [OF forward_cycle Pair])
      have step: "poll_health a deadline \<rho> x (Suc n') \<noteq> None" if "\<not> deadline \<le> re_now \<rho> n'" for x
      proof (rule less)
        have "n' < N" using that assms by (meson not_le)
        with \<open>n \<le> n'\<close> show "N - Suc n' < N - n" by linarith
      qed
      show ?thesis
        using step by (subst poll_health.simps) (simp add: Pair Let_def split: sum.split exn.split)
    qed
  qed
  then show ?thesis by (simp add: verify_health_docker_def)
qed

section \<open>The probe of the worker\<close>

text \<open>The probe prints a Python dictionary, which is not JSON as soon as it has a key: whatever the
  worker answers, \<open>feishu-worker.connected\<close> is false, so that no cycle with the worker passes.\<close>

theorem worker_never_connected:
  assumes "cr_stdout worker = CHR ''{'' # CHR 0x27 # text"
  shows "worker_connected worker = Inr False"
  using assms by (simp add: worker_connected_def python_dict_not_json andE_def dget_def)

section \<open>The plan\<close>

lemma check_images_ok: "check_images digest imgs = Inr u \<Longrightarrow> img \<in> set imgs \<Longrightarrow>
    IMMUTABLE_IMAGE_PATTERN img \<and> after_last_at img = digest"
  by (induction imgs) (auto split: if_splits)

lemma check_resolved_ok:
  "check_resolved plan svcs = Inr u \<Longrightarrow> (service, img) \<in> set svcs \<Longrightarrow>
     at_path [''services'', service, ''image''] plan = Some (DStr img) \<and>
     at_path [''services'', service, ''build''] plan \<in> {None, Some DNull}"
proof (induction svcs)
  case (Cons p svcs)
  obtain s i where p: "p = (s, i)" by (cases p)
  from Cons.prems(1) obtain r where r: "dget2 ''services'' s empty_obj plan = Inr r"
    "dget ''image'' DNull r = Inr (DStr i)" "dget ''build'' DNull r = Inr DNull"
    "check_resolved plan svcs = Inr u"
    by (auto simp: p bindE_eq_Inr split: if_splits)
  have "at_path [''services'', s, ''image''] plan = Some (DStr i)"
    by (rule dget2_path [OF r(1,2)]) simp
  moreover have "at_path [''services'', s, ''build''] plan \<in> {None, Some DNull}"
    using r(1,3) by (auto simp: dget2_def dget_def at_path.simps bindE_eq_Inr split: dvalue.splits option.splits)
  ultimately show ?case using Cons r(4) by (auto simp: p)
qed simp

text \<open>C14. A plan that is accepted is immutable: every image names the digest of the attempt, and what
  \<open>docker compose config\<close> resolved for the service is this image and no build.\<close>

theorem accepted_plan_immutable:
  assumes "validate_plan_docker a \<rho> n = (Inr (), n')"
  shows "\<exists>result plan. json_loads (cr_stdout result) = Some plan \<and> cr_returncode result = 0 \<and>
     re_run \<rho> (Suc n) [Text ''docker'', Text ''compose'', Text ''-f'', Compose_file, Text ''-f'',
       Override (at_service_images a) (attempt_labels a), Text ''config'', Text ''--format'', Text ''json''] = Inr result \<and>
     list_all (\<lambda>(service, img). IMMUTABLE_IMAGE_PATTERN img \<and> after_last_at img = at_artifact_digest a \<and>
       at_path [''services'', service, ''image''] plan = Some (DStr img) \<and>
       at_path [''services'', service, ''build''] plan \<in> {None, Some DNull}) (at_service_images a)"
proof -
  from assms obtain result plan where
    p: "check_images (at_artifact_digest a) (map snd (at_service_images a)) = Inr ()"
      "re_run \<rho> (Suc n) [Text ''docker'', Text ''compose'', Text ''-f'', Compose_file, Text ''-f'',
       Override (at_service_images a) (attempt_labels a), Text ''config'', Text ''--format'', Text ''json''] = Inr result"
      "cr_returncode result = 0" "json_loads (cr_stdout result) = Some plan"
      "check_resolved plan (at_service_images a) = Inr ()"
    by (auto simp: validate_plan_docker_def runtime_simps override_def compose_def supervisor_def
        bindE_eq_Inr split: if_splits option.splits)
  have "list_all (\<lambda>(service, img). IMMUTABLE_IMAGE_PATTERN img \<and> after_last_at img = at_artifact_digest a \<and>
       at_path [''services'', service, ''image''] plan = Some (DStr img) \<and>
       at_path [''services'', service, ''build''] plan \<in> {None, Some DNull}) (at_service_images a)"
    using check_images_ok [OF p(1)] check_resolved_ok [OF p(5)] by (force simp: list_all_iff)
  with p show ?thesis by blast
qed

section \<open>The supervisor on a runtime\<close>

text \<open>
  What the supervisor relies on in a runtime, and what it delivers on any runtime that keeps this
  contract. At each of its ticks the runtime finds an environment of its own.
\<close>

locale runtime_contract =
  fixes observe :: "supervisor_attempt \<Rightarrow> runtime_snapshot runtime"
    and health :: "supervisor_attempt \<Rightarrow> instant \<Rightarrow> runtime_env \<Rightarrow> (health_cycle result \<times> nat) option"
    and seen :: "supervisor_attempt \<Rightarrow> instant \<Rightarrow> runtime_env \<Rightarrow> health_cycle \<Rightarrow> bool"
  assumes never_healthy: "observe a \<rho> n = (Inr s, n') \<Longrightarrow> rs_state s \<noteq> HEALTHY"
    and cycle_contract: "health a deadline \<rho> = Some (Inr c, n') \<Longrightarrow> distinct (map fst (at_service_images a)) \<Longrightarrow>
      seen a deadline \<rho> c"
begin

definition runs_on :: "(nat \<Rightarrow> runtime_env) \<Rightarrow> env \<Rightarrow> bool" where
  "runs_on \<rho> e \<longleftrightarrow> (\<forall>t a. e_observe e t a = fst (observe a (\<rho> t) 0)) \<and>
     (\<forall>t a d c. e_health e t a d = Inr c \<longrightarrow> (\<exists>n. health a d (\<rho> t) = Some (Inr c, n)))"

lemma never_observed: "runs_on \<rho> e \<Longrightarrow> e_observe e t a = Inr s \<Longrightarrow> rs_state s \<noteq> HEALTHY"
  unfolding runs_on_def by (metis fst_conv never_healthy surj_pair)

lemma cycle_was_seen: "runs_on \<rho> e \<Longrightarrow> e_health e t a d = Inr c \<Longrightarrow> distinct (map fst (at_service_images a)) \<Longrightarrow>
    seen a d (\<rho> t) c"
  unfolding runs_on_def using cycle_contract by blast

end

text \<open>A cycle that the runtime ran, and the snapshot that it began with.\<close>

definition docker_seen :: "supervisor_attempt \<Rightarrow> instant \<Rightarrow> runtime_env \<Rightarrow> health_cycle \<Rightarrow> bool" where
  "docker_seen a deadline \<rho> c \<longleftrightarrow>
     (\<exists>s k k' n. health_cycle_once a deadline \<rho> k = (Inr c, n) \<and> verify_health_docker a deadline \<rho> = Some (Inr c, n) \<and>
        observe_docker a \<rho> k = (Inr s, k') \<and> cycle_seen a s c)"

interpretation docker: runtime_contract observe_docker verify_health_docker docker_seen
proof
  show "observe_docker a \<rho> n = (Inr s, n') \<Longrightarrow> rs_state s \<noteq> HEALTHY" for a \<rho> n s n'
    by (rule observe_docker_not_healthy)
  show "docker_seen a d \<rho> c"
    if run: "verify_health_docker a d \<rho> = Some (Inr c, n')" and services: "distinct (map fst (at_service_images a))"
    for a d \<rho> c n'
  proof -
    from poll_health_ran [OF run [unfolded verify_health_docker_def]] obtain k where
      k: "health_cycle_once a d \<rho> k = (Inr c, n')" by auto
    with health_cycle_seen [OF k services] run show ?thesis unfolding docker_seen_def by blast
  qed
qed

text \<open>The environment of a supervisor with the Docker runtime. A polling that never ends returns no cycle.\<close>

definition with_docker :: "(nat \<Rightarrow> runtime_env) \<Rightarrow> env \<Rightarrow> env" where
  "with_docker \<rho> e = e\<lparr>
     e_plan := (\<lambda>t a. fst (validate_plan_docker a (\<rho> t) 0)),
     e_submit := (\<lambda>t a. case fst (submit_docker a (\<rho> t) 0) of Inl x \<Rightarrow> Raises x | Inr _ \<Rightarrow> Goes_on),
     e_observe := (\<lambda>t a. fst (observe_docker a (\<rho> t) 0)),
     e_events := (\<lambda>t s s'. fst (events_between_docker s s' (\<rho> t) 0)),
     e_health := (\<lambda>t a d. case verify_health_docker a d (\<rho> t) of
         Some (r, _) \<Rightarrow> r | None \<Rightarrow> Inl (OtherException ''unending''))\<rparr>"

lemma runs_on_docker: "docker.runs_on \<rho> (with_docker \<rho> e)"
  unfolding docker.runs_on_def by (auto simp: with_docker_def split: option.splits prod.splits)

text \<open>The keys of a JSONB object are distinct, so the services of an artifact are.\<close>

definition services_distinct :: "db \<Rightarrow> bool" where
  "services_distinct d \<longleftrightarrow> list_all (\<lambda>f. distinct (map fst (da_service_images f))) (t_artifacts d)"

lemma loaded_services:
  assumes "load_attempt i v now d = Inr a" and "services_distinct d"
  shows "distinct (map fst (at_service_images a))"
proof -
  from assms(1) obtain r where r: "load_authority_rows i d = Inr r" "a = attempt_of r" by (rule load_ok)
  with load_rows_in(5) [OF r(1)] assms(2) show ?thesis
    by (auto simp: attempt_of_def services_distinct_def list_all_iff)
qed

text \<open>C12. When an execution on Docker that begins without a terminal record returns HEALTHY, then for the attempt
  that it loaded from the database a health cycle was run to its end, at a tick of this execution, whose snapshot
  held for every service of the attempt a container that runs, was not killed, never restarted, and has the
  attempt's image of this service and the attempt's labels; the cycle passed all the checks that are required
  of the attempt and was completed within 120 seconds of the window's anchor, which is the one that the journal
  held or a time that the clock gave in this execution before the cycle began. The keys of the JSONB objects in
  the database are taken to be distinct.\<close>

theorem healthy_deployment:
  assumes "execute i (with_docker \<rho> e) w = (Done HEALTHY, w')"
    and "case w_journals w i of None \<Rightarrow> True | Some f \<Rightarrow> terminals (jf_lines f) = []"
    and "\<forall>t. services_distinct (e_others e t (w_db w))"
  shows "\<exists>a l t t0 c s k k' n. w_tick w \<le> l \<and>
     load_attempt i (e_ci e l) (\<lambda>k. e_now e (l + k)) (e_others e l (w_db w)) = Inr a \<and>
     w_tick w \<le> t \<and> t < w_tick w' \<and>
     (case Option.bind (w_journals w i) (\<lambda>f. lines_anchor (jf_lines f)) of
        Some anchor \<Rightarrow> t0 = anchor
      | None \<Rightarrow> \<exists>j. w_tick w \<le> j \<and> j < t \<and> t0 = e_now e j) \<and>
     verify_health_docker a (t0 + seconds 120) (\<rho> t) = Some (Inr c, n) \<and>
     health_cycle_once a (t0 + seconds 120) (\<rho> t) k = (Inr c, n) \<and> observe_docker a (\<rho> t) k = (Inr s, k') \<and>
     (\<forall>(service, img) \<in> set (at_service_images a). \<exists>d. map_of (rs_containers s) service = Some d \<and>
        at_path [''State'', ''Running''] d = Some (DBool True) \<and>
        at_path [''State'', ''OOMKilled''] d = Some (DBool False) \<and>
        (\<exists>v. at_path [''RestartCount''] d = Some v \<and> int_of v = Inr 0) \<and>
        at_path [''Config'', ''Image''] d = Some (DStr img) \<and>
        (\<forall>(key, v) \<in> set (attempt_labels a). at_path [''Config'', ''Labels'', key] d = Some (DStr v))) \<and>
     cycle_passed a (t0 + seconds 120) c"
proof -
  let ?e = "with_docker \<rho> e"
  have e: "e_ci ?e = e_ci e" "e_now ?e = e_now e" "e_others ?e = e_others e" by (simp_all add: with_docker_def)
  define anchor where "anchor = (case w_journals w i of None \<Rightarrow> None | Some f \<Rightarrow> lines_anchor (jf_lines f))"
  from healthy_is_verified [OF assms(1,2) anchor_def] obtain a where a: "loaded i ?e w a"
    and v: "verified ?e (w_tick w) anchor a (w_tick w') HEALTHY" by blast
  from a obtain l where l: "w_tick w \<le> l"
    "load_attempt i (e_ci e l) (\<lambda>k. e_now e (l + k)) (e_others e l (w_db w)) = Inr a"
    by (auto simp: loaded_def e)
  have services: "distinct (map fst (at_service_images a))"
    using loaded_services [OF l(2)] assms(3) by blast
  from v docker.never_observed [OF runs_on_docker] obtain t t0 c where
    t: "w_tick w \<le> t" "t < w_tick w'" "anchored ?e (w_tick w) anchor t t0" "cycle_passed a (t0 + seconds 120) c"
    and c: "e_health ?e t a (t0 + seconds 120) = Inr c"
    unfolding verified_def by blast
  from docker.cycle_was_seen [OF runs_on_docker c services] obtain s k k' n where
    run: "health_cycle_once a (t0 + seconds 120) (\<rho> t) k = (Inr c, n)"
    "verify_health_docker a (t0 + seconds 120) (\<rho> t) = Some (Inr c, n)"
    "observe_docker a (\<rho> t) k = (Inr s, k')" "cycle_seen a s c"
    unfolding docker_seen_def by blast
  have anchor: "case Option.bind (w_journals w i) (\<lambda>f. lines_anchor (jf_lines f)) of
        Some anchor \<Rightarrow> t0 = anchor
      | None \<Rightarrow> \<exists>j. w_tick w \<le> j \<and> j < t \<and> t0 = e_now e j"
    using t(3) by (auto simp: anchored_def anchor_def e split: option.splits)
  have "\<exists>d. map_of (rs_containers s) service = Some d \<and> healthy_container a img d"
    if "(service, img) \<in> set (at_service_images a)" for service img
    using run(4) that by (auto simp: cycle_seen_def list_all_iff split: option.splits)
  then have "\<forall>(service, img) \<in> set (at_service_images a). \<exists>d. map_of (rs_containers s) service = Some d \<and>
        at_path [''State'', ''Running''] d = Some (DBool True) \<and>
        at_path [''State'', ''OOMKilled''] d = Some (DBool False) \<and>
        (\<exists>v. at_path [''RestartCount''] d = Some v \<and> int_of v = Inr 0) \<and>
        at_path [''Config'', ''Image''] d = Some (DStr img) \<and>
        (\<forall>(key, v) \<in> set (attempt_labels a). at_path [''Config'', ''Labels'', key] d = Some (DStr v))"
    unfolding healthy_container_def list_all_iff by blast
  with l t(1,2,4) anchor run(1-3) show ?thesis by blast
qed

end
