(* ===== verification/Announce.thy ===== *)
theory Announce
  imports Notice Steady
begin

text \<open>
  \<^verbatim>\<open>app/services/deployment_notifications.py\<close> and \<^verbatim>\<open>app/services/deployment_executor.py\<close>: the text
  about a deployment, that it is sent once for a key, and the entry points that always refuse.
\<close>

section \<open>The notification\<close>

definition DEPLOYMENT_NOTIFICATION_EVENTS :: "string set" where
  "DEPLOYMENT_NOTIFICATION_EVENTS =
     {''staging_started'', ''staging_passed'', ''staging_failed'', ''production_approval_required'',
      ''production_started'', ''production_passed'', ''production_failed'', ''rollback_approval_required'',
      ''rollback_started'', ''rollback_passed'', ''rollback_failed''}"

record deployment_notification =
  dn_event_type :: string
  dn_deployment_id :: uuid
  dn_repository :: string
  dn_target_sha :: string
  dn_artifact_digest :: string
  dn_environment :: string

definition validate_deployment_notification :: "deployment_notification \<Rightarrow> unit result" where
  "validate_deployment_notification n =
     (if dn_event_type n \<notin> DEPLOYMENT_NOTIFICATION_EVENTS
      then Inl (ValueError ''unsupported deployment notification'')
      else if \<not> SHA_PATTERN (dn_target_sha n) then Inl (ValueError ''invalid notification SHA'')
      else if \<not> DIGEST_PATTERN (dn_artifact_digest n) then Inl (ValueError ''invalid notification digest'')
      else if dn_environment n \<noteq> ''production'' then Inl (ValueError ''invalid notification environment'')
      else Inr ())"

definition deployment_notification_text :: "deployment_notification \<Rightarrow> string result" where
  "deployment_notification_text n =
     bindE (validate_deployment_notification n) (\<lambda>_. Inr (join [CHR 0x0A]
       [''Maoxx OS Controlled Deployment'',
        (zh [0x4e8b, 0x4ef6, 0xff1a]) @ dn_event_type n,
        (zh [0x90e8, 0x7f72, 0xff1a]) @ uuid_str (dn_deployment_id n),
        (zh [0x4ed3, 0x5e93, 0xff1a]) @ dn_repository n,
        (zh [0x76ee, 0x6807] @ '' SHA'' @ zh [0xff1a]) @ dn_target_sha n,
        (zh [0x5de5, 0x4ef6, 0x6458, 0x8981, 0xff1a]) @ dn_artifact_digest n,
        (zh [0x73af, 0x5883, 0xff1a]) @ dn_environment n,
        (zh [0x6b64, 0x901a, 0x77e5, 0x4e0d, 0x4ee3, 0x8868, 0x4efb, 0x4f55, 0x672a, 0x8bb0, 0x5f55,
          0x7684, 0x53d7, 0x4fdd, 0x62a4, 0x52a8, 0x4f5c, 0x5df2, 0x6267, 0x884c, 0x3002])]))"

section \<open>Sending\<close>

definition is_notification :: "uuid \<Rightarrow> string \<Rightarrow> deployment_evidence \<Rightarrow> bool" where
  "is_notification deployment_id evidence_key e \<longleftrightarrow> ev_deployment_id e = deployment_id \<and>
     ev_evidence_type e = ''feishu_notification'' \<and> ev_evidence_key e = evidence_key"

text \<open>\<open>payload.get("reference")\<close> when it is a string; the text of a UUID is held as this UUID.\<close>

definition reference_of :: "dict \<Rightarrow> string option" where
  "reference_of payload =
     (case map_of payload ''reference'' of
        Some (JStr s) \<Rightarrow> Some s
      | Some (JUuid u) \<Rightarrow> Some (uuid_str u)
      | _ \<Rightarrow> None)"

text \<open>
  The sink takes a text and a key and returns a reference; it is not part of the program. The result
  comes with the calls of the sink and the database.
\<close>

type_synonym sink = "string \<Rightarrow> string \<Rightarrow> string result"

definition record_notification ::
  "uuid \<Rightarrow> string \<Rightarrow> string \<Rightarrow> string \<Rightarrow> (nat \<Rightarrow> uuid) \<Rightarrow> instant \<Rightarrow> db \<Rightarrow> db \<Rightarrow> (string \<times> db) result" where
  "record_notification deployment_id event_type evidence_key reference ids now d dc =
     (if reference = [] \<or> py_len reference > 200 then gate ''invalid_notification_reference''
      else bindE (record_deployment_evidence deployment_id ''feishu_notification'' evidence_key ''recorded''
          (mk_dict [(''event_type'', JStr event_type), (''reference'', json_of (DStr reference))]) ids now d dc)
        (\<lambda>(_, d'). Inr (reference, d')))"

definition notification_for :: "deployment_intent \<Rightarrow> uuid \<Rightarrow> string \<Rightarrow> deployment_notification" where
  "notification_for intent deployment_id event_type =
     \<lparr>dn_event_type = event_type, dn_deployment_id = deployment_id, dn_repository = di_repository intent,
      dn_target_sha = di_target_sha intent, dn_artifact_digest = di_artifact_digest intent,
      dn_environment = ''production''\<rparr>"

text \<open>
  The evidence is read in \<open>d\<close> without a lock, then the sink is called; only then the reference is recorded, which
  reads in \<open>dr\<close> and commits in \<open>dc\<close>. Other sessions may commit between each of them, and other sends may
  call the sink.
\<close>

definition send_deployment_notification ::
  "uuid \<Rightarrow> string \<Rightarrow> string \<Rightarrow> sink \<Rightarrow> (nat \<Rightarrow> uuid) \<Rightarrow> instant \<Rightarrow> db \<Rightarrow> db \<Rightarrow> db \<Rightarrow>
     (string \<times> db) result \<times> (string \<times> string) list" where
  "send_deployment_notification deployment_id event_type evidence_key sink ids now d dr dc =
     (case get_row di_id deployment_id (t_intents d) of
        None \<Rightarrow> (gate ''unknown_deployment'', [])
      | Some intent \<Rightarrow>
          (case scalar_one_or_none (is_notification deployment_id evidence_key) (t_evidence d) of
             Inl x \<Rightarrow> (Inl x, [])
           | Inr (Some e) \<Rightarrow>
               (case reference_of (ev_payload e) of
                  None \<Rightarrow> (gate ''invalid_notification_evidence'', [])
                | Some r \<Rightarrow> (if r = [] then gate ''invalid_notification_evidence'' else Inr (r, dc), []))
           | Inr None \<Rightarrow>
               (case deployment_notification_text (notification_for intent deployment_id event_type) of
                  Inl x \<Rightarrow> (Inl x, [])
                | Inr text \<Rightarrow>
                    (bindE (sink text evidence_key) (\<lambda>reference.
                       record_notification deployment_id event_type evidence_key reference ids now dr dc),
                     [(text, evidence_key)]))))"

section \<open>The retired entry points\<close>

definition execute_from_application :: "unit result" where
  "execute_from_application = gate ''host_supervisor_required''"

definition caller_constructed_execution :: "unit result" where
  "caller_constructed_execution = gate ''caller_constructed_execution_forbidden''"

definition submit_attempt_identifier :: "uuid \<Rightarrow> uuid" where
  "submit_attempt_identifier execution_attempt_id = execution_attempt_id"

section \<open>Sent once\<close>

lemma reference_recorded [simp]:
  "reference_of (mk_dict [(''event_type'', v), (''reference'', json_of (DStr r))]) = Some r"
  by (auto simp: reference_of_def split: option.splits)

lemma evidence_recorded:
  assumes "record_deployment_evidence dep ty key st payload ids now d dc = Inr (e, d')"
  shows "(e \<in> set (t_evidence d) \<and> d' = dc \<or> insert_evidence e dc = Inr d') \<and> ev_deployment_id e = dep \<and>
     ev_evidence_type e = ty \<and> ev_evidence_key e = key \<and> ev_payload e = payload"
  using assms
  by (auto simp: record_deployment_evidence_def add_evidence_with_def gate_def policy_def Let_def branch_simps
      scalar_one_or_none_Some dest!: filter_singletonD)

lemma runs_evidence: "runs d d' \<Longrightarrow> set (t_evidence d) \<subseteq> set (t_evidence d')"
  using dml_grows [OF runs_dml] by (auto simp: grows_def dest: set_mono_prefix)

lemma recorded_reference:
  assumes "record_notification dep ev key r ids now d dc = Inr (r', d')" and "runs d dc"
  shows "r' = r \<and> r \<noteq> [] \<and> (\<exists>e \<in> set (t_evidence d'). is_notification dep key e \<and>
    reference_of (ev_payload e) = Some r \<and> (d' = dc \<or> insert_evidence e dc = Inr d'))"
proof -
  from assms(1) obtain e where r: "r' = r" "r \<noteq> []" and ev: "record_deployment_evidence dep ''feishu_notification''
      key ''recorded'' (mk_dict [(''event_type'', JStr ev), (''reference'', json_of (DStr r))]) ids now d dc = Inr (e, d')"
    by (auto simp: record_notification_def gate_def branch_simps simp del: json_of.simps)
  note row = evidence_recorded [OF ev]
  then have "e \<in> set (t_evidence d')"
    using runs_evidence [OF assms(2)] by (auto dest!: inserted(15))
  with row r show ?thesis by (auto simp: is_notification_def simp del: json_of.simps)
qed

text \<open>How a send ends without an exception.\<close>

lemma sent_cases:
  assumes "send_deployment_notification dep ev key sink ids now d dr dc = (Inr (r, d'), calls)"
  obtains e where "e \<in> set (t_evidence d)" "is_notification dep key e" "reference_of (ev_payload e) = Some r"
      "d' = dc" "calls = []" "r \<noteq> []"
  | message where "calls = [(message, key)]" "sink message key = Inr r"
      "record_notification dep ev key r ids now dr dc = Inr (r, d')"
proof (cases "get_row di_id dep (t_intents d)")
  case (Some i)
  note intent = this
  show thesis
  proof (cases "scalar_one_or_none (is_notification dep key) (t_evidence d)")
    case (Inr x)
    note row = this
    show thesis
    proof (cases x)
      case None
      note send = assms [unfolded send_deployment_notification_def intent row None option.case sum.case]
      obtain m where m: "deployment_notification_text (notification_for i dep ev) = Inr m"
        using send by (cases "deployment_notification_text (notification_for i dep ev)") auto
      with send obtain r0 where r0: "sink m key = Inr r0" "record_notification dep ev key r0 ids now dr dc = Inr (r, d')"
        "calls = [(m, key)]" by (auto simp: bindE_eq_Inr)
      then have "r = r0" by (auto simp: record_notification_def gate_def branch_simps)
      then show thesis using r0 by (intro that(2) [of m]) simp_all
    next
      case (Some e)
      note send = assms [unfolded send_deployment_notification_def intent row Some option.case sum.case]
      have "e \<in> set (t_evidence d)" "is_notification dep key e"
        using row Some by (auto simp: scalar_one_or_none_Some dest!: filter_singletonD)
      with send show thesis by (intro that(1) [of e]) (auto simp: gate_def split: option.splits if_splits)
    qed
  qed (use assms Some in \<open>simp add: send_deployment_notification_def\<close>)
qed (use assms in \<open>simp add: send_deployment_notification_def gate_def\<close>)

text \<open>The evidence that a returned reference rests on, in the database after the send.\<close>

lemma sent_recorded:
  assumes "send_deployment_notification dep ev key sink ids now d dr dc = (Inr (r, d'), calls)"
    and "runs d dr" and "runs dr dc"
  obtains e where "e \<in> set (t_evidence d')" "is_notification dep key e" "reference_of (ev_payload e) = Some r"
    "r \<noteq> []" "d' = dc \<or> insert_evidence e dc = Inr d'"
  using assms(1)
proof (cases rule: sent_cases)
  case (1 e)
  moreover have "runs d dc" using assms(2,3) runs_trans by blast
  ultimately show thesis using runs_evidence by (intro that [of e]) auto
next
  case (2 message)
  from recorded_reference [OF 2(3) assms(3)] show thesis using that by blast
qed

lemma sent_runs:
  assumes "send_deployment_notification dep ev key sink ids now d dr dc = (Inr (r, d'), calls)"
    and "runs d dr" and "runs dr dc"
  shows "runs dc d'"
  using sent_recorded [OF assms] runs.authority_evidence runs.none by metis

lemma evidence_key_row:
  assumes "schema_ok d" "e \<in> set (t_evidence d)" "is_notification dep key e"
  shows "filter (is_notification dep key) (t_evidence d) = [e]"
proof -
  let ?k = "\<lambda>e. (ev_deployment_id e, ev_evidence_type e, ev_evidence_key e)"
  have "distinct (map ?k (t_evidence d))"
    using assms(1) by (auto simp: schema_ok_def rows_ok_def table_ok_def key_defs unique_key_Some distinct_map inj_on_def)
  from distinct_key_filter [OF this assms(2)] assms(3) show ?thesis
    by (simp add: is_notification_def [abs_def])
qed

lemma one_notification:
  assumes "schema_ok d" "e \<in> set (t_evidence d)" "is_notification dep key e"
    "e' \<in> set (t_evidence d)" "is_notification dep key e'"
  shows "e' = e"
  using evidence_key_row [OF assms(1-3)] evidence_key_row [OF assms(1,4,5)] by simp

lemma evidence_new:
  assumes "insert_evidence e d = Inr d'" "schema_ok d'" "is_notification dep key e"
  shows "e \<notin> set (t_evidence d)"
proof
  assume "e \<in> set (t_evidence d)"
  then have "filter (is_notification dep key) (t_evidence d) \<noteq> []"
    using assms(3) by (auto simp: filter_empty_conv)
  with evidence_key_row [OF assms(2) _ assms(3)] inserted(15) [OF assms(1)] assms(3) show False by simp
qed

text \<open>A send that reads the evidence of an earlier one.\<close>

lemma settled_send:
  assumes "schema_ok d" "e \<in> set (t_evidence d)" "is_notification dep key e"
    "reference_of (ev_payload e) = Some r" "r \<noteq> []"
  shows "send_deployment_notification dep ev key sink ids now d dr dc = (Inr (r, dc), [])"
proof -
  have "\<exists>i \<in> set (t_intents d). di_id i = dep"
    using assms(1-3) by (auto simp: schema_ok_def references_ok_def refs_into_def list_all_iff exists_row_iff is_notification_def)
  then obtain i where "get_row di_id dep (t_intents d) = Some i"
    unfolding get_row_def by (metis (mono_tags, lifting) find_None_iff not_None_eq)
  then show ?thesis using evidence_key_row [OF assms(1-3)] assms(4,5)
    by (simp add: send_deployment_notification_def scalar_one_or_none_def)
qed


end
