(* ===== verification/Orchestration.thy ===== *)
theory Orchestration
  imports Commands Contract Announce
begin

text \<open>
  \<^verbatim>\<open>app/deployment_cli.py\<close>: the command line that takes a deployment from its intent to its execution
  by the supervisor.
\<close>

section \<open>The commands\<close>

text \<open>The arguments after parsing, by command, in the order of the parser.\<close>

record intent_args =
  ia_tenant_id :: string
  ia_open_id :: string
  ia_kind :: string
  ia_repository :: string
  ia_sha :: string
  ia_digest :: string
  ia_services :: string
  ia_migration_risk :: string
  ia_migration_revision :: "string option"
  ia_rollback_runbook_ref :: "string option"
  ia_config_fingerprint :: string
  ia_idempotency_key :: string

datatype deployment_args =
    Create_intent intent_args
  | Record_artifact uuid string string string string int string
  | Begin_staging uuid string
  | Record_staging_acceptance uuid string string string string string string int
  | Create_approval uuid string int
  | Start_production uuid string int
  | Execute uuid
  | Status uuid

definition deployment_choices :: "deployment_args \<Rightarrow> bool" where
  "deployment_choices args =
     (case args of
        Create_intent a \<Rightarrow> ia_kind a \<in> {''deploy'', ''rollback''} \<and>
          ia_migration_risk a \<in> {''NONE'', ''LOW'', ''MEDIUM'', ''HIGH''}
      | _ \<Rightarrow> True)"

text \<open>\<open>tuple(service.strip() for service in args.services.split(",") if service.strip())\<close>\<close>

definition services_of :: "string \<Rightarrow> string list" where
  "services_of s = filter (\<lambda>x. x \<noteq> []) (map strip (split_comma s))"

text \<open>The answers of the GitHub API, and what \<open>str\<close> prints of them.\<close>

record github_env =
  gi_api :: "string \<Rightarrow> gh_run"
  gi_repr :: "json \<Rightarrow> string"

definition verifier ::
  "settings \<Rightarrow> github_env \<Rightarrow> instant \<Rightarrow> string \<Rightarrow> string \<Rightarrow> int \<Rightarrow> ci_evidence result" where
  "verifier s g now =
     github_verify (gi_api g) (gi_repr g)
       \<lparr>gc_repository = st_github_repository s, gc_repository_id = st_github_repository_id s,
        gc_workflow_id = st_github_workflow_id s, gc_workflow_path = st_github_workflow_path s\<rparr> now"

text \<open>The supervisor on Docker with the authority that uses this verifier.\<close>

definition supervisor_env :: "settings \<Rightarrow> github_env \<Rightarrow> (nat \<Rightarrow> runtime_env) \<Rightarrow> env \<Rightarrow> env" where
  "supervisor_env s g docker e = with_docker docker (e\<lparr>e_ci := (\<lambda>t. verifier s g (e_now e t))\<rparr>)"

definition create_intent_session :: "command_env \<Rightarrow> intent_args \<Rightarrow> db \<Rightarrow> (deployment_intent \<times> db) result" where
  "create_intent_session e a d =
     bindE (risk_of_value (ia_migration_risk a)) (\<lambda>risk.
       create_deployment_intent (ia_tenant_id a) (ia_open_id a) (ia_kind a) (ia_repository a) (ia_sha a)
         (ia_digest a) (services_of (ia_services a)) risk (ia_migration_revision a) (ia_rollback_runbook_ref a)
         (ia_config_fingerprint a) (ia_idempotency_key a) (cm_ids e) (cm_started e) (cm_now e) d)"

definition status_of :: "uuid \<Rightarrow> db \<Rightarrow> string result" where
  "status_of deployment_id d =
     (case get_row di_id deployment_id (t_intents d) of
        None \<Rightarrow> gate ''unknown_deployment''
      | Some i \<Rightarrow> Inr (''deployment_id='' @ uuid_str (di_id i) @ '' sha='' @ di_target_sha i @ '' state='' @
          (case latest_state_event deployment_id d of None \<Rightarrow> ''none'' | Some v \<Rightarrow> se_to_state v)))"

text \<open>A session's result as the line that is printed.\<close>

definition printed_line :: "db_fault \<Rightarrow> ('a \<times> db) result \<Rightarrow> ('a \<Rightarrow> string) \<Rightarrow> db \<Rightarrow> string result \<times> db" where
  "printed_line fault r line d = (case session fault r d of (x, d') \<Rightarrow> (bindE x (\<lambda>y. Inr (line y)), d'))"

text \<open>
  The commands on the database. \<open>outcome.result\<close> is not a field of the outcome of a start: the line is
  never printed, an \<open>AttributeError\<close> is raised after the commit.
\<close>

definition database_command :: "settings \<Rightarrow> github_env \<Rightarrow> command_env \<Rightarrow> deployment_args \<Rightarrow> db \<Rightarrow> string result \<times> db" where
  "database_command s g e args d0 =
     (let d = cm_others e 0 d0; fault = cm_fault e 0; ids = cm_ids e; started = cm_started e; now = cm_now e in
      case args of
        Create_intent a \<Rightarrow>
          printed_line fault (create_intent_session e a d) (\<lambda>i. ''deployment_id='' @ uuid_str (di_id i)) d
      | Record_artifact deployment_id repository sha digest reference run_id actor \<Rightarrow>
          printed_line fault
            (record_artifact deployment_id repository sha digest reference run_id (verifier s g now)
              [(''source'', JStr ''deployment_cli'')] actor ids started now d)
            (\<lambda>a. ''artifact_digest='' @ da_digest a) d
      | Begin_staging deployment_id actor \<Rightarrow>
          printed_line fault (begin_staging_deployment deployment_id actor ids now d)
            (\<lambda>_. ''staging_deploying'') d
      | Record_staging_acceptance deployment_id repository sha digest suite config actor validity \<Rightarrow>
          printed_line fault
            (record_staging_acceptance deployment_id repository sha digest suite config actor validity ids now d)
            (\<lambda>a. ''staging_acceptance_id='' @ uuid_str (sa_id a)) d
      | Create_approval deployment_id key ttl \<Rightarrow>
          printed_line fault (create_bound_production_approval deployment_id key ttl ids started now d)
            (\<lambda>(q, b). ''approval_request_id='' @ uuid_str (q_id q) @ '' binding_id='' @ uuid_str (ab_id b) @
               '' state=PRODUCTION_APPROVAL_PENDING'') d
      | Start_production deployment_id owner token \<Rightarrow>
          (case session fault (start_production_deployment deployment_id owner token ids started now d) d of
             (x, d') \<Rightarrow> (bindE x (\<lambda>_. Inl attribute_error), d'))
      | Execute _ \<Rightarrow> (Inr [], d0)
      | Status deployment_id \<Rightarrow>
          printed_line fault (bindE (status_of deployment_id d) (\<lambda>line. Inr (line, d))) (\<lambda>line. line) d)"

text \<open>The run of a command in the world of the supervisor; the process may die in an execution.\<close>

definition deployment_run ::
  "settings \<Rightarrow> github_env \<Rightarrow> (nat \<Rightarrow> runtime_env) \<Rightarrow> env \<Rightarrow> command_env \<Rightarrow> deployment_args \<Rightarrow> world \<Rightarrow>
     string ending \<times> world" where
  "deployment_run s g docker v e args w =
     (case args of
        Execute i \<Rightarrow>
          (case execute i (supervisor_env s g docker v) w of
             (Done state, w') \<Rightarrow> (Done (''runtime_state='' @ runtime_state_value state), w')
           | (Raised x, w') \<Rightarrow> (Raised x, w')
           | (Died, w') \<Rightarrow> (Died, w'))
      | _ \<Rightarrow> (case database_command s g e args (w_db w) of (r, d') \<Rightarrow> (of_result r, w\<lparr>w_db := d'\<rparr>)))"

text \<open>\<open>main\<close>: the exit status, the lines on standard output and error, unless the process died.\<close>

definition deployment_main ::
  "settings \<Rightarrow> github_env \<Rightarrow> (nat \<Rightarrow> runtime_env) \<Rightarrow> env \<Rightarrow> command_env \<Rightarrow> deployment_args \<Rightarrow> world \<Rightarrow>
     (int \<times> string list \<times> string list) option \<times> world" where
  "deployment_main s g docker v e args w =
     (if \<not> deployment_choices args then (Some (2, [], [''usage'']), w)
      else (case deployment_run s g docker v e args w of
          (Done line, w') \<Rightarrow> (Some (0, [line], []), w')
        | (Raised x, w') \<Rightarrow>
            (Some (2, [], [case x of
                DeploymentGateError m \<Rightarrow> ''deployment request rejected: '' @ m
              | _ \<Rightarrow> ''deployment operation failed closed'']), w')
        | (Died, w') \<Rightarrow> (None, w')))"

section \<open>The commands as runs\<close>

lemma calm_steady: "runs d d' \<Longrightarrow> steady d d' \<Longrightarrow> calm d d'"
  by (simp add: calm_def steady_def)

lemma calm_intent:
  assumes "create_deployment_intent tn oi kind repo sha digest svcs risk mig book cfg key ids st now d = Inr (i, d')"
  shows "calm d d'"
  using runs.intent [OF runs.none assms] intent_tables(1,2) [OF assms] by (simp add: calm_def)

lemma calm_bound:
  assumes "create_bound_production_approval dep key ttl ids st now d = Inr (pair, d')"
  shows "calm d d'"
  using runs.bound [OF runs.none assms] bound_tables(1,2) [OF assms] by (simp add: calm_def)

lemma calm_start:
  assumes "start_production_deployment dep owner token ids st now d = Inr (so, d')"
  shows "calm d d'"
  using runs.start [OF runs.none assms] start_tables(1,4) [OF assms] by (simp add: calm_def)

lemma calm_artifact: "record_artifact dep repo sha digest img run verify prov fp ids st now d = Inr (a, d') \<Longrightarrow> calm d d'"
  by (rule calm_steady [OF runs.artifact [OF runs.none] steady_artifact])

lemma calm_staging: "begin_staging_deployment dep fp ids now d = Inr (u, d') \<Longrightarrow> calm d d'"
  by (rule calm_steady [OF runs.staging [OF runs.none] steady_staging(1)])

lemma calm_acceptance:
  "record_staging_acceptance dep repo sha digest suite cfg fp val ids now d = Inr (acc, d') \<Longrightarrow> calm d d'"
  by (rule calm_steady [OF runs.accepted [OF runs.none] steady_acceptance])

lemmas calm_ops = calm_intent calm_bound calm_artifact calm_staging calm_acceptance

lemma printed_calm:
  assumes "printed_line fault r line d = (x, d')" "calm d0 d" "\<And>y d1. r = Inr (y, d1) \<Longrightarrow> calm d d1"
  shows "calm d0 d'"
proof -
  from assms(1) obtain y where "session fault r d = (y, d')" by (auto simp: printed_line_def split: prod.splits)
  then show ?thesis by (rule session_calm [OF _ assms(2)]) (rule calm_trans [OF assms(2,3)])
qed

lemma database_command_calm:
  assumes "sessions_calm e"
  shows "calm d (snd (database_command s g e args d))"
proof -
  let ?d = "cm_others e 0 d"
  have d: "calm d ?d" using assms by (simp add: sessions_calm_def)
  have snd_calm: "calm d (snd p)" if "\<And>x d'. p = (x, d') \<Longrightarrow> calm d d'" for p :: "string result \<times> db"
    using that by (cases p) simp
  show ?thesis
  proof (cases args)
    case (Start_production dep owner token)
    obtain x d' where run: "session (cm_fault e 0) (start_production_deployment dep owner token (cm_ids e)
        (cm_started e) (cm_now e) ?d) ?d = (x, d')" by fastforce
    then have "calm d d'" by (rule session_calm [OF _ d]) (rule calm_trans [OF d calm_start])
    with run show ?thesis by (simp add: database_command_def Start_production Let_def)
  qed (auto simp: database_command_def Let_def create_intent_session_def bindE_eq_Inr
      intro!: snd_calm elim!: printed_calm [OF _ d] intro: calm_ops)
qed

end
