(* ===== verification/Programs.thy ===== *)
theory Programs
  imports Orchestration
begin

text \<open>
  The programs of the repository together: the API of \<^verbatim>\<open>app/api/inputs.py\<close>, the worker, the two command
  lines with the supervisor. Whatever they do in any order is a run of the services, and none of it
  takes the Production lock.
\<close>

section \<open>The API\<close>

record text_input =
  ti_text :: string
  ti_channel_code :: string
  ti_external_message_id :: "string option"

text \<open>The bounds of \<open>TextInputCreate\<close>; what violates them is answered with status 422.\<close>

definition text_input_valid :: "text_input \<Rightarrow> bool" where
  "text_input_valid p \<longleftrightarrow> 1 \<le> py_len (ti_text p) \<and> py_len (ti_text p) \<le> 20000 \<and>
     1 \<le> py_len (ti_channel_code p) \<and> py_len (ti_channel_code p) \<le> 32 \<and>
     (case ti_external_message_id p of None \<Rightarrow> True | Some i \<Rightarrow> py_len i \<le> 200)"

definition api_row :: "settings \<Rightarrow> text_input \<Rightarrow> uuid \<Rightarrow> instant \<Rightarrow> raw_input" where
  "api_row s p new_id now =
     \<lparr>r_id = new_id, r_user_id = st_default_user_id s, r_channel_code = ti_channel_code p,
      r_external_message_id = ti_external_message_id p, r_input_type = ''text'',
      r_text_content = Some (strip (ti_text p)), r_received_at = now, r_processing_status = ''pending'',
      r_metadata = [], r_created_at = now\<rparr>"

text \<open>The status with the record; an \<open>IntegrityError\<close> is a conflict, any other exception status 500.\<close>

definition create_text_input ::
  "settings \<Rightarrow> text_input \<Rightarrow> uuid \<Rightarrow> instant \<Rightarrow> db_fault \<Rightarrow> db \<Rightarrow> (int \<times> raw_input option) \<times> db" where
  "create_text_input s p new_id now fault d =
     (if \<not> text_input_valid p then ((422, None), d)
      else (case commit_input fault (api_row s p new_id now) d of
          (Inr True, d') \<Rightarrow> ((201, Some (api_row s p new_id now)), d')
        | (Inr False, d') \<Rightarrow> ((409, None), d')
        | (Inl _, d') \<Rightarrow> ((500, None), d')))"

text \<open>The most recent inputs of the user; rows of the same instant keep their order.\<close>

definition get_recent_inputs :: "settings \<Rightarrow> int \<Rightarrow> db \<Rightarrow> int \<times> raw_input list" where
  "get_recent_inputs s limit d =
     (if limit < 1 \<or> limit > 100 then (422, [])
      else (200, take (nat limit) (sort_key (\<lambda>r. - r_received_at r)
        (filter (\<lambda>r. r_user_id r = st_default_user_id s) (t_raw_inputs d)))))"

text \<open>
  \<^verbatim>\<open>app/main.py\<close>: the two health endpoints. The query is of the database's own name and user; what its row
  holds is shown by \<open>str\<close>. A driver's error is an \<open>SQLAlchemyError\<close>, of which \<open>IntegrityError\<close> and the
  errors of a result without exactly one row are subclasses.
\<close>

definition health :: "string \<Rightarrow> dvalue" where
  "health app_env = DObj
     [(''status'', DStr ''ok''), (''service'', DStr ''maoxx-api''), (''environment'', DStr app_env)]"

definition database_health :: "(string \<times> string) result \<Rightarrow> int \<times> dvalue" where
  "database_health queried =
     (case queried of
        Inr (database_name, database_user) \<Rightarrow>
          (200, DObj [(''status'', DStr ''ok''), (''database'', DStr database_name), (''user'', DStr database_user)])
      | Inl x \<Rightarrow>
          if x \<in> {SQLAlchemyError, IntegrityError, MultipleResultsFound, NoResultFound}
          then (503, DObj [(''detail'', DStr ''Database connection unavailable'')])
          else (500, DNull))"

lemma create_text_input_calm: "calm d (snd (create_text_input s p i now fault d))"
proof -
  obtain x d' where c: "commit_input fault (api_row s p i now) d = (x, d')" by fastforce
  then have "calm d d'" by (cases rule: commit_input_cases) (auto dest: calm_raw_input)
  then show ?thesis
    using c by (cases x) (auto simp: create_text_input_def split: bool.splits)
qed

section \<open>The supervisor\<close>

text \<open>Whatever the supervisor does to the database is calm when the other sessions are.\<close>

definition world_calm :: "world \<Rightarrow> world \<Rightarrow> bool" where
  "world_calm w w' \<longleftrightarrow> calm (w_db w) (w_db w')"

definition env_calm :: "env \<Rightarrow> bool" where
  "env_calm e \<longleftrightarrow> (\<forall>t d. calm d (e_others e t d))"

interpretation calming: world_relation world_calm env_calm
  by unfold_locales (auto simp: world_calm_def intro: calm_trans)

lemma calm_transaction:
  assumes "\<And>e t d y d'. f e t d = Inr (y, d') \<Longrightarrow> calm d d'"
  shows "steps world_calm env_calm (transaction f)"
  unfolding transaction_def
proof (rule calming.ticked)
  fix e t and w :: world
  assume "env_calm e"
  then have others: "calm (w_db w) (e_others e t (w_db w))" by (simp add: env_calm_def)
  then show "world_calm w (snd (let d = e_others e t (w_db w); unchanged = w\<lparr>w_db := d\<rparr> in
     case e_db e t of
       Abort x \<Rightarrow> (Raised x, unchanged)
     | NoFault \<Rightarrow> (case f e t d of Inl x \<Rightarrow> (Raised x, unchanged)
         | Inr (y, d') \<Rightarrow> (Done y, w\<lparr>w_db := d'\<rparr>))
     | LostAck x \<Rightarrow> (case f e t d of Inl y \<Rightarrow> (Raised y, unchanged)
         | Inr (_, d') \<Rightarrow> (Raised x, w\<lparr>w_db := d'\<rparr>))))"
    using calm_trans [OF others assms]
    by (auto simp: world_calm_def Let_def split: db_fault.splits sum.splits prod.splits)
qed

lemma calm_recordings:
  "record_resource r i now d = Inr (u, d') \<Longrightarrow> calm d d'"
  "record_runtime_result a st src i now d = Inr (u, d') \<Longrightarrow> calm d d'"
  "record_mutation_submitted a i now d = Inr (u, d') \<Longrightarrow> calm d d'"
  "mutation_submitted a d = Inr (b, d') \<Longrightarrow> calm d d'"
  by (auto simp: record_resource_def record_runtime_result_def record_mutation_submitted_def mutation_submitted_def
      supervisor_def branch_simps intro: calm_evidence)

lemma calm_effects:
  "steps world_calm env_calm (do_record_resource r)" "steps world_calm env_calm (do_record_submitted a)"
  "steps world_calm env_calm (do_mutation_submitted a)" "steps world_calm env_calm (do_record_result a st src)"
  "steps world_calm env_calm (authority_load i)"
  "steps world_calm env_calm (journal_append ev a o')" "steps world_calm env_calm journal_open"
  "steps world_calm env_calm (journal_load a)" "steps world_calm env_calm clock"
  "steps world_calm env_calm (validate_plan a)" "steps world_calm env_calm (observe a)"
  "steps world_calm env_calm (events_between s s')" "steps world_calm env_calm (verify_health a t)"
  "steps world_calm env_calm (collect_resources i)" "steps world_calm env_calm (submit a)"
  unfolding do_record_resource_def do_record_submitted_def do_mutation_submitted_def do_record_result_def
    authority_load_def journal_append_def journal_open_def journal_load_def
    clock_def validate_plan_def observe_def events_between_def verify_health_def collect_resources_def submit_def
  by (rule calm_transaction calming.reading calming.ticked;
      auto simp: world_calm_def env_calm_def Let_def split: db_fault.splits sum.splits prod.splits
        fate.splits option.splits dest: calm_recordings)+

lemmas calm_rules = calming.rules calm_effects

lemma calm_result: "steps world_calm env_calm (record_result_or_unknown a st src)"
  unfolding record_result_or_unknown_def by (intro calm_rules)

lemma calm_finish: "steps world_calm env_calm (finish_with a st src)"
  unfolding finish_with_def by (intro calm_rules calm_result)

lemma calm_health: "steps world_calm env_calm (health_locked a)"
  unfolding health_locked_def Let_def by (intro calm_rules calm_finish)

lemma calm_reconcile: "steps world_calm env_calm (reconcile_locked a)"
  unfolding reconcile_locked_def by (intro calm_rules calm_finish calm_health calm_result)

lemma calm_submission: "steps world_calm env_calm (submit_and_verify a)"
  unfolding submit_and_verify_def by (intro calm_rules calm_finish calm_health calm_reconcile)

lemma calm_first: "steps world_calm env_calm (first_execution a)"
  unfolding first_execution_def disconnected_def by (intro calm_rules calm_submission)

lemma calm_execute: "steps world_calm env_calm (execute i)"
  unfolding execute_def with_host_lock_def open_attempt_def Let_def
  by (intro calm_rules calm_first calm_reconcile)

lemma deployment_calm:
  assumes "sessions_calm e" "env_calm v"
  shows "calm (w_db w) (w_db (snd (deployment_main s g docker v e args w)))"
proof -
  have execute: "calm (w_db w) (w_db w')" if "execute i (supervisor_env s g docker v) w = (r, w')" for i r w'
  proof -
    have "env_calm (supervisor_env s g docker v)"
      using assms(2) by (simp add: env_calm_def supervisor_env_def with_docker_def)
    from stepsD [OF calm_execute this that] show ?thesis by (simp add: world_calm_def)
  qed
  have "calm (w_db w) (w_db w')" if run: "deployment_run s g docker v e args w = (r, w')" for r w'
  proof (cases "\<exists>i. args = Execute i")
    case True
    with run execute show ?thesis by (auto simp: deployment_run_def split: prod.splits ending.splits)
  next
    case False
    with run have "w_db w' = snd (database_command s g e args (w_db w))"
      by (auto simp: deployment_run_def split: deployment_args.splits prod.splits)
    then show ?thesis using database_command_calm [OF assms(1)] by simp
  qed
  then show ?thesis by (auto simp: deployment_main_def split: prod.splits ending.splits)
qed

section \<open>Everything the programs do\<close>

text \<open>
  The databases that the programs of the repository reach, in any order and interleaving: what other
  sessions commit during a step is also done by the programs.
\<close>

inductive programs :: "db \<Rightarrow> db \<Rightarrow> bool" where
  nothing: "programs d0 d0"
| api: "programs d0 d \<Longrightarrow> programs d0 (snd (create_text_input s p i now fault d))"
| feishu_message: "programs d0 (wk_db w) \<Longrightarrow> (\<And>d. programs d (ee_others e d)) \<Longrightarrow>
    programs d0 (wk_db (handle_message s e m w))"
| feishu_card: "programs d0 (wk_db w) \<Longrightarrow> (\<And>d. programs d (ee_others e d)) \<Longrightarrow>
    programs d0 (wk_db (snd (handle_card_action s e c w)))"
| supervision: "programs d0 d \<Longrightarrow> (\<And>k d. programs d (cm_others ce k d)) \<Longrightarrow>
    programs d0 (snd (supervision_main s ce sargs d))"
| deployment: "programs d0 (w_db sw) \<Longrightarrow> (\<And>k d. programs d (cm_others ce k d)) \<Longrightarrow>
    (\<And>t d. programs d (e_others v t d)) \<Longrightarrow>
    programs d0 (w_db (snd (deployment_main s g docker v ce dargs sw)))"

lemma programs_calm: "programs d0 d \<Longrightarrow> calm d0 d"
proof (induction rule: programs.induct)
  case api
  then show ?case using calm_trans create_text_input_calm by blast
next
  case feishu_message
  then show ?case using calm_trans message_calm by (simp add: others_calm_def)
next
  case feishu_card
  then show ?case using calm_trans card_calm by (simp add: others_calm_def)
next
  case supervision
  then show ?case using calm_trans supervision_calm by (simp add: sessions_calm_def)
next
  case deployment
  then show ?case using calm_trans deployment_calm by (simp add: sessions_calm_def env_calm_def)
qed simp

text \<open>C4. The programs refine the services: whatever the API, the worker, the command lines and the supervisor
  do, in any interleaving and with any faults, is a run of the operations of the services, so that
  everything that was shown of runs holds of the programs; and every database they reach is sound.\<close>

theorem programs_refine_services:
  assumes "programs d0 d"
  shows "runs d0 d \<and> (sound d0 \<longrightarrow> sound d)"
  using programs_calm [OF assms] runs_sound by (auto simp: calm_def)

text \<open>C3. The programs never start Production: from a database without locks and attempts, whatever they do, no
  lock is ever held and no attempt is ever recorded, and the command that is to start Production ends
  with status 2.\<close>

theorem production_never_starts:
  assumes "programs d0 (w_db w)" and "t_locks d0 = []" and "t_attempts d0 = []"
  shows "t_locks (w_db w) = [] \<and> t_attempts (w_db w) = [] \<and>
     (\<exists>reason. fst (deployment_main s g docker v e (Start_production dep owner token) w) = Some (2, [], [reason]))"
proof -
  have "t_locks (w_db w) = []" "t_attempts (w_db w) = []"
    using programs_calm [OF assms(1)] assms(2,3) by (auto simp: calm_def)
  moreover have "\<exists>x d'. database_command s g e (Start_production dep owner token) (w_db w) = (Inl x, d')"
    by (auto simp: database_command_def Let_def bindE_def split: prod.splits sum.splits)
  ultimately show ?thesis
    by (auto simp: deployment_main_def deployment_run_def deployment_choices_def of_result_def)
qed

end
