(* ===== verification/Guarantees.thy ===== *)
theory Guarantees
  imports Reach
begin

text \<open>
  What the services guarantee in every database they can reach: the history of a deployment, what
  an execution attempt rests on, the start of Production and the Production lock. The last section
  runs a deployment from its intent to its start and applies the theorems to it.
\<close>

section \<open>Rows are determined by their keys\<close>

lemma schema_distinct:
  assumes "schema_ok d"
  shows "distinct (map di_id (t_intents d))" "distinct (map ab_deployment_id (t_bindings d))"
    "distinct (map q_id (t_requests d))" "distinct (map ea_deployment_id (t_attempts d))"
    "distinct (map dl_conflict_domain (t_locks d))" "distinct (map da_deployment_id (t_artifacts d))"
  using assms
  by (auto simp: schema_ok_def rows_ok_def table_ok_def key_defs unique_key_Some distinct_map inj_on_def)

lemmas same_row = schema_distinct [THEN unique_id_rows]

section \<open>Histories without an outcome\<close>

definition LIVE_HISTORIES :: "string list list" where
  "LIVE_HISTORIES =
     (let staging = [''INTENT_CREATED'', ''ARTIFACT_RECORDED'', ''STAGING_DEPLOYING''] in
      [staging @ [''STAGING_FAILED''],
       staging @ [''STAGING_VALIDATED'', ''PRODUCTION_APPROVAL_PENDING'', ''PRODUCTION_DEPLOYING''],
       staging @ [''STAGING_VALIDATED'', ''ROLLBACK_APPROVAL_PENDING'', ''ROLLBACK_DEPLOYING'']])"

lemma histories_live:
  "list_all (\<lambda>p. p \<in> set LIVE_HISTORIES \<or>
     butlast p \<in> set LIVE_HISTORIES \<and> p = butlast p @ [last p] \<and> last p \<notin> LIVE_STATES)
   COMPLETE_HISTORIES"
  by code_simp

lemma live_prefix:
  assumes "prefix ts p" and "p \<in> set COMPLETE_HISTORIES" and "set ts \<subseteq> LIVE_STATES"
  shows "\<exists>q \<in> set LIVE_HISTORIES. prefix ts q"
proof -
  from assms(2) have "p \<in> set LIVE_HISTORIES \<or>
      butlast p \<in> set LIVE_HISTORIES \<and> p = butlast p @ [last p] \<and> last p \<notin> LIVE_STATES"
    using histories_live by (simp add: list_all_iff)
  then show ?thesis
  proof
    assume p: "butlast p \<in> set LIVE_HISTORIES \<and> p = butlast p @ [last p] \<and> last p \<notin> LIVE_STATES"
    then have "ts \<noteq> p" using assms(3) by (metis in_set_conv_decomp subsetD)
    with p assms(1) have "prefix ts (butlast p)" by (metis prefix_snoc)
    with p show ?thesis by blast
  qed (use assms(1) in blast)
qed

lemma sound_history:
  assumes "sound d"
  shows "\<exists>q \<in> set LIVE_HISTORIES. prefix (states_of dep d) q"
proof -
  have "legal_from None (states_of dep d)" using assms by (auto simp: sound_def history_ok_def)
  moreover have "set (states_of dep d) \<subseteq> LIVE_STATES"
    using assms by (auto simp: sound_def list_all_iff event_justified_def states_of_def events_of_def)
  ultimately show ?thesis unfolding legal_histories using live_prefix by blast
qed

text \<open>A deployment that reached an execution state has made all six steps.\<close>

lemma deploying_history:
  assumes "prefix ts q" and "q \<in> set LIVE_HISTORIES" and "x \<in> set ts" and "x \<in> DEPLOYING_STATES"
  shows "ts = q \<and> last q \<in> DEPLOYING_STATES \<and> length q = 6"
proof -
  from assms(1) obtain us where us: "q = ts @ us" by (auto simp: prefix_def)
  have split: "set (butlast q) \<inter> DEPLOYING_STATES = {}"
    using assms(2) by (auto simp: LIVE_HISTORIES_def Let_def DEPLOYING_STATES_def)
  have "us = []"
  proof (cases us rule: rev_cases)
    case (snoc vs v)
    then have "set ts \<subseteq> set (butlast q)" using us by (simp add: butlast_append)
    with split assms(3,4) show ?thesis by blast
  qed simp
  with us have ts: "ts = q" by simp
  moreover have "last q \<in> DEPLOYING_STATES \<and> length q = 6"
    using assms(2-4) unfolding ts by (auto simp: LIVE_HISTORIES_def Let_def DEPLOYING_STATES_def)
  ultimately show ?thesis by simp
qed

lemma in_states: "e \<in> set (t_events d) \<Longrightarrow> se_deployment_id e = dep \<Longrightarrow> se_to_state e \<in> set (states_of dep d)"
  by (auto simp: states_of_def events_of_def)

lemma states_event:
  assumes "s \<in> set (states_of dep d)"
  obtains e where "e \<in> set (t_events d)" "se_deployment_id e = dep" "se_to_state e = s"
  using assms by (auto simp: states_of_def events_of_def)

section \<open>Properties\<close>

text \<open>C2. In every database the services can reach, the state events of a deployment, in order,
  spell a beginning of one of three histories and are numbered 1, 2, 3, ...: the stages cannot be
  skipped, repeated or reordered, and no service ever records an outcome of Production.\<close>

theorem reachable_history:
  assumes "runs d0 d" and "sound d0"
  shows "(\<exists>h \<in> set LIVE_HISTORIES. prefix (states_of dep d) h) \<and>
     map se_sequence (events_of dep d) = map int [1..<Suc (length (events_of dep d))]"
proof -
  have "sound d" using runs_sound [OF assms] .
  then show ?thesis using sound_history by (auto simp: sound_def history_ok_def)
qed

text \<open>The rows behind an attempt, of its own deployment, before they are shown to be one another's.\<close>

lemma attempt_chain:
  assumes sound: "sound d" and "a \<in> set (t_attempts d)"
  obtains t i f h where "i \<in> set (t_intents d)" "di_id i = ea_deployment_id a" "f \<in> set (t_artifacts d)"
    "da_deployment_id f = ea_deployment_id a"
    "ea_intent_hash a = calculate_intent_hash (ea_deployment_id a) (ea_id a) (ea_fencing_token a) (di_repository i)
       (di_target_sha i) (da_service_images f) (di_artifact_digest i) (di_migration_revision i)"
    "h \<in> set LIVE_HISTORIES" "states_of (di_id i) d = h" "last h \<in> DEPLOYING_STATES"
    "artifact_for d (di_id i)" "acceptance_for d (di_id i)" "binding_for d (di_id i)"
    "approval_for d (di_id i) t"
proof -
  from sound assms(2) have "attempt_justified d a" by (auto simp: sound_def list_all_iff)
  then obtain e i f where e: "e \<in> set (t_events d)" "se_deployment_id e = ea_deployment_id a"
      "se_to_state e \<in> DEPLOYING_STATES"
    and rows: "i \<in> set (t_intents d)" "di_id i = ea_deployment_id a" "f \<in> set (t_artifacts d)"
      "da_deployment_id f = ea_deployment_id a"
      "ea_intent_hash a = calculate_intent_hash (ea_deployment_id a) (ea_id a)
          (ea_fencing_token a) (di_repository i) (di_target_sha i) (da_service_images f)
          (di_artifact_digest i) (di_migration_revision i)"
    unfolding attempt_justified_def by blast
  obtain h where h: "h \<in> set LIVE_HISTORIES" "prefix (states_of (di_id i) d) h"
    using sound_history [OF sound] by blast
  have states: "states_of (di_id i) d = h" "last h \<in> DEPLOYING_STATES" "length h = 6"
    using deploying_history [OF h(2,1) _ e(3)] in_states [OF e(1)] e(2) rows(2) by auto
  have justified: "event_justified d x" if "x \<in> set (t_events d)" for x
    using sound that by (auto simp: sound_def list_all_iff)
  have "''ARTIFACT_RECORDED'' \<in> set h" "''STAGING_VALIDATED'' \<in> set h" "\<exists>p \<in> PENDING_STATES. p \<in> set h"
    using h(1) states(3) by (auto simp: LIVE_HISTORIES_def Let_def PENDING_STATES_def)
  then have "artifact_for d (di_id i)" "acceptance_for d (di_id i)" "binding_for d (di_id i)"
    unfolding states(1) [symmetric]
    by (auto elim!: states_event dest!: justified simp: event_justified_def)
  moreover have "approval_for d (di_id i) (se_occurred_at e)"
    using justified [OF e(1)] e(2,3) rows(2) by (simp add: event_justified_def)
  ultimately show thesis by (rule that [OF rows h(1) states(1,2)])
qed

text \<open>C1. An execution attempt exists only for a deployment that went through staging and was
  approved: its rows all name the digest of the intent, the approval was given in time by somebody
  other than the requester with a mapped identity and was consumed, the hash covers the recorded
  images, and the history is complete up to the execution.\<close>

theorem attempt_authorised:
  assumes "runs d0 d" and "sound d0" and "a \<in> set (t_attempts d)"
  shows "\<exists>i \<in> set (t_intents d). \<exists>f \<in> set (t_artifacts d). \<exists>s \<in> set (t_acceptances d).
     \<exists>b \<in> set (t_bindings d). \<exists>q \<in> set (t_requests d). \<exists>c \<in> set (t_decisions d).
     \<exists>n \<in> set (t_consumptions d). \<exists>h \<in> set LIVE_HISTORIES.
       di_id i = ea_deployment_id a \<and> da_deployment_id f = di_id i \<and>
       da_digest f = di_artifact_digest i \<and> da_protected_main_verified f \<and>
       after_last_at (da_image_reference f) = di_artifact_digest i \<and>
       sa_deployment_id s = di_id i \<and> sa_artifact_digest s = di_artifact_digest i \<and>
       ab_deployment_id b = di_id i \<and> ab_artifact_digest b = di_artifact_digest i \<and>
       ab_approval_request_id b = q_id q \<and> q_deployment_id q = Some (di_id i) \<and>
       q_artifact_digest q = Some (di_artifact_digest i) \<and> q_user_id q = di_user_id i \<and>
       d_request_id c = q_id q \<and> d_decision_code c = ''approved'' \<and>
       d_actor_user_id c \<noteq> di_user_id i \<and> d_decided_at c < q_expires_at q \<and>
       ac_deployment_id n = di_id i \<and> ac_approval_decision_id n = d_id c \<and>
       ea_intent_hash a = calculate_intent_hash (di_id i) (ea_id a) (ea_fencing_token a)
         (di_repository i) (di_target_sha i) (da_service_images f) (di_artifact_digest i)
         (di_migration_revision i) \<and>
       states_of (di_id i) d = h \<and> last h \<in> DEPLOYING_STATES"
proof -
  have sound: "sound d" using runs_sound [OF assms(1,2)] .
  then have schema: "schema_ok d" by (simp add: sound_def)
  note one = same_row [OF schema]
  obtain t i f h where i: "i \<in> set (t_intents d)" "di_id i = ea_deployment_id a"
    and f: "f \<in> set (t_artifacts d)" "da_deployment_id f = ea_deployment_id a"
    and hash: "ea_intent_hash a = calculate_intent_hash (ea_deployment_id a) (ea_id a)
          (ea_fencing_token a) (di_repository i) (di_target_sha i) (da_service_images f)
          (di_artifact_digest i) (di_migration_revision i)"
    and h: "h \<in> set LIVE_HISTORIES" and states: "states_of (di_id i) d = h" "last h \<in> DEPLOYING_STATES"
    and "artifact_for d (di_id i)" "acceptance_for d (di_id i)" "binding_for d (di_id i)"
      "approval_for d (di_id i) t"
    by (rule attempt_chain [OF sound assms(3)])
  then obtain i1 f1 i2 s i3 b q i4 b4 q4 c n where
    r: "i1 \<in> set (t_intents d)" "f1 \<in> set (t_artifacts d)" "di_id i1 = di_id i"
       "da_deployment_id f1 = di_id i" "da_digest f1 = di_artifact_digest i1"
       "da_protected_main_verified f1" "after_last_at (da_image_reference f1) = da_digest f1"
    and s: "i2 \<in> set (t_intents d)" "s \<in> set (t_acceptances d)" "di_id i2 = di_id i"
       "sa_deployment_id s = di_id i" "sa_artifact_digest s = di_artifact_digest i2"
    and b: "i3 \<in> set (t_intents d)" "b \<in> set (t_bindings d)" "q \<in> set (t_requests d)"
       "di_id i3 = di_id i" "ab_deployment_id b = di_id i" "ab_approval_request_id b = q_id q"
       "q_user_id q = di_user_id i3" "ab_artifact_digest b = di_artifact_digest i3"
    and q: "i4 \<in> set (t_intents d)" "b4 \<in> set (t_bindings d)" "q4 \<in> set (t_requests d)"
       "c \<in> set (t_decisions d)" "n \<in> set (t_consumptions d)" "di_id i4 = di_id i"
       "ab_deployment_id b4 = di_id i" "ab_approval_request_id b4 = q_id q4"
       "q_deployment_id q4 = Some (di_id i)" "q_artifact_digest q4 = Some (di_artifact_digest i4)"
       "d_request_id c = q_id q4" "d_decision_code c = ''approved''"
       "d_actor_user_id c \<noteq> di_user_id i4" "d_decided_at c < q_expires_at q4"
       "ac_deployment_id n = di_id i" "ac_approval_decision_id n = d_id c"
    unfolding artifact_for_def acceptance_for_def binding_for_def approval_for_def by blast
  have "i1 = i" "i2 = i" "i3 = i" "i4 = i" "f1 = f"
    using one(1) [OF r(1) i(1) r(3)] one(1) [OF s(1) i(1) s(3)] one(1) [OF b(1) i(1) b(4)]
      one(1) [OF q(1) i(1) q(6)] one(6) [OF r(2) f(1)] r(4) f(2) i(2) by auto
  moreover have "b4 = b" using one(2) [OF q(2) b(2)] b(5) q(7) by simp
  moreover from this have "q4 = q" using one(3) [OF q(3) b(3)] b(6) q(8) by metis
  ultimately have eqs: "i1 = i" "i2 = i" "i3 = i" "i4 = i" "f1 = f" "b4 = b" "q4 = q" by simp_all
  note facts = r(4-7) [unfolded eqs] s(4,5) [unfolded eqs] b(5-8) [unfolded eqs] q(9-16) [unfolded eqs]
  show ?thesis
    by (rule bexI [OF _ i(1)], rule bexI [OF _ f(1)], rule bexI [OF _ s(2)], rule bexI [OF _ b(2)],
        rule bexI [OF _ b(3)], rule bexI [OF _ q(4)], rule bexI [OF _ q(5)], rule bexI [OF _ h])
      (simp only: facts f(2) hash states i(2) [symmetric] simp_thms)
qed


text \<open>No service can link a rollback to a failed deployment: the link requires an outcome that
  no service ever records, so the call raises in every reachable database.\<close>

theorem rollback_link_never:
  assumes "runs d0 d" and "sound d0"
  shows "\<exists>e. create_rollback_link dep failed cur sha digest ids st d = Inl e"
proof (rule ccontr)
  assume "\<nexists>e. create_rollback_link dep failed cur sha digest ids st d = Inl e"
  then obtain x where "create_rollback_link dep failed cur sha digest ids st d = Inr x"
    by (cases "create_rollback_link dep failed cur sha digest ids st d") auto
  then obtain l where l: "latest_state_event failed d = Some l" "se_to_state l = ''PRODUCTION_FAILED''"
    by (auto simp: create_rollback_link_def Let_def branch_simps)
  have "sound d" using runs_sound [OF assms] .
  then have "l \<in> set (t_events d)" "\<forall>e \<in> set (t_events d). se_to_state e \<in> LIVE_STATES"
    using l latest_history [of d failed]
    by (auto simp: sound_def list_all_iff event_justified_def events_of_def split: if_splits
        dest!: last_in_set)
  with l(2) show False by (auto simp: STATES_defs)
qed

text \<open>C5. Production is started once: after a successful start, every later start of the same
  deployment, on any later database, changes nothing and hands back the first execution.\<close>

theorem start_once:
  assumes "start_production_deployment dep owner token ids st now d = Inr (first, d1)"
    and "schema_ok d" and "dml_step\<^sup>*\<^sup>* d1 d2"
  shows "start_production_deployment dep owner token' ids' st' now' d2 =
     Inr (\<lparr>so_code = ''reconciliation_required'', so_execution_id = so_execution_id first,
       so_fencing_token = so_fencing_token first\<rparr>, d2)"
proof -
  have good: "dml_step\<^sup>*\<^sup>* d d1" using start_good [OF assms(1)] by (simp add: good_step_def)
  from assms(3) good have schema: "schema_ok d1" "schema_ok d2"
    using schema_dml assms(2) by blast+
  have "\<exists>a \<in> set (t_attempts d1). ea_deployment_id a = dep \<and> ea_id a = so_execution_id first \<and>
      ea_fencing_token a = so_fencing_token first"
    using assms(1)
    by (auto simp: start_production_deployment_def consume_and_prepare_def Let_def branch_simps
        scalar_one_or_none_Some attempt_row_def dest!: filter_singletonD add_evidence_tables inserted(14))
  then obtain a where a: "a \<in> set (t_attempts d1)" "ea_deployment_id a = dep"
    "ea_id a = so_execution_id first" "ea_fencing_token a = so_fencing_token first" by blast
  have later: "a \<in> set (t_attempts d2)"
    using dml_grows [OF assms(3)] a(1) by (auto simp: grows_def dest: set_mono_prefix)
  have "\<exists>i \<in> set (t_intents d2). di_id i = dep"
    using schema(2) later a(2)
    by (auto simp: schema_ok_def references_ok_def refs_into_def list_all_iff exists_row_iff)
  then obtain i where i: "i \<in> set (t_intents d2)" "di_id i = dep" by blast
  have "filter (\<lambda>x. ea_deployment_id x = dep) (t_attempts d2) = [a]"
    using distinct_key_filter [OF schema_distinct(4) [OF schema(2)] later] a(2) by simp
  moreover have "filter (\<lambda>x. di_id x = dep) (t_intents d2) = [i]"
    using distinct_key_filter [OF schema_distinct(1) [OF schema(2)] i(1)] i(2) by simp
  moreover have "resolve_executor_identity owner = Inr owner"
    using assms(1) by (auto simp: start_production_deployment_def bindE_eq_Inr
        resolve_executor_identity_def split: if_splits)
  ultimately show ?thesis
    using a by (simp add: start_production_deployment_def scalar_one_or_none_def)
qed

lemma start_prepared_rows:
  assumes "start_production_deployment dep owner token ids st now d = Inr (first, d1)"
    and "so_code first = ''execution_prepared''"
  obtains i q c l and b :: deployment_approval_binding
    where "filter (\<lambda>i. di_id i = dep) (t_intents d) = [i]"
    "filter (\<lambda>q. q_id q = ab_approval_request_id b) (t_requests d) = [q]"
    "filter (\<lambda>c. d_request_id c = ab_approval_request_id b) (t_decisions d) = [c]"
    "filter (\<lambda>l. dl_conflict_domain l = PRODUCTION_CONFLICT_DOMAIN) (t_locks d) = [l]"
    "lock_held l dep owner token now" "approval_consumable i dep q c now"
    "consume_and_prepare i q c dep owner token ids st now d = Inr (first, d1)"
proof -
  from assms obtain i b q c l where "filter (\<lambda>i. di_id i = dep) (t_intents d) = [i] \<and>
    filter (\<lambda>b. ab_deployment_id b = dep) (t_bindings d) = [b] \<and>
    filter (\<lambda>q. q_id q = ab_approval_request_id b) (t_requests d) = [q] \<and>
    filter (\<lambda>c. d_request_id c = ab_approval_request_id b) (t_decisions d) = [c] \<and>
    filter (\<lambda>l. dl_conflict_domain l = PRODUCTION_CONFLICT_DOMAIN) (t_locks d) = [l] \<and>
    lock_held l dep owner token now \<and> approval_consumable i dep q c now \<and>
    consume_and_prepare i q c dep owner token ids st now d = Inr (first, d1)"
    unfolding start_production_deployment_def
    by (auto simp: Let_def branch_simps scalar_one_or_none_Some resolve_executor_identity_def)
  then show ?thesis using that [of i b q c l] by simp
qed

lemma evidence_at_most_one:
  assumes "add_evidence dep ty key st payload t i d = Inr (e, d')"
  shows "\<exists>es. d' = d\<lparr>t_evidence := t_evidence d @ es\<rparr> \<and> length es \<le> 1"
proof -
  from add_evidence_ok [OF assms] consider "d' = d" | r where "insert_evidence r d = Inr d'" by blast
  then show ?thesis
  proof cases
    case 1
    then show ?thesis by (intro exI [of _ "[]"]) simp
  next
    case 2
    from inserted(15) [OF this] show ?thesis by (intro exI [of _ "[r]"]) simp
  qed
qed

text \<open>C6. A prepared start held the unexpired Production lock for this deployment, executor and
  token, and consumed an approval of the deployment and its digest by somebody other than the requester,
  given in time and not expired; it adds one event, one consumption of this approval, one attempt under
  this token and at most one piece of evidence, and touches no other table.\<close>

theorem start_prepared:
  assumes "start_production_deployment dep owner token ids st now d = Inr (first, d1)"
    and "so_code first = ''execution_prepared''"
  shows "(\<exists>l \<in> set (t_locks d). dl_deployment_id l = dep \<and> dl_owner_identity l = owner \<and>
       dl_fencing_token l = token \<and> now < dl_lease_expires_at l) \<and>
     (\<exists>i \<in> set (t_intents d). \<exists>q \<in> set (t_requests d). \<exists>c \<in> set (t_decisions d).
        di_id i = dep \<and> d_request_id c = q_id q \<and> q_deployment_id q = Some dep \<and>
        q_artifact_digest q = Some (di_artifact_digest i) \<and> now < q_expires_at q \<and>
        d_decided_at c < q_expires_at q \<and> d_decision_code c = ''approved'' \<and> d_actor_user_id c \<noteq> di_user_id i \<and>
        (\<exists>e n a v. d1 = d\<lparr>t_events := t_events d @ [e], t_consumptions := t_consumptions d @ [n],
             t_attempts := t_attempts d @ [a], t_evidence := t_evidence d @ v\<rparr> \<and> length v \<le> 1 \<and>
           se_deployment_id e = dep \<and> se_to_state e = deploying_state i \<and>
           ac_approval_decision_id n = d_id c \<and> ac_state_event_id n = se_id e \<and>
           ea_id a = so_execution_id first \<and> ea_deployment_id a = dep \<and> ea_executor_identity a = owner \<and>
           ea_fencing_token a = token))"
proof -
  from start_prepared_rows [OF assms] obtain i q c l and b :: deployment_approval_binding where
      rows: "filter (\<lambda>i. di_id i = dep) (t_intents d) = [i]"
      "filter (\<lambda>q. q_id q = ab_approval_request_id b) (t_requests d) = [q]"
      "filter (\<lambda>c. d_request_id c = ab_approval_request_id b) (t_decisions d) = [c]"
      "filter (\<lambda>l. dl_conflict_domain l = PRODUCTION_CONFLICT_DOMAIN) (t_locks d) = [l]"
      and guards: "lock_held l dep owner token now" "approval_consumable i dep q c now"
      and writes: "consume_and_prepare i q c dep owner token ids st now d = Inr (first, d1)" .
  from writes obtain e d2 f n d3 d4 k ev v where
      e: "append_state_event dep (deploying_state i) ''approval_consumed_and_execution_prepared''
         (di_requested_by_identity_fingerprint i) [(''fencing_token'', JNum token)] now (ids 0) d
         = Inr (e, d2)"
      and n: "insert_consumption n d2 = Inr d3" "ac_approval_decision_id n = d_id c"
        "ac_state_event_id n = se_id e"
      and a: "insert_attempt (attempt_row i f dep (ids 1) owner token st) d3 = Inr d4"
      and v: "add_evidence dep ''execution_attempt'' k ''recorded'' ev now (ids 3) d4 = Inr (v, d1)"
      and x: "so_execution_id first = ids 1"
    by (auto simp: consume_and_prepare_def Let_def branch_simps scalar_one_eq)
  let ?a = "attempt_row i f dep (ids 1) owner token st"
  from evidence_at_most_one [OF v] obtain vs where "d1 = d4\<lparr>t_evidence := t_evidence d4 @ vs\<rparr>" "length vs \<le> 1"
    by blast
  with append_event_ok [OF e] inserted(13) [OF n(1)] inserted(14) [OF a] n x
  have effect: "d1 = d\<lparr>t_events := t_events d @ [e], t_consumptions := t_consumptions d @ [n],
       t_attempts := t_attempts d @ [?a], t_evidence := t_evidence d @ vs\<rparr> \<and> length vs \<le> 1 \<and>
     se_deployment_id e = dep \<and> se_to_state e = deploying_state i \<and> ac_approval_decision_id n = d_id c \<and>
     ac_state_event_id n = se_id e \<and> ea_id ?a = so_execution_id first \<and> ea_deployment_id ?a = dep \<and>
     ea_executor_identity ?a = owner \<and> ea_fencing_token ?a = token"
    by (simp add: attempt_row_def)
  have "d_request_id c = q_id q" "di_id i = dep" "i \<in> set (t_intents d)" "q \<in> set (t_requests d)"
    "c \<in> set (t_decisions d)" "l \<in> set (t_locks d)"
    using rows by (auto dest!: filter_singletonD)
  moreover have "dl_deployment_id l = dep \<and> dl_owner_identity l = owner \<and> dl_fencing_token l = token \<and>
      now < dl_lease_expires_at l"
    using guards(1) by (simp add: lock_held_def)
  moreover have "q_deployment_id q = Some dep \<and> q_artifact_digest q = Some (di_artifact_digest i) \<and>
      now < q_expires_at q \<and> d_decided_at c < q_expires_at q \<and> d_decision_code c = ''approved'' \<and>
      d_actor_user_id c \<noteq> di_user_id i"
    using guards(2) by (simp add: approval_consumable_def)
  ultimately show ?thesis using effect by blast
qed

text \<open>C7. While the Production lock has a row, only its own deployment and executor obtain a lease,
  with its token and before it expires: nobody is fenced off by a takeover, because the
  reconciliation a takeover asks for is recorded by no service.\<close>

theorem lock_exclusive:
  assumes "runs d0 d" and "sound d0" and "l \<in> set (t_locks d)"
    and "acquire_deployment_lock dep owner lease key cd ids now d dc = Inr (pl, d')"
  shows "dl_deployment_id l = dep \<and> dl_owner_identity l = owner \<and> dl_lease_expires_at l > now \<and>
     pl_fencing_token pl = dl_fencing_token l \<and> t_locks d' = t_locks d"
proof -
  have sound: "sound d" using runs_sound [OF assms(1,2)] .
  then have "schema_ok d" by (simp add: sound_def)
  moreover from this assms(3) have "dl_conflict_domain l = PRODUCTION_CONFLICT_DOMAIN"
    by (auto simp: schema_ok_def rows_ok_def table_ok_def list_all_iff deployment_lock_checks_def
        PRODUCTION_CONFLICT_DOMAIN_def)
  ultimately have one: "filter (\<lambda>k. dl_conflict_domain k = PRODUCTION_CONFLICT_DOMAIN) (t_locks d) = [l]"
    using distinct_key_filter [OF schema_distinct(5) assms(3)] by simp
  have "dl_stale_reconciled_at l = None"
    using sound assms(3) by (simp add: sound_def locks_unreconciled_def list_all_iff)
  with assms(4) one show ?thesis
    by (auto simp: acquire_deployment_lock_def Let_def branch_simps resolve_executor_identity_def
        scalar_one_or_none_def dest!: add_evidence_tables)
qed

text \<open>Releasing the Production lock forgets its fencing token: whoever acquires it next gets
  token 1 again, not a larger one.\<close>

theorem token_restarts:
  assumes "release_deployment_lock dep owner key token ids now d = Inr (u, d1)"
    and "acquire_deployment_lock dep' owner' lease key' cd ids' now' d1 d1 = Inr (pl, d2)"
  shows "pl_fencing_token pl = 1"
proof -
  from assms(1) obtain l d0 where "dl_conflict_domain l = PRODUCTION_CONFLICT_DOMAIN"
    "d1 = delete_lock l d0"
    by (auto simp: release_deployment_lock_def branch_simps scalar_one_or_none_Some
        dest!: filter_singletonD)
  then have "filter (\<lambda>l. dl_conflict_domain l = PRODUCTION_CONFLICT_DOMAIN) (t_locks d1) = []"
    by (auto simp: delete_lock_def filter_empty_conv)
  with assms(2) show ?thesis
    by (auto simp: acquire_deployment_lock_def Let_def branch_simps scalar_one_or_none_def)
qed

text \<open>The loser of a race for a free lock who brings new evidence does not see \<open>lock_conflict\<close>: the insert meets the
  winner's row and raises the database's own error, which the handler around the commit does not
  catch.\<close>

theorem lost_race_raises:
  assumes "filter (\<lambda>l. dl_conflict_domain l = PRODUCTION_CONFLICT_DOMAIN) (t_locks d) = []"
    and "l \<in> set (t_locks dc)" and "dl_conflict_domain l = PRODUCTION_CONFLICT_DOMAIN"
    and "get_row di_id dep (t_intents d) \<noteq> None" and "5 \<le> lease" and "lease \<le> 900"
    and "exists_row di_id dep (t_intents dc)" and "IDEMPOTENCY_KEY_PATTERN key"
    and "\<forall>e \<in> set (t_evidence dc). ev_evidence_key e \<noteq> key"
  shows "acquire_deployment_lock dep ''maoxx-production-deployment-supervisor'' lease key None ids
       now d dc = Inl IntegrityError"
proof -
  let ?l = "\<lparr>dl_conflict_domain = PRODUCTION_CONFLICT_DOMAIN, dl_environment = ''production'',
      dl_deployment_id = dep, dl_owner_identity = ''maoxx-production-deployment-supervisor'',
      dl_fencing_token = 1, dl_acquired_at = now, dl_renewed_at = now,
      dl_lease_expires_at = now + seconds lease, dl_stale_reconciled_at = None,
      dl_stale_reconciled_token = None, dl_stale_reconciliation_evidence_key = None\<rparr>"
  have "lock_fits ?l"
    by (simp add: lock_fits_def varchar_def varchar_opt_def py_len_def utf8_continuation_def int8_def int8_opt_def
        PRODUCTION_CONFLICT_DOMAIN_def)
  moreover have "clash (\<lambda>l. Some [AS (dl_conflict_domain l)]) (t_locks dc) ?l"
    using assms(2,3) by (auto simp: clash_def list_ex_iff)
  ultimately have "insert_lock ?l dc = Inl IntegrityError"
    by (auto simp: insert_lock_def insert_row_def lock_keys_def)
  moreover have "scalar_one_or_none (\<lambda>e. ev_deployment_id e = dep \<and> ev_evidence_type e = ''lock_acquired'' \<and>
      ev_evidence_key e = key) (t_evidence dc) = Inr None"
    using assms(9) by (simp add: result_simps)
  ultimately show ?thesis using assms
    by (auto simp: acquire_deployment_lock_def add_evidence_with_def EVIDENCE_TYPES_def resolve_executor_identity_def
        scalar_one_or_none_def [of _ "t_locks d"])
qed

end
