(* ===== verification/Scenario.thy ===== *)
theory Scenario
  imports Guarantees Attempt
begin

text \<open>
  One deployment from its intent to its start, run through the operations of the model: the concrete
  input at which the theorems of \<open>Guarantees\<close> are applied.
\<close>

section \<open>The people\<close>

definition sc_sha :: string where "sc_sha = replicate 40 CHR ''a''"
definition sc_digest :: string where "sc_digest = ''sha256:'' @ replicate 64 CHR ''a''"
definition sc_image :: string where "sc_image = ''ghcr.io/o/r@'' @ sc_digest"
definition sc_executor :: string where "sc_executor = ''maoxx-production-deployment-supervisor''"

definition sc_requester :: principal where
  "sc_requester = \<lparr>p_id = 3, p_principal_type = ''HUMAN'', p_user_id = Some 1, p_identity_key = ''r'',
     p_created_at = 0\<rparr>"

definition sc_approver :: principal where
  "sc_approver = \<lparr>p_id = 4, p_principal_type = ''HUMAN'', p_user_id = Some 2, p_identity_key = ''a'',
     p_created_at = 0\<rparr>"

definition sc_requester_mapping :: external_identity where
  "sc_requester_mapping = \<lparr>x_id = 5, x_provider = ''feishu'',
     x_tenant_fingerprint = tenant_fingerprint ''t'', x_subject_fingerprint = subject_fingerprint ''r'',
     x_principal_id = 3, x_mapping_version = 1, x_valid_from = 0, x_valid_to = None,
     x_audit_event_id = 7\<rparr>"

definition sc_approver_mapping :: external_identity where
  "sc_approver_mapping = \<lparr>x_id = 6, x_provider = ''feishu'', x_tenant_fingerprint = ''t'',
     x_subject_fingerprint = ''a'', x_principal_id = 4, x_mapping_version = 1, x_valid_from = 0,
     x_valid_to = None, x_audit_event_id = 7\<rparr>"

definition sc_start :: db where
  "sc_start = empty_db\<lparr>t_users := [example_user, example_user\<lparr>u_id := 2\<rparr>],
     t_principals := [sc_requester, sc_approver],
     t_external_identities := [sc_requester_mapping, sc_approver_mapping]\<rparr>"

lemma fingerprint_not_letter [simp]: "subject_fingerprint s \<noteq> ''a''" "''a'' \<noteq> subject_fingerprint s"
  using FINGERPRINT_sha256
  by (auto simp: subject_fingerprint_def external_identity_fingerprint_def FINGERPRINT_PATTERN_def
      dest!: arg_cong [of _ _ length])

lemma fingerprint_fits [simp]: "varchar 64 (tenant_fingerprint v)" "varchar 64 (subject_fingerprint v)"
  by (simp_all add: tenant_fingerprint_def subject_fingerprint_def varchar_fingerprint)

text \<open>Literal strings fit by counting; symbolic hashes by their pattern.\<close>

lemma varchar_literal [simp]:
  "varchar n []" "varchar n (c # s) \<longleftrightarrow> py_len (c # s) \<le> n"
  by (simp_all add: varchar_def py_len_def)

lemma py_len_literal [simp]:
  "py_len [] = 0"
  "py_len (c # s) = (if utf8_continuation c then py_len s else Suc (py_len s))"
  by (simp_all add: py_len_def)

lemma sc_patterns [simp]:
  "SHA_PATTERN sc_sha" "DIGEST_PATTERN sc_digest" "REPOSITORY_PATTERN ''o/r''"
  "\<not> ends_with ''.git'' ''o/r''" "IDEMPOTENCY_KEY_PATTERN ''k''"
  "IMMUTABLE_IMAGE_PATTERN sc_image" "after_last_at sc_image = sc_digest"
  "IDEMPOTENCY_KEY_PATTERN (CHR ''e'' # CHR ''x'' # CHR ''e'' # CHR ''c'' # CHR ''u'' # CHR ''t'' # CHR ''i'' #
     CHR ''o'' # CHR ''n'' # CHR ''-'' # uuid_str 31)"
  "py_len (uuid_str 31) \<le> 190"
  "varchar 500 sc_image"
  by code_simp+

lemma sc_lengths [simp]: "varchar 40 sc_sha" "varchar 71 sc_digest"
  by (simp_all add: varchar_sha varchar_digest)

lemma sc_fingerprints [simp]:
  "FINGERPRINT_PATTERN (human_fingerprint u)" "varchar 64 (human_fingerprint u)"
  "varchar 64 (approval_identity_fingerprint x)" "FINGERPRINT_PATTERN (approval_identity_fingerprint x)"
  by (simp_all add: human_fingerprint_def approval_identity_fingerprint_def varchar_fingerprint)

lemma sc_start_sound: "sound sc_start"
proof -
  have "schema_ok sc_start"
    by (simp add: schema_ok_def rows_ok_def references_ok_def refs_into_def sc_start_def empty_db_def
        table_ok_def user_fits_def principal_fits_def utf8_continuation_def
        example_user_def sc_requester_def sc_approver_def sc_requester_mapping_def
        sc_approver_mapping_def key_defs principal_checks_def exists_opt_def exists_row_def
        external_identity_fits_def external_identity_checks_def external_identity_refs_def int4_def
        subject_atoms_def)
  then show ?thesis
    by (simp add: sound_def history_ok_def states_of_def events_of_def locks_unreconciled_def
        sc_start_def empty_db_def)
qed

section \<open>The rows it writes\<close>

definition sc_event :: "uuid \<Rightarrow> int \<Rightarrow> string option \<Rightarrow> string \<Rightarrow> string \<Rightarrow> dict \<Rightarrow> instant \<Rightarrow>
    deployment_state_event" where
  "sc_event i n from_state to_state code ev t = \<lparr>se_id = i, se_deployment_id = 10, se_sequence = n,
     se_from_state = from_state, se_to_state = to_state, se_event_code = code,
     se_actor_identity_fingerprint = human_fingerprint 1, se_evidence = ev, se_occurred_at = t\<rparr>"

definition sc_intent :: deployment_intent where
  "sc_intent = \<lparr>di_id = 10, di_user_id = 1, di_requester_principal_id = 3,
     di_requester_external_identity_id = 5, di_intent_kind = ''deploy'',
     di_action_code = ''production_deploy'', di_repository = ''o/r'', di_target_sha = sc_sha,
     di_target_environment = ''production'', di_artifact_digest = sc_digest,
     di_requested_by_identity_fingerprint = human_fingerprint 1, di_service_set = [''api''],
     di_migration_risk = ''NONE'', di_migration_revision = None, di_rollback_runbook_ref = None,
     di_config_fingerprint = sc_digest, di_idempotency_key = ''k'', di_created_at = 1\<rparr>"

definition sc_db1 :: db where
  "sc_db1 = sc_start\<lparr>t_intents := [sc_intent],
     t_events := [sc_event 11 1 None ''INTENT_CREATED'' ''intent_created'' [] 1]\<rparr>"

definition sc_ids :: "uuid \<Rightarrow> nat \<Rightarrow> uuid" where
  "sc_ids u n = u + of_nat n"

lemma sc_ids [simp]: "sc_ids u 0 = u" "sc_ids u (Suc n) = sc_ids (u + 1) n"
  "sc_ids u (numeral k) = u + numeral k"
  by (simp_all add: sc_ids_def)

lemma sc_start_tables [simp]:
  "t_users sc_start = [example_user, example_user\<lparr>u_id := 2\<rparr>]"
  "t_principals sc_start = [sc_requester, sc_approver]"
  "t_external_identities sc_start = [sc_requester_mapping, sc_approver_mapping]"
  "t_requests sc_start = []" "t_decisions sc_start = []" "t_intents sc_start = []"
  "t_artifacts sc_start = []" "t_events sc_start = []" "t_acceptances sc_start = []"
  "t_bindings sc_start = []" "t_consumptions sc_start = []" "t_locks sc_start = []"
  "t_attempts sc_start = []" "t_evidence sc_start = []"
  by (simp_all add: sc_start_def empty_db_def)

lemmas sc_rows = example_user_def sc_requester_def sc_approver_def
  sc_requester_mapping_def sc_approver_mapping_def sc_intent_def sc_event_def

lemmas sc_writes = insert_defs insert_row_def clash_def exists_row_def exists_opt_def key_defs refs_defs
  utf8_continuation_def int4_def int8_def int8_opt_def int4_opt_def varchar_opt_def subject_atoms_def

lemma sc_transition: "legal f t \<Longrightarrow> require_transition f t = Inr ()"
  by (simp add: require_transition_ok)

lemmas sc_events = append_state_event_def append_state_event_with_def state_event_for_def latest_state_event_def events_of_def Let_def
  sc_transition legal_iff state_event_fits_def deployment_state_event_checks_def

lemma sc_resolve: "t_external_identities d = [sc_requester_mapping, sc_approver_mapping] \<Longrightarrow>
    t_principals d = [sc_requester, sc_approver] \<Longrightarrow>
    resolve_feishu_principal ''t'' ''r'' d = Inr \<lparr>rh_user_id = 1, rh_principal_id = 3, rh_mapping_id = 5,
      rh_mapping_version = 1\<rparr>"
  by (simp add: resolve_feishu_principal_def feishu_rows_def active_mapping_def sc_requester_def
      sc_approver_def sc_requester_mapping_def sc_approver_mapping_def)

lemma sc_step1:
  "create_deployment_intent ''t'' ''r'' ''deploy'' ''o/r'' sc_sha sc_digest [''api''] NONE None None sc_digest
     ''k'' (sc_ids 10) 1 1 sc_start = Inr (sc_intent, sc_db1)"
proof -
  have fields: "validate_intent_fields ''deploy'' ''production_deploy'' ''o/r'' sc_sha sc_digest
      (human_fingerprint 1) [''api''] NONE None None sc_digest ''k'' = Inr [''api'']"
    by (simp add: validate_intent_fields_def expected_action_def validate_migration_plan_def
        validate_service_set_def APPROVED_PRODUCTION_SERVICES_def)
  have res: "resolve_feishu_principal ''t'' ''r'' sc_start = Inr \<lparr>rh_user_id = 1, rh_principal_id = 3,
      rh_mapping_id = 5, rh_mapping_version = 1\<rparr>"
    by (rule sc_resolve) simp_all
  show ?thesis
    by (simp add: create_deployment_intent_def res as_gate_def fields expected_action_def
        scalar_one_or_none_def risk_value_def sc_rows sc_db1_def sc_writes sc_events
        deployment_intent_fits_def deployment_intent_checks_def)
qed


section \<open>Artifact and staging\<close>

definition sc_ci :: ci_evidence where
  "sc_ci = \<lparr>ci_repository = ''o/r'', ci_target_sha = sc_sha, ci_run_id = 7, ci_workflow_name = ''ci'',
     ci_event = ''push'', ci_status = ''completed'', ci_conclusion = ''success'',
     ci_quality_gate_conclusion = ''success'', ci_protected_main_membership = True,
     ci_verified_at = 2, ci_provenance = [(''run'', ''7'')], ci_provenance_source = ''github_checks_api''\<rparr>"

definition sc_artifact :: deployment_artifact where
  "sc_artifact = \<lparr>da_id = 12, da_deployment_id = 10, da_repository = ''o/r'', da_target_sha = sc_sha,
     da_digest = sc_digest, da_image_reference = sc_image, da_service_images = [(''api'', sc_image)],
     da_ci_run_id = 7, da_ci_event = ''push'', da_ci_status = ''completed'',
     da_ci_conclusion = ''success'', da_ci_head_sha = sc_sha, da_quality_gate_conclusion = ''success'',
     da_protected_main_verified = True, da_ci_workflow_name = ''ci'', da_ci_repository = ''o/r'',
     da_ci_verified_at = 2, da_ci_provenance_source = ''github_checks_api'',
     da_provenance = with_ci_verification [] sc_ci, da_created_at = 2\<rparr>"

definition sc_db2 :: db where
  "sc_db2 = sc_db1\<lparr>t_artifacts := [sc_artifact],
     t_events := t_events sc_db1 @ [sc_event 13 2 (Some ''INTENT_CREATED'') ''ARTIFACT_RECORDED''
       ''artifact_recorded'' (mk_dict [(''digest'', JStr sc_digest), (''ci_run_id'', JNum 7)]) 2]\<rparr>"

lemma sc_step2:
  "record_artifact 10 ''o/r'' sc_sha sc_digest sc_image 7 (\<lambda>_ _ _. Inr sc_ci) [] (human_fingerprint 1)
     (sc_ids 12) 2 2 sc_db1 = Inr (sc_artifact, sc_db2)"
  by (simp add: record_artifact_def validate_immutable_artifact_def scalar_one_or_none_def sc_db1_def
      sc_db2_def sc_rows sc_writes sc_events sc_artifact_def sc_ci_def valid_verified_ci_def
      deployment_artifact_fits_def deployment_artifact_checks_def images_of_def)

definition sc_db3 :: db where
  "sc_db3 = sc_db2\<lparr>t_events := t_events sc_db2 @ [sc_event 14 3 (Some ''ARTIFACT_RECORDED'')
     ''STAGING_DEPLOYING'' ''staging_deploying'' [] 3]\<rparr>"

lemma sc_step3: "begin_staging_deployment 10 (human_fingerprint 1) (sc_ids 14) 3 sc_db2 = Inr ((), sc_db3)"
  by (simp add: begin_staging_deployment_def scalar_one_or_none_def sc_db1_def
      sc_db2_def sc_db3_def sc_rows sc_writes sc_events)

definition sc_acceptance :: staging_acceptance where
  "sc_acceptance = \<lparr>sa_id = 15, sa_deployment_id = 10, sa_repository = ''o/r'', sa_target_sha = sc_sha,
     sa_artifact_digest = sc_digest, sa_environment = ''staging'', sa_validation_suite_version = ''v1'',
     sa_config_fingerprint = sc_digest, sa_accepted_by_identity_fingerprint = human_fingerprint 1,
     sa_completed_at = 4, sa_valid_until = 4 + seconds 1000\<rparr>"

definition sc_db4 :: db where
  "sc_db4 = sc_db3\<lparr>t_acceptances := [sc_acceptance],
     t_events := t_events sc_db3 @ [sc_event 16 4 (Some ''STAGING_DEPLOYING'') ''STAGING_VALIDATED''
       ''staging_accepted'' (mk_dict [(''artifact_digest'', JStr sc_digest),
         (''validation_suite_version'', JStr ''v1'')]) 4]\<rparr>"

lemma sc_step4:
  "record_staging_acceptance 10 ''o/r'' sc_sha sc_digest ''v1'' sc_digest (human_fingerprint 1) 1000
     (sc_ids 15) 4 sc_db3 = Inr (sc_acceptance, sc_db4)"
  by (simp add: record_staging_acceptance_def scalar_one_or_none_def sc_db1_def
      sc_db2_def sc_db3_def sc_db4_def sc_rows sc_writes sc_events sc_acceptance_def sc_artifact_def
      acceptance_fits_def staging_acceptance_checks_def seconds_def)

section \<open>Approval\<close>

definition sc_request :: approval_request where
  "sc_request = bound_request sc_intent 17 ''b'' 5 1000"

definition sc_binding :: deployment_approval_binding where
  "sc_binding = bound_binding sc_intent 10 18 17 1 5"

definition sc_db5 :: db where
  "sc_db5 = sc_db4\<lparr>t_requests := [sc_request], t_bindings := [sc_binding],
     t_events := t_events sc_db4 @ [sc_event 19 5 (Some ''STAGING_VALIDATED'')
       ''PRODUCTION_APPROVAL_PENDING'' ''approval_bound'' (mk_dict [(''approval_request_id'', JUuid 17),
         (''deployment_id'', JUuid 10), (''artifact_digest'', JStr sc_digest)]) 5]\<rparr>"

lemma sc_key [simp]: "IDEMPOTENCY_KEY_PATTERN ''b''" "IDEMPOTENCY_KEY_PATTERN ''l''"
  by code_simp+

lemmas sc_dbs = sc_db1_def sc_db2_def sc_db3_def sc_db4_def sc_db5_def

lemma sc_step5:
  "create_bound_production_approval 10 ''b'' 1000 (sc_ids 17) 5 5 sc_db4 =
     Inr ((sc_request, sc_binding), sc_db5)"
  by (simp add: create_bound_production_approval_def scalar_one_or_none_def sc_dbs sc_rows sc_writes
      sc_events sc_artifact_def resolve_human_identity_def resolve_human_def as_gate_def
      bound_request_def bound_binding_def sc_request_def sc_binding_def pending_state_def
      approval_request_fits_def approval_request_checks_def check_passes_def
      deployment_binding_condition_def sql_or_def sql_and_def binding_fits_def
      deployment_approval_binding_checks_def seconds_def)

definition sc_decision :: approval_decision where
  "sc_decision = decision_row \<lparr>cmd_decision_code = ''approved'', cmd_request_id = 17\<rparr> ''e'' 2
     (approval_identity_fingerprint ''a'') (Some 6) 20 6"

definition sc_db6 :: db where
  "sc_db6 = sc_db5\<lparr>t_decisions := [sc_decision]\<rparr>"

lemma sc_step6:
  "process_approval_card_action ''approve'' 17 (Some ''t'') (Some ''a'') (Some ''c'') ''e'' 2 {''t''}
     {''a''} {''a''} ''c'' (Some 6) 20 6 NoFault sc_db5 sc_db5 =
   (\<lparr>out_code = ''recorded'', out_decision_code = Some ''approved''\<rparr>, sc_db6)"
  by (simp add: process_approval_card_action_def record_approval_decision_def decide_def settle_def
      scalar_one_or_none_def sc_dbs sc_db6_def sc_rows sc_writes sc_decision_def decision_row_def
      approval_decision_fits_def approval_decision_checks_def approval_decision_refs_def sc_request_def
      bound_request_def seconds_def on_integrity_error_def)

section \<open>Execution\<close>

definition sc_lock :: deployment_lock where
  "sc_lock = \<lparr>dl_conflict_domain = ''production:global'', dl_environment = ''production'',
     dl_deployment_id = 10, dl_owner_identity = sc_executor, dl_fencing_token = 1, dl_acquired_at = 7,
     dl_renewed_at = 7, dl_lease_expires_at = 7 + seconds 60, dl_stale_reconciled_at = None,
     dl_stale_reconciled_token = None, dl_stale_reconciliation_evidence_key = None\<rparr>"

definition sc_evidence :: "uuid \<Rightarrow> string \<Rightarrow> string \<Rightarrow> dict \<Rightarrow> instant \<Rightarrow> deployment_evidence" where
  "sc_evidence i ty key payload t = \<lparr>ev_id = i, ev_deployment_id = 10, ev_evidence_type = ty,
     ev_evidence_key = key, ev_status_code = ''recorded'', ev_payload = payload, ev_occurred_at = t\<rparr>"

definition sc_db7 :: db where
  "sc_db7 = sc_db6\<lparr>t_locks := [sc_lock], t_evidence := [sc_evidence 21 ''lock_acquired'' ''l''
     (mk_dict [(''conflict_domain'', JStr ''production:global''), (''owner'', JStr sc_executor),
       (''fencing_token'', JNum 1)]) 7]\<rparr>"

definition sc_lease :: production_lease where
  "sc_lease = \<lparr>pl_deployment_id = 10, pl_owner_identity = sc_executor, pl_fencing_token = 1\<rparr>"

lemmas sc_locking = resolve_executor_identity_def PRODUCTION_CONFLICT_DOMAIN_def get_row_def
  add_evidence_def add_evidence_with_def on_integrity_error_def EVIDENCE_TYPES_def evidence_fits_def deployment_evidence_checks_def
  sc_executor_def sc_evidence_def sc_lock_def

lemma sc_step7:
  "acquire_deployment_lock 10 sc_executor 60 ''l'' None (sc_ids 21) 7 sc_db6 sc_db6 = Inr (sc_lease, sc_db7)"
  by (simp add: acquire_deployment_lock_def scalar_one_or_none_def sc_dbs sc_db6_def sc_db7_def sc_rows
      sc_writes sc_locking sc_lease_def lock_fits_def deployment_lock_checks_def seconds_def Let_def)


definition sc_attempt :: deployment_execution_attempt where
  "sc_attempt = attempt_row sc_intent sc_artifact 10 31 sc_executor 1 8"

definition sc_consumption :: deployment_approval_consumption where
  "sc_consumption = \<lparr>ac_id = 32, ac_deployment_id = 10, ac_approval_request_id = 17,
     ac_approval_decision_id = 20, ac_state_event_id = 30, ac_consumed_at = 8\<rparr>"

definition sc_db8 :: db where
  "sc_db8 = sc_db7\<lparr>t_events := t_events sc_db7 @ [sc_event 30 6 (Some ''PRODUCTION_APPROVAL_PENDING'')
       ''PRODUCTION_DEPLOYING'' ''approval_consumed_and_execution_prepared'' [(''fencing_token'', JNum 1)] 8],
     t_consumptions := [sc_consumption], t_attempts := [sc_attempt],
     t_evidence := t_evidence sc_db7 @ [sc_evidence 33 ''execution_attempt'' (''execution-'' @ uuid_str 31)
       (mk_dict [(''execution_id'', JUuid 31), (''executor_identity'', JStr sc_executor),
         (''fencing_token'', JNum 1), (''intent_hash'', JStr (ea_intent_hash sc_attempt))]) 8]\<rparr>"

definition sc_started :: start_outcome where
  "sc_started = \<lparr>so_code = ''execution_prepared'', so_execution_id = 31, so_fencing_token = 1\<rparr>"

lemma sc_step8:
  "start_production_deployment 10 sc_executor 1 (sc_ids 30) 8 8 sc_db7 = Inr (sc_started, sc_db8)"
  by (simp add: start_production_deployment_def consume_and_prepare_def scalar_one_or_none_def
      scalar_one_def sc_dbs
      sc_db6_def sc_db7_def sc_db8_def sc_rows sc_writes sc_events sc_locking sc_started_def sc_lease_def
      lock_held_def approval_consumable_def sc_request_def bound_request_def sc_decision_def
      decision_row_def sc_binding_def bound_binding_def seconds_def deploying_state_def sc_attempt_def
      attempt_row_def sc_artifact_def sc_consumption_def attempt_fits_def calculate_intent_hash_def
      deployment_execution_attempt_checks_def varchar_fingerprint)


section \<open>The run\<close>

lemma sc_runs: "runs sc_start sc_db6" "runs sc_start sc_db7" "runs sc_start sc_db8"
proof -
  have r5: "runs sc_start sc_db5"
    by (rule runs.bound [OF runs.accepted [OF runs.staging [OF runs.artifact [OF runs.intent
          [OF runs.none sc_step1] sc_step2] sc_step3] sc_step4] sc_step5])
  show r6: "runs sc_start sc_db6" by (rule runs.card [OF r5 runs.none sc_step6])
  show r7: "runs sc_start sc_db7" by (rule runs.acquire [OF r6 runs.none sc_step7])
  show "runs sc_start sc_db8" by (rule runs.start [OF r7 sc_step8])
qed

lemma sc_schema: "schema_ok sc_db7"
  using runs_sound [OF sc_runs(2) sc_start_sound] by (simp add: sound_def)

lemma sc_attempts: "t_attempts sc_db8 = [sc_attempt]"
  by (simp add: sc_db8_def)

section \<open>Witnesses\<close>

lemma reachable_history_witness:
  "\<exists>h \<in> set LIVE_HISTORIES. prefix (states_of 10 sc_db8) h"
  using reachable_history [OF sc_runs(3) sc_start_sound] by blast

lemma attempt_authorised_witness:
  "\<exists>i \<in> set (t_intents sc_db8). \<exists>q \<in> set (t_requests sc_db8). \<exists>c \<in> set (t_decisions sc_db8).
     di_id i = ea_deployment_id sc_attempt \<and> d_request_id c = q_id q \<and>
     d_decision_code c = ''approved'' \<and> d_actor_user_id c \<noteq> di_user_id i"
  using attempt_authorised [OF sc_runs(3) sc_start_sound, of sc_attempt] sc_attempts by auto

lemma rollback_link_never_witness:
  "\<exists>e. create_rollback_link 10 10 sc_sha sc_sha sc_digest (sc_ids 40) 9 sc_db8 = Inl e"
  by (rule rollback_link_never [OF sc_runs(3) sc_start_sound])

lemma start_once_witness:
  "start_production_deployment 10 sc_executor 9 (sc_ids 50) 9 9 sc_db8 =
     Inr (\<lparr>so_code = ''reconciliation_required'', so_execution_id = so_execution_id sc_started,
       so_fencing_token = so_fencing_token sc_started\<rparr>, sc_db8)"
  by (rule start_once [OF sc_step8 sc_schema rtranclp.rtrancl_refl])

lemma start_prepared_witness:
  "(\<exists>l \<in> set (t_locks sc_db7). dl_owner_identity l = sc_executor \<and> dl_fencing_token l = 1 \<and> 8 < dl_lease_expires_at l) \<and>
   (\<exists>c \<in> set (t_decisions sc_db7). d_decision_code c = ''approved'')"
  using start_prepared [OF sc_step8] by (auto simp: sc_started_def)

lemma sc_reacquired:
  "acquire_deployment_lock 10 sc_executor 60 ''l'' None (sc_ids 60) 8 sc_db7 sc_db7 = Inr (sc_lease, sc_db7)"
  by (simp add: acquire_deployment_lock_def scalar_one_or_none_def sc_dbs sc_db6_def sc_db7_def sc_rows
      sc_locking sc_lease_def seconds_def Let_def)

lemma lock_exclusive_witness: "dl_deployment_id sc_lock = 10 \<and> dl_lease_expires_at sc_lock > 8"
  using lock_exclusive [OF sc_runs(2) sc_start_sound _ sc_reacquired, of sc_lock]
  by (simp add: sc_db7_def)

definition sc_db9 :: db where
  "sc_db9 = sc_db7\<lparr>t_locks := [], t_evidence := t_evidence sc_db7 @ [sc_evidence 61 ''lock_released'' ''l''
     (mk_dict [(''conflict_domain'', JStr ''production:global''), (''fencing_token'', JNum 1)]) 9]\<rparr>"

lemma sc_released:
  "release_deployment_lock 10 sc_executor ''l'' 1 (sc_ids 61) 9 sc_db7 = Inr ((), sc_db9)"
  by (simp add: release_deployment_lock_def scalar_one_or_none_def sc_dbs sc_db6_def sc_db7_def sc_db9_def
      sc_rows sc_writes sc_locking delete_lock_def Let_def)

lemma token_restarts_witness:
  "\<exists>pl d2. acquire_deployment_lock 10 sc_executor 60 ''k'' None (sc_ids 62) 10 sc_db9 sc_db9 = Inr (pl, d2) \<and>
     pl_fencing_token pl = 1"
proof -
  have "\<exists>pl d2. acquire_deployment_lock 10 sc_executor 60 ''k'' None (sc_ids 62) 10 sc_db9 sc_db9 = Inr (pl, d2)"
    by (simp add: acquire_deployment_lock_def scalar_one_or_none_def sc_dbs sc_db6_def sc_db7_def sc_db9_def
        sc_rows sc_writes sc_locking lock_fits_def deployment_lock_checks_def seconds_def Let_def)
  then show ?thesis using token_restarts [OF sc_released] by blast
qed

lemma lost_race_raises_witness:
  "acquire_deployment_lock 10 ''maoxx-production-deployment-supervisor'' 60 ''k'' None (sc_ids 62) 10
     sc_db6 sc_db7 = Inl IntegrityError"
  by (rule lost_race_raises [of _ sc_lock])
    (simp_all add: sc_dbs sc_db6_def sc_db7_def sc_lock_def PRODUCTION_CONFLICT_DOMAIN_def get_row_def
      sc_intent_def exists_row_def sc_evidence_def)

section \<open>The attempt the supervisor loads\<close>

definition sc_backup :: deployment_evidence where
  "sc_backup = \<lparr>ev_id = 70, ev_deployment_id = 10, ev_evidence_type = ''predeploy_backup'',
     ev_evidence_key = ''b'', ev_status_code = ''passed'',
     ev_payload = [(''created_at'', JTime (Aware 8)),
       (''producer_identity'', JStr ''maoxx-production-backup-authority''),
       (''verified_at'', JTime (Aware 9))], ev_occurred_at = 9\<rparr>"

definition sc_db10 :: db where
  "sc_db10 = sc_db8\<lparr>t_evidence := t_evidence sc_db8 @ [sc_backup]\<rparr>"

lemma sc_loaded:
  "load_attempt 31 (\<lambda>_ _ _. Inr sc_ci) (\<lambda>_. 10) sc_db10 =
     Inr (attempt_of \<lparr>au_execution = sc_attempt, au_intent = sc_intent, au_artifact = sc_artifact,
       au_acceptance = sc_acceptance, au_lock = sc_lock, au_binding = sc_binding,
       au_consumption = sc_consumption, au_request = sc_request, au_decision = sc_decision,
       au_backup = sc_backup\<rparr>)"
proof -
  have rows: "load_authority_rows 31 sc_db10 = Inr \<lparr>au_execution = sc_attempt, au_intent = sc_intent,
      au_artifact = sc_artifact, au_acceptance = sc_acceptance, au_lock = sc_lock,
      au_binding = sc_binding, au_consumption = sc_consumption, au_request = sc_request,
      au_decision = sc_decision, au_backup = sc_backup\<rparr>"
    by (simp add: load_authority_rows_def scalar_one_or_none_def sc_dbs sc_db6_def sc_db7_def sc_db8_def
        sc_db10_def sc_attempt_def attempt_row_def sc_intent_def sc_artifact_def sc_acceptance_def
        sc_lock_def sc_binding_def bound_binding_def sc_consumption_def sc_request_def bound_request_def
        sc_decision_def decision_row_def sc_backup_def sc_evidence_def get_row_def
        PRODUCTION_CONFLICT_DOMAIN_def Let_def)
  show ?thesis
    by (simp add: load_attempt_def rows or_disconnected_def rows_match_def sc_attempt_def attempt_row_def
        sc_intent_def sc_artifact_def sc_acceptance_def sc_lock_def sc_consumption_def sc_request_def
        bound_request_def sc_decision_def decision_row_def sc_backup_def sc_ci_def sc_executor_def
        SUPERVISOR_IDENTITY_def str_field_def aware_field_def iso_field_def seconds_def minutes_def)
qed

lemma loaded_attempt_authorised_witness:
  "\<exists>c \<in> set (t_decisions sc_db10). d_decision_code c = ''approved''"
  using loaded_attempt_authorised [OF sc_loaded] by blast

end
