(* ===== verification/Drill.thy ===== *)
theory Drill
  imports Scenario Outcomes
begin

text \<open>
  The execution of the attempt of \<open>Scenario\<close>, and its recovery after the loss of a journal: the
  concrete runs at which the theorems on the supervisor are applied.
\<close>

section \<open>The world of the runs\<close>

definition sc_rows_of_attempt :: authority_rows where
  "sc_rows_of_attempt = \<lparr>au_execution = sc_attempt, au_intent = sc_intent, au_artifact = sc_artifact,
     au_acceptance = sc_acceptance, au_lock = sc_lock, au_binding = sc_binding,
     au_consumption = sc_consumption, au_request = sc_request, au_decision = sc_decision,
     au_backup = sc_backup\<rparr>"

definition sc_loaded_attempt :: supervisor_attempt where
  "sc_loaded_attempt = attempt_of sc_rows_of_attempt"

lemma sc_attempt_fields [simp]:
  "at_deployment_id sc_loaded_attempt = 10" "at_execution_attempt_id sc_loaded_attempt = 31"
  "map fst (at_service_images sc_loaded_attempt) = [''api'']"
  "at_artifact_digest sc_loaded_attempt = sc_digest" "at_target_sha sc_loaded_attempt = sc_sha"
  "at_expected_migration_revision sc_loaded_attempt = None"
  by (simp_all add: sc_loaded_attempt_def sc_rows_of_attempt_def attempt_of_def sc_intent_def
      sc_attempt_def attempt_row_def sc_artifact_def)

text \<open>Evidence other than of a backup does not change what is loaded.\<close>

definition sc_db :: "deployment_evidence list \<Rightarrow> db" where
  "sc_db xs = sc_db10\<lparr>t_evidence := t_evidence sc_db10 @ xs\<rparr>"

lemma sc_db_loads:
  assumes "list_all (\<lambda>x. ev_evidence_type x \<noteq> ''predeploy_backup'') xs"
  shows "load_attempt 31 (\<lambda>_ _ _. Inr sc_ci) (\<lambda>_. 10) (sc_db xs) = Inr sc_loaded_attempt"
proof -
  have backup: "filter (\<lambda>e. ev_deployment_id e = dep \<and> ev_evidence_type e = ''predeploy_backup'')
      (t_evidence (sc_db xs)) = filter (\<lambda>e. ev_deployment_id e = dep \<and>
        ev_evidence_type e = ''predeploy_backup'') (t_evidence sc_db10)" for dep
    using assms by (auto simp: sc_db_def filter_empty_conv list_all_iff)
  have tables: "t_attempts (sc_db xs) = t_attempts sc_db10" "t_intents (sc_db xs) = t_intents sc_db10"
    "t_artifacts (sc_db xs) = t_artifacts sc_db10" "t_acceptances (sc_db xs) = t_acceptances sc_db10"
    "t_locks (sc_db xs) = t_locks sc_db10" "t_bindings (sc_db xs) = t_bindings sc_db10"
    "t_consumptions (sc_db xs) = t_consumptions sc_db10" "t_requests (sc_db xs) = t_requests sc_db10"
    "t_decisions (sc_db xs) = t_decisions sc_db10"
    by (simp_all add: sc_db_def)
  have "load_authority_rows 31 (sc_db xs) = load_authority_rows 31 sc_db10"
    unfolding load_authority_rows_def Let_def backup tables ..
  then have "load_attempt 31 (\<lambda>_ _ _. Inr sc_ci) (\<lambda>_. 10) (sc_db xs) =
      load_attempt 31 (\<lambda>_ _ _. Inr sc_ci) (\<lambda>_. 10) sc_db10"
    by (simp add: load_attempt_def)
  then show ?thesis by (simp add: sc_loaded sc_loaded_attempt_def sc_rows_of_attempt_def)
qed

definition sc_resources :: "nat \<Rightarrow> trusted_resource_result" where
  "sc_resources t = \<lparr>tr_resource_check_id = 300, tr_deployment_id = 10,
     tr_checkpoint_nonce = 400 + of_nat t,
     tr_samples = [\<lparr>ts_resource_check_id = 300, ts_deployment_id = 10, ts_environment = ''production'',
       ts_host_checkpoint = ''h'', ts_checkpoint_nonce = 400 + of_nat t, ts_captured_at = 10,
       ts_monotonic = 0, ts_mem_available_bytes = 0, ts_swap_free_bytes = 0, ts_root_free_bytes = 0,
       ts_docker_free_bytes = 0\<rparr>],
     tr_evaluated_at = 10, tr_passed = True, tr_median_mem_available_bytes = 0,
     tr_minimum_mem_available_bytes = 0, tr_minimum_swap_free_bytes = 0,
     tr_minimum_root_free_bytes = 0, tr_minimum_docker_free_bytes = 0\<rparr>"

definition sc_snapshot :: "runtime_state \<Rightarrow> runtime_snapshot" where
  "sc_snapshot st = \<lparr>rs_state = st, rs_deployment_id = None, rs_execution_attempt_id = None,
     rs_fencing_epoch = None, rs_intent_hash = None, rs_containers = [], rs_docker_event_cursor = None,
     rs_docker_client_active = False, rs_transitional = True, rs_observed_at = 10\<rparr>"

definition sc_cycle :: health_cycle where
  "sc_cycle = \<lparr>hc_checks = map (\<lambda>c. (c, True)) [''artifact_digest'', ''revision_sha'', ''migration'',
       ''smoke'', ''critical_regression'', ''verification_within_timeout'', ''api.alive'', ''api.ready'',
       ''api.live'', ''api.http'', ''api.dependency.db''],
     hc_observed_digest = sc_digest, hc_observed_sha = sc_sha, hc_migration_revision = None,
     hc_completed_at = 10, hc_restart_counts = []\<rparr>"

text \<open>Nothing fails; the runtime is observed in \<open>st\<close>; the process dies at the tick \<open>k\<close>, if there is one.\<close>

definition sc_env :: "runtime_state \<Rightarrow> nat option \<Rightarrow> env" where
  "sc_env st k = \<lparr>e_dies = (\<lambda>t. k = Some t), e_now = (\<lambda>_. 10), e_new_id = (\<lambda>t. 500 + of_nat t),
     e_others = (\<lambda>_ d. d), e_db = (\<lambda>_. NoFault), e_ci = (\<lambda>_ _ _ _. Inr sc_ci),
     e_host_lock = (\<lambda>_. None), e_journal_dir = (\<lambda>_. None), e_journal_read = (\<lambda>_. True),
     e_append = (\<lambda>_. (Everything, Goes_on)), e_plan = (\<lambda>_ _. Inr ()), e_submit = (\<lambda>_ _. Goes_on),
     e_observe = (\<lambda>_ _. Inr (sc_snapshot st)), e_events = (\<lambda>_ _ _. Inr False),
     e_health = (\<lambda>_ _ _. Inr sc_cycle), e_collect = (\<lambda>t _. Inr (sc_resources t))\<rparr>"

definition sc_world ::
  "deployment_evidence list \<Rightarrow> journal_row list option \<Rightarrow> supervisor_attempt list \<Rightarrow> nat \<Rightarrow> world" where
  "sc_world xs rows submitted n = \<lparr>w_db = sc_db xs,
     w_journals = (\<lambda>_. None)(31 := map_option (\<lambda>rs. \<lparr>jf_lines = map Row rs, jf_open = False\<rparr>) rows),
     w_submitted = submitted, w_tick = n\<rparr>"

definition sc_row :: "journal_event \<Rightarrow> (string \<times> string) list \<Rightarrow> journal_row" where
  "sc_row ev details = row_for ev sc_loaded_attempt details 10"

lemma sc_row [simp]: "bound_to sc_loaded_attempt (sc_row ev o')" "jr_event (sc_row ev o') = ev"
  "jr_timestamp (sc_row ev o') = 10" "jr_outcome (sc_row ev o') = o'"
  by (simp_all add: sc_row_def row_for_def bound_to_def)

section \<open>One effect at a time\<close>

lemma sc_load_lines: "list_all (bound_to sc_loaded_attempt) rs \<Longrightarrow>
    load_lines sc_loaded_attempt (map Row rs) = Inr rs"
  by (simp add: load_lines_ok)

lemma sc_journal_append [simp]:
  "k \<noteq> Some n \<Longrightarrow> journal_append ev sc_loaded_attempt o' (sc_env st k) (sc_world xs rows sub n) =
     (Done (), sc_world xs (Some ((case rows of None \<Rightarrow> [] | Some rs \<Rightarrow> rs) @ [sc_row ev o'])) sub (Suc n))"
  by (cases rows) (simp_all add: journal_append_def at_tick_def sc_env_def sc_world_def sc_row_def append_line_def)

lemma sc_journal_load [simp]:
  "k \<noteq> Some n \<Longrightarrow> list_all (bound_to sc_loaded_attempt) (case rows of None \<Rightarrow> [] | Some rs \<Rightarrow> rs) \<Longrightarrow>
     journal_load sc_loaded_attempt (sc_env st k) (sc_world xs rows sub n) =
     (Done (case rows of None \<Rightarrow> [] | Some rs \<Rightarrow> rs), sc_world xs rows sub (Suc n))"
  by (cases rows)
    (simp_all add: journal_load_def at_tick_def sc_env_def sc_world_def load_file_def of_result_def sc_load_lines)

lemma sc_authority_load [simp]:
  "k \<noteq> Some n \<Longrightarrow> list_all (\<lambda>x. ev_evidence_type x \<noteq> ''predeploy_backup'') xs \<Longrightarrow>
     authority_load 31 (sc_env st k) (sc_world xs rows sub n) =
     (Done sc_loaded_attempt, sc_world xs rows sub (Suc n))"
  using sc_db_loads [of xs]
  by (simp add: authority_load_def at_tick_def sc_env_def sc_world_def of_result_def)

lemma sc_ticks [simp]:
  assumes "k \<noteq> Some n"
  shows "journal_open (sc_env st k) (sc_world xs rows sub n) = (Done (), sc_world xs rows sub (Suc n))"
    "clock (sc_env st k) (sc_world xs rows sub n) = (Done 10, sc_world xs rows sub (Suc n))"
    "validate_plan a (sc_env st k) (sc_world xs rows sub n) = (Done (), sc_world xs rows sub (Suc n))"
    "observe a (sc_env st k) (sc_world xs rows sub n) = (Done (sc_snapshot st), sc_world xs rows sub (Suc n))"
    "verify_health a d (sc_env st k) (sc_world xs rows sub n) = (Done sc_cycle, sc_world xs rows sub (Suc n))"
    "collect_resources dep (sc_env st k) (sc_world xs rows sub n) =
       (Done (sc_resources n), sc_world xs rows sub (Suc n))"
    "submit a (sc_env st k) (sc_world xs rows sub n) = (Done (), sc_world xs rows (sub @ [a]) (Suc n))"
    "with_host_lock m (sc_env st k) (sc_world xs rows sub n) = m (sc_env st k) (sc_world xs rows sub (Suc n))"
  using assms
  by (simp_all add: journal_open_def clock_def validate_plan_def observe_def verify_health_def submit_def
      collect_resources_def with_host_lock_def bindS_def at_tick_def sc_env_def sc_world_def of_result_def)

lemma sc_dies [simp]: "at_tick f (sc_env st (Some n)) (sc_world xs rows sub n) = (Died, sc_world xs rows sub (Suc n))"
  by (simp add: at_tick_def sc_env_def sc_world_def)

text \<open>Evidence is accepted when its identifier and its key are new.\<close>

lemma varchar_short: "length s \<le> n \<Longrightarrow> varchar n s"
  unfolding varchar_def py_len_def using length_filter_le le_trans by blast

lemma sc_insert:
  assumes "evidence_fits x" "deployment_evidence_checks x" "ev_deployment_id x = 10"
    and "ev_id x \<notin> {21, 33, 70}"
    and "ev_evidence_type x \<notin> {''lock_acquired'', ''execution_attempt'', ''predeploy_backup''}"
    and "list_all (\<lambda>y. ev_id y \<noteq> ev_id x \<and>
      (ev_evidence_type y, ev_evidence_key y) \<noteq> (ev_evidence_type x, ev_evidence_key x)) xs"
  shows "insert_evidence x (sc_db xs) = Inr (sc_db (xs @ [x]))"
proof -
  have base: "list_all (\<lambda>y. ev_id y \<noteq> ev_id x \<and> ev_evidence_type y \<noteq> ev_evidence_type x) (t_evidence sc_db10)"
    using assms(4,5) by (auto simp: sc_db10_def sc_db8_def sc_db7_def sc_evidence_def sc_backup_def)
  have "exists_row di_id 10 (t_intents sc_db10)"
    by (simp add: exists_row_def sc_db10_def sc_db8_def sc_db7_def sc_db6_def sc_dbs sc_intent_def)
  then show ?thesis
    using base assms(1-3,6)
    by (auto simp: insert_evidence_def insert_row_def sc_db_def clash_def evidence_keys_def list_all_iff
        list_ex_iff)
qed

lemma sc_evidence_fields [simp]:
  "ev_id (resource_evidence r i) = i" "ev_evidence_type (resource_evidence r i) = ''resource_gate''"
  "ev_evidence_key (resource_evidence r i) = uuid_str (tr_checkpoint_nonce r)"
  "ev_id (marker_evidence a i t) = i" "ev_evidence_type (marker_evidence a i t) = ''mutation_submitted''"
  "ev_evidence_key (marker_evidence a i t) = uuid_str (at_execution_attempt_id a)"
  "ev_deployment_id (marker_evidence a i t) = at_deployment_id a"
  "ev_id (runtime_evidence a s src i t) = i"
  "ev_evidence_type (runtime_evidence a s src i t) = ''supervisor_runtime_result''"
  "tr_checkpoint_nonce (sc_resources m) = 400 + of_nat m"
  by (simp_all add: resource_evidence_def marker_evidence_def runtime_evidence_def sc_resources_def)

lemma sc_no_resource: "filter (\<lambda>e. ev_deployment_id e = 10 \<and> ev_evidence_type e = ''resource_gate'' \<and> P e)
    (t_evidence sc_db10) = []"
  and sc_no_marker: "filter (is_marker a) (t_evidence sc_db10) = []"
  by (simp_all add: sc_db10_def sc_db8_def sc_db7_def sc_evidence_def sc_backup_def is_marker_def)

lemma sc_record_resource:
  assumes "k \<noteq> Some n" "500 + of_nat n \<notin> {21, 33, 70 :: uuid}"
    and "list_all (\<lambda>y. ev_id y \<noteq> 500 + of_nat n \<and>
      (ev_evidence_type y, ev_evidence_key y) \<noteq> (''resource_gate'', uuid_str (400 + of_nat m))) xs"
  shows "do_record_resource (sc_resources m) (sc_env st k) (sc_world xs rows sub n) =
    (Done (), sc_world (xs @ [resource_evidence (sc_resources m) (500 + of_nat n)]) rows sub (Suc n))"
proof -
  have "filter (\<lambda>e. ev_deployment_id e = 10 \<and> ev_evidence_type e = ''resource_gate'' \<and>
      ev_evidence_key e = uuid_str (400 + of_nat m)) xs = []"
    using assms(3) by (auto simp: filter_empty_conv list_all_iff)
  moreover have "insert_evidence (resource_evidence (sc_resources m) (500 + of_nat n)) (sc_db xs) =
      Inr (sc_db (xs @ [resource_evidence (sc_resources m) (500 + of_nat n)]))"
    by (rule sc_insert)
      (use assms in \<open>simp_all add: evidence_fits_def varchar_short deployment_evidence_checks_def\<close>,
       simp_all add: resource_evidence_def sc_resources_def)
  moreover have "require_fresh (sc_resources m) 10 = Inr ()" "tr_deployment_id (sc_resources m) = 10"
    by (simp_all add: require_fresh_def sc_resources_def seconds_def)
  ultimately have "record_resource (sc_resources m) (500 + of_nat n) 10 (sc_db xs) =
      Inr ((), sc_db (xs @ [resource_evidence (sc_resources m) (500 + of_nat n)]))"
    by (simp add: record_resource_def scalar_one_or_none_def sc_no_resource sc_db_def)
  then show ?thesis
    using assms(1) by (simp add: do_record_resource_def transaction_def at_tick_def sc_env_def sc_world_def)
qed

lemma sc_marker: "is_marker sc_loaded_attempt e \<longleftrightarrow> ev_deployment_id e = 10 \<and>
    ev_evidence_type e = ''mutation_submitted'' \<and> ev_evidence_key e = uuid_str 31"
  by (simp add: is_marker_def)

lemma sc_record_submitted:
  assumes "k \<noteq> Some n" "500 + of_nat n \<notin> {21, 33, 70 :: uuid}"
    and "list_all (\<lambda>y. ev_id y \<noteq> 500 + of_nat n \<and> ev_evidence_type y \<noteq> ''mutation_submitted'') xs"
  shows "do_record_submitted sc_loaded_attempt (sc_env st k) (sc_world xs rows sub n) =
    (Done (), sc_world (xs @ [marker_evidence sc_loaded_attempt (500 + of_nat n) 10]) rows sub (Suc n))"
proof -
  have "filter (is_marker sc_loaded_attempt) xs = []"
    using assms(3) by (auto simp: filter_empty_conv list_all_iff sc_marker)
  moreover have "insert_evidence (marker_evidence sc_loaded_attempt (500 + of_nat n) 10) (sc_db xs) =
      Inr (sc_db (xs @ [marker_evidence sc_loaded_attempt (500 + of_nat n) 10]))"
    by (rule sc_insert)
      (use assms in \<open>simp_all add: evidence_fits_def varchar_short deployment_evidence_checks_def list_all_iff\<close>,
       simp_all add: marker_evidence_def)
  ultimately have "record_mutation_submitted sc_loaded_attempt (500 + of_nat n) 10 (sc_db xs) =
      Inr ((), sc_db (xs @ [marker_evidence sc_loaded_attempt (500 + of_nat n) 10]))"
    by (simp add: record_mutation_submitted_def scalar_one_or_none_def sc_no_marker sc_db_def)
  then show ?thesis
    using assms(1) by (simp add: do_record_submitted_def transaction_def at_tick_def sc_env_def sc_world_def)
qed

lemma sc_marked_again:
  assumes "k \<noteq> Some n" "filter (is_marker sc_loaded_attempt) xs = [m]"
  shows "do_record_submitted sc_loaded_attempt (sc_env st k) (sc_world xs rows sub n) =
    (Done (), sc_world xs rows sub (Suc n))"
proof -
  have "record_mutation_submitted sc_loaded_attempt (500 + of_nat n) 10 (sc_db xs) = Inr ((), sc_db xs)"
    using assms(2) by (simp add: record_mutation_submitted_def scalar_one_or_none_def sc_no_marker sc_db_def)
  then show ?thesis
    using assms(1) by (simp add: do_record_submitted_def transaction_def at_tick_def sc_env_def sc_world_def)
qed

lemma sc_asked:
  assumes "k \<noteq> Some n" "filter (is_marker sc_loaded_attempt) xs = (if b then [m] else [])"
  shows "do_mutation_submitted sc_loaded_attempt (sc_env st k) (sc_world xs rows sub n) =
    (Done b, sc_world xs rows sub (Suc n))"
proof -
  have "mutation_submitted sc_loaded_attempt (sc_db xs) = Inr (b, sc_db xs)"
    using assms(2) by (simp add: mutation_submitted_def scalar_one_or_none_def sc_no_marker sc_db_def)
  then show ?thesis
    using assms(1) by (simp add: do_mutation_submitted_def transaction_def at_tick_def sc_env_def sc_world_def)
qed

lemma sc_record_result:
  assumes "k \<noteq> Some n" "500 + of_nat n \<notin> {21, 33, 70 :: uuid}" "length src \<le> 100"
    and "list_all (\<lambda>y. ev_id y \<noteq> 500 + of_nat n \<and>
      (ev_evidence_type y, ev_evidence_key y) \<noteq> (''supervisor_runtime_result'',
        uuid_str 31 @ '':'' @ src @ '':'' @ runtime_state_value s)) xs"
  shows "record_result_or_unknown sc_loaded_attempt s src (sc_env st k) (sc_world xs rows sub n) =
    (Done s, sc_world (xs @ [runtime_evidence sc_loaded_attempt s src (500 + of_nat n) 10]) rows sub (Suc n))"
proof -
  have "length (runtime_state_value s) \<le> 34" by (cases s) (simp_all add: runtime_state_value_def)
  then have "evidence_fits (runtime_evidence sc_loaded_attempt s src (500 + of_nat n) 10)"
    using assms(3) unfolding evidence_fits_def runtime_evidence_def
    by (intro conjI varchar_short) simp_all
  moreover have "deployment_evidence_checks (runtime_evidence sc_loaded_attempt s src (500 + of_nat n) 10)"
    by (simp add: runtime_evidence_def deployment_evidence_checks_def)
  ultimately have "insert_evidence (runtime_evidence sc_loaded_attempt s src (500 + of_nat n) 10) (sc_db xs) =
      Inr (sc_db (xs @ [runtime_evidence sc_loaded_attempt s src (500 + of_nat n) 10]))"
    by (intro sc_insert)
      (use assms in \<open>simp_all add: runtime_evidence_def\<close>)
  then show ?thesis
    using assms(1)
    by (simp add: record_result_or_unknown_def do_record_result_def record_runtime_result_def tryS_def
        give_def transaction_def at_tick_def sc_env_def sc_world_def)
qed

section \<open>The runs\<close>

lemmas sc_composition = open_attempt_def first_execution_def submit_and_verify_def
  health_locked_def finish_with_def reconcile_locked_def bindS_def tryS_def give_def give_result_def
  of_result_def HEALTH_DEADLINE_SECONDS_def Let_def

lemma sc_cycle_passed: "cycle_passed sc_loaded_attempt (10 + seconds 120) sc_cycle"
  by (auto simp: cycle_passed_def sc_cycle_def required_health_checks_def seconds_def)

lemma sc_fresh: "require_fresh (sc_resources m) 10 = Inr ()"
  by (simp add: require_fresh_def sc_resources_def seconds_def)

definition sc_after :: world where
  "sc_after = sc_world [resource_evidence (sc_resources 107) 609, marker_evidence sc_loaded_attempt 610 10,
       runtime_evidence sc_loaded_attempt HEALTHY ''health'' 619 10]
     (Some [sc_row ATTEMPT_ACCEPTED [], sc_row MUTATION_SUBMITTED [], sc_row MUTATION_COMPLETED [],
       sc_row HEALTH_STARTED [], sc_row HEALTH_PASSED (state_outcome HEALTHY),
       sc_row ATTEMPT_TERMINAL (state_outcome HEALTHY)])
     [sc_loaded_attempt] 120"

lemma sc_executed: "execute 31 (sc_env IN_PROGRESS None) (sc_world [] None [] 100) = (Done HEALTHY, sc_after)"
  unfolding sc_after_def
  by (simp add: execute_def sc_composition sc_asked [where b = False] sc_record_resource sc_record_submitted
      sc_record_result sc_fresh health_anchor_def sc_cycle_passed)

text \<open>The process dies after it has submitted the mutation; the journal is lost; an operator reconciles.\<close>

lemma sc_append_dies [simp]:
  "journal_append ev a o' (sc_env st (Some n)) (sc_world xs rows sub n) = (Died, sc_world xs rows sub (Suc n))"
  by (simp add: journal_append_def)

definition sc_crashed :: "journal_row list option \<Rightarrow> world" where
  "sc_crashed rows = sc_world [resource_evidence (sc_resources 107) 609, marker_evidence sc_loaded_attempt 610 10]
     rows [sc_loaded_attempt] 114"

lemma sc_crashes: "execute 31 (sc_env IN_PROGRESS (Some 113)) (sc_world [] None [] 100) =
    (Died, sc_crashed (Some [sc_row ATTEMPT_ACCEPTED [], sc_row MUTATION_SUBMITTED []]))"
  unfolding sc_crashed_def
  by (simp add: execute_def sc_composition sc_asked [where b = False] sc_record_resource sc_record_submitted
      sc_fresh)

lemma sc_journal_lost: "sc_crashed rows\<lparr>w_journals := (w_journals (sc_crashed rows))(31 := None)\<rparr> = sc_crashed None"
  by (simp add: sc_crashed_def sc_world_def)

definition sc_reconciled :: world where
  "sc_reconciled = sc_world [resource_evidence (sc_resources 107) 609, marker_evidence sc_loaded_attempt 610 10,
       runtime_evidence sc_loaded_attempt UNKNOWN ''reconciliation'' 621 10]
     (Some [sc_row RECONCILIATION_STARTED [], sc_row RECONCILIATION_RESULT (state_outcome IN_PROGRESS)])
     [sc_loaded_attempt] 122"

lemma sc_reconciles: "reconcile 31 (sc_env IN_PROGRESS None) (sc_crashed None) = (Done UNKNOWN, sc_reconciled)"
  unfolding sc_reconciled_def sc_crashed_def
  by (simp add: reconcile_def sc_composition sc_record_result sc_snapshot_def)

lemma sc_resubmits:
  "w_submitted (snd (execute 31 (sc_env IN_PROGRESS (Some 134)) sc_reconciled)) = [sc_loaded_attempt, sc_loaded_attempt]"
  unfolding sc_reconciled_def
  by (simp add: execute_def sc_composition sc_record_resource sc_marked_again sc_marker sc_fresh)
    (simp add: sc_world_def)

lemma sc_marked: "marked 31 (w_db sc_reconciled)" "marked 31 (w_db (sc_crashed rows))"
  by (simp_all add: marked_def sc_reconciled_def sc_crashed_def sc_world_def sc_db_def sc_db10_def sc_db8_def
      sc_attempt_def attempt_row_def)

text \<open>The journal of the first run is complete: executed again it reports its state; reconciled in an
  environment where the service has failed since, it gets a second terminal record.\<close>

lemma sc_key_fields [simp]:
  "ev_evidence_key (runtime_evidence sc_loaded_attempt s src i t) =
     uuid_str 31 @ '':'' @ src @ '':'' @ runtime_state_value s"
  by (simp add: runtime_evidence_def)

lemma sc_again: "\<exists>w. execute 31 (sc_env IN_PROGRESS None) sc_after = (Done HEALTHY, w)"
  unfolding sc_after_def
  by (simp add: execute_def sc_composition terminal_state_def state_outcome_def)

lemma sc_reconciled_again: "\<exists>w. reconcile 31 (sc_env FAILED None) sc_after = (Done FAILED, w)"
  unfolding sc_after_def
  by (simp add: reconcile_def sc_composition sc_record_result sc_snapshot_def runtime_state_value_def)

lemma sc_progresses: "write_progresses (sc_env st k)"
  by (simp add: write_progresses_def sc_env_def)

lemma sc_others: "others_append i (sc_env st k)"
  by (simp add: others_append_def sc_env_def)

section \<open>Witnesses\<close>

lemma at_most_once_witness:
  "w_submitted sc_after = [sc_loaded_attempt] \<and> distinct (map at_execution_attempt_id (w_submitted sc_after))"
proof -
  have "supervised (sc_world [] None [] 100) sc_after"
    by (rule supervised.execution [OF supervised.start sc_progresses sc_executed])
  from at_most_once [OF this] show ?thesis by (simp add: sc_world_def sc_after_def)
qed

lemma sc_final: "w_journals sc_after 31 = Some \<lparr>jf_lines = map Row [sc_row ATTEMPT_ACCEPTED [],
       sc_row MUTATION_SUBMITTED [], sc_row MUTATION_COMPLETED [], sc_row HEALTH_STARTED [],
       sc_row HEALTH_PASSED (state_outcome HEALTHY), sc_row ATTEMPT_TERMINAL (state_outcome HEALTHY)],
     jf_open = False\<rparr>"
  by (simp add: sc_after_def sc_world_def)



lemma reconcile_after_terminal_witness:
  "\<exists>w1. reconcile 31 (sc_env FAILED None) sc_after = (Done FAILED, w1) \<and>
     (\<forall>s. fst (execute 31 (sc_env FAILED None) w1) \<noteq> Done s)"
proof -
  obtain w1 where r: "reconcile 31 (sc_env FAILED None) sc_after = (Done FAILED, w1)"
    using sc_reconciled_again by blast
  have "fst (execute 31 (sc_env FAILED None) w1) \<noteq> Done s" for s
    by (rule reconcile_after_terminal [OF sc_progresses r _ sc_final _ prod.collapse [symmetric]])
      (simp_all add: terminals_def row_event_def)
  with r show ?thesis by blast
qed

lemma healthy_verified_witness:
  "\<exists>a t c. loaded 31 (sc_env IN_PROGRESS None) (sc_world [] None [] 100) a \<and> 100 \<le> t \<and>
     e_health (sc_env IN_PROGRESS None) t a (10 + seconds 120) = Inr c \<and> cycle_passed a (10 + seconds 120) c"
proof -
  have "w_journals (sc_world [] None [] 100) 31 = None" "w_tick (sc_world [] None [] 100) = 100"
    "e_now (sc_env IN_PROGRESS None) j = 10" "e_observe (sc_env IN_PROGRESS None) t a = Inr s \<Longrightarrow> rs_state s \<noteq> HEALTHY"
    for j t a s by (auto simp: sc_world_def sc_env_def sc_snapshot_def)
  then show ?thesis using healthy_verified [OF sc_executed] by (simp del: ex_simps) blast
qed

lemma lost_journal_stops_witness:
  "w_submitted (snd (execute 31 (sc_env IN_PROGRESS None) (sc_crashed None))) = [sc_loaded_attempt]"
  using lost_journal_stops [OF sc_others prod.collapse [symmetric] _ sc_marked(2)]
  by (simp add: sc_crashed_def sc_world_def)


section \<open>The loss of a journal and a reconciliation\<close>

text \<open>The marker does not stop a second submission when a reconciliation, a takeover check or a
  crash has begun a new journal after the loss: the execution only asks for the marker when the journal
  has no record at all. Here the process died after its submission, the journal was lost, an operator
  reconciled, and the next execution submits the same attempt again, with its marker in the database.\<close>

theorem lost_journal_resubmits:
  "let w1 = snd (execute 31 (sc_env IN_PROGRESS (Some 113)) (sc_world [] None [] 100));
       w2 = w1\<lparr>w_journals := (w_journals w1)(31 := None)\<rparr>;
       w3 = snd (reconcile 31 (sc_env IN_PROGRESS None) w2);
       w4 = snd (execute 31 (sc_env IN_PROGRESS (Some 134)) w3)
   in marked 31 (w_db w3) \<and> map at_execution_attempt_id (w_submitted w4) = [31, 31]"
  by (simp add: Let_def sc_crashes sc_journal_lost sc_reconciles sc_resubmits sc_marked del: fun_upd_apply)

end
