(* ===== verification/JsonText.thy ===== *)
theory JsonText
  imports Json
begin

text \<open>
  Reading back what \<open>json.dumps\<close> with sorted keys wrote: the value itself, with its keys in order.
  So the canonical text of a snapshot determines what was observed.
\<close>

section \<open>Values that are read back\<close>

definition ascii :: "string \<Rightarrow> bool" where
  "ascii s \<longleftrightarrow> list_all (\<lambda>c. of_char c < (128 :: nat)) s"

fun plain :: "dvalue \<Rightarrow> bool" where
  "plain (DFloat m e) \<longleftrightarrow> False"
| "plain (DSpecial t) \<longleftrightarrow> False"
| "plain (DStr s) \<longleftrightarrow> ascii s"
| "plain (DList vs) \<longleftrightarrow> list_all plain vs"
| "plain (DObj kvs) \<longleftrightarrow> distinct (map fst kvs) \<and> list_all (\<lambda>(k, v). ascii k \<and> plain v) kvs"
| "plain v \<longleftrightarrow> True"

fun canonical :: "dvalue \<Rightarrow> dvalue" where
  "canonical (DList vs) = DList (map canonical vs)"
| "canonical (DObj kvs) = DObj (sort_key fst (map (\<lambda>(k, v). (k, canonical v)) kvs))"
| "canonical v = v"

section \<open>Strings\<close>

lemma code_points_ascii: "list_all (\<lambda>n. n < 128) ns \<Longrightarrow> code_points ns = ns"
  by (induction ns) auto

lemma hex_digit_value: "hex_digit_of (hex_digit n) = Some (nat (n mod 16))"
proof -
  have "hex_digit_of (hex_chars ! k) = Some k" if "k < 16" for k
  proof -
    have "list_all (\<lambda>k. hex_digit_of (hex_chars ! k) = Some k) [0..<16]" by code_simp
    with that show ?thesis by (simp add: list_all_iff)
  qed
  then show ?thesis by (simp add: hex_digit_def nat_less_iff)
qed

lemma unicode_escape_ascii:
  assumes "n < 128"
  shows "unicode_escape (hex_fixed 4 (int n) @ t) = Some ([char_of n], t)"
proof -
  have small: "int n div 16 div 16 = 0" "int n div 16 div 16 div 16 = 0"
    using assms by (simp_all add: zdiv_zmult2_eq [symmetric])
  have "hex_fixed 4 (int n) = [hex_digit 0, hex_digit 0, hex_digit (int n div 16), hex_digit (int n)]"
    by (simp add: eval_nat_numeral small)
  moreover have "hex_digit_of (hex_digit (int n div 16)) = Some (n div 16)"
    "hex_digit_of (hex_digit (int n)) = Some (n mod 16)" "hex_digit_of (hex_digit 0) = Some 0"
    using assms by (simp_all add: hex_digit_value nat_mod_distrib nat_div_distrib)
  ultimately obtain a b c d where abcd: "hex_fixed 4 (int n) = [a, b, c, d]" "hex_digit_of a = Some 0"
    "hex_digit_of b = Some 0" "hex_digit_of c = Some (n div 16)" "hex_digit_of d = Some (n mod 16)"
    by blast
  then have "hex_value4 (hex_fixed 4 (int n) @ t) = Some (n, t)" by simp
  then show ?thesis using assms by (simp add: unicode_escape_def utf8_bytes_def)
qed

lemma string_token_plain:
  fixes n :: nat
  shows "32 \<le> n \<Longrightarrow> n < 128 \<Longrightarrow> n \<noteq> 34 \<Longrightarrow> n \<noteq> 92 \<Longrightarrow>
     string_token (char_of n # t) = map_option (\<lambda>(x, r). (char_of n # x, r)) (string_token t)"
  by (subst string_token.simps) (auto simp: char_of_eq_iff take_bit_eq_mod)

lemma escaped_chars: "char_of (34 :: nat) = CHR 0x22" "char_of (92 :: nat) = CHR 0x5C"
  "char_of (10 :: nat) = CHR 0x0A" "char_of (13 :: nat) = CHR 0x0D" "char_of (9 :: nat) = CHR 0x09"
  "char_of (12 :: nat) = CHR 0x0C" "char_of (8 :: nat) = CHR 0x08"
  by code_simp+

lemma string_token_char:
  assumes "n < 128"
  shows "string_token (json_char n @ t) = map_option (\<lambda>(x, r). (char_of n # x, r)) (string_token t)"
proof -
  consider "n \<in> {34, 92, 10, 13, 9, 12, 8}" | "32 \<le> n" "n < 127" "n \<notin> {34, 92}"
    | "json_char n = u_escape n"
    using assms by (cases "n \<in> {34, 92, 10, 13, 9, 12, 8}"; cases "32 \<le> n \<and> n < 127") (auto simp: json_char_def)
  then show ?thesis
  proof cases
    case 1
    then show ?thesis
      by (auto simp: json_char_def string_token.simps [of "_ # _"] short_escape_def escaped_chars)
  next
    case 2
    then show ?thesis by (simp add: json_char_def string_token_plain)
  next
    case 3
    then show ?thesis
      using unicode_escape_ascii [OF assms, of t]
      by (simp add: u_escape_def string_token.simps [of "_ # _"])
  qed
qed

lemma string_token_text:
  assumes "ascii s"
  shows "string_token (concat (map json_char (code_points (map of_char s))) @ CHR 0x22 # rest) = Some (s, rest)"
proof -
  have "list_all (\<lambda>n. n < 128) ns \<Longrightarrow>
      string_token (concat (map json_char ns) @ CHR 0x22 # rest) = Some (map char_of ns, rest)" for ns
    by (induction ns) (simp_all add: string_token_char string_token.simps [of "_ # _"])
  moreover have "list_all (\<lambda>n. n < (128 :: nat)) (map of_char s)"
    using assms by (simp add: ascii_def list_all_iff)
  ultimately have "string_token (concat (map json_char (map of_char s)) @ CHR 0x22 # rest) =
      Some (map char_of (map of_char s :: nat list), rest)" by blast
  with \<open>list_all _ _\<close> show ?thesis by (simp add: code_points_ascii o_def)
qed

section \<open>Numbers\<close>

lemma digit_chars:
  assumes "k < 10"
  shows "is_digit (char_of (48 + k :: nat))" "digit_value (char_of (48 + k :: nat)) = int k"
proof -
  have "list_all (\<lambda>k. is_digit (char_of (48 + k :: nat)) \<and> digit_value (char_of (48 + k :: nat)) = int k) [0..<10]"
    by code_simp
  with assms show "is_digit (char_of (48 + k :: nat))" "digit_value (char_of (48 + k :: nat)) = int k"
    by (simp_all add: list_all_iff)
qed

lemma nat_digits_value: "digits_int (nat_digits n) = int n \<and> list_all is_digit (nat_digits n) \<and> nat_digits n \<noteq> []"
proof (induction n rule: nat_digits.induct)
  case (1 n)
  show ?case
  proof (cases "n < 10")
    case True
    then show ?thesis by (subst (1 2 3) nat_digits.simps) (simp add: digits_int_def digit_chars)
  next
    case False
    with 1 have "digits_int (nat_digits (n div 10)) = int (n div 10)" "list_all is_digit (nat_digits (n div 10))"
      by simp_all
    moreover have "10 * int (n div 10) + int (n mod 10) = int n" by presburger
    ultimately show ?thesis
      using False by (subst (1 2 3) nat_digits.simps) (simp add: digits_int_def digit_chars)
  qed
qed

lemma nat_digits_zero: "hd (nat_digits n) = CHR ''0'' \<longleftrightarrow> n = 0"
proof (induction n rule: nat_digits.induct)
  case (1 n)
  show ?case
  proof (cases "n < 10")
    case True
    have "list_all (\<lambda>k. (char_of (48 + k :: nat) = CHR ''0'') = (k = 0)) [0..<10]" by code_simp
    with True show ?thesis by (subst nat_digits.simps) (simp add: list_all_iff)
  next
    case False
    then have "hd (nat_digits n) = hd (nat_digits (n div 10))"
      using nat_digits_value [of "n div 10"] by (subst nat_digits.simps) simp
    with 1 False show ?thesis by simp
  qed
qed

text \<open>What may follow a value in a text.\<close>

definition ends_value :: "string \<Rightarrow> bool" where
  "ends_value rest \<longleftrightarrow> rest = [] \<or> hd rest \<in> {CHR '','', CHR '']'', CHR ''}''}"

lemma separators_no_digits: "\<not> is_digit CHR '',''" "\<not> is_digit CHR '']''" "\<not> is_digit CHR ''}''"
  by code_simp+

lemma ends_value_no_number:
  assumes "ends_value rest"
  shows "takeWhile is_digit rest = [] \<and> fraction_token rest = [] \<and> exponent_token rest = None"
proof (cases rest)
  case Nil
  then show ?thesis by (simp add: fraction_token_def exponent_token_def)
next
  case (Cons c t)
  with assms have "c = CHR '','' \<or> c = CHR '']'' \<or> c = CHR ''}''" by (simp add: ends_value_def)
  then have "\<not> is_digit c" "c \<noteq> CHR ''.''" "c \<noteq> CHR ''e''" "c \<noteq> CHR ''E''"
    using separators_no_digits by auto
  then show ?thesis by (simp add: Cons fraction_token_def exponent_token_def Let_def)
qed

lemma takeWhile_digits:
  "list_all is_digit ds \<Longrightarrow> ends_value rest \<Longrightarrow> takeWhile is_digit (ds @ rest) = ds"
  using ends_value_no_number by (auto simp: list_all_iff takeWhile_append)

lemma number_token_nat:
  assumes "ends_value rest"
  shows "number_token (nat_digits n @ rest) = Some (DInt (int n), rest)"
    "number_token (CHR ''-'' # nat_digits n @ rest) = Some (DInt (- int n), rest)"
proof -
  have d: "digits_int (nat_digits n) = int n" "list_all is_digit (nat_digits n)" "nat_digits n \<noteq> []"
    using nat_digits_value by auto
  have first: "hd (nat_digits n @ rest) \<noteq> CHR ''-''"
    using d(2,3) by (cases "nat_digits n") (auto simp: is_digit_def)
  have zero: "nat_digits n = ''0''" if "hd (nat_digits n) = CHR ''0''"
    using that nat_digits_zero [of n] by (simp add: nat_digits.simps [of 0] char_of_def)
  note tail = ends_value_no_number [OF assms] takeWhile_digits [OF d(2) assms]
  show "number_token (nat_digits n @ rest) = Some (DInt (int n), rest)"
    using first d(1,2,3) zero by (cases "hd (nat_digits n) = CHR ''0''") (auto simp: number_token_def Let_def tail)
  show "number_token (CHR ''-'' # nat_digits n @ rest) = Some (DInt (- int n), rest)"
    using d(1,2,3) zero by (cases "hd (nat_digits n) = CHR ''0''") (auto simp: number_token_def Let_def tail)
qed

section \<open>Values\<close>

lemma ends_value_skip: "ends_value rest \<Longrightarrow> skip_space rest = rest"
  by (cases rest) (auto simp: ends_value_def skip_space_def json_space_def)

lemma digit_no_bracket:
  assumes "is_digit c"
  shows "c \<notin> {CHR 0x22, CHR ''['', CHR ''{'', CHR '']'', CHR ''}'', CHR ''n'', CHR ''t'', CHR ''f'', CHR ''N'', CHR ''I'', CHR ''-''} \<and> \<not> json_space c"
proof -
  have "list_all (\<lambda>c. \<not> is_digit c)
      [CHR 0x22, CHR ''['', CHR ''{'', CHR '']'', CHR ''}'', CHR ''n'', CHR ''t'', CHR ''f'', CHR ''N'', CHR ''I'', CHR ''-'', CHR 0x20, CHR 0x09, CHR 0x0A, CHR 0x0D]"
    by code_simp
  with assms have "c \<notin> set [CHR 0x22, CHR ''['', CHR ''{'', CHR '']'', CHR ''}'', CHR ''n'', CHR ''t'', CHR ''f'', CHR ''N'', CHR ''I'', CHR ''-'', CHR 0x20, CHR 0x09, CHR 0x0A, CHR 0x0D]"
    unfolding list_all_iff by blast
  then show ?thesis by (simp add: json_space_def)
qed

lemma int_str_cases:
  obtains c t where "int_str i = c # t" "is_digit c" "0 \<le> i" "int_str i = nat_digits (nat i)"
  | c t where "int_str i = CHR ''-'' # c # t" "is_digit c" "i < 0" "int_str i = CHR ''-'' # nat_digits (nat (- i))"
proof (cases "i < 0")
  case True
  with nat_digits_value [of "nat (- i)"] that(2) show ?thesis
    by (cases "nat_digits (nat (- i))") (auto simp: int_str_def)
next
  case False
  with nat_digits_value [of "nat i"] that(1) show ?thesis
    by (cases "nat_digits (nat i)") (auto simp: int_str_def)
qed

lemma literal_token_digit:
  "is_digit c \<Longrightarrow> literal_token (c # t) = None" "is_digit c \<Longrightarrow> literal_token (CHR ''-'' # c # t) = None"
  using digit_no_bracket [of c] by (auto simp: literal_token_def literals_def starts_with_def)

lemma json_value_int:
  assumes "ends_value rest"
  shows "json_value (int_str i @ rest) = Some (DInt i, rest)"
proof (cases i rule: int_str_cases)
  case (1 c t)
  then have "json_value (int_str i @ rest) = number_token (nat_digits (nat i) @ rest)"
    using digit_no_bracket [of c] literal_token_digit(1) [of c]
    by (subst json_value.simps) (simp add: scalar_token_def)
  with 1(3) show ?thesis by (simp only: number_token_nat [OF assms]) simp
next
  case (2 c t)
  then have "json_value (int_str i @ rest) = number_token (CHR ''-'' # nat_digits (nat (- i)) @ rest)"
    using literal_token_digit(2) [of c]
    by (subst json_value.simps) (simp add: scalar_token_def)
  with 2(3) show ?thesis by (simp only: number_token_nat [OF assms]) simp
qed

lemma json_value_literal:
  "json_value (''null'' @ rest) = Some (DNull, rest)"
  "json_value (''true'' @ rest) = Some (DBool True, rest)"
  "json_value (''false'' @ rest) = Some (DBool False, rest)"
  by (subst json_value.simps; simp add: scalar_token_def literal_token_def literals_def starts_with_def)+

lemma json_string_parts:
  "json_string s @ rest = CHR 0x22 # concat (map json_char (code_points (map of_char s))) @ CHR 0x22 # rest"
  by (simp add: json_string_def)

text \<open>The first character of a value.\<close>

lemma dvalue_text_head:
  assumes "plain v"
  shows "\<exists>c t. dvalue_text v = c # t \<and> \<not> json_space c \<and> c \<notin> {CHR '']'', CHR ''}''}"
proof (cases v)
  case (DInt i)
  then show ?thesis using digit_no_bracket by (cases i rule: int_str_cases) (force simp: json_space_def)+
qed (use assms in \<open>auto simp: json_string_def json_object_def json_space_def\<close>)

lemma skip_space_value: "plain v \<Longrightarrow> skip_space (dvalue_text v @ rest) = dvalue_text v @ rest"
  using dvalue_text_head [of v] by (auto simp: skip_space_def)

definition read_back :: "dvalue \<Rightarrow> bool" where
  "read_back v \<longleftrightarrow> plain v \<and>
     (\<forall>rest. ends_value rest \<longrightarrow> json_value (dvalue_text v @ rest) = Some (canonical v, rest))"

lemma read_backD: "read_back v \<Longrightarrow> ends_value rest \<Longrightarrow> json_value (dvalue_text v @ rest) = Some (canonical v, rest)"
  by (simp add: read_back_def)

lemma skip_space_bracket [simp]:
  "skip_space (CHR '']'' # t) = CHR '']'' # t" "skip_space (CHR ''}'' # t) = CHR ''}'' # t"
  "skip_space (CHR '','' # t) = CHR '','' # t" "skip_space (CHR '':'' # t) = CHR '':'' # t"
  "skip_space (CHR 0x22 # t) = CHR 0x22 # t"
  by (simp_all add: skip_space_def json_space_def)

lemma ends_value_bracket [simp]:
  "ends_value (CHR '']'' # t)" "ends_value (CHR ''}'' # t)" "ends_value (CHR '','' # t)" "ends_value []"
  by (simp_all add: ends_value_def)

lemma items_read_back:
  "vs \<noteq> [] \<Longrightarrow> list_all read_back vs \<Longrightarrow>
     json_items acc (join '','' (map dvalue_text vs) @ CHR '']'' # rest) = Some (DList (acc @ map canonical vs), rest)"
proof (induction vs arbitrary: acc rule: induct_list012)
  case (2 v)
  then show ?case by (subst json_items.simps) (simp add: read_backD)
next
  case (3 v w vs)
  let ?tail = "join '','' (map dvalue_text (w # vs)) @ CHR '']'' # rest"
  obtain u where u: "?tail = dvalue_text w @ u" by (cases vs) auto
  have "plain w" using 3 by (simp add: read_back_def)
  then have "skip_space ?tail = ?tail" by (simp only: u skip_space_value)
  moreover have "json_value (dvalue_text v @ CHR '','' # ?tail) = Some (canonical v, CHR '','' # ?tail)"
    using 3 by (simp add: read_backD)
  ultimately show ?case using 3 by (subst json_items.simps) simp
qed simp

lemma put_new: "k \<notin> fst ` set kvs \<Longrightarrow> put k v kvs = kvs @ [(k, v)]"
  by (induction k v kvs rule: put.induct) auto

lemma members_read_back:
  "kvs \<noteq> [] \<Longrightarrow> list_all (\<lambda>(k, v). ascii k \<and> read_back v) kvs \<Longrightarrow>
     distinct (map fst (acc @ kvs)) \<Longrightarrow>
     json_members acc (join '','' (map (\<lambda>(k, v). json_member k (dvalue_text v)) kvs) @ CHR ''}'' # rest) =
       Some (DObj (acc @ map (\<lambda>(k, v). (k, canonical v)) kvs), rest)"
proof (induction kvs arbitrary: acc rule: induct_list012)
  case (2 kv)
  obtain k v where kv: "kv = (k, v)" by (cases kv)
  have "read_back v" "ascii k" using 2 by (simp_all add: kv)
  with 2 show ?case
    by (subst json_members.simps)
      (simp add: kv json_member_def json_string_def string_token_text read_backD put_new
        skip_space_value read_back_def [of v])
next
  case (3 kv lw kvs)
  obtain k v l w where kv: "kv = (k, v)" "lw = (l, w)" by (cases kv, cases lw)
  define tail where
    "tail = join '','' (map (\<lambda>(k, v). json_member k (dvalue_text v)) (lw # kvs)) @ CHR ''}'' # rest"
  have input: "join '','' (map (\<lambda>(k, v). json_member k (dvalue_text v)) (kv # lw # kvs)) @ CHR ''}'' # rest =
      json_string k @ CHR '':'' # dvalue_text v @ CHR '','' # tail"
    by (simp add: tail_def kv(1) json_member_def)
  have skip: "skip_space tail = tail"
    unfolding tail_def by (cases kvs) (simp_all add: kv(2) json_member_def json_string_def)
  have rb: "read_back v" "plain v" "ascii k" using 3 by (simp_all add: kv read_back_def)
  have head: "json_value (dvalue_text v @ CHR '','' # tail) = Some (canonical v, CHR '','' # tail)"
    using rb by (simp add: read_backD)
  have "put k (canonical v) acc = acc @ [(k, canonical v)]"
    using 3(5) by (intro put_new) (auto simp: kv)
  moreover have "distinct (map fst ((acc @ [(k, canonical v)]) @ lw # kvs))"
    using 3(5) by (auto simp: kv)
  ultimately have "json_members (put k (canonical v) acc) tail =
      Some (DObj ((acc @ [(k, canonical v)]) @ map (\<lambda>(k, v). (k, canonical v)) (lw # kvs)), rest)"
    using 3(2) [of "acc @ [(k, canonical v)]"] 3(4) by (simp add: tail_def)
  then show ?case
    unfolding input using rb
    by (subst json_members.simps)
      (simp add: json_string_def string_token_text skip_space_value head skip kv(1))
qed simp

lemma sort_key_fst_map:
  "sort_key fst (map (\<lambda>(k, v). (k, f v)) kvs) = map (\<lambda>(k, v). (k, f v)) (sort_key fst kvs)"
proof (induction kvs)
  case (Cons kv kvs)
  have "insort_key fst (k, f v) (map (\<lambda>(k, v). (k, f v)) xs) = map (\<lambda>(k, v). (k, f v)) (insort_key fst (k, v) xs)"
    for k v xs by (induction xs) auto
  with Cons show ?case by (cases kv) simp
qed simp

lemma object_read_back:
  assumes "list_all (\<lambda>(k, v). ascii k \<and> read_back v) kvs" "distinct (map fst kvs)"
  shows "json_value (dvalue_text (DObj kvs) @ rest) = Some (canonical (DObj kvs), rest)"
proof -
  define inorder where "inorder = sort_key fst kvs"
  have inorder: "map (\<lambda>(k, v). json_member k v) (sort_key fst (map (\<lambda>(k, v). (k, dvalue_text v)) kvs)) =
      map (\<lambda>(k, v). json_member k (dvalue_text v)) inorder"
    "sort_key fst (map (\<lambda>(k, v). (k, canonical v)) kvs) = map (\<lambda>(k, v). (k, canonical v)) inorder"
    by (simp_all only: inorder_def sort_key_fst_map) auto
  have keys: "distinct (map fst inorder)" "list_all (\<lambda>(k, v). ascii k \<and> read_back v) inorder"
    using assms by (simp_all add: inorder_def list_all_iff distinct_map)
  show ?thesis
  proof (cases "inorder = []")
    case True
    then show ?thesis
      by (subst json_value.simps) (simp add: json_object_def inorder [simplified])
  next
    case False
    then obtain u where "join '','' (map (\<lambda>(k, v). json_member k (dvalue_text v)) inorder) = CHR 0x22 # u"
      by (cases inorder; cases "tl inorder") (auto simp: json_member_def json_string_def)
    with members_read_back [OF False keys(2), of "[]" rest] keys(1) show ?thesis
      by (subst json_value.simps) (simp add: json_object_def inorder [simplified])
  qed
qed

theorem value_read_back: "plain v \<Longrightarrow> read_back v"
proof (induction v)
  case (DList vs)
  then have all: "list_all read_back vs" by (auto simp: list_all_iff)
  have "json_value (dvalue_text (DList vs) @ rest) = Some (canonical (DList vs), rest)" for rest
  proof (cases "vs = []")
    case True
    then show ?thesis by (subst json_value.simps) simp
  next
    case False
    then obtain w ws where ws: "vs = w # ws" by (cases vs) auto
    then have "plain w" using all by (simp add: read_back_def)
    obtain u where u: "join '','' (map dvalue_text vs) @ CHR '']'' # rest = dvalue_text w @ u"
      unfolding ws by (cases ws) auto
    with dvalue_text_head [OF \<open>plain w\<close>] skip_space_value [OF \<open>plain w\<close>, of u]
      items_read_back [OF False all, of "[]" rest]
    show ?thesis by (subst json_value.simps) auto
  qed
  with DList show ?case by (simp add: read_back_def)
next
  case (DObj kvs)
  then have "list_all (\<lambda>(k, v). ascii k \<and> read_back v) kvs" "distinct (map fst kvs)"
    by (fastforce simp: list_all_iff)+
  with DObj object_read_back show ?case by (simp add: read_back_def)
next
  case (DBool b)
  then show ?case using json_value_literal by (auto simp: read_back_def)
next
  case (DStr s)
  have "json_value (json_string s @ rest) = Some (DStr s, rest)" for rest
    using string_token_text [of s rest] DStr by (subst json_value.simps) (simp add: json_string_def)
  with DStr show ?case by (simp add: read_back_def)
qed (use json_value_literal json_value_int in \<open>auto simp: read_back_def\<close>)

theorem text_read_back:
  assumes "plain v"
  shows "json_loads (dvalue_text v) = Some (canonical v)"
  using read_backD [OF value_read_back [OF assms], of "[]"] skip_space_value [OF assms, of "[]"]
  by (simp add: json_loads_def skip_space_def)

section \<open>The text of a snapshot\<close>

definition field :: "string list \<Rightarrow> dvalue \<Rightarrow> dvalue" where
  "field ks v = (case at_path ks v of None \<Rightarrow> DNull | Some x \<Rightarrow> x)"

text \<open>What the fingerprint is meant to cover of a container, by its name in the text and its place in the
  container's details; and the labels of this system.\<close>

definition container_fields :: "(string \<times> string list) list" where
  "container_fields =
     [(''running'', [''State'', ''Running'']), (''status'', [''State'', ''Status'']),
      (''exit_code'', [''State'', ''ExitCode'']), (''oom_killed'', [''State'', ''OOMKilled'']),
      (''restart_count'', [''RestartCount'']), (''health_status'', [''State'', ''Health'', ''Status'']),
      (''image'', [''Config'', ''Image''])]"

definition own_label :: "string \<Rightarrow> dvalue \<Rightarrow> dvalue option" where
  "own_label k detail =
     (if starts_with ''com.maoxx.'' k then at_path [''Config'', ''Labels'', k] detail else None)"

definition displays :: "dvalue \<Rightarrow> runtime_snapshot \<Rightarrow> bool" where
  "displays w s \<longleftrightarrow>
     at_path [''state''] w = Some (DStr (runtime_state_value (rs_state s))) \<and>
     at_path [''deployment_id''] w = Some (DStr (opt_uuid_str (rs_deployment_id s))) \<and>
     at_path [''execution_attempt_id''] w = Some (DStr (opt_uuid_str (rs_execution_attempt_id s))) \<and>
     at_path [''fencing_epoch''] w = Some (case rs_fencing_epoch s of None \<Rightarrow> DNull | Some n \<Rightarrow> DInt n) \<and>
     at_path [''intent_hash''] w = Some (case rs_intent_hash s of None \<Rightarrow> DNull | Some h \<Rightarrow> DStr h) \<and>
     at_path [''transitional''] w = Some (DBool (rs_transitional s)) \<and>
     (\<forall>service. at_path [''containers'', service] w \<noteq> None \<longleftrightarrow> service \<in> fst ` set (rs_containers s)) \<and>
     (\<forall>(service, detail) \<in> set (rs_containers s).
        (\<forall>(name, ks) \<in> set container_fields.
           at_path [''containers'', service, name] w = Some (canonical (field ks detail))) \<and>
        (\<forall>k. at_path [''containers'', service, ''labels'', k] w = map_option canonical (own_label k detail)))"

definition agree :: "runtime_snapshot \<Rightarrow> runtime_snapshot \<Rightarrow> bool" where
  "agree s s' \<longleftrightarrow>
     rs_state s = rs_state s' \<and> rs_deployment_id s = rs_deployment_id s' \<and>
     rs_execution_attempt_id s = rs_execution_attempt_id s' \<and> rs_fencing_epoch s = rs_fencing_epoch s' \<and>
     rs_intent_hash s = rs_intent_hash s' \<and> rs_transitional s = rs_transitional s' \<and>
     fst ` set (rs_containers s) = fst ` set (rs_containers s') \<and>
     (\<forall>(service, detail) \<in> set (rs_containers s). \<forall>(service', detail') \<in> set (rs_containers s'). service' = service \<longrightarrow>
        (\<forall>(name, ks) \<in> set container_fields. canonical (field ks detail') = canonical (field ks detail)) \<and>
        (\<forall>k. map_option canonical (own_label k detail') = map_option canonical (own_label k detail)))"

lemma map_of_sorted: "distinct (map fst kvs) \<Longrightarrow> map_of (sort_key fst kvs) = map_of kvs"
  by (subst map_of_inject_set) (simp_all add: distinct_map)

lemma at_path_canonical: "plain v \<Longrightarrow> at_path ks (canonical v) = map_option canonical (at_path ks v)"
proof (induction ks arbitrary: v)
  case (Cons k ks)
  show ?case
  proof (cases v)
    case (DObj kvs)
    have "map_of (map (\<lambda>(k, v). (k, canonical v)) kvs) k = map_option canonical (map_of kvs k)"
      by (simp add: map_of_map)
    moreover have "distinct (map fst (map (\<lambda>(k, v). (k, canonical v)) kvs))"
      using Cons.prems DObj by (simp add: o_def case_prod_beta')
    moreover have "plain x" if "map_of kvs k = Some x" for x
      using Cons.prems DObj map_of_SomeD [OF that] by (auto simp: list_all_iff)
    ultimately show ?thesis using Cons.IH DObj by (cases "map_of kvs k") (simp_all add: at_path.simps map_of_sorted)
  qed (simp_all add: at_path.simps)
qed (simp add: at_path.simps)

lemma map_of_filter_key: "map_of (filter (\<lambda>(k, _). P k) kvs) k = (if P k then map_of kvs k else None)"
  by (induction kvs) auto

lemma dget_null: "dget k DNull v = Inr x \<Longrightarrow> x = field [k] v"
  by (cases v) (auto simp: dget_def field_def at_path.simps split: option.splits)

lemma dget_object: "dget k empty_obj v = Inr x \<Longrightarrow> at_path (k' # ks) x = at_path (k # k' # ks) v"
  by (cases v) (auto simp: dget_def at_path.simps split: option.splits)

lemma dget_object_field: "dget k empty_obj v = Inr x \<Longrightarrow> field (k' # ks) x = field (k # k' # ks) v"
  by (simp only: field_def dget_object)

lemma own_labels_path: "own_labels x = Inr ls \<Longrightarrow>
    at_path [k] ls = (if starts_with ''com.maoxx.'' k then at_path [k] x else None)"
  by (cases x) (auto simp: own_labels_def map_of_filter_key at_path.simps split: option.splits)

text \<open>The stable part of a container shows exactly the fields of its details.\<close>

lemma stable_container_shows:
  assumes "stable_container detail = Inr c"
  shows "\<forall>(name, ks) \<in> set container_fields. at_path [name] c = Some (field ks detail)"
    "at_path [''labels'', k] c = own_label k detail"
proof -
  from assms obtain state running status exit_code oom restarts health health_status config img all_labels labels where
    state: "dget ''State'' empty_obj detail = Inr state" and running: "dget ''Running'' DNull state = Inr running"
    and status: "dget ''Status'' DNull state = Inr status" and exit_code: "dget ''ExitCode'' DNull state = Inr exit_code"
    and oom: "dget ''OOMKilled'' DNull state = Inr oom" and restarts: "dget ''RestartCount'' DNull detail = Inr restarts"
    and health: "dget ''Health'' empty_obj state = Inr health" and hs: "dget ''Status'' DNull health = Inr health_status"
    and config: "dget ''Config'' empty_obj detail = Inr config" and img: "dget ''Image'' DNull config = Inr img"
    and all: "dget ''Labels'' empty_obj config = Inr all_labels" and labels: "own_labels all_labels = Inr labels"
    and c: "c = DObj [(''running'', running), (''status'', status), (''exit_code'', exit_code),
         (''oom_killed'', oom), (''restart_count'', restarts),
         (''health_status'', health_status), (''image'', img), (''labels'', labels)]"
    by (auto simp: stable_container_def bindE_eq_Inr)
  note nulls = running status exit_code oom restarts hs img
  show "\<forall>(name, ks) \<in> set container_fields. at_path [name] c = Some (field ks detail)"
    by (simp add: c container_fields_def at_path.simps(1) at_path.simps(2) [of _ _ "DObj _"] nulls [THEN dget_null] dget_object_field [OF state]
        dget_object_field [OF health] dget_object_field [OF config])
  show "at_path [''labels'', k] c = own_label k detail"
  proof -
    have "at_path [''labels'', k] c = at_path [k] labels" by (simp add: c at_path.simps(2) [of _ _ "DObj _"])
    also have "\<dots> = own_label k detail"
      by (simp only: own_labels_path [OF labels] own_label_def dget_object [OF all] dget_object [OF config])
    finally show ?thesis .
  qed
qed

lemma stable_containers_shows:
  assumes "stable_containers cs = Inr ds"
  shows "map fst ds = map fst cs" "(service, detail) \<in> set cs \<Longrightarrow> \<exists>c. (service, c) \<in> set ds \<and> stable_container detail = Inr c"
  using assms by (induction cs arbitrary: ds rule: stable_containers.induct) (auto simp: bindE_eq_Inr)

lemma view_displays:
  assumes "stable_view s = Inr v" and "plain v"
  shows "displays (canonical v) s"
proof -
  from assms(1) obtain ds where ds: "stable_containers (rs_containers s) = Inr ds" and v: "v = DObj
      [(''state'', DStr (runtime_state_value (rs_state s))), (''deployment_id'', DStr (opt_uuid_str (rs_deployment_id s))),
       (''execution_attempt_id'', DStr (opt_uuid_str (rs_execution_attempt_id s))),
       (''fencing_epoch'', case rs_fencing_epoch s of None \<Rightarrow> DNull | Some n \<Rightarrow> DInt n),
       (''intent_hash'', case rs_intent_hash s of None \<Rightarrow> DNull | Some h \<Rightarrow> DStr h),
       (''containers'', DObj ds), (''transitional'', DBool (rs_transitional s))]"
    by (auto simp: stable_view_def bindE_eq_Inr)
  note shows_ds = stable_containers_shows [OF ds]
  have distinct: "distinct (map fst ds)" using assms(2) by (simp add: v)
  have inner: "at_path (''containers'' # service # ks) (canonical v) = map_option canonical (at_path ks c)"
    if "(service, c) \<in> set ds" for service c ks
    using that distinct by (simp add: at_path_canonical [OF assms(2)]) (simp add: v at_path.simps(2) [of _ _ "DObj _"])
  have services: "at_path [''containers'', service] (canonical v) \<noteq> None \<longleftrightarrow> service \<in> fst ` set (rs_containers s)" for service
  proof -
    have "at_path [''containers'', service] (canonical v) \<noteq> None \<longleftrightarrow> map_of ds service \<noteq> None"
      by (simp add: at_path_canonical [OF assms(2)]) (cases "map_of ds service"; simp add: v at_path.simps)
    also have "\<dots> \<longleftrightarrow> service \<in> set (map fst ds)" by (simp add: map_of_eq_None_iff)
    finally show ?thesis by (simp add: shows_ds(1))
  qed
  have container: "(\<forall>(name, ks) \<in> set container_fields.
        at_path [''containers'', service, name] (canonical v) = Some (canonical (field ks detail))) \<and>
      (\<forall>k. at_path [''containers'', service, ''labels'', k] (canonical v) = map_option canonical (own_label k detail))"
    if member: "(service, detail) \<in> set (rs_containers s)" for service detail
  proof -
    from shows_ds(2) [OF member] obtain c where c: "(service, c) \<in> set ds" "stable_container detail = Inr c" by blast
    from stable_container_shows [OF c(2)] show ?thesis by (auto simp: inner [OF c(1)])
  qed
  have "displays (canonical v) s \<longleftrightarrow>
    (\<forall>(service, detail) \<in> set (rs_containers s).
        (\<forall>(name, ks) \<in> set container_fields.
           at_path [''containers'', service, name] (canonical v) = Some (canonical (field ks detail))) \<and>
        (\<forall>k. at_path [''containers'', service, ''labels'', k] (canonical v) = map_option canonical (own_label k detail)))"
    unfolding displays_def using services
    by (simp add: at_path_canonical [OF assms(2)] del: canonical.simps)
      (simp add: v at_path.simps split: option.splits)
  then show ?thesis using container by blast
qed

lemma opt_uuid_str_inject: "opt_uuid_str u = opt_uuid_str v \<longleftrightarrow> u = v"
proof -
  have "uuid_str x \<noteq> ''None''" for x
  proof
    assume "uuid_str x = ''None''"
    then have "length (uuid_str x) = length ''None''" by simp
    then show False by simp
  qed
  then show ?thesis by (simp add: opt_uuid_str_def eq_commute [of "''None''"] split: option.splits)
qed

lemma state_value_inject: "runtime_state_value x = runtime_state_value y \<longleftrightarrow> x = y"
  by (cases x; cases y) (simp_all add: runtime_state_value_def)

lemma displays_agree:
  assumes "displays w s" and "displays w s'"
  shows "agree s s'"
proof -
  have services: "\<forall>service. at_path [''containers'', service] w \<noteq> None \<longleftrightarrow> service \<in> fst ` set (rs_containers x)"
    if "displays w x" for x
    using that unfolding displays_def by (elim conjE)
  have "fst ` set (rs_containers s) = fst ` set (rs_containers s')"
    using services [OF assms(1)] services [OF assms(2)] by blast
  moreover have "(\<forall>(name, ks) \<in> set container_fields. canonical (field ks detail') = canonical (field ks detail)) \<and>
        (\<forall>k. map_option canonical (own_label k detail') = map_option canonical (own_label k detail))"
    if "(service, detail) \<in> set (rs_containers s)" "(service, detail') \<in> set (rs_containers s')" for service detail detail'
    using assms that unfolding displays_def by fastforce
  moreover have "rs_fencing_epoch s = rs_fencing_epoch s'" "rs_intent_hash s = rs_intent_hash s'"
    using assms unfolding displays_def by (auto split: option.splits)
  moreover have "rs_state s = rs_state s'" "rs_deployment_id s = rs_deployment_id s'"
    "rs_execution_attempt_id s = rs_execution_attempt_id s'" "rs_transitional s = rs_transitional s'"
    using assms unfolding displays_def by (auto simp: opt_uuid_str_inject state_value_inject)
  ultimately show ?thesis unfolding agree_def by blast
qed

text \<open>C22. The text whose hash identifies the stable part of a snapshot is JSON that, decoded, shows the state, the
  two identifiers, the fencing epoch, the intent hash and the transitional flag of the snapshot, exactly its
  services, and for every service seven fields of its container's details and exactly its own labels, with
  the keys of objects in order; so two snapshots with the same text agree on all of these. The strings in the
  stable part are ASCII, there are no floats, and keys are distinct.\<close>

theorem stable_text_read_back:
  assumes "stable_view s = Inr v" and "plain v"
  shows "\<exists>w. json_loads (dvalue_text v) = Some w \<and> displays w s \<and>
     (\<forall>s' v'. stable_view s' = Inr v' \<and> plain v' \<and> dvalue_text v' = dvalue_text v \<longrightarrow> agree s s')"
proof -
  have "agree s s'" if "stable_view s' = Inr v'" "plain v'" "dvalue_text v' = dvalue_text v" for s' v'
  proof -
    from text_read_back [OF that(2)] text_read_back [OF assms(2)] that(3) have "canonical v' = canonical v" by simp
    with view_displays [OF that(1,2)] view_displays [OF assms] displays_agree show ?thesis by simp
  qed
  with text_read_back [OF assms(2)] view_displays [OF assms] show ?thesis by blast
qed

end
