(* ===== verification/Dock.thy ===== *)
theory Dock
  imports Contract Drill JsonText
begin

text \<open>
  The attempt of \<open>Drill\<close> on a Docker whose commands print the details of one healthy container: the
  concrete input at which the theorems on the runtime are applied.
\<close>

section \<open>What Docker prints\<close>

definition printed :: "dvalue \<Rightarrow> string" where
  "printed v = dvalue_text v"

lemma printed_read: "plain v \<Longrightarrow> canonical v = v \<Longrightarrow> json_loads (printed v) = Some v"
  by (simp add: printed_def text_read_back)

definition dock_detail :: "string \<Rightarrow> string \<Rightarrow> dvalue" where
  "dock_detail img hash = DObj
     [(''Config'', DObj [(''Image'', DStr img),
        (''Labels'', DObj [(''com.maoxx.deployment_id'', DStr (uuid_str 10)),
           (''com.maoxx.execution_attempt_id'', DStr (uuid_str 31)), (''com.maoxx.fencing_epoch'', DStr ''1''),
           (''com.maoxx.image_digest'', DStr sc_digest), (''com.maoxx.intent_hash'', DStr hash),
           (''com.maoxx.target_sha'', DStr sc_sha)])]),
      (''Image'', DStr ''i''), (''RestartCount'', DInt 0),
      (''State'', DObj [(''OOMKilled'', DBool False), (''Running'', DBool True), (''Status'', DStr ''running'')])]"

definition dock_listed :: dvalue where
  "dock_listed = DList [DObj [(''ID'', DStr ''c''), (''Service'', DStr ''api'')]]"

definition dock_image :: "string \<Rightarrow> dvalue" where
  "dock_image img = DList [DObj [(''Id'', DStr ''i''), (''RepoDigests'', DList [DStr img])]]"

definition dock_config :: "string \<Rightarrow> dvalue" where
  "dock_config img = DObj [(''services'', DObj [(''api'', DObj [(''image'', DStr img)])])]"

definition dock_run :: "string \<Rightarrow> arg list \<Rightarrow> string" where
  "dock_run hash as =
     (if Text ''image'' \<in> set as then printed (dock_image sc_image)
      else if Text ''config'' \<in> set as then printed (dock_config sc_image)
      else if Text ''ps'' \<in> set as then printed dock_listed
      else if Text ''inspect'' \<in> set as then printed (DList [dock_detail sc_image hash])
      else [])"

definition dock :: "(arg list \<Rightarrow> string) \<Rightarrow> runtime_env" where
  "dock out = \<lparr>re_run = (\<lambda>_ as. Inr \<lparr>cr_returncode = 0, cr_stdout = out as\<rparr>), re_now = (\<lambda>_. 10),
     re_override = (\<lambda>_. Inr ())\<rparr>"

lemma dock_fields [simp]: "re_run (dock out) n as = Inr \<lparr>cr_returncode = 0, cr_stdout = out as\<rparr>"
  "re_now (dock out) n = 10" "re_override (dock out) n = Inr ()"
  by (simp_all add: dock_def)

lemma ascii_fingerprint:
  assumes "FINGERPRINT_PATTERN s"
  shows "ascii s"
proof -
  have "ascii hex_chars" by code_simp
  then show ?thesis
    using assms by (auto simp: ascii_def FINGERPRINT_PATTERN_def in_class_def list_all_iff)
qed

lemma canonical_printed:
  "canonical (DList [dock_detail img hash]) = DList [dock_detail img hash]" "canonical dock_listed = dock_listed"
  "canonical (dock_image img) = dock_image img" "canonical (dock_config img) = dock_config img"
  by code_simp+

lemma ascii_texts: "ascii sc_image" "ascii sc_digest" "ascii sc_sha" "ascii (uuid_str 10)" "ascii (uuid_str 31)"
  by code_simp+

lemma plain_printed:
  "ascii hash \<Longrightarrow> plain (DList [dock_detail sc_image hash])" "plain dock_listed" "plain (dock_image sc_image)"
  "plain (dock_config sc_image)"
  by (simp_all add: dock_detail_def dock_listed_def dock_image_def dock_config_def ascii_texts)
    (simp_all add: ascii_def)

section \<open>The attempt\<close>

definition dock_hash :: string where
  "dock_hash = at_intent_hash sc_loaded_attempt"

lemma dock_attempt [simp]:
  "at_service_images sc_loaded_attempt = [(''api'', sc_image)]" "at_fencing_epoch sc_loaded_attempt = 1"
  "at_intent_hash sc_loaded_attempt = dock_hash"
  by (simp_all add: sc_loaded_attempt_def sc_rows_of_attempt_def attempt_of_def sc_artifact_def
      sc_attempt_def attempt_row_def dock_hash_def)

lemma dock_hash_ascii: "ascii dock_hash"
  by (rule ascii_fingerprint)
    (simp add: dock_hash_def sc_loaded_attempt_def sc_rows_of_attempt_def attempt_of_def sc_attempt_def
      attempt_row_def calculate_intent_hash_def)

lemma dock_labels: "attempt_labels sc_loaded_attempt =
    [(''com.maoxx.deployment_id'', uuid_str 10), (''com.maoxx.execution_attempt_id'', uuid_str 31),
     (''com.maoxx.target_sha'', sc_sha), (''com.maoxx.image_digest'', sc_digest),
     (''com.maoxx.fencing_epoch'', ''1''), (''com.maoxx.intent_hash'', dock_hash)]"
proof -
  have "int_str 1 = ''1''" by code_simp
  then show ?thesis by (simp add: attempt_labels_def)
qed

lemmas dock_reads = printed_read [OF plain_printed(1) [OF dock_hash_ascii] canonical_printed(1)]
  printed_read [OF plain_printed(2) canonical_printed(2)]
  printed_read [OF plain_printed(3) canonical_printed(3)]
  printed_read [OF plain_printed(4) canonical_printed(4)]

lemma printed_not_empty: "printed (DList vs) \<noteq> []"
  by (simp add: printed_def)

section \<open>The runtime on it\<close>

lemmas dock_effects = bindR_def ret_def command_def compose_def utc_now_def override_def dock_run_def
  dock_reads dget_def dget2_def

abbreviation dock_env :: runtime_env where
  "dock_env \<equiv> dock (dock_run dock_hash)"

lemma dock_plan: "validate_plan_docker sc_loaded_attempt dock_env n = (Inr (), n + 2)"
  by (simp add: validate_plan_docker_def dock_effects) (simp add: dock_config_def dget_def)

lemma dock_submit: "submit_docker sc_loaded_attempt dock_env n = (Inr (), n + 2)"
  by (simp add: submit_docker_def dock_effects)

definition dock_snapshot :: runtime_snapshot where
  "dock_snapshot = snapshot_of sc_loaded_attempt [(''api'', dock_detail sc_image dock_hash)] False True True 10 False 10"

lemma dock_rows: "listed_rows (printed dock_listed) = [DObj [(''ID'', DStr ''c''), (''Service'', DStr ''api'')]]"
  using printed_not_empty [of "[DObj [(''ID'', DStr ''c''), (''Service'', DStr ''api'')]]"]
  by (simp add: listed_rows_def dock_reads) (simp add: dock_listed_def)

lemma dock_judged: "judge sc_loaded_attempt [(''api'', dock_detail sc_image dock_hash)] = Inr (False, True, True)"
proof -
  have "int_str 1 = ''1''" by code_simp
  then show ?thesis
    by (simp add: judge_def is_transitional_def is_running_def bound_labels_def dget2_def dget_def andE_def
        dock_detail_def hashable_def ascii_lower_def)
qed

lemma dock_observed: "observe_docker sc_loaded_attempt dock_env n = (Inr dock_snapshot, n + 5)"
  by (simp add: observe_docker_def dock_effects dock_rows dock_judged container_id_def truthy_def show_arg_def
      first_item_def docker_client_active_def dock_snapshot_def ascii_strip_def)

lemma dock_inspected: "container_checks sc_loaded_attempt ''api'' sc_image (dock_detail sc_image dock_hash)
    (DObj [(''Id'', DStr ''i''), (''RepoDigests'', DList [DStr sc_image])]) c =
   Inr (put ''revision_sha'' (check ''revision_sha'' c)
     (put ''artifact_digest'' (check ''artifact_digest'' c)
     (put ''api.live'' True (put ''api.ready'' True (put ''api.alive'' True c)))), 0)"
  by (simp add: container_checks_def immutable_ok_def runtime_ok_def dget2_def dget_def dock_detail_def int_of_def
      andE_def string_in_def number_of_def labels_hold_def dock_labels check_def Let_def)

definition dock_checks :: checks where
  "dock_checks = map (\<lambda>c. (c, True)) (required_list [''api''])"

definition dock_cycle :: health_cycle where
  "dock_cycle = \<lparr>hc_checks = dock_checks, hc_observed_digest = sc_digest, hc_observed_sha = sc_sha,
     hc_migration_revision = None, hc_completed_at = 10, hc_restart_counts = [(''api'', 0)]\<rparr>"

lemma dock_service: "10 < deadline \<Longrightarrow>
    service_checks sc_loaded_attempt deadline [(''api'', dock_detail sc_image dock_hash)] [(''api'', sc_image)] c []
      dock_env n =
    (Inr (put ''api.dependency.db'' True (put ''api.http'' True (put ''revision_sha'' (check ''revision_sha'' c)
      (put ''artifact_digest'' (check ''artifact_digest'' c)
      (put ''api.live'' True (put ''api.ready'' True (put ''api.alive'' True c)))))), [(''api'', 0)]), n + 5)"
proof -
  have detail: "dget ''State'' empty_obj (dock_detail sc_image dock_hash) =
        Inr (DObj [(''OOMKilled'', DBool False), (''Running'', DBool True), (''Status'', DStr ''running'')])"
    "\<exists>l. dget2 ''Config'' ''Labels'' empty_obj (dock_detail sc_image dock_hash) = Inr l"
    "dget ''Image'' DNull (dock_detail sc_image dock_hash) = Inr (DStr ''i'')"
    by (simp_all add: dget2_def dget_def dock_detail_def)
  have item: "first_item (printed (dock_image sc_image)) =
      Inr (Some (DObj [(''Id'', DStr ''i''), (''RepoDigests'', DList [DStr sc_image])]))"
    by (simp add: first_item_def dock_reads) (simp add: dock_image_def)
  obtain l where "dget2 ''Config'' ''Labels'' empty_obj (dock_detail sc_image dock_hash) = Inr l"
    using detail(2) by blast
  then show "10 < deadline \<Longrightarrow> ?thesis"
    by (auto simp: Let_def detail(1,3) item dock_inspected api_checks_def worker_checks_def probe_def bindR_def ret_def
        command_def compose_def utc_now_def dock_run_def)
qed

lemma dock_verified: "10 < deadline \<Longrightarrow>
    verify_health_docker sc_loaded_attempt deadline dock_env = Some (Inr dock_cycle, 14)"
proof -
  assume d: "10 < deadline"
  have all: "final_checks sc_loaded_attempt (put ''api.dependency.db'' True (put ''api.http'' True
      (put ''revision_sha'' (check ''revision_sha'' c) (put ''artifact_digest'' (check ''artifact_digest'' c)
      (put ''api.live'' True (put ''api.ready'' True (put ''api.alive'' True c))))))) [(''api'', 0)] m True = dock_checks"
    if "c = put ''revision_sha'' True (put ''artifact_digest'' True
      (map (\<lambda>key. (key, False)) (required_list [''api''])))" for c m
    by (simp add: that final_checks_def dock_checks_def required_list_def check_def Let_def ends_with_def)
  have ready: "list_all snd dock_checks" by (simp add: dock_checks_def list_all_iff)
  have "py_split [] = []" by code_simp
  then have migration: "actual_migration \<lparr>cr_returncode = 0, cr_stdout = []\<rparr> = None"
    by (simp add: actual_migration_def)
  have "health_cycle_once sc_loaded_attempt deadline dock_env 0 = (Inr dock_cycle, 14)"
    using d
    by (simp add: health_cycle_once_def bindR_def dock_observed dock_snapshot_def snapshot_of_def
        observed_state_def utc_now_def dock_service compose_def command_def ret_def all migration dock_run_def Let_def
        dock_cycle_def ready del: service_checks.simps)
  then show ?thesis
    unfolding verify_health_docker_def by (subst poll_health.simps) simp
qed

section \<open>The execution on it\<close>

definition dock_world_env :: env where
  "dock_world_env = with_docker (\<lambda>_. dock_env) (sc_env IN_PROGRESS None)"

text \<open>Journal, database, clock and samples are those of the drill.\<close>

lemma same_at_tick: "f dock_world_env = f (sc_env IN_PROGRESS None) \<Longrightarrow>
    at_tick f dock_world_env w = at_tick f (sc_env IN_PROGRESS None) w"
proof -
  assume f: "f dock_world_env = f (sc_env IN_PROGRESS None)"
  have "e_dies dock_world_env = e_dies (sc_env IN_PROGRESS None)"
    by (simp add: dock_world_env_def with_docker_def)
  with f show ?thesis by (simp only: at_tick_def)
qed

lemma same_fields: "e_now dock_world_env = e_now (sc_env IN_PROGRESS None)"
  "e_new_id dock_world_env = e_new_id (sc_env IN_PROGRESS None)"
  "e_others dock_world_env = e_others (sc_env IN_PROGRESS None)" "e_db dock_world_env = e_db (sc_env IN_PROGRESS None)"
  "e_ci dock_world_env = e_ci (sc_env IN_PROGRESS None)"
  "e_journal_dir dock_world_env = e_journal_dir (sc_env IN_PROGRESS None)"
  "e_journal_read dock_world_env = e_journal_read (sc_env IN_PROGRESS None)"
  "e_append dock_world_env = e_append (sc_env IN_PROGRESS None)"
  "e_collect dock_world_env = e_collect (sc_env IN_PROGRESS None)"
  by (simp_all add: dock_world_env_def with_docker_def)

lemma same_steps [simp]:
  "journal_append ev a d dock_world_env w = journal_append ev a d (sc_env IN_PROGRESS None) w"
  "journal_load a dock_world_env w = journal_load a (sc_env IN_PROGRESS None) w"
  "journal_open dock_world_env w = journal_open (sc_env IN_PROGRESS None) w"
  "clock dock_world_env w = clock (sc_env IN_PROGRESS None) w"
  "authority_load i dock_world_env w = authority_load i (sc_env IN_PROGRESS None) w"
  "collect_resources i dock_world_env w = collect_resources i (sc_env IN_PROGRESS None) w"
  "do_record_resource r dock_world_env w = do_record_resource r (sc_env IN_PROGRESS None) w"
  "do_record_submitted a dock_world_env w = do_record_submitted a (sc_env IN_PROGRESS None) w"
  "do_mutation_submitted a dock_world_env w = do_mutation_submitted a (sc_env IN_PROGRESS None) w"
  "do_record_result a st src dock_world_env w = do_record_result a st src (sc_env IN_PROGRESS None) w"
  unfolding journal_append_def journal_load_def journal_open_def clock_def authority_load_def collect_resources_def
    do_record_resource_def do_record_submitted_def do_mutation_submitted_def do_record_result_def transaction_def
  by (rule same_at_tick, simp only: same_fields)+

lemma same_record [simp]: "record_result_or_unknown a st src dock_world_env w =
    record_result_or_unknown a st src (sc_env IN_PROGRESS None) w"
  by (simp add: record_result_or_unknown_def tryS_def bindS_def give_def split: prod.splits ending.splits)

lemma dock_steps [simp]:
  "validate_plan sc_loaded_attempt dock_world_env (sc_world xs rows sub n) = (Done (), sc_world xs rows sub (Suc n))"
  "submit sc_loaded_attempt dock_world_env (sc_world xs rows sub n) =
     (Done (), sc_world xs rows (sub @ [sc_loaded_attempt]) (Suc n))"
  "10 < deadline \<Longrightarrow> verify_health sc_loaded_attempt deadline dock_world_env (sc_world xs rows sub n) =
     (Done dock_cycle, sc_world xs rows sub (Suc n))"
  "with_host_lock m dock_world_env (sc_world xs rows sub n) = m dock_world_env (sc_world xs rows sub (Suc n))"
  by (simp_all add: validate_plan_def submit_def verify_health_def with_host_lock_def bindS_def at_tick_def
      dock_world_env_def with_docker_def dock_plan dock_submit dock_verified sc_env_def sc_world_def of_result_def)

lemma dock_cycle_passed: "cycle_passed sc_loaded_attempt (10 + seconds 120) dock_cycle"
  by (simp add: cycle_passed_def dock_cycle_def dock_checks_def list_all_iff required_list o_def seconds_def)

lemma window_positive: "0 < seconds 120"
  by (simp add: seconds_def)

lemma dock_executed: "execute 31 dock_world_env (sc_world [] None [] 100) = (Done HEALTHY, sc_after)"
  unfolding sc_after_def
  by (simp add: execute_def sc_composition sc_asked [where b = False] sc_record_resource sc_record_submitted
      sc_record_result sc_fresh health_anchor_def dock_cycle_passed window_positive)

section \<open>Witnesses\<close>

lemma observed_state_sound_witness: "rs_state dock_snapshot \<noteq> HEALTHY"
  using observed_state_sound [OF dock_observed] by blast

lemma unlisted_is_not_started_witness:
  "\<exists>s. fst (observe_docker sc_loaded_attempt (dock (\<lambda>_. ''{} {}'')) 0) = Inr s \<and> rs_state s = NOT_STARTED"
proof -
  have rows: "listed_rows ''{} {}'' = []" by code_simp
  obtain s n where s: "observe_docker sc_loaded_attempt (dock (\<lambda>_. ''{} {}'')) 0 = (Inr s, n)"
    by (simp add: observe_docker_def dock_effects rows judge_def andE_def docker_client_active_def)
  have "rs_state s = NOT_STARTED"
    using unlisted_is_not_started [OF s] rows by simp
  with s show ?thesis by simp
qed

lemma verify_health_ends_witness: "verify_health_docker sc_loaded_attempt 5 dock_env \<noteq> None"
  by (rule verify_health_ends [of 0]) simp

lemma worker_never_connected_witness:
  "worker_connected \<lparr>cr_returncode = 0, cr_stdout = CHR ''{'' # CHR 0x27 # ''connected'' @ CHR 0x27 # '': True}''\<rparr> =
     Inr False"
  by (rule worker_never_connected) simp

lemma accepted_plan_immutable_witness:
  "\<exists>plan. at_path [''services'', ''api'', ''image''] plan = Some (DStr sc_image)"
  using accepted_plan_immutable [OF dock_plan [of 0]] by auto

lemma healthy_deployment_witness:
  "\<exists>a c s k k' n. verify_health_docker a (10 + seconds 120) dock_env = Some (Inr c, n) \<and>
     health_cycle_once a (10 + seconds 120) dock_env k = (Inr c, n) \<and> observe_docker a dock_env k = (Inr s, k') \<and>
     cycle_passed a (10 + seconds 120) c"
proof -
  let ?e = "sc_env IN_PROGRESS None" and ?w = "sc_world [] None [] 100"
  have "services_distinct (sc_db [])"
    by (simp add: services_distinct_def sc_db_def sc_db10_def sc_db8_def sc_db7_def sc_db6_def sc_dbs sc_artifact_def)
  then have services: "\<forall>t. services_distinct (e_others ?e t (w_db ?w))"
    by (simp add: sc_env_def sc_world_def)
  have world: "w_journals ?w 31 = None" "w_tick ?w = 100" "\<And>j. e_now ?e j = 10"
    by (simp_all add: sc_world_def sc_env_def)
  then have fresh: "case w_journals ?w 31 of None \<Rightarrow> True | Some f \<Rightarrow> terminals (jf_lines f) = []" by simp
  from healthy_deployment [OF dock_executed [unfolded dock_world_env_def] fresh services]
  obtain a t t0 c s k k' n where r: "w_tick ?w \<le> t"
    "case Option.bind (w_journals ?w 31) (\<lambda>f. lines_anchor (jf_lines f)) of
       Some anchor \<Rightarrow> t0 = anchor | None \<Rightarrow> \<exists>j. w_tick ?w \<le> j \<and> j < t \<and> t0 = e_now ?e j"
    "verify_health_docker a (t0 + seconds 120) dock_env = Some (Inr c, n)"
    "health_cycle_once a (t0 + seconds 120) dock_env k = (Inr c, n)" "observe_docker a dock_env k = (Inr s, k')"
    "cycle_passed a (t0 + seconds 120) c"
    by (elim exE conjE) (rule that)
  from r(1,2) have "t0 = 10" by (auto simp: world)
  with r(3-6) show ?thesis by blast
qed

lemma stable_text_read_back_witness:
  "\<exists>v w. stable_view dock_snapshot = Inr v \<and> json_loads (dvalue_text v) = Some w \<and> displays w dock_snapshot \<and>
     at_path [''containers'', ''api'', ''image''] w = Some (DStr sc_image)"
proof -
  obtain v where v: "stable_view dock_snapshot = Inr v" "plain v"
  proof -
    obtain c where c: "stable_container (dock_detail sc_image dock_hash) = Inr c" "plain c"
      using ascii_texts dock_hash_ascii
      by (simp add: stable_container_def dock_detail_def dget_def own_labels_def starts_with_def ascii_def)
    have "at_intent_hash sc_loaded_attempt = dock_hash" by simp
    with c dock_hash_ascii ascii_texts show thesis
      using that by (simp add: stable_view_def dock_snapshot_def snapshot_of_def observed_state_def
          runtime_state_value_def opt_uuid_str_def ascii_def)
  qed
  have "(''api'', dock_detail sc_image dock_hash) \<in> set (rs_containers dock_snapshot)"
    "(''image'', [''Config'', ''Image'']) \<in> set container_fields"
    "field [''Config'', ''Image''] (dock_detail sc_image dock_hash) = DStr sc_image"
    by (simp_all add: dock_snapshot_def snapshot_of_def container_fields_def field_def dock_detail_def at_path.simps)
  with v(1) stable_text_read_back [OF v] show ?thesis by (fastforce simp: displays_def)
qed

end
