(* ===== verification/Rehearsal.thy ===== *)
theory Rehearsal
  imports Programs Dock
begin

text \<open>
  The programs at work on the deployment of \<open>Scenario\<close>: the concrete inputs at which the theorems on
  messages, cards, notifications, backups and commands are applied.
\<close>

section \<open>Settings and events\<close>

definition re_settings :: settings where
  "re_settings = \<lparr>st_default_user_id = 1, st_allowed_tenant_keys = ''t'', st_allowed_open_ids = ''a'',
     st_allowed_chat_types = ''p2p'', st_supervision_chat_id = ''c'', st_approver_open_ids = ''a'',
     st_approval_ttl_seconds = 1000, st_reply_max_attempts = 3, st_reply_backoff_seconds = 1,
     st_github_repository = ''o/r'', st_github_repository_id = 1, st_github_workflow_id = 2,
     st_github_workflow_path = ''ci.yml''\<rparr>"

lemma re_sets [simp]:
  "allowed_tenant_keys re_settings = {''t''}" "allowed_open_ids re_settings = {''a''}"
  "allowed_chat_types re_settings = {''p2p''}" "approver_open_ids re_settings = {''a''}"
  "strip (st_supervision_chat_id re_settings) = ''c''" "approval_configuration_valid re_settings"
  by code_simp+

lemma re_numbers [simp]: "st_default_user_id re_settings = 1" "st_reply_max_attempts re_settings = 3"
  "st_reply_backoff_seconds re_settings = 1" "st_approval_ttl_seconds re_settings = 1000"
  by (simp_all add: re_settings_def)

definition re_event :: event_env where
  "re_event = \<lparr>ee_received_at = 10, ee_finished_at = 11, ee_others = (\<lambda>d. d), ee_decision_id = 80, ee_decided_at = 10,
     ee_fault = NoFault, ee_lookup = None, ee_lookup_again = None, ee_input_id = 81, ee_input_at = 10,
     ee_input_fault = NoFault, ee_answer = (\<lambda>_. Response True (Some 0) None), ee_random = (\<lambda>_. 0),
     ee_shown = (\<lambda>_. [])\<rparr>"

lemma re_event [simp]:
  "ee_received_at re_event = 10" "ee_finished_at re_event = 11" "ee_others re_event d = d"
  "ee_decision_id re_event = 80" "ee_decided_at re_event = 10" "ee_fault re_event = NoFault"
  "ee_lookup re_event = None" "ee_lookup_again re_event = None" "ee_input_id re_event = 81"
  "ee_input_at re_event = 10" "ee_input_fault re_event = NoFault"
  "ee_answer re_event k = Response True (Some 0) None" "ee_random re_event k = 0" "ee_shown re_event v = []"
  by (simp_all add: re_event_def)

definition re_worker :: "db \<Rightarrow> worker" where
  "re_worker d = \<lparr>wk_db = d, wk_health = new_health 0, wk_replies = []\<rparr>"

lemma re_worker [simp]: "wk_db (re_worker d) = d" "wk_replies (re_worker d) = []"
  by (simp_all add: re_worker_def)

section \<open>A message\<close>

definition re_message :: message_event where
  "re_message = \<lparr>me_tenant_key = Some ''t'', me_event_id = Some ''e'', me_sender_type = Some ''user'',
     me_open_id = Some ''a'', me_union_id = None, me_chat_type = Some ''p2p'', me_message_id = Some ''m'',
     me_message_type = Some ''text'', me_content = Some (printed (DObj [(''text'', DStr ''hi'')])),
     me_chat_id = Some ''c'', me_create_time = None\<rparr>"

lemma re_text: "text_of re_event (me_content re_message) = Inr ''hi''"
proof -
  have "json_loads (printed (DObj [(''text'', DStr ''hi'')])) = Some (DObj [(''text'', DStr ''hi'')])"
    by (rule printed_read; code_simp)
  moreover have "printed (DObj [(''text'', DStr ''hi'')]) \<noteq> []" by (simp add: printed_def json_object_def)
  moreover have "strip ''hi'' = ''hi''" by code_simp
  ultimately show ?thesis by (simp add: text_of_def re_message_def dget_def falsy_def)
qed

lemma re_not_command: "parse_approval_command ''hi'' = (False, None)"
  by code_simp

lemma re_offered: "offered re_settings re_event re_message = Some (''m'', ''hi'')"
proof -
  have "message_authorized re_settings re_message"
    by (simp add: message_authorized_def authorize_feishu_message_def re_message_def)
  then show ?thesis using re_text re_not_command
    by (simp add: offered_def) (simp add: re_message_def)
qed

lemma message_stored_witness:
  "inbox (wk_db (handle_message re_settings re_event re_message (re_worker sc_db6))) ''m'' = Some ''hi''"
proof -
  have d: "exists_row u_id 1 (t_users sc_db6)" "t_raw_inputs sc_db6 = []"
    by (simp_all add: sc_db6_def sc_dbs exists_row_def example_user_def sc_start_def empty_db_def)
  have "py_len ''m'' \<le> 200" by code_simp
  from message_stored [OF re_offered _ this, of "re_worker sc_db6" sc_db6] d show ?thesis
    by (simp add: inbox_def)
qed

lemma re_delivered: "fst (deliver_with_retry (\<lambda>_. Response True (Some 0) i) rnd 3 1) = Inr (delivered True 1 None i)"
  by (simp add: deliver_with_retry_def attempts_from.simps one_attempt_def)

lemma re_reply: "reply_text re_settings re_event i t w = (None, w\<lparr>wk_replies := wk_replies w @ [(i, t)]\<rparr>)"
proof -
  have "ee_answer re_event = (\<lambda>_. Response True (Some 0) None)" by (simp add: re_event_def)
  then show ?thesis by (simp add: reply_text_def re_delivered) (simp add: delivered_def)
qed

lemma re_replied: "new_replies (re_worker sc_db6) (handle_message re_settings re_event re_message (re_worker sc_db6)) =
    [(''m'', recorded_reply)]"
proof -
  let ?row = "input_of re_settings re_event re_message ''m'' ''hi''"
  have raw: "exists_row u_id (st_default_user_id re_settings) (t_users sc_db6)" "t_raw_inputs sc_db6 = []"
    by (simp_all add: sc_db6_def sc_dbs exists_row_def example_user_def sc_start_def empty_db_def)
  obtain y d' where c: "commit_input NoFault ?row sc_db6 = (y, d')" by fastforce
  have "py_len ''m'' \<le> 200" by code_simp
  from commit_stores [OF this raw(1) _ c] raw(2) have y: "y = Inr True" by (simp add: inbox_def)
  have authorized: "message_authorized re_settings re_message"
    by (simp add: message_authorized_def authorize_feishu_message_def re_message_def)
  have accept: "accept_text re_settings re_event re_message ''m'' ''hi'' w = record_message re_settings re_event re_message ''m'' ''hi'' w" for w
    by (simp add: accept_text_def process_approval_message_def re_not_command)
  have "message_body re_settings re_event re_message w = record_message re_settings re_event re_message ''m'' ''hi'' w" for w
    using authorized re_text accept by (simp add: message_body_def) (simp add: re_message_def)
  then show ?thesis
    by (simp add: handle_message_def record_message_def re_worker_def c y re_reply counted_def new_replies_def)
qed

lemma recorded_reply_sound_witness:
  "\<exists>t. inbox (wk_db (handle_message re_settings re_event re_message (re_worker sc_db6))) ''m'' = Some t"
  using recorded_reply_sound [of "''m''" "re_worker sc_db6" re_settings re_event re_message] re_replied by auto

section \<open>Health\<close>

lemma health_well_formed_witness:
  "health_ok (mark_connected 5 (new_health 0), 0) \<and>
     fst (do_GET ''/health'' (mark_connected 5 (new_health 0))) = 200"
  using health_well_formed [OF r_into_rtranclp [of health_step, OF health_step.connected [of "new_health 0" 0 5]]]
  by (simp add: mark_connected_def)

section \<open>A card\<close>

text \<open>A request that is not bound to a deployment, and the press of its first button.\<close>

definition re_request :: approval_request where
  "re_request = \<lparr>q_id = 90, q_user_id = 1, q_action_code = ''development_plan'', q_repository = ''o/r'',
     q_pull_request_number = None, q_target_sha = sc_sha, q_target_environment = ''development'',
     q_deployment_id = None, q_artifact_digest = None, q_idempotency_key = ''k'', q_requested_at = 5,
     q_expires_at = 5 + seconds 1000, q_card_message_id = None\<rparr>"

definition re_db :: db where
  "re_db = sc_start\<lparr>t_requests := [re_request]\<rparr>"

lemma re_requested:
  "create_approval_request 1 ''development_plan'' ''o/r'' None sc_sha ''development'' ''k'' 1000 90 5 sc_start sc_start =
     Inr (re_request, re_db)"
  by (simp add: create_approval_request_def validate_approval_request_fields_def APPROVAL_ACTIONS_def TARGET_ENVIRONMENTS_def
      expected_environment_def scalar_one_or_none_def re_request_def re_db_def sc_writes sc_rows
      approval_request_fits_def approval_request_checks_def check_passes_def deployment_binding_condition_def
      sql_or_def sql_and_def seconds_def on_integrity_error_def Let_def)

lemma re_runs: "runs sc_start re_db"
  by (rule runs.new_request [OF runs.none runs.none re_requested])

lemma requests_well_formed_witness: "well_formed_request re_request"
  using requests_well_formed [OF re_runs] by (simp add: re_db_def)

definition re_card :: card_event where
  "re_card = \<lparr>ce_tenant_key = Some ''t'', ce_operator_tenant_key = None, ce_event_id = Some ''e'', ce_open_id = Some ''a'',
     ce_chat_id = Some ''c'',
     ce_value = DObj [(''action'', DStr ''approve''), (''request_id'', DStr (uuid_str 90))]\<rparr>"

definition re_decision :: approval_decision where
  "re_decision = decision_row \<lparr>cmd_decision_code = ''approved'', cmd_request_id = 90\<rparr> ''e'' 1
     (approval_identity_fingerprint ''a'') None 80 10"

lemma re_decided:
  "process_approval_card_action ''approve'' 90 (Some ''t'') (Some ''a'') (Some ''c'') ''e'' 1 {''t''}
     {''a''} {''a''} ''c'' None 80 10 NoFault re_db re_db =
   (\<lparr>out_code = ''recorded'', out_decision_code = Some ''approved''\<rparr>, re_db\<lparr>t_decisions := [re_decision]\<rparr>)"
  by (simp add: process_approval_card_action_def record_approval_decision_def decide_def settle_def
      scalar_one_or_none_def re_db_def sc_rows sc_writes re_decision_def decision_row_def
      approval_decision_fits_def approval_decision_checks_def approval_decision_refs_def re_request_def
      seconds_def on_integrity_error_def)

lemma decision_shown_witness:
  "\<exists>q shown. q_id q = 90 \<and> build_approval_card (approval_notification_from_request q) ''approved'' = Inr shown \<and>
     \<not> has_buttons shown \<and>
     fst (handle_card_action re_settings re_event re_card (re_worker re_db)) = Inr (DObj
       [(''toast'', DObj [(''type'', DStr ''success''), (''content'', DStr (snd (the (map_of toasts ''recorded''))))]),
        (''card'', DObj [(''type'', DStr ''raw''), (''data'', shown)])])"
proof -
  have "parse_approval_card_action (json_of (ce_value re_card)) = Inr (Some (''approve'', 90))"
    by (simp add: re_card_def button_value del: json_of.simps)
  moreover have "card_actor re_settings re_card (get_row q_id 90 (t_requests re_db)) re_db = Inr (1, None)"
    by (simp add: card_actor_def get_row_def re_db_def re_request_def)
  moreover have "decide_card re_settings re_event re_card ''approve'' 90 (1, None) re_db =
      (\<lparr>out_code = ''recorded'', out_decision_code = Some ''approved''\<rparr>, re_db\<lparr>t_decisions := [re_decision]\<rparr>)"
    using re_decided by (simp add: decide_card_def re_card_def or_else_def text_or_empty_def)
  ultimately obtain x where "card_body re_settings re_event re_card re_db = (x, re_db\<lparr>t_decisions := [re_decision]\<rparr>)"
    by (simp add: card_body_def raised_def)
  then have "t_decisions (wk_db (snd (handle_card_action re_settings re_event re_card (re_worker re_db)))) = [re_decision]"
    by (cases x) (simp_all add: handle_card_action_def re_worker_def counted_def Let_def)
  with re_runs runs.none have "\<exists>q shown. q \<in> set (t_requests (wk_db (snd (handle_card_action re_settings re_event re_card
        (re_worker re_db))))) \<and> q_id q = d_request_id re_decision \<and>
      (parse_approval_card_action (json_of (ce_value re_card)) = Inr (Some (''approve'', q_id q)) \<and>
         d_decision_code re_decision = ''approved'' \<or>
       parse_approval_card_action (json_of (ce_value re_card)) = Inr (Some (''reject'', q_id q)) \<and>
         d_decision_code re_decision = ''rejected'') \<and>
      build_approval_card (approval_notification_from_request q) (d_decision_code re_decision) = Inr shown \<and>
      \<not> has_buttons shown \<and>
      fst (handle_card_action re_settings re_event re_card (re_worker re_db)) = Inr (DObj
       [(''toast'', DObj [(''type'', DStr ''success''), (''content'', DStr (snd (the (map_of toasts ''recorded''))))]),
        (''card'', DObj [(''type'', DStr ''raw''), (''data'', shown)])])"
    by (intro decision_shown [of sc_start]) (auto simp: re_db_def)
  moreover have "d_request_id re_decision = 90" "d_decision_code re_decision = ''approved''"
    by (simp_all add: re_decision_def decision_row_def)
  ultimately show ?thesis by metis
qed

section \<open>A notification\<close>

definition re_sink :: sink where
  "re_sink content key = Inr ''om''"

lemma re_sent:
  "snd (send_deployment_notification 10 ''production_started'' ''n'' re_sink ids now sc_db6 dr dc) \<noteq> []"
  by (simp add: send_deployment_notification_def deployment_notification_text_def validate_deployment_notification_def
      notification_for_def DEPLOYMENT_NOTIFICATION_EVENTS_def scalar_one_or_none_def sc_db6_def sc_dbs sc_rows sc_writes
      sc_locking Let_def)

lemma re_notified:
  "\<exists>d calls. send_deployment_notification 10 ''production_started'' ''n'' re_sink (sc_ids 95) 9 sc_db6 sc_db6 sc_db6 =
     (Inr (''om'', d), calls)"
proof -
  have "IDEMPOTENCY_KEY_PATTERN ''n''" "uuid_of_text ''om'' = None" by code_simp+
  then show ?thesis
    by (simp add: send_deployment_notification_def deployment_notification_text_def validate_deployment_notification_def
        notification_for_def DEPLOYMENT_NOTIFICATION_EVENTS_def re_sink_def record_notification_def
        record_deployment_evidence_def scalar_one_or_none_def sc_db6_def sc_dbs sc_rows sc_writes sc_locking Let_def)
qed


section \<open>A backup\<close>

definition re_catalog :: string where
  "re_catalog = ''SCHEMA - core TABLE core approval_requests TABLE core approval_decisions t''"

definition re_backup :: backup_env where
  "re_backup = \<lparr>be_run = (\<lambda>_ _. Inr \<lparr>cr_returncode = 0, cr_stdout = re_catalog\<rparr>), be_file = (\<lambda>_. Some ''dump''),
     be_now = (\<lambda>_. 9), be_mkdir = Inr ()\<rparr>"

lemma re_catalog: "catalog_complete re_catalog" "contains ''t'' re_catalog"
  by code_simp+

lemma re_canary: "canary_restore pg op archive re_backup tr =
    (Inr (), tr @ [Ran (createdb_args pg op), Ran (restore_args pg op archive), Ran (probe_args pg op)])"
  by (simp add: canary_restore_def bindB_def run_command_def checkB_def retB_def re_backup_def re_catalog)

lemma re_verified: "\<exists>tr. verify_backup folder pg 10 50 4 re_backup [] =
    (Inr \<lparr>vb_created_at = 9, vb_verified_at = 9, vb_sha256 = sha256_hexdigest ''dump'', vb_size = 4\<rparr>, tr)"
proof -
  have env: "be_run re_backup = (\<lambda>_ _. Inr \<lparr>cr_returncode = 0, cr_stdout = re_catalog\<rparr>)"
    "be_file re_backup = (\<lambda>_. Some ''dump'')" "be_now re_backup = (\<lambda>_. 9)" "be_mkdir re_backup = Inr ()"
    by (simp_all add: re_backup_def)
  show ?thesis
    by (simp add: verify_backup_def Let_def bindB_def finallyB_def ask_time_def checkB_def retB_def make_directory_def
        run_command_def look_def file_hash_def file_size_def env re_catalog re_canary minutes_def seconds_def)
qed

lemma re_backed_up: "\<exists>e d' tr. create_and_verify ''b'' ''p'' 10 50 51 sc_db8 sc_db8 re_backup [] = (Inr (e, d'), tr)"
proof -
  obtain tr where v: "verify_backup ''b'' ''p'' 10 50 4 re_backup [] =
    (Inr \<lparr>vb_created_at = 9, vb_verified_at = 9, vb_sha256 = sha256_hexdigest ''dump'', vb_size = 4\<rparr>, tr)"
    using re_verified by blast
  have "py_len (uuid_str 50) \<le> 200" by code_simp
  then show ?thesis
    by (simp add: create_and_verify_def bindB_def retB_def checkB_def scalar_one_or_none_def sc_db8_def sc_db7_def sc_db6_def
        sc_dbs sc_rows sc_writes sc_acceptance_def v backup_evidence_def evidence_fits_def sc_evidence_def
        deployment_evidence_checks_def varchar_def Let_def)
qed

lemma backup_sound_witness:
  "\<exists>e d' tr h. create_and_verify ''b'' ''p'' 10 50 51 sc_db8 sc_db8 re_backup [] = (Inr (e, d'), tr) \<and>
     str_field ''sha256'' (ev_payload e) = Some h \<and>
     unchanged_archive re_backup tr (restore_args ''p'' 50 (archive_path ''b'' 10 50)) h \<and>
     returned_0 re_backup tr (probe_args ''p'' 50) (contains ''t'')"
  using re_backed_up backup_sound by blast

section \<open>The command lines\<close>

definition re_env :: "(string list \<Rightarrow> string) \<Rightarrow> (nat \<Rightarrow> uuid) \<Rightarrow> instant \<Rightarrow> backup_env \<Rightarrow> command_env" where
  "re_env out ids now be = \<lparr>cm_gh = (\<lambda>as. Inr \<lparr>cr_returncode = 0, cr_stdout = out as\<rparr>),
     cm_client = (\<lambda>_ _. Response True (Some 0) (Some ''om'')), cm_random = (\<lambda>_. 0), cm_backup = be,
     cm_others = (\<lambda>_ d. d), cm_ids = ids, cm_started = now, cm_now = now, cm_fault = (\<lambda>_. NoFault)\<rparr>"

lemma re_env [simp]:
  "cm_gh (re_env out ids now be) as = Inr \<lparr>cr_returncode = 0, cr_stdout = out as\<rparr>"
  "cm_client (re_env out ids now be) r i = Response True (Some 0) (Some ''om'')"
  "cm_others (re_env out ids now be) k d = d" "cm_ids (re_env out ids now be) = ids"
  "cm_started (re_env out ids now be) = now" "cm_now (re_env out ids now be) = now"
  "cm_fault (re_env out ids now be) k = NoFault" "cm_backup (re_env out ids now be) = be"
  by (simp_all add: re_env_def)

definition re_intent_args :: intent_args where
  "re_intent_args = \<lparr>ia_tenant_id = ''t'', ia_open_id = ''r'', ia_kind = ''deploy'', ia_repository = ''o/r'',
     ia_sha = sc_sha, ia_digest = sc_digest, ia_services = '' api,'', ia_migration_risk = ''NONE'',
     ia_migration_revision = None, ia_rollback_runbook_ref = None, ia_config_fingerprint = sc_digest,
     ia_idempotency_key = ''k''\<rparr>"

definition re_world :: "db \<Rightarrow> world" where
  "re_world d = \<lparr>w_db = d, w_journals = (\<lambda>_. None), w_submitted = [], w_tick = 0\<rparr>"

lemma re_world [simp]: "w_db (re_world d) = d"
  by (simp add: re_world_def)

text \<open>The command that creates the intent of \<open>Scenario\<close> takes its first step.\<close>

lemma re_created: "w_db (snd (deployment_main re_settings g docker v (re_env out (sc_ids 10) 1 be) (Create_intent re_intent_args)
    (re_world sc_start))) = sc_db1"
proof -
  have services: "services_of '' api,'' = [''api'']" by code_simp
  have risk: "risk_of_value ''NONE'' = Inr NONE" by code_simp
  show ?thesis
    using sc_step1 services risk
    by (simp add: deployment_main_def deployment_run_def deployment_choices_def database_command_def Let_def
        create_intent_session_def printed_line_def session_def re_intent_args_def of_result_def)
qed

definition re_github :: github_env where
  "re_github = \<lparr>gi_api = (\<lambda>_. Gh_exit 1 None), gi_repr = (\<lambda>_. [])\<rparr>"

lemma re_programs: "programs sc_start sc_db1"
proof -
  have "programs sc_start (w_db (snd (deployment_main re_settings re_github (\<lambda>_. dock (dock_run []))
      (sc_env IN_PROGRESS None) (re_env (\<lambda>_. []) (sc_ids 10) 1 re_backup) (Create_intent re_intent_args)
      (re_world sc_start))))"
    by (rule programs.deployment) (simp_all add: programs.nothing sc_env_def)
  then show ?thesis by (simp add: re_created)
qed

lemma programs_refine_services_witness: "runs sc_start sc_db1 \<and> sound sc_db1"
  using programs_refine_services [OF re_programs] sc_start_sound by simp

lemma production_never_starts_witness: "t_intents sc_db1 \<noteq> [] \<and> t_locks sc_db1 = [] \<and> t_attempts sc_db1 = []"
  using production_never_starts [of sc_start "re_world sc_db1"] re_programs by (simp add: sc_db1_def)

text \<open>What \<open>gh\<close> prints for a commit that is the head of its pull request and has passed the gate.\<close>

definition re_commit :: dvalue where
  "re_commit = DObj [(''sha'', DStr sc_sha)]"

definition re_pull :: dvalue where
  "re_pull = DObj [(''headRefOid'', DStr sc_sha), (''number'', DInt 3), (''state'', DStr ''OPEN'')]"

definition re_run :: dvalue where
  "re_run = DObj [(''conclusion'', DStr ''success''), (''name'', DStr QUALITY_GATE_NAME), (''status'', DStr ''completed'')]"

definition re_gh :: "string list \<Rightarrow> string" where
  "re_gh as =
     (if ''--paginate'' \<in> set as then printed re_run @ [CHR 0x0A]
      else if ''view'' \<in> set as then printed re_pull else printed re_commit)"

lemma re_printed: "json_loads (printed re_commit) = Some re_commit" "json_loads (printed re_pull) = Some re_pull"
  "json_loads (printed re_run) = Some re_run"
  by (rule printed_read; code_simp)+

definition printable :: "char \<Rightarrow> bool" where
  "printable c \<longleftrightarrow> 32 \<le> (of_char c :: nat) \<and> (of_char c :: nat) < 128"

lemma zh_head: "128 \<le> n \<Longrightarrow> n < 65536 \<Longrightarrow> zh [n] \<noteq> [] \<and> \<not> printable (hd (zh [n]))"
  by (auto simp: zh_def utf8_bytes_def printable_def)

lemma line_end_heads: "list_all (\<lambda>e. e \<noteq> [] \<and> \<not> printable (hd e)) line_ends"
  using zh_head [of "0x85"] zh_head [of "0x2028"] zh_head [of "0x2029"] by (simp add: line_ends_def printable_def)

lemma no_line_end: "printable c \<Longrightarrow> List.find (\<lambda>e. starts_with e (c # s)) line_ends = None"
  using line_end_heads by (auto simp: find_None_iff list_all_iff starts_with_iff) (metis hd_append2 list.sel(1))

lemma lines_of_line: "list_all printable t \<Longrightarrow> t \<noteq> [] \<or> line \<noteq> [] \<Longrightarrow> lines_from line (t @ [CHR 0x0A]) = [line @ t]"
proof (induction t arbitrary: line)
  case Nil
  have "List.find (\<lambda>e. starts_with e [CHR 0x0A]) line_ends = Some [CHR 0x0A]"
    by (simp add: line_ends_def starts_with_def)
  then show ?case by (simp add: lines_from.simps [of line "[CHR 0x0A]"] lines_from.simps [of "[]" "[]"])
next
  case (Cons c t)
  then show ?case using no_line_end [of c "t @ [CHR 0x0A]"]
    by (simp add: lines_from.simps [of line "c # t @ [CHR 0x0A]"])
qed

lemma re_lines: "splitlines (printed re_run @ [CHR 0x0A]) = [printed re_run]"
proof -
  have "list_all printable (printed re_run)" "printed re_run \<noteq> []" by code_simp+
  from lines_of_line [OF this(1)] this(2) show ?thesis by (simp add: splitlines_def)
qed

lemma re_announced: "\<exists>out err. supervision_main re_settings (re_env re_gh (sc_ids 1) 1 re_backup)
    (Notify ''ci_passed'' ''o/r'' sc_sha (Some 3) True None) re_db = ((0, out, err), re_db)"
proof -
  let ?e = "re_env re_gh (sc_ids 1) 1 re_backup"
  let ?n = "status_notification ''ci_passed'' ''o/r'' sc_sha (Some 3) None"
  let ?g = "\<lparr>ge_event_type = ''ci_passed'', ge_repository = ''o/r'', ge_target_sha = sc_sha, ge_pull_request_number = Some 3\<rparr>"
  let ?failure = "''GitHub verification unavailable''"
  have commit_read: "run_gh_json (cm_gh ?e) [''api'', x] = Inr re_commit" if "x \<noteq> ''--paginate''" "x \<noteq> ''view''" for x
    using that by (simp add: run_gh_json_def gh_output_def re_gh_def re_printed)
  have commit: "verify_commit (cm_gh ?e) ?g = Inr ()"
    by (simp add: verify_commit_def commit_read) (simp add: re_commit_def is_dict_def dget_def)
  have pull_read: "run_gh_json (cm_gh ?e) [''pr'', ''view'', int_str 3, ''--repo'', ''o/r'', ''--json'',
      ''number,headRefOid,state''] = Inr re_pull"
  proof -
    have "int_str 3 = ''3''" by code_simp
    then show ?thesis by (simp add: run_gh_json_def gh_output_def re_gh_def re_printed)
  qed
  have pull: "verify_pull_request (cm_gh ?e) ?g 3 = Inr ()"
    by (simp add: verify_pull_request_def pull_read) (simp add: re_pull_def is_dict_def dget_def number_of_def same_number_def)
  have one: "decoded failure (printed re_run) = Inr re_run" for failure by (simp add: re_printed)
  have runs: "run_gh_paginated_check_runs (cm_gh ?e) endpoint = Inr [re_run]" for endpoint
    by (simp add: run_gh_paginated_check_runs_def gh_output_def re_gh_def re_lines one Let_def)
      (simp add: re_run_def is_dict_def)
  have gate: "verify_quality_gate (cm_gh ?e) ?g = Inr ()"
    by (simp add: verify_quality_gate_def runs) (simp add: re_run_def named_gate_def dget_def verify_conclusion_def)
  have verified: "verify_github_state (cm_gh ?e) ?g = Inr ()"
    using commit pull gate by (simp add: verify_github_state_def)
  have valid: "validate_notification ?n = Inr ()" by code_simp
  obtain content where content: "format_notification ?n = Inr content"
    by (simp add: format_notification_def valid)
  have conf: "approval_configuration_valid re_settings" "st_reply_max_attempts re_settings = 3"
    "st_reply_backoff_seconds re_settings = 1" "strip (st_supervision_chat_id re_settings) \<noteq> []" by code_simp+
  have event: "sn_event_type ?n \<noteq> ''approval_required''" by (simp add: status_notification_def)
  have client: "with_message_id \<circ> cm_client ?e q = (\<lambda>_. Response True (Some 0) (Some ''om''))" for q
    by (simp add: fun_eq_iff with_message_id_def extract_message_id_def)
  have "send_notification re_settings ?e ?n = Inr (delivered True 1 None (Some ''om''))"
    using event content by (simp add: send_notification_def send_structured_text_def client conf re_delivered Let_def)
  then show ?thesis
    using verified valid
    by (simp add: supervision_main_def supervision_choices_def supervision_run_def run_notify_def verified_if_def
        github_evidence_from_args_def exit_of_def delivered_def)
qed

lemma announced_pipeline_passed_witness:
  "let g = \<lparr>ge_event_type = ''ci_passed'', ge_repository = ''o/r'', ge_target_sha = sc_sha, ge_pull_request_number = Some 3\<rparr>;
       e = re_env re_gh (sc_ids 1) 1 re_backup in
   commit_exists (cm_gh e) g \<and> is_head (cm_gh e) g 3 \<and> gate_ended (cm_gh e) g (DStr ''success'')"
  using re_announced announced_pipeline_passed [where pr = 3] by (fastforce simp: Let_def simp del: re_env)

end
