(* ===== verification/Ddl.thy ===== *)
theory Ddl
  imports Database
begin

text \<open>
  The statements of the migrations (\<^verbatim>\<open>alembic/versions\<close>) and the declarations of the models
  (\<^verbatim>\<open>app/models\<close>): tables with their columns, constraints and indexes, what PostgreSQL does on a
  statement that defines data, and what it makes of the row of a table that is declared. All objects are
  in the schema \<^verbatim>\<open>core\<close>. The statements are on a catalogue without rows: what they do to stored rows, such
  as the validation of a new \<open>CHECK\<close>, is not modelled.
\<close>

section \<open>Conditions\<close>

text \<open>The value of a column, the row as a function of the column's name, and the conditions of the source.\<close>

datatype sql_value =
    Null
  | Text_value string
  | Int_value int
  | Bool_value bool
  | Uuid_value uuid
  | Time_value instant
  | Json_value

type_synonym row = "string \<Rightarrow> sql_value"

datatype sql_cond =
    Is_null string
  | Is_not_null string
  | Text_is string string
  | Text_is_not string string
  | Text_in string "string list"
  | Above string int
  | Later string string
  | Fits_regex string regex
  | Both sql_cond sql_cond
  | Either sql_cond sql_cond

definition text_in :: "row \<Rightarrow> string \<Rightarrow> string option" where
  "text_in row c = (case row c of Text_value s \<Rightarrow> Some s | _ \<Rightarrow> None)"

definition int_in :: "row \<Rightarrow> string \<Rightarrow> int option" where
  "int_in row c = (case row c of Int_value i \<Rightarrow> Some i | _ \<Rightarrow> None)"

definition time_in :: "row \<Rightarrow> string \<Rightarrow> instant option" where
  "time_in row c = (case row c of Time_value t \<Rightarrow> Some t | _ \<Rightarrow> None)"

text \<open>A comparison with a null is unknown.\<close>

fun holds :: "row \<Rightarrow> sql_cond \<Rightarrow> tri" where
  "holds row (Is_null c) = Some (row c = Null)"
| "holds row (Is_not_null c) = Some (row c \<noteq> Null)"
| "holds row (Text_is c s) = map_option (\<lambda>t. t = s) (text_in row c)"
| "holds row (Text_is_not c s) = map_option (\<lambda>t. t \<noteq> s) (text_in row c)"
| "holds row (Text_in c ss) = map_option (\<lambda>t. t \<in> set ss) (text_in row c)"
| "holds row (Above c k) = map_option (\<lambda>i. i > k) (int_in row c)"
| "holds row (Later c c') =
     (case (time_in row c, time_in row c') of (Some t, Some t') \<Rightarrow> Some (t > t') | _ \<Rightarrow> None)"
| "holds row (Fits_regex c r) = map_option (matches r) (text_in row c)"
| "holds row (Both a b) = sql_and (holds row a) (holds row b)"
| "holds row (Either a b) = sql_or (holds row a) (holds row b)"

fun cond_columns :: "sql_cond \<Rightarrow> string list" where
  "cond_columns (Is_null c) = [c]"
| "cond_columns (Is_not_null c) = [c]"
| "cond_columns (Text_is c _) = [c]"
| "cond_columns (Text_is_not c _) = [c]"
| "cond_columns (Text_in c _) = [c]"
| "cond_columns (Above c _) = [c]"
| "cond_columns (Later c c') = [c, c']"
| "cond_columns (Fits_regex c _) = [c]"
| "cond_columns (Both a b) = cond_columns a @ cond_columns b"
| "cond_columns (Either a b) = cond_columns a @ cond_columns b"

section \<open>Tables\<close>

datatype sql_type =
    Uuid_type
  | String_type nat
  | Text_type
  | Integer_type
  | BigInteger_type
  | Boolean_type
  | DateTime_type
  | JSONB_type

datatype server_default = Literal string | Expression string

record column_def =
  cl_name :: string
  cl_type :: sql_type
  cl_nullable :: bool
  cl_default :: "server_default option"

definition required :: "string \<Rightarrow> sql_type \<Rightarrow> column_def" where
  "required n t = \<lparr>cl_name = n, cl_type = t, cl_nullable = False, cl_default = None\<rparr>"

definition nullable :: "string \<Rightarrow> sql_type \<Rightarrow> column_def" where
  "nullable n t = \<lparr>cl_name = n, cl_type = t, cl_nullable = True, cl_default = None\<rparr>"

definition defaulted :: "string \<Rightarrow> sql_type \<Rightarrow> server_default \<Rightarrow> column_def" where
  "defaulted n t v = \<lparr>cl_name = n, cl_type = t, cl_nullable = False, cl_default = Some v\<rparr>"

definition now_default :: server_default where
  "now_default = Expression ''now()''"

definition empty_json_default :: server_default where
  "empty_json_default = Expression ([CHR 0x27] @ ''{}'' @ [CHR 0x27] @ ''::jsonb'')"

text \<open>A constraint, with the columns, and for a foreign key the table and the columns it refers to.\<close>

datatype constraint =
    Check_that sql_cond
  | Unique_over "string list"
  | Primary_key "string list"
  | Refers_to "string list" string "string list" string

text \<open>
  The name that is given to a constraint: none, a name for the naming convention of the metadata, or,
  with \<open>op.f\<close>, a final name. The convention of a \<open>CHECK\<close> contains the given name, the others are for
  constraints without a name only; a \<open>CHECK\<close> without a name would be refused, none is. Names beyond the 63
  characters of PostgreSQL are cut alike wherever they are used.
\<close>

datatype given_name = Unnamed | Named string | Final string

definition constraint_name :: "string \<Rightarrow> given_name \<Rightarrow> constraint \<Rightarrow> string" where
  "constraint_name t g b =
     (case g of
        Final n \<Rightarrow> n
      | Named n \<Rightarrow> (case b of Check_that _ \<Rightarrow> ''ck_'' @ t @ ''_'' @ n | _ \<Rightarrow> n)
      | Unnamed \<Rightarrow> (case b of
            Check_that _ \<Rightarrow> []
          | Unique_over cs \<Rightarrow> ''uq_'' @ t @ ''_'' @ hd cs
          | Primary_key _ \<Rightarrow> ''pk_'' @ t
          | Refers_to cs t' _ _ \<Rightarrow> ''fk_'' @ t @ ''_'' @ hd cs @ ''_'' @ t'))"

record index_def =
  ix_name :: string
  ix_columns :: "string list"
  ix_unique :: bool
  ix_where :: "sql_cond option"

record table_def =
  tb_name :: string
  tb_columns :: "column_def list"
  tb_constraints :: "(string \<times> constraint) list"
  tb_indexes :: "index_def list"

definition plain_index :: "string \<Rightarrow> string list \<Rightarrow> index_def" where
  "plain_index n cs = \<lparr>ix_name = n, ix_columns = cs, ix_unique = False, ix_where = None\<rparr>"

definition table :: "string \<Rightarrow> column_def list \<Rightarrow> (given_name \<times> constraint) list \<Rightarrow> index_def list \<Rightarrow> table_def" where
  "table n cols constraints indexes =
     \<lparr>tb_name = n, tb_columns = cols,
      tb_constraints = map (\<lambda>(g, b). (constraint_name n g b, b)) constraints, tb_indexes = indexes\<rparr>"

fun constraint_columns :: "constraint \<Rightarrow> string list" where
  "constraint_columns (Check_that c) = cond_columns c"
| "constraint_columns (Unique_over cs) = cs"
| "constraint_columns (Primary_key cs) = cs"
| "constraint_columns (Refers_to cs _ _ _) = cs"

definition index_uses :: "index_def \<Rightarrow> string list" where
  "index_uses i = ix_columns i @ (case ix_where i of None \<Rightarrow> [] | Some c \<Rightarrow> cond_columns c)"

definition column_names :: "table_def \<Rightarrow> string list" where
  "column_names t = map cl_name (tb_columns t)"

section \<open>The catalogue\<close>

record catalogue =
  ca_schema :: bool
  ca_tables :: "table_def list"
  ca_functions :: "string list"
  ca_triggers :: "(string \<times> string \<times> string) list"

definition empty_catalogue :: catalogue where
  "empty_catalogue = \<lparr>ca_schema = False, ca_tables = [], ca_functions = [], ca_triggers = []\<rparr>"

datatype ddl =
    Create_schema
  | Drop_schema
  | Create_table table_def
  | Drop_table string
  | Create_index string index_def
  | Drop_index string string
  | Add_column string column_def
  | Drop_column string string
  | Add_constraint string given_name constraint
  | Drop_constraint string string
  | Create_function string
  | Drop_function string
  | Create_trigger string string string
  | Drop_trigger string string

definition refused :: "string \<Rightarrow> 'a result" where
  "refused n = Inl (OtherException n)"

definition find_table :: "string \<Rightarrow> catalogue \<Rightarrow> table_def option" where
  "find_table n c = List.find (\<lambda>t. tb_name t = n) (ca_tables c)"

text \<open>Tables and indexes share one space of names.\<close>

definition relation_names :: "catalogue \<Rightarrow> string list" where
  "relation_names c = concat (map (\<lambda>t. tb_name t # map ix_name (tb_indexes t)) (ca_tables c))"

definition keys_of :: "table_def \<Rightarrow> string list list" where
  "keys_of t =
     concat (map (\<lambda>(_, b). case b of Unique_over cs \<Rightarrow> [cs] | Primary_key cs \<Rightarrow> [cs] | _ \<Rightarrow> []) (tb_constraints t))"

text \<open>A foreign key refers to a key of a table that is there, or of its own.\<close>

definition referent_ok :: "catalogue \<Rightarrow> table_def \<Rightarrow> constraint \<Rightarrow> bool" where
  "referent_ok c t b =
     (case b of
        Refers_to _ n cs _ \<Rightarrow>
          (case (if tb_name t = n then Some t else find_table n c) of
             None \<Rightarrow> False
           | Some r \<Rightarrow> list_ex (\<lambda>k. set k = set cs) (keys_of r))
      | _ \<Rightarrow> True)"

definition columns_exist :: "table_def \<Rightarrow> constraint \<Rightarrow> bool" where
  "columns_exist t b \<longleftrightarrow> list_all (\<lambda>n. n \<in> set (column_names t)) (constraint_columns b)"

text \<open>What is wrong with a table by itself.\<close>

definition malformed :: "table_def \<Rightarrow> string option" where
  "malformed t =
     (if \<not> distinct (column_names t) then Some ''DuplicateColumn''
      else if \<not> distinct (map fst (tb_constraints t)) then Some ''DuplicateObject''
      else if \<not> list_all (\<lambda>(_, b). columns_exist t b) (tb_constraints t) then Some ''UndefinedColumn''
      else None)"

definition refers_to_table :: "string \<Rightarrow> table_def \<Rightarrow> bool" where
  "refers_to_table n t \<longleftrightarrow>
     list_ex (\<lambda>(_, b). case b of Refers_to _ n' _ _ \<Rightarrow> n' = n | _ \<Rightarrow> False) (tb_constraints t)"

definition refers_to_column :: "string \<Rightarrow> string \<Rightarrow> table_def \<Rightarrow> bool" where
  "refers_to_column n k t \<longleftrightarrow>
     list_ex (\<lambda>(_, b). case b of Refers_to _ n' ks _ \<Rightarrow> n' = n \<and> k \<in> set ks | _ \<Rightarrow> False) (tb_constraints t)"

text \<open>What a statement makes of the table that it changes.\<close>

definition with_index :: "index_def \<Rightarrow> table_def \<Rightarrow> table_def" where
  "with_index i t = t\<lparr>tb_indexes := tb_indexes t @ [i]\<rparr>"

definition without_index :: "string \<Rightarrow> table_def \<Rightarrow> table_def" where
  "without_index i t = t\<lparr>tb_indexes := filter (\<lambda>x. ix_name x \<noteq> i) (tb_indexes t)\<rparr>"

definition with_column :: "column_def \<Rightarrow> table_def \<Rightarrow> table_def" where
  "with_column k t = t\<lparr>tb_columns := tb_columns t @ [k]\<rparr>"

text \<open>The constraints and indexes of the table that involve a column go with it.\<close>

definition without_column :: "string \<Rightarrow> table_def \<Rightarrow> table_def" where
  "without_column k t =
     t\<lparr>tb_columns := filter (\<lambda>x. cl_name x \<noteq> k) (tb_columns t),
       tb_constraints := filter (\<lambda>(_, b). k \<notin> set (constraint_columns b)) (tb_constraints t),
       tb_indexes := filter (\<lambda>i. k \<notin> set (index_uses i)) (tb_indexes t)\<rparr>"

definition with_constraint :: "string \<Rightarrow> constraint \<Rightarrow> table_def \<Rightarrow> table_def" where
  "with_constraint i b t = t\<lparr>tb_constraints := tb_constraints t @ [(i, b)]\<rparr>"

definition without_constraint :: "string \<Rightarrow> table_def \<Rightarrow> table_def" where
  "without_constraint i t = t\<lparr>tb_constraints := filter (\<lambda>(k, _). k \<noteq> i) (tb_constraints t)\<rparr>"

definition on_table :: "string \<Rightarrow> (table_def \<Rightarrow> table_def result) \<Rightarrow> catalogue \<Rightarrow> catalogue result" where
  "on_table n f c =
     (case find_table n c of
        None \<Rightarrow> refused ''UndefinedTable''
      | Some t \<Rightarrow> bindE (f t) (\<lambda>t'.
          Inr (c\<lparr>ca_tables := map (\<lambda>u. if tb_name u = n then t' else u) (ca_tables c)\<rparr>)))"

definition create_table :: "table_def \<Rightarrow> catalogue \<Rightarrow> catalogue result" where
  "create_table t c =
     (if \<not> ca_schema c then refused ''InvalidSchemaName''
      else if tb_name t \<in> set (relation_names c) then refused ''DuplicateTable''
      else if malformed t \<noteq> None then refused (the (malformed t))
      else if \<not> list_all (\<lambda>(_, b). referent_ok c t b) (tb_constraints t) then refused ''UndefinedTable''
      else Inr (c\<lparr>ca_tables := ca_tables c @ [t]\<rparr>))"

text \<open>Without \<open>CASCADE\<close> a table to which another one refers stays; its triggers go with it.\<close>

definition drop_table :: "string \<Rightarrow> catalogue \<Rightarrow> catalogue result" where
  "drop_table n c =
     (if find_table n c = None then refused ''UndefinedTable''
      else if list_ex (\<lambda>t. tb_name t \<noteq> n \<and> refers_to_table n t) (ca_tables c)
      then refused ''DependentObjectsStillExist''
      else Inr (c\<lparr>ca_tables := filter (\<lambda>t. tb_name t \<noteq> n) (ca_tables c),
                 ca_triggers := filter (\<lambda>(_, t, _). t \<noteq> n) (ca_triggers c)\<rparr>))"

definition create_index :: "string \<Rightarrow> index_def \<Rightarrow> catalogue \<Rightarrow> catalogue result" where
  "create_index n i c =
     (if ix_name i \<in> set (relation_names c) then refused ''DuplicateTable''
      else on_table n (\<lambda>t.
        if \<not> list_all (\<lambda>k. k \<in> set (column_names t)) (index_uses i) then refused ''UndefinedColumn''
        else Inr (with_index i t)) c)"

definition drop_index :: "string \<Rightarrow> string \<Rightarrow> catalogue \<Rightarrow> catalogue result" where
  "drop_index i n c =
     on_table n (\<lambda>t.
       if i \<notin> set (map ix_name (tb_indexes t)) then refused ''UndefinedObject''
       else Inr (without_index i t)) c"

definition add_column :: "string \<Rightarrow> column_def \<Rightarrow> catalogue \<Rightarrow> catalogue result" where
  "add_column n k c =
     on_table n (\<lambda>t.
       if cl_name k \<in> set (column_names t) then refused ''DuplicateColumn''
       else Inr (with_column k t)) c"

definition drop_column :: "string \<Rightarrow> string \<Rightarrow> catalogue \<Rightarrow> catalogue result" where
  "drop_column n k c =
     (if list_ex (\<lambda>t. tb_name t \<noteq> n \<and> refers_to_column n k t) (ca_tables c)
      then refused ''DependentObjectsStillExist''
      else on_table n (\<lambda>t.
        if k \<notin> set (column_names t) then refused ''UndefinedColumn''
        else Inr (without_column k t)) c)"

definition add_constraint :: "string \<Rightarrow> given_name \<Rightarrow> constraint \<Rightarrow> catalogue \<Rightarrow> catalogue result" where
  "add_constraint n g b c =
     on_table n (\<lambda>t.
       let name = constraint_name n g b in
       if name \<in> set (map fst (tb_constraints t)) then refused ''DuplicateObject''
       else if \<not> columns_exist t b then refused ''UndefinedColumn''
       else if \<not> referent_ok c t b then refused ''UndefinedTable''
       else Inr (with_constraint name b t)) c"

text \<open>Only checks and foreign keys are dropped by the migrations, on which nothing depends.\<close>

definition drop_constraint :: "string \<Rightarrow> string \<Rightarrow> catalogue \<Rightarrow> catalogue result" where
  "drop_constraint i n c =
     on_table n (\<lambda>t.
       if i \<notin> set (map fst (tb_constraints t)) then refused ''UndefinedObject''
       else Inr (without_constraint i t)) c"

text \<open>\<open>DROP ... IF EXISTS\<close> of what is not there does nothing.\<close>

fun execute_ddl :: "ddl \<Rightarrow> catalogue \<Rightarrow> catalogue result" where
  "execute_ddl Create_schema c = Inr (c\<lparr>ca_schema := True\<rparr>)"
| "execute_ddl Drop_schema c =
     (if ca_tables c \<noteq> [] \<or> ca_functions c \<noteq> [] then refused ''DependentObjectsStillExist''
      else Inr (c\<lparr>ca_schema := False\<rparr>))"
| "execute_ddl (Create_table t) c = create_table t c"
| "execute_ddl (Drop_table n) c = drop_table n c"
| "execute_ddl (Create_index n i) c = create_index n i c"
| "execute_ddl (Drop_index i n) c = drop_index i n c"
| "execute_ddl (Add_column n k) c = add_column n k c"
| "execute_ddl (Drop_column n k) c = drop_column n k c"
| "execute_ddl (Add_constraint n g b) c = add_constraint n g b c"
| "execute_ddl (Drop_constraint i n) c = drop_constraint i n c"
| "execute_ddl (Create_function f) c =
     (if \<not> ca_schema c then refused ''InvalidSchemaName''
      else if f \<in> set (ca_functions c) then refused ''DuplicateFunction''
      else Inr (c\<lparr>ca_functions := ca_functions c @ [f]\<rparr>))"
| "execute_ddl (Drop_function f) c =
     (if list_ex (\<lambda>(_, _, g). g = f) (ca_triggers c) then refused ''DependentObjectsStillExist''
      else Inr (c\<lparr>ca_functions := filter (\<lambda>g. g \<noteq> f) (ca_functions c)\<rparr>))"
| "execute_ddl (Create_trigger i n f) c =
     (if find_table n c = None then refused ''UndefinedTable''
      else if f \<notin> set (ca_functions c) then refused ''UndefinedFunction''
      else if list_ex (\<lambda>(j, t, _). j = i \<and> t = n) (ca_triggers c) then refused ''DuplicateObject''
      else Inr (c\<lparr>ca_triggers := ca_triggers c @ [(i, n, f)]\<rparr>))"
| "execute_ddl (Drop_trigger i n) c =
     Inr (c\<lparr>ca_triggers := filter (\<lambda>(j, t, _). \<not> (j = i \<and> t = n)) (ca_triggers c)\<rparr>)"

fun run_ddl :: "ddl list \<Rightarrow> catalogue \<Rightarrow> catalogue result" where
  "run_ddl [] c = Inr c"
| "run_ddl (s # ss) c = bindE (execute_ddl s c) (run_ddl ss)"

text \<open>A migration is one transaction.\<close>

definition migrate :: "ddl list \<Rightarrow> catalogue \<Rightarrow> unit result \<times> catalogue" where
  "migrate ss c = (case run_ddl ss c of Inl x \<Rightarrow> (Inl x, c) | Inr c' \<Rightarrow> (Inr (), c'))"

lemma run_ddl_append: "run_ddl (xs @ ys) c = bindE (run_ddl xs c) (run_ddl ys)"
  by (induction xs arbitrary: c) (simp_all add: bindE_def split: sum.splits)

section \<open>Running statements\<close>

text \<open>The parts of a table that the statements look at.\<close>

lemma table_parts:
  assumes "t = table n cols cs is"
  shows "tb_name t = n" "tb_columns t = cols" "column_names t = map cl_name cols"
    "tb_constraints t = map (\<lambda>(g, b). (constraint_name n g b, b)) cs" "tb_indexes t = is"
  using assms by (simp_all add: table_def column_names_def)

lemma column_parts [simp]:
  "cl_name (required n t) = n" "cl_name (nullable n t) = n" "cl_name (defaulted n t v) = n"
  "cl_type (required n t) = t" "cl_type (nullable n t) = t" "cl_type (defaulted n t v) = t"
  "cl_nullable (required n t) = False" "cl_nullable (nullable n t) = True" "cl_nullable (defaulted n t v) = False"
  "cl_default (required n t) = None" "cl_default (nullable n t) = None" "cl_default (defaulted n t v) = Some v"
  by (simp_all add: required_def nullable_def defaulted_def)

lemma changed_parts [simp]:
  "tb_name (with_index i t) = tb_name t" "tb_columns (with_index i t) = tb_columns t"
  "column_names (with_index i t) = column_names t" "tb_constraints (with_index i t) = tb_constraints t"
  "tb_indexes (with_index i t) = tb_indexes t @ [i]"
  "tb_name (with_column k t) = tb_name t" "tb_columns (with_column k t) = tb_columns t @ [k]"
  "column_names (with_column k t) = column_names t @ [cl_name k]"
  "tb_constraints (with_column k t) = tb_constraints t" "tb_indexes (with_column k t) = tb_indexes t"
  "tb_name (with_constraint n b t) = tb_name t" "tb_columns (with_constraint n b t) = tb_columns t"
  "column_names (with_constraint n b t) = column_names t"
  "tb_constraints (with_constraint n b t) = tb_constraints t @ [(n, b)]"
  "tb_indexes (with_constraint n b t) = tb_indexes t"
  "tb_name (without_constraint n t) = tb_name t" "tb_columns (without_constraint n t) = tb_columns t"
  "column_names (without_constraint n t) = column_names t"
  "tb_constraints (without_constraint n t) = filter (\<lambda>(k, _). k \<noteq> n) (tb_constraints t)"
  "tb_indexes (without_constraint n t) = tb_indexes t"
  "tb_name (without_index n t) = tb_name t" "tb_columns (without_index n t) = tb_columns t"
  "column_names (without_index n t) = column_names t" "tb_constraints (without_index n t) = tb_constraints t"
  "tb_indexes (without_index n t) = filter (\<lambda>x. ix_name x \<noteq> n) (tb_indexes t)"
  "tb_name (without_column n t) = tb_name t"
  "tb_columns (without_column n t) = filter (\<lambda>x. cl_name x \<noteq> n) (tb_columns t)"
  "tb_constraints (without_column n t) = filter (\<lambda>(_, b). n \<notin> set (constraint_columns b)) (tb_constraints t)"
  "tb_indexes (without_column n t) = filter (\<lambda>i. n \<notin> set (index_uses i)) (tb_indexes t)"
  by (simp_all add: with_index_def with_column_def with_constraint_def without_constraint_def column_names_def
      without_index_def without_column_def)

end
