(* ===== verification/Metadata.thy ===== *)
theory Metadata
  imports Ddl
begin

text \<open>
  The tables that the classes of \<^verbatim>\<open>app/models/core.py\<close> declare, in the order of the file. A default that
  Python supplies, as \<open>default\<close> and \<open>onupdate\<close> do, is no part of the table.
\<close>

definition User_table :: table_def where
  "User_table = table ''users''
     [required ''id'' Uuid_type,
       required ''display_name'' (String_type 100),
       required ''timezone'' (String_type 64),
       required ''locale'' (String_type 16),
       required ''default_units'' JSONB_type,
       required ''privacy_settings'' JSONB_type,
       defaulted ''created_at'' DateTime_type now_default,
       defaulted ''updated_at'' DateTime_type now_default]
     [(Unnamed, Primary_key [''id''])]
     []"

definition ExternalIdentity_table :: table_def where
  "ExternalIdentity_table = table ''external_identities''
     [required ''id'' Uuid_type,
       required ''provider'' (String_type 32),
       required ''tenant_fingerprint'' (String_type 64),
       required ''subject_fingerprint'' (String_type 64),
       required ''principal_id'' Uuid_type,
       required ''mapping_version'' Integer_type,
       defaulted ''valid_from'' DateTime_type now_default,
       nullable ''valid_to'' DateTime_type,
       required ''audit_event_id'' Uuid_type]
     [(Named ''uq_external_identities_mapping_version'', Unique_over [''provider'',
         ''tenant_fingerprint'', ''subject_fingerprint'', ''mapping_version'']),
       (Named ''mapping_version'', Check_that (Above ''mapping_version'' 0)),
       (Named ''validity'', Check_that (Either (Is_null ''valid_to'') (Later ''valid_to''
         ''valid_from''))),
       (Unnamed, Refers_to [''principal_id''] ''principals'' [''id''] ''RESTRICT''),
       (Unnamed, Primary_key [''id''])]
     [\<lparr>ix_name = ''uq_external_identities_active_subject'', ix_columns = [''provider'',
        ''tenant_fingerprint'', ''subject_fingerprint''], ix_unique = True, ix_where = Some (Is_null
        ''valid_to'')\<rparr>]"

definition Principal_table :: table_def where
  "Principal_table = table ''principals''
     [required ''id'' Uuid_type,
       required ''principal_type'' (String_type 16),
       nullable ''user_id'' Uuid_type,
       required ''identity_key'' (String_type 200),
       defaulted ''created_at'' DateTime_type now_default]
     [(Named ''type'', Check_that (Text_in ''principal_type'' [''HUMAN'', ''SERVICE'', ''EXECUTOR''])),
       (Named ''human_user_binding'', Check_that (Either (Both (Text_is ''principal_type'' ''HUMAN'')
         (Is_not_null ''user_id'')) (Both (Text_in ''principal_type'' [''SERVICE'', ''EXECUTOR''])
         (Is_null ''user_id'')))),
       (Named ''uq_principals_user_id'', Unique_over [''user_id'']),
       (Named ''uq_principals_identity_key'', Unique_over [''identity_key'']),
       (Unnamed, Refers_to [''user_id''] ''users'' [''id''] ''RESTRICT''),
       (Unnamed, Primary_key [''id''])]
     []"

definition Entity_table :: table_def where
  "Entity_table = table ''entities''
     [required ''id'' Uuid_type,
       required ''user_id'' Uuid_type,
       required ''entity_type'' (String_type 64),
       nullable ''title'' (String_type 300),
       nullable ''status_code'' (String_type 64),
       required ''source_code'' (String_type 64),
       required ''version'' Integer_type,
       required ''metadata'' JSONB_type,
       defaulted ''created_at'' DateTime_type now_default,
       defaulted ''updated_at'' DateTime_type now_default,
       nullable ''deleted_at'' DateTime_type]
     [(Unnamed, Refers_to [''user_id''] ''users'' [''id''] ''RESTRICT''),
       (Unnamed, Primary_key [''id''])]
     [plain_index ''ix_entities_user_type_status'' [''user_id'', ''entity_type'', ''status_code'']]"

definition RawInput_table :: table_def where
  "RawInput_table = table ''raw_inputs''
     [required ''id'' Uuid_type,
       required ''user_id'' Uuid_type,
       required ''channel_code'' (String_type 32),
       nullable ''external_message_id'' (String_type 200),
       required ''input_type'' (String_type 32),
       nullable ''text_content'' Text_type,
       defaulted ''received_at'' DateTime_type now_default,
       required ''processing_status'' (String_type 32),
       required ''metadata'' JSONB_type,
       defaulted ''created_at'' DateTime_type now_default]
     [(Named ''uq_raw_inputs_channel_message'', Unique_over [''channel_code'',
         ''external_message_id'']),
       (Unnamed, Refers_to [''user_id''] ''users'' [''id''] ''RESTRICT''),
       (Unnamed, Primary_key [''id''])]
     [plain_index ''ix_raw_inputs_user_received'' [''user_id'', ''received_at'']]"

definition ApprovalRequest_table :: table_def where
  "ApprovalRequest_table = table ''approval_requests''
     [required ''id'' Uuid_type,
       required ''user_id'' Uuid_type,
       required ''action_code'' (String_type 32),
       required ''repository'' (String_type 200),
       nullable ''pull_request_number'' Integer_type,
       required ''target_sha'' (String_type 40),
       required ''target_environment'' (String_type 32),
       nullable ''deployment_id'' Uuid_type,
       nullable ''artifact_digest'' (String_type 71),
       required ''idempotency_key'' (String_type 200),
       defaulted ''requested_at'' DateTime_type now_default,
       required ''expires_at'' DateTime_type,
       nullable ''card_message_id'' (String_type 200)]
     [(Named ''action_code'', Check_that (Text_in ''action_code'' [''development_plan'', ''merge_pr'',
         ''production_deploy'', ''rollback_production''])),
       (Named ''target_environment'', Check_that (Text_in ''target_environment'' [''development'',
         ''staging'', ''production''])),
       (Named ''target_sha'', Check_that (Fits_regex ''target_sha'' SHA_REGEX)),
       (Named ''pr_number'', Check_that (Either (Is_null ''pull_request_number'') (Above
         ''pull_request_number'' 0))),
       (Named ''expiry'', Check_that (Later ''expires_at'' ''requested_at'')),
       (Named ''action_target'', Check_that (Either (Either (Both (Text_is ''action_code''
         ''development_plan'') (Text_is ''target_environment'' ''development'')) (Both (Both (Text_is
         ''action_code'' ''merge_pr'') (Text_is ''target_environment'' ''staging'')) (Is_not_null
         ''pull_request_number''))) (Both (Text_in ''action_code'' [''production_deploy'',
         ''rollback_production'']) (Text_is ''target_environment'' ''production'')))),
       (Named ''deployment_binding'', Check_that (Either (Both (Is_null ''deployment_id'') (Is_null
         ''artifact_digest'')) (Both (Is_not_null ''deployment_id'') (Fits_regex ''artifact_digest''
         DIGEST_REGEX)))),
       (Named ''uq_approval_requests_idempotency_key'', Unique_over [''idempotency_key'']),
       (Unnamed, Refers_to [''user_id''] ''users'' [''id''] ''RESTRICT''),
       (Unnamed, Refers_to [''deployment_id''] ''deployment_intents'' [''id''] ''RESTRICT''),
       (Unnamed, Primary_key [''id''])]
     [plain_index ''ix_approval_requests_user_requested'' [''user_id'', ''requested_at''],
      plain_index ''ix_approval_requests_target'' [''action_code'', ''target_sha'', ''expires_at'']]"

definition ApprovalDecision_table :: table_def where
  "ApprovalDecision_table = table ''approval_decisions''
     [required ''id'' Uuid_type,
       required ''request_id'' Uuid_type,
       required ''decision_code'' (String_type 16),
       required ''actor_user_id'' Uuid_type,
       nullable ''actor_external_identity_id'' Uuid_type,
       required ''approver_identity_fingerprint'' (String_type 64),
       required ''feishu_event_id'' (String_type 200),
       defaulted ''decided_at'' DateTime_type now_default]
     [(Named ''decision_code'', Check_that (Text_in ''decision_code'' [''approved'', ''rejected''])),
       (Named ''identity_fingerprint'', Check_that (Fits_regex ''approver_identity_fingerprint''
         FINGERPRINT_REGEX)),
       (Named ''uq_approval_decisions_request_id'', Unique_over [''request_id'']),
       (Named ''uq_approval_decisions_feishu_event_id'', Unique_over [''feishu_event_id'']),
       (Unnamed, Refers_to [''request_id''] ''approval_requests'' [''id''] ''RESTRICT''),
       (Unnamed, Refers_to [''actor_user_id''] ''users'' [''id''] ''RESTRICT''),
       (Unnamed, Refers_to [''actor_external_identity_id''] ''external_identities'' [''id'']
         ''RESTRICT''),
       (Unnamed, Primary_key [''id''])]
     [plain_index ''ix_approval_decisions_actor_decided'' [''actor_user_id'', ''decided_at'']]"

definition DeploymentIntent_table :: table_def where
  "DeploymentIntent_table = table ''deployment_intents''
     [required ''id'' Uuid_type,
       required ''user_id'' Uuid_type,
       required ''requester_principal_id'' Uuid_type,
       required ''requester_external_identity_id'' Uuid_type,
       required ''intent_kind'' (String_type 16),
       required ''action_code'' (String_type 32),
       required ''repository'' (String_type 200),
       required ''target_sha'' (String_type 40),
       required ''target_environment'' (String_type 32),
       required ''artifact_digest'' (String_type 71),
       required ''requested_by_identity_fingerprint'' (String_type 64),
       required ''service_set'' JSONB_type,
       required ''migration_risk'' (String_type 16),
       nullable ''migration_revision'' (String_type 200),
       nullable ''rollback_runbook_ref'' (String_type 300),
       required ''config_fingerprint'' (String_type 71),
       required ''idempotency_key'' (String_type 200),
       defaulted ''created_at'' DateTime_type now_default]
     [(Named ''intent_kind'', Check_that (Text_in ''intent_kind'' [''deploy'', ''rollback''])),
       (Named ''action_code'', Check_that (Text_in ''action_code'' [''production_deploy'',
         ''rollback_production''])),
       (Named ''kind_action'', Check_that (Either (Both (Text_is ''intent_kind'' ''deploy'') (Text_is
         ''action_code'' ''production_deploy'')) (Both (Text_is ''intent_kind'' ''rollback'') (Text_is
         ''action_code'' ''rollback_production'')))),
       (Named ''environment'', Check_that (Text_is ''target_environment'' ''production'')),
       (Named ''target_sha'', Check_that (Fits_regex ''target_sha'' SHA_REGEX)),
       (Named ''artifact_digest'', Check_that (Fits_regex ''artifact_digest'' DIGEST_REGEX)),
       (Named ''requester_fingerprint'', Check_that (Fits_regex ''requested_by_identity_fingerprint''
         FINGERPRINT_REGEX)),
       (Named ''config_fingerprint'', Check_that (Fits_regex ''config_fingerprint'' DIGEST_REGEX)),
       (Named ''migration_risk'', Check_that (Text_in ''migration_risk'' [''NONE'', ''LOW'',
         ''MEDIUM'', ''HIGH''])),
       (Named ''medium_migration_evidence'', Check_that (Either (Text_is_not ''migration_risk''
         ''MEDIUM'') (Both (Is_not_null ''migration_revision'') (Is_not_null
         ''rollback_runbook_ref'')))),
       (Named ''uq_deployment_intents_idempotency_key'', Unique_over [''idempotency_key'']),
       (Unnamed, Refers_to [''user_id''] ''users'' [''id''] ''RESTRICT''),
       (Unnamed, Refers_to [''requester_principal_id''] ''principals'' [''id''] ''RESTRICT''),
       (Unnamed, Refers_to [''requester_external_identity_id''] ''external_identities'' [''id'']
         ''RESTRICT''),
       (Unnamed, Primary_key [''id''])]
     [plain_index ''ix_deployment_intents_target'' [''repository'', ''target_sha'', ''created_at'']]"

definition DeploymentArtifact_table :: table_def where
  "DeploymentArtifact_table = table ''deployment_artifacts''
     [required ''id'' Uuid_type,
       required ''deployment_id'' Uuid_type,
       required ''repository'' (String_type 200),
       required ''target_sha'' (String_type 40),
       required ''digest'' (String_type 71),
       required ''image_reference'' (String_type 500),
       required ''service_images'' JSONB_type,
       required ''ci_run_id'' BigInteger_type,
       required ''ci_event'' (String_type 32),
       required ''ci_status'' (String_type 32),
       required ''ci_conclusion'' (String_type 32),
       required ''ci_head_sha'' (String_type 40),
       required ''quality_gate_conclusion'' (String_type 32),
       required ''protected_main_verified'' Boolean_type,
       required ''ci_workflow_name'' (String_type 200),
       required ''ci_repository'' (String_type 200),
       required ''ci_verified_at'' DateTime_type,
       required ''ci_provenance_source'' (String_type 64),
       required ''provenance'' JSONB_type,
       defaulted ''created_at'' DateTime_type now_default]
     [(Named ''digest'', Check_that (Fits_regex ''digest'' DIGEST_REGEX)),
       (Named ''sha'', Check_that (Both (Fits_regex ''target_sha'' SHA_REGEX) (Fits_regex
         ''ci_head_sha'' SHA_REGEX))),
       (Named ''ci_run_id'', Check_that (Above ''ci_run_id'' 0)),
       (Named ''ci_event'', Check_that (Text_is ''ci_event'' ''push'')),
       (Named ''ci_status'', Check_that (Text_is ''ci_status'' ''completed'')),
       (Named ''ci_conclusion'', Check_that (Text_is ''ci_conclusion'' ''success'')),
       (Named ''quality_gate'', Check_that (Text_is ''quality_gate_conclusion'' ''success'')),
       (Named ''ci_provenance_source'', Check_that (Text_is ''ci_provenance_source''
         ''github_checks_api'')),
       (Named ''uq_deployment_artifacts_deployment_id'', Unique_over [''deployment_id'']),
       (Unnamed, Refers_to [''deployment_id''] ''deployment_intents'' [''id''] ''RESTRICT''),
       (Unnamed, Primary_key [''id''])]
     [plain_index ''ix_deployment_artifacts_digest'' [''digest'']]"

definition DeploymentStateEvent_table :: table_def where
  "DeploymentStateEvent_table = table ''deployment_state_events''
     [required ''id'' Uuid_type,
       required ''deployment_id'' Uuid_type,
       required ''sequence'' Integer_type,
       nullable ''from_state'' (String_type 64),
       required ''to_state'' (String_type 64),
       required ''event_code'' (String_type 64),
       required ''actor_identity_fingerprint'' (String_type 64),
       required ''evidence'' JSONB_type,
       defaulted ''occurred_at'' DateTime_type now_default]
     [(Named ''sequence'', Check_that (Above ''sequence'' 0)),
       (Named ''actor_fingerprint'', Check_that (Fits_regex ''actor_identity_fingerprint''
         FINGERPRINT_REGEX)),
       (Named ''uq_deployment_state_events_sequence'', Unique_over [''deployment_id'', ''sequence'']),
       (Unnamed, Refers_to [''deployment_id''] ''deployment_intents'' [''id''] ''RESTRICT''),
       (Unnamed, Primary_key [''id''])]
     [plain_index ''ix_deployment_state_events_deployment_occurred'' [''deployment_id'',
        ''occurred_at'']]"

definition StagingAcceptance_table :: table_def where
  "StagingAcceptance_table = table ''staging_acceptances''
     [required ''id'' Uuid_type,
       required ''deployment_id'' Uuid_type,
       required ''repository'' (String_type 200),
       required ''target_sha'' (String_type 40),
       required ''artifact_digest'' (String_type 71),
       required ''environment'' (String_type 32),
       required ''validation_suite_version'' (String_type 100),
       required ''config_fingerprint'' (String_type 71),
       required ''accepted_by_identity_fingerprint'' (String_type 64),
       required ''completed_at'' DateTime_type,
       required ''valid_until'' DateTime_type]
     [(Named ''environment'', Check_that (Text_is ''environment'' ''staging'')),
       (Named ''target_sha'', Check_that (Fits_regex ''target_sha'' SHA_REGEX)),
       (Named ''artifact_digest'', Check_that (Fits_regex ''artifact_digest'' DIGEST_REGEX)),
       (Named ''actor_fingerprint'', Check_that (Fits_regex ''accepted_by_identity_fingerprint''
         FINGERPRINT_REGEX)),
       (Named ''config_fingerprint'', Check_that (Fits_regex ''config_fingerprint'' DIGEST_REGEX)),
       (Named ''validity'', Check_that (Later ''valid_until'' ''completed_at'')),
       (Named ''uq_staging_acceptances_deployment_id'', Unique_over [''deployment_id'']),
       (Unnamed, Refers_to [''deployment_id''] ''deployment_intents'' [''id''] ''RESTRICT''),
       (Unnamed, Primary_key [''id''])]
     []"

definition StagingAcceptanceInvalidation_table :: table_def where
  "StagingAcceptanceInvalidation_table = table ''staging_acceptance_invalidations''
     [required ''id'' Uuid_type,
       required ''acceptance_id'' Uuid_type,
       required ''reason_code'' (String_type 64),
       defaulted ''invalidated_at'' DateTime_type now_default]
     [(Named ''uq_staging_acceptance_invalidations_acceptance_id'', Unique_over [''acceptance_id'']),
       (Unnamed, Refers_to [''acceptance_id''] ''staging_acceptances'' [''id''] ''RESTRICT''),
       (Unnamed, Primary_key [''id''])]
     []"

definition DeploymentApprovalBinding_table :: table_def where
  "DeploymentApprovalBinding_table = table ''deployment_approval_bindings''
     [required ''id'' Uuid_type,
       required ''deployment_id'' Uuid_type,
       required ''approval_request_id'' Uuid_type,
       required ''repository'' (String_type 200),
       required ''target_sha'' (String_type 40),
       required ''target_environment'' (String_type 32),
       required ''action_code'' (String_type 32),
       required ''artifact_digest'' (String_type 71),
       required ''requester_identity_fingerprint'' (String_type 64),
       required ''requester_user_id'' Uuid_type,
       defaulted ''bound_at'' DateTime_type now_default]
     [(Named ''target_sha'', Check_that (Fits_regex ''target_sha'' SHA_REGEX)),
       (Named ''artifact_digest'', Check_that (Fits_regex ''artifact_digest'' DIGEST_REGEX)),
       (Named ''requester_fingerprint'', Check_that (Fits_regex ''requester_identity_fingerprint''
         FINGERPRINT_REGEX)),
       (Named ''environment'', Check_that (Text_is ''target_environment'' ''production'')),
       (Named ''action_code'', Check_that (Text_in ''action_code'' [''production_deploy'',
         ''rollback_production''])),
       (Named ''uq_deployment_approval_bindings_deployment_id'', Unique_over [''deployment_id'']),
       (Named ''uq_deployment_approval_bindings_request_id'', Unique_over [''approval_request_id'']),
       (Unnamed, Refers_to [''deployment_id''] ''deployment_intents'' [''id''] ''RESTRICT''),
       (Unnamed, Refers_to [''approval_request_id''] ''approval_requests'' [''id''] ''RESTRICT''),
       (Unnamed, Refers_to [''requester_user_id''] ''users'' [''id''] ''RESTRICT''),
       (Unnamed, Primary_key [''id''])]
     []"

definition DeploymentApprovalConsumption_table :: table_def where
  "DeploymentApprovalConsumption_table = table ''deployment_approval_consumptions''
     [required ''id'' Uuid_type,
       required ''deployment_id'' Uuid_type,
       required ''approval_request_id'' Uuid_type,
       required ''approval_decision_id'' Uuid_type,
       required ''state_event_id'' Uuid_type,
       required ''consumed_at'' DateTime_type]
     [(Named ''uq_deployment_approval_consumptions_deployment_id'', Unique_over [''deployment_id'']),
       (Named ''uq_deployment_approval_consumptions_request_id'', Unique_over [''approval_request_id'']),
       (Named ''uq_deployment_approval_consumptions_decision_id'', Unique_over
         [''approval_decision_id'']),
       (Unnamed, Refers_to [''deployment_id''] ''deployment_intents'' [''id''] ''RESTRICT''),
       (Unnamed, Refers_to [''approval_request_id''] ''approval_requests'' [''id''] ''RESTRICT''),
       (Unnamed, Refers_to [''approval_decision_id''] ''approval_decisions'' [''id''] ''RESTRICT''),
       (Unnamed, Refers_to [''state_event_id''] ''deployment_state_events'' [''id''] ''RESTRICT''),
       (Unnamed, Primary_key [''id''])]
     []"

definition DeploymentLock_table :: table_def where
  "DeploymentLock_table = table ''deployment_locks''
     [required ''conflict_domain'' (String_type 100),
       required ''environment'' (String_type 32),
       required ''deployment_id'' Uuid_type,
       required ''owner_identity'' (String_type 200),
       required ''fencing_token'' BigInteger_type,
       required ''acquired_at'' DateTime_type,
       required ''renewed_at'' DateTime_type,
       required ''lease_expires_at'' DateTime_type,
       nullable ''stale_reconciled_at'' DateTime_type,
       nullable ''stale_reconciled_token'' BigInteger_type,
       nullable ''stale_reconciliation_evidence_key'' (String_type 200)]
     [(Named ''environment'', Check_that (Text_is ''environment'' ''production'')),
       (Named ''lease'', Check_that (Later ''lease_expires_at'' ''acquired_at'')),
       (Named ''canonical_conflict_domain'', Check_that (Text_is ''conflict_domain''
         ''production:global'')),
       (Named ''fencing_token'', Check_that (Above ''fencing_token'' 0)),
       (Unnamed, Refers_to [''deployment_id''] ''deployment_intents'' [''id''] ''RESTRICT''),
       (Unnamed, Primary_key [''conflict_domain''])]
     []"

definition DeploymentExecutionAttempt_table :: table_def where
  "DeploymentExecutionAttempt_table = table ''deployment_execution_attempts''
     [required ''id'' Uuid_type,
       required ''deployment_id'' Uuid_type,
       required ''execution_key'' (String_type 200),
       required ''executor_identity'' (String_type 200),
       required ''fencing_token'' BigInteger_type,
       required ''intent_hash'' (String_type 64),
       defaulted ''created_at'' DateTime_type now_default]
     [(Named ''fencing_token'', Check_that (Above ''fencing_token'' 0)),
       (Named ''uq_deployment_execution_attempts_deployment_id'', Unique_over [''deployment_id'']),
       (Named ''uq_deployment_execution_attempts_execution_key'', Unique_over [''execution_key'']),
       (Unnamed, Refers_to [''deployment_id''] ''deployment_intents'' [''id''] ''RESTRICT''),
       (Unnamed, Primary_key [''id''])]
     []"

definition DeploymentEvidence_table :: table_def where
  "DeploymentEvidence_table = table ''deployment_evidence''
     [required ''id'' Uuid_type,
       required ''deployment_id'' Uuid_type,
       required ''evidence_type'' (String_type 64),
       required ''evidence_key'' (String_type 200),
       required ''status_code'' (String_type 16),
       required ''payload'' JSONB_type,
       defaulted ''occurred_at'' DateTime_type now_default]
     [(Named ''status_code'', Check_that (Text_in ''status_code'' [''pending'', ''passed'',
         ''failed'', ''recorded''])),
       (Named ''uq_deployment_evidence_identity'', Unique_over [''deployment_id'', ''evidence_type'',
         ''evidence_key'']),
       (Unnamed, Refers_to [''deployment_id''] ''deployment_intents'' [''id''] ''RESTRICT''),
       (Unnamed, Primary_key [''id''])]
     [plain_index ''ix_deployment_evidence_deployment_occurred'' [''deployment_id'', ''occurred_at'']]"

definition DeploymentRollback_table :: table_def where
  "DeploymentRollback_table = table ''deployment_rollbacks''
     [required ''id'' Uuid_type,
       required ''deployment_id'' Uuid_type,
       required ''failed_deployment_id'' Uuid_type,
       required ''current_production_sha'' (String_type 40),
       required ''rollback_target_sha'' (String_type 40),
       required ''rollback_artifact_digest'' (String_type 71),
       defaulted ''created_at'' DateTime_type now_default]
     [(Named ''sha'', Check_that (Both (Fits_regex ''current_production_sha'' SHA_REGEX) (Fits_regex
         ''rollback_target_sha'' SHA_REGEX))),
       (Named ''artifact_digest'', Check_that (Fits_regex ''rollback_artifact_digest'' DIGEST_REGEX)),
       (Named ''uq_deployment_rollbacks_deployment_id'', Unique_over [''deployment_id'']),
       (Unnamed, Refers_to [''deployment_id''] ''deployment_intents'' [''id''] ''RESTRICT''),
       (Unnamed, Refers_to [''failed_deployment_id''] ''deployment_intents'' [''id''] ''RESTRICT''),
       (Unnamed, Primary_key [''id''])]
     []"

definition metadata :: "table_def list" where
  "metadata = [User_table, ExternalIdentity_table, Principal_table, Entity_table, RawInput_table,
    ApprovalRequest_table, ApprovalDecision_table, DeploymentIntent_table, DeploymentArtifact_table,
    DeploymentStateEvent_table, StagingAcceptance_table, StagingAcceptanceInvalidation_table,
    DeploymentApprovalBinding_table, DeploymentApprovalConsumption_table, DeploymentLock_table,
    DeploymentExecutionAttempt_table, DeploymentEvidence_table, DeploymentRollback_table]"

lemmas metadata_tables =
  User_table_def ExternalIdentity_table_def Principal_table_def Entity_table_def RawInput_table_def
    ApprovalRequest_table_def ApprovalDecision_table_def DeploymentIntent_table_def
    DeploymentArtifact_table_def DeploymentStateEvent_table_def StagingAcceptance_table_def
    StagingAcceptanceInvalidation_table_def DeploymentApprovalBinding_table_def
    DeploymentApprovalConsumption_table_def DeploymentLock_table_def
    DeploymentExecutionAttempt_table_def DeploymentEvidence_table_def DeploymentRollback_table_def

lemmas metadata_parts =
  metadata_tables [THEN table_parts(1)] metadata_tables [THEN table_parts(2)]
  metadata_tables [THEN table_parts(4)] metadata_tables [THEN table_parts(5)]

end
