(* ===== verification/Migrations.thy ===== *)
theory Migrations
  imports Metadata
begin

text \<open>
  The four revisions of \<^verbatim>\<open>alembic/versions\<close>: the tables they create, and \<open>upgrade\<close> and \<open>downgrade\<close> of each
  as the list of its statements.
\<close>

section \<open>The first tables\<close>

definition users_0001 :: table_def where
  "users_0001 = table ''users''
     [required ''id'' Uuid_type,
       required ''display_name'' (String_type 100),
       defaulted ''timezone'' (String_type 64) (Literal ''Europe/Berlin''),
       defaulted ''locale'' (String_type 16) (Literal ''zh-CN''),
       defaulted ''default_units'' JSONB_type empty_json_default,
       defaulted ''privacy_settings'' JSONB_type empty_json_default,
       defaulted ''created_at'' DateTime_type now_default,
       defaulted ''updated_at'' DateTime_type now_default]
     [(Unnamed, Primary_key [''id''])]
     []"

definition entities_0001 :: table_def where
  "entities_0001 = table ''entities''
     [required ''id'' Uuid_type,
       required ''user_id'' Uuid_type,
       required ''entity_type'' (String_type 64),
       nullable ''title'' (String_type 300),
       nullable ''status_code'' (String_type 64),
       defaulted ''source_code'' (String_type 64) (Literal ''system''),
       defaulted ''version'' Integer_type (Literal ''1''),
       defaulted ''metadata'' JSONB_type empty_json_default,
       defaulted ''created_at'' DateTime_type now_default,
       defaulted ''updated_at'' DateTime_type now_default,
       nullable ''deleted_at'' DateTime_type]
     [(Unnamed, Refers_to [''user_id''] ''users'' [''id''] ''RESTRICT''),
       (Unnamed, Primary_key [''id''])]
     []"

definition raw_inputs_0001 :: table_def where
  "raw_inputs_0001 = table ''raw_inputs''
     [required ''id'' Uuid_type,
       required ''user_id'' Uuid_type,
       required ''channel_code'' (String_type 32),
       nullable ''external_message_id'' (String_type 200),
       required ''input_type'' (String_type 32),
       nullable ''text_content'' Text_type,
       defaulted ''received_at'' DateTime_type now_default,
       defaulted ''processing_status'' (String_type 32) (Literal ''pending''),
       defaulted ''metadata'' JSONB_type empty_json_default,
       defaulted ''created_at'' DateTime_type now_default]
     [(Unnamed, Refers_to [''user_id''] ''users'' [''id''] ''RESTRICT''),
       (Unnamed, Primary_key [''id'']),
       (Named ''uq_raw_inputs_channel_message'', Unique_over [''channel_code'',
         ''external_message_id''])]
     []"

definition upgrade_0001 :: "ddl list" where
  "upgrade_0001 =
     [Create_schema,
      Create_table users_0001,
      Create_table entities_0001,
      Create_index ''entities'' (plain_index ''ix_entities_user_type_status'' [''user_id'',
        ''entity_type'', ''status_code'']),
      Create_table raw_inputs_0001,
      Create_index ''raw_inputs'' (plain_index ''ix_raw_inputs_user_received'' [''user_id'',
        ''received_at''])]"

definition downgrade_0001 :: "ddl list" where
  "downgrade_0001 =
     [Drop_index ''ix_raw_inputs_user_received'' ''raw_inputs'',
      Drop_table ''raw_inputs'',
      Drop_index ''ix_entities_user_type_status'' ''entities'',
      Drop_table ''entities'',
      Drop_table ''users'',
      Drop_schema]"

section \<open>The approvals\<close>

definition approval_requests_0002 :: table_def where
  "approval_requests_0002 = table ''approval_requests''
     [required ''id'' Uuid_type,
       required ''user_id'' Uuid_type,
       required ''action_code'' (String_type 32),
       required ''repository'' (String_type 200),
       nullable ''pull_request_number'' Integer_type,
       required ''target_sha'' (String_type 40),
       required ''target_environment'' (String_type 32),
       required ''idempotency_key'' (String_type 200),
       defaulted ''requested_at'' DateTime_type now_default,
       required ''expires_at'' DateTime_type]
     [(Named ''action_code'', Check_that (Text_in ''action_code'' [''development_plan'', ''merge_pr'',
         ''production_deploy''])),
       (Named ''target_environment'', Check_that (Text_in ''target_environment'' [''development'',
         ''staging'', ''production''])),
       (Named ''target_sha'', Check_that (Fits_regex ''target_sha'' SHA_REGEX)),
       (Named ''pr_number'', Check_that (Either (Is_null ''pull_request_number'') (Above
         ''pull_request_number'' 0))),
       (Named ''expiry'', Check_that (Later ''expires_at'' ''requested_at'')),
       (Named ''action_target'', Check_that (Either (Either (Both (Text_is ''action_code''
         ''development_plan'') (Text_is ''target_environment'' ''development'')) (Both (Both (Text_is
         ''action_code'' ''merge_pr'') (Text_is ''target_environment'' ''staging'')) (Is_not_null
         ''pull_request_number''))) (Both (Text_is ''action_code'' ''production_deploy'') (Text_is
         ''target_environment'' ''production'')))),
       (Unnamed, Refers_to [''user_id''] ''users'' [''id''] ''RESTRICT''),
       (Unnamed, Primary_key [''id'']),
       (Named ''uq_approval_requests_idempotency_key'', Unique_over [''idempotency_key''])]
     []"

definition approval_decisions_0002 :: table_def where
  "approval_decisions_0002 = table ''approval_decisions''
     [required ''id'' Uuid_type,
       required ''request_id'' Uuid_type,
       required ''decision_code'' (String_type 16),
       required ''actor_user_id'' Uuid_type,
       required ''approver_identity_fingerprint'' (String_type 64),
       required ''feishu_event_id'' (String_type 200),
       defaulted ''decided_at'' DateTime_type now_default]
     [(Named ''decision_code'', Check_that (Text_in ''decision_code'' [''approved'', ''rejected''])),
       (Named ''identity_fingerprint'', Check_that (Fits_regex ''approver_identity_fingerprint''
         FINGERPRINT_REGEX)),
       (Unnamed, Refers_to [''actor_user_id''] ''users'' [''id''] ''RESTRICT''),
       (Unnamed, Refers_to [''request_id''] ''approval_requests'' [''id''] ''RESTRICT''),
       (Unnamed, Primary_key [''id'']),
       (Named ''uq_approval_decisions_request_id'', Unique_over [''request_id'']),
       (Named ''uq_approval_decisions_feishu_event_id'', Unique_over [''feishu_event_id''])]
     []"

definition upgrade_0002 :: "ddl list" where
  "upgrade_0002 =
     [Create_table approval_requests_0002,
      Create_index ''approval_requests'' (plain_index ''ix_approval_requests_user_requested''
        [''user_id'', ''requested_at'']),
      Create_index ''approval_requests'' (plain_index ''ix_approval_requests_target'' [''action_code'',
        ''target_sha'', ''expires_at'']),
      Create_table approval_decisions_0002,
      Create_index ''approval_decisions'' (plain_index ''ix_approval_decisions_actor_decided''
        [''actor_user_id'', ''decided_at'']),
      Create_function ''reject_approval_decision_mutation'',
      Create_trigger ''trg_approval_decisions_append_only'' ''approval_decisions''
        ''reject_approval_decision_mutation'']"

definition downgrade_0002 :: "ddl list" where
  "downgrade_0002 =
     [Drop_trigger ''trg_approval_decisions_append_only'' ''approval_decisions'',
      Drop_function ''reject_approval_decision_mutation'',
      Drop_index ''ix_approval_decisions_actor_decided'' ''approval_decisions'',
      Drop_table ''approval_decisions'',
      Drop_index ''ix_approval_requests_target'' ''approval_requests'',
      Drop_index ''ix_approval_requests_user_requested'' ''approval_requests'',
      Drop_table ''approval_requests'']"

section \<open>The controlled deployment\<close>

definition AUDIT_TABLES :: "string list" where
  "AUDIT_TABLES = [''deployment_intents'', ''deployment_artifacts'', ''deployment_state_events'',
    ''staging_acceptances'', ''staging_acceptance_invalidations'', ''deployment_approval_bindings'',
    ''deployment_approval_consumptions'', ''deployment_execution_attempts'', ''deployment_evidence'',
    ''deployment_rollbacks'']"

definition principals_0003 :: table_def where
  "principals_0003 = table ''principals''
     [required ''id'' Uuid_type,
       required ''principal_type'' (String_type 16),
       nullable ''user_id'' Uuid_type,
       required ''identity_key'' (String_type 200),
       defaulted ''created_at'' DateTime_type now_default]
     [(Final ''ck_principals_type'', Check_that (Text_in ''principal_type'' [''HUMAN'', ''SERVICE'',
         ''EXECUTOR''])),
       (Final ''ck_principals_human_user_binding'', Check_that (Either (Both (Text_is
         ''principal_type'' ''HUMAN'') (Is_not_null ''user_id'')) (Both (Text_in ''principal_type''
         [''SERVICE'', ''EXECUTOR'']) (Is_null ''user_id'')))),
       (Unnamed, Refers_to [''user_id''] ''users'' [''id''] ''RESTRICT''),
       (Final ''pk_principals'', Primary_key [''id'']),
       (Final ''uq_principals_user_id'', Unique_over [''user_id'']),
       (Final ''uq_principals_identity_key'', Unique_over [''identity_key''])]
     []"

definition external_identities_0003 :: table_def where
  "external_identities_0003 = table ''external_identities''
     [required ''id'' Uuid_type,
       required ''provider'' (String_type 32),
       required ''tenant_fingerprint'' (String_type 64),
       required ''subject_fingerprint'' (String_type 64),
       required ''principal_id'' Uuid_type,
       required ''mapping_version'' Integer_type,
       defaulted ''valid_from'' DateTime_type now_default,
       nullable ''valid_to'' DateTime_type,
       required ''audit_event_id'' Uuid_type]
     [(Final ''ck_external_identities_mapping_version'', Check_that (Above ''mapping_version'' 0)),
       (Final ''ck_external_identities_validity'', Check_that (Either (Is_null ''valid_to'') (Later
         ''valid_to'' ''valid_from''))),
       (Unnamed, Refers_to [''principal_id''] ''principals'' [''id''] ''RESTRICT''),
       (Final ''pk_external_identities'', Primary_key [''id'']),
       (Final ''uq_external_identities_mapping_version'', Unique_over [''provider'',
         ''tenant_fingerprint'', ''subject_fingerprint'', ''mapping_version''])]
     []"

definition deployment_intents_0003 :: table_def where
  "deployment_intents_0003 = table ''deployment_intents''
     [required ''id'' Uuid_type,
       required ''user_id'' Uuid_type,
       required ''requester_principal_id'' Uuid_type,
       required ''requester_external_identity_id'' Uuid_type,
       required ''intent_kind'' (String_type 16),
       required ''action_code'' (String_type 32),
       required ''repository'' (String_type 200),
       required ''target_sha'' (String_type 40),
       required ''target_environment'' (String_type 32),
       required ''artifact_digest'' (String_type 71),
       required ''requested_by_identity_fingerprint'' (String_type 64),
       required ''service_set'' JSONB_type,
       required ''migration_risk'' (String_type 16),
       nullable ''migration_revision'' (String_type 200),
       nullable ''rollback_runbook_ref'' (String_type 300),
       required ''config_fingerprint'' (String_type 71),
       required ''idempotency_key'' (String_type 200),
       defaulted ''created_at'' DateTime_type now_default]
     [(Final ''ck_deployment_intents_intent_kind'', Check_that (Text_in ''intent_kind'' [''deploy'',
         ''rollback''])),
       (Final ''ck_deployment_intents_action_code'', Check_that (Text_in ''action_code''
         [''production_deploy'', ''rollback_production''])),
       (Final ''ck_deployment_intents_kind_action'', Check_that (Either (Both (Text_is ''intent_kind''
         ''deploy'') (Text_is ''action_code'' ''production_deploy'')) (Both (Text_is ''intent_kind''
         ''rollback'') (Text_is ''action_code'' ''rollback_production'')))),
       (Final ''ck_deployment_intents_environment'', Check_that (Text_is ''target_environment''
         ''production'')),
       (Final ''ck_deployment_intents_target_sha'', Check_that (Fits_regex ''target_sha'' SHA_REGEX)),
       (Final ''ck_deployment_intents_artifact_digest'', Check_that (Fits_regex ''artifact_digest''
         DIGEST_REGEX)),
       (Final ''ck_deployment_intents_requester_fingerprint'', Check_that (Fits_regex
         ''requested_by_identity_fingerprint'' FINGERPRINT_REGEX)),
       (Final ''ck_deployment_intents_config_fingerprint'', Check_that (Fits_regex
         ''config_fingerprint'' DIGEST_REGEX)),
       (Final ''ck_deployment_intents_migration_risk'', Check_that (Text_in ''migration_risk''
         [''NONE'', ''LOW'', ''MEDIUM'', ''HIGH''])),
       (Final ''ck_deployment_intents_medium_migration_evidence'', Check_that (Either (Text_is_not
         ''migration_risk'' ''MEDIUM'') (Both (Is_not_null ''migration_revision'') (Is_not_null
         ''rollback_runbook_ref'')))),
       (Final ''fk_deployment_intents_user_id_users'', Refers_to [''user_id''] ''users'' [''id'']
         ''RESTRICT''),
       (Unnamed, Refers_to [''requester_principal_id''] ''principals'' [''id''] ''RESTRICT''),
       (Unnamed, Refers_to [''requester_external_identity_id''] ''external_identities'' [''id'']
         ''RESTRICT''),
       (Final ''pk_deployment_intents'', Primary_key [''id'']),
       (Final ''uq_deployment_intents_idempotency_key'', Unique_over [''idempotency_key''])]
     []"

definition deployment_artifacts_0003 :: table_def where
  "deployment_artifacts_0003 = table ''deployment_artifacts''
     [required ''id'' Uuid_type,
       required ''deployment_id'' Uuid_type,
       required ''repository'' (String_type 200),
       required ''target_sha'' (String_type 40),
       required ''digest'' (String_type 71),
       required ''image_reference'' (String_type 500),
       required ''service_images'' JSONB_type,
       required ''ci_run_id'' BigInteger_type,
       required ''ci_event'' (String_type 32),
       required ''ci_status'' (String_type 32),
       required ''ci_conclusion'' (String_type 32),
       required ''ci_head_sha'' (String_type 40),
       required ''quality_gate_conclusion'' (String_type 32),
       required ''protected_main_verified'' Boolean_type,
       required ''ci_workflow_name'' (String_type 200),
       required ''ci_repository'' (String_type 200),
       required ''ci_verified_at'' DateTime_type,
       required ''ci_provenance_source'' (String_type 64),
       required ''provenance'' JSONB_type,
       defaulted ''created_at'' DateTime_type now_default]
     [(Final ''ck_deployment_artifacts_digest'', Check_that (Fits_regex ''digest'' DIGEST_REGEX)),
       (Final ''ck_deployment_artifacts_sha'', Check_that (Both (Fits_regex ''target_sha'' SHA_REGEX)
         (Fits_regex ''ci_head_sha'' SHA_REGEX))),
       (Final ''ck_deployment_artifacts_ci_run_id'', Check_that (Above ''ci_run_id'' 0)),
       (Final ''ck_deployment_artifacts_ci_event'', Check_that (Text_is ''ci_event'' ''push'')),
       (Final ''ck_deployment_artifacts_ci_status'', Check_that (Text_is ''ci_status'' ''completed'')),
       (Final ''ck_deployment_artifacts_ci_conclusion'', Check_that (Text_is ''ci_conclusion''
         ''success'')),
       (Final ''ck_deployment_artifacts_quality_gate'', Check_that (Text_is ''quality_gate_conclusion''
         ''success'')),
       (Final ''ck_deployment_artifacts_ci_provenance_source'', Check_that (Text_is
         ''ci_provenance_source'' ''github_checks_api'')),
       (Final ''fk_deployment_artifacts_deployment_id_deployment_intents'', Refers_to
         [''deployment_id''] ''deployment_intents'' [''id''] ''RESTRICT''),
       (Final ''pk_deployment_artifacts'', Primary_key [''id'']),
       (Final ''uq_deployment_artifacts_deployment_id'', Unique_over [''deployment_id''])]
     []"

definition deployment_state_events_0003 :: table_def where
  "deployment_state_events_0003 = table ''deployment_state_events''
     [required ''id'' Uuid_type,
       required ''deployment_id'' Uuid_type,
       required ''sequence'' Integer_type,
       nullable ''from_state'' (String_type 64),
       required ''to_state'' (String_type 64),
       required ''event_code'' (String_type 64),
       required ''actor_identity_fingerprint'' (String_type 64),
       required ''evidence'' JSONB_type,
       defaulted ''occurred_at'' DateTime_type now_default]
     [(Final ''ck_deployment_state_events_sequence'', Check_that (Above ''sequence'' 0)),
       (Final ''ck_deployment_state_events_actor_fingerprint'', Check_that (Fits_regex
         ''actor_identity_fingerprint'' FINGERPRINT_REGEX)),
       (Final ''fk_deployment_state_events_deployment_id_deployment_intents'', Refers_to
         [''deployment_id''] ''deployment_intents'' [''id''] ''RESTRICT''),
       (Final ''pk_deployment_state_events'', Primary_key [''id'']),
       (Final ''uq_deployment_state_events_sequence'', Unique_over [''deployment_id'', ''sequence''])]
     []"

definition staging_acceptances_0003 :: table_def where
  "staging_acceptances_0003 = table ''staging_acceptances''
     [required ''id'' Uuid_type,
       required ''deployment_id'' Uuid_type,
       required ''repository'' (String_type 200),
       required ''target_sha'' (String_type 40),
       required ''artifact_digest'' (String_type 71),
       required ''environment'' (String_type 32),
       required ''validation_suite_version'' (String_type 100),
       required ''config_fingerprint'' (String_type 71),
       required ''accepted_by_identity_fingerprint'' (String_type 64),
       required ''completed_at'' DateTime_type,
       required ''valid_until'' DateTime_type]
     [(Final ''ck_staging_acceptances_environment'', Check_that (Text_is ''environment'' ''staging'')),
       (Final ''ck_staging_acceptances_target_sha'', Check_that (Fits_regex ''target_sha'' SHA_REGEX)),
       (Final ''ck_staging_acceptances_artifact_digest'', Check_that (Fits_regex ''artifact_digest''
         DIGEST_REGEX)),
       (Final ''ck_staging_acceptances_actor_fingerprint'', Check_that (Fits_regex
         ''accepted_by_identity_fingerprint'' FINGERPRINT_REGEX)),
       (Final ''ck_staging_acceptances_config_fingerprint'', Check_that (Fits_regex
         ''config_fingerprint'' DIGEST_REGEX)),
       (Final ''ck_staging_acceptances_validity'', Check_that (Later ''valid_until'' ''completed_at'')),
       (Final ''fk_staging_acceptances_deployment_id_deployment_intents'', Refers_to
         [''deployment_id''] ''deployment_intents'' [''id''] ''RESTRICT''),
       (Final ''pk_staging_acceptances'', Primary_key [''id'']),
       (Final ''uq_staging_acceptances_deployment_id'', Unique_over [''deployment_id''])]
     []"

definition staging_acceptance_invalidations_0003 :: table_def where
  "staging_acceptance_invalidations_0003 = table ''staging_acceptance_invalidations''
     [required ''id'' Uuid_type,
       required ''acceptance_id'' Uuid_type,
       required ''reason_code'' (String_type 64),
       defaulted ''invalidated_at'' DateTime_type now_default]
     [(Final ''fk_staging_acceptance_invalidations_acceptance_id_staging_acceptances'', Refers_to
         [''acceptance_id''] ''staging_acceptances'' [''id''] ''RESTRICT''),
       (Final ''pk_staging_acceptance_invalidations'', Primary_key [''id'']),
       (Final ''uq_staging_acceptance_invalidations_acceptance_id'', Unique_over [''acceptance_id''])]
     []"

definition deployment_approval_bindings_0003 :: table_def where
  "deployment_approval_bindings_0003 = table ''deployment_approval_bindings''
     [required ''id'' Uuid_type,
       required ''deployment_id'' Uuid_type,
       required ''approval_request_id'' Uuid_type,
       required ''repository'' (String_type 200),
       required ''target_sha'' (String_type 40),
       required ''target_environment'' (String_type 32),
       required ''action_code'' (String_type 32),
       required ''artifact_digest'' (String_type 71),
       required ''requester_identity_fingerprint'' (String_type 64),
       required ''requester_user_id'' Uuid_type,
       defaulted ''bound_at'' DateTime_type now_default]
     [(Final ''ck_deployment_approval_bindings_target_sha'', Check_that (Fits_regex ''target_sha''
         SHA_REGEX)),
       (Final ''ck_deployment_approval_bindings_artifact_digest'', Check_that (Fits_regex
         ''artifact_digest'' DIGEST_REGEX)),
       (Final ''ck_deployment_approval_bindings_requester_fingerprint'', Check_that (Fits_regex
         ''requester_identity_fingerprint'' FINGERPRINT_REGEX)),
       (Final ''ck_deployment_approval_bindings_environment'', Check_that (Text_is
         ''target_environment'' ''production'')),
       (Final ''ck_deployment_approval_bindings_action_code'', Check_that (Text_in ''action_code''
         [''production_deploy'', ''rollback_production''])),
       (Final ''fk_deployment_approval_bindings_deployment_id_deployment_intents'', Refers_to
         [''deployment_id''] ''deployment_intents'' [''id''] ''RESTRICT''),
       (Final ''fk_deployment_approval_bindings_approval_request_id_approval_requests'', Refers_to
         [''approval_request_id''] ''approval_requests'' [''id''] ''RESTRICT''),
       (Final ''fk_deployment_approval_bindings_requester_user_id_users'', Refers_to
         [''requester_user_id''] ''users'' [''id''] ''RESTRICT''),
       (Final ''pk_deployment_approval_bindings'', Primary_key [''id'']),
       (Final ''uq_deployment_approval_bindings_deployment_id'', Unique_over [''deployment_id'']),
       (Final ''uq_deployment_approval_bindings_request_id'', Unique_over [''approval_request_id''])]
     []"

definition deployment_approval_consumptions_0003 :: table_def where
  "deployment_approval_consumptions_0003 = table ''deployment_approval_consumptions''
     [required ''id'' Uuid_type,
       required ''deployment_id'' Uuid_type,
       required ''approval_request_id'' Uuid_type,
       required ''approval_decision_id'' Uuid_type,
       required ''state_event_id'' Uuid_type,
       required ''consumed_at'' DateTime_type]
     [(Final ''fk_deployment_approval_consumptions_deployment_id_deployment_intents'', Refers_to
         [''deployment_id''] ''deployment_intents'' [''id''] ''RESTRICT''),
       (Final ''fk_deployment_approval_consumptions_approval_request_id_approval_requests'', Refers_to
         [''approval_request_id''] ''approval_requests'' [''id''] ''RESTRICT''),
       (Final ''fk_deployment_approval_consumptions_approval_decision_id_approval_decisions'',
         Refers_to [''approval_decision_id''] ''approval_decisions'' [''id''] ''RESTRICT''),
       (Final ''fk_deployment_approval_consumptions_state_event_id_deployment_state_events'', Refers_to
         [''state_event_id''] ''deployment_state_events'' [''id''] ''RESTRICT''),
       (Final ''pk_deployment_approval_consumptions'', Primary_key [''id'']),
       (Final ''uq_deployment_approval_consumptions_deployment_id'', Unique_over [''deployment_id'']),
       (Final ''uq_deployment_approval_consumptions_request_id'', Unique_over [''approval_request_id'']),
       (Final ''uq_deployment_approval_consumptions_decision_id'', Unique_over
         [''approval_decision_id''])]
     []"

definition deployment_locks_0003 :: table_def where
  "deployment_locks_0003 = table ''deployment_locks''
     [required ''conflict_domain'' (String_type 100),
       required ''environment'' (String_type 32),
       required ''deployment_id'' Uuid_type,
       required ''owner_identity'' (String_type 200),
       required ''fencing_token'' BigInteger_type,
       required ''acquired_at'' DateTime_type,
       required ''renewed_at'' DateTime_type,
       required ''lease_expires_at'' DateTime_type,
       nullable ''stale_reconciled_at'' DateTime_type,
       nullable ''stale_reconciled_token'' BigInteger_type,
       nullable ''stale_reconciliation_evidence_key'' (String_type 200)]
     [(Final ''ck_deployment_locks_environment'', Check_that (Text_is ''environment'' ''production'')),
       (Final ''ck_deployment_locks_lease'', Check_that (Later ''lease_expires_at'' ''acquired_at'')),
       (Final ''ck_deployment_locks_canonical_conflict_domain'', Check_that (Text_is
         ''conflict_domain'' ''production:global'')),
       (Final ''ck_deployment_locks_fencing_token'', Check_that (Above ''fencing_token'' 0)),
       (Final ''fk_deployment_locks_deployment_id_deployment_intents'', Refers_to [''deployment_id'']
         ''deployment_intents'' [''id''] ''RESTRICT''),
       (Final ''pk_deployment_locks'', Primary_key [''conflict_domain''])]
     []"

definition deployment_execution_attempts_0003 :: table_def where
  "deployment_execution_attempts_0003 = table ''deployment_execution_attempts''
     [required ''id'' Uuid_type,
       required ''deployment_id'' Uuid_type,
       required ''execution_key'' (String_type 200),
       required ''executor_identity'' (String_type 200),
       required ''fencing_token'' BigInteger_type,
       required ''intent_hash'' (String_type 64),
       defaulted ''created_at'' DateTime_type now_default]
     [(Final ''ck_deployment_execution_attempts_fencing_token'', Check_that (Above ''fencing_token''
         0)),
       (Final ''fk_deployment_execution_attempts_deployment_id_deployment_intents'', Refers_to
         [''deployment_id''] ''deployment_intents'' [''id''] ''RESTRICT''),
       (Final ''pk_deployment_execution_attempts'', Primary_key [''id'']),
       (Final ''uq_deployment_execution_attempts_deployment_id'', Unique_over [''deployment_id'']),
       (Final ''uq_deployment_execution_attempts_execution_key'', Unique_over [''execution_key''])]
     []"

definition deployment_evidence_0003 :: table_def where
  "deployment_evidence_0003 = table ''deployment_evidence''
     [required ''id'' Uuid_type,
       required ''deployment_id'' Uuid_type,
       required ''evidence_type'' (String_type 64),
       required ''evidence_key'' (String_type 200),
       required ''status_code'' (String_type 16),
       required ''payload'' JSONB_type,
       defaulted ''occurred_at'' DateTime_type now_default]
     [(Final ''ck_deployment_evidence_status_code'', Check_that (Text_in ''status_code'' [''pending'',
         ''passed'', ''failed'', ''recorded''])),
       (Final ''fk_deployment_evidence_deployment_id_deployment_intents'', Refers_to
         [''deployment_id''] ''deployment_intents'' [''id''] ''RESTRICT''),
       (Final ''pk_deployment_evidence'', Primary_key [''id'']),
       (Final ''uq_deployment_evidence_identity'', Unique_over [''deployment_id'', ''evidence_type'',
         ''evidence_key''])]
     []"

definition deployment_rollbacks_0003 :: table_def where
  "deployment_rollbacks_0003 = table ''deployment_rollbacks''
     [required ''id'' Uuid_type,
       required ''deployment_id'' Uuid_type,
       required ''failed_deployment_id'' Uuid_type,
       required ''current_production_sha'' (String_type 40),
       required ''rollback_target_sha'' (String_type 40),
       required ''rollback_artifact_digest'' (String_type 71),
       defaulted ''created_at'' DateTime_type now_default]
     [(Final ''ck_deployment_rollbacks_sha'', Check_that (Both (Fits_regex ''current_production_sha''
         SHA_REGEX) (Fits_regex ''rollback_target_sha'' SHA_REGEX))),
       (Final ''ck_deployment_rollbacks_artifact_digest'', Check_that (Fits_regex
         ''rollback_artifact_digest'' DIGEST_REGEX)),
       (Final ''fk_deployment_rollbacks_deployment_id_deployment_intents'', Refers_to
         [''deployment_id''] ''deployment_intents'' [''id''] ''RESTRICT''),
       (Final ''fk_deployment_rollbacks_failed_deployment_id_deployment_intents'', Refers_to
         [''failed_deployment_id''] ''deployment_intents'' [''id''] ''RESTRICT''),
       (Final ''pk_deployment_rollbacks'', Primary_key [''id'']),
       (Final ''uq_deployment_rollbacks_deployment_id'', Unique_over [''deployment_id''])]
     []"

definition upgrade_0003_identities :: "ddl list" where
  "upgrade_0003_identities =
     [Create_table principals_0003,
      Create_table external_identities_0003,
      Create_index ''external_identities'' \<lparr>ix_name = ''uq_external_identities_active_subject'',
        ix_columns = [''provider'', ''tenant_fingerprint'', ''subject_fingerprint''], ix_unique = True,
        ix_where = Some (Is_null ''valid_to'')\<rparr>,
      Create_function ''protect_external_identity_history'',
      Create_trigger ''trg_external_identities_history'' ''external_identities''
        ''protect_external_identity_history'',
      Add_column ''approval_decisions'' (nullable ''actor_external_identity_id'' Uuid_type),
      Add_constraint ''approval_decisions'' (Final
        ''fk_approval_decisions_actor_external_identity_id_external_identities'') (Refers_to
        [''actor_external_identity_id''] ''external_identities'' [''id''] ''RESTRICT'')]"

definition upgrade_0003_requests :: "ddl list" where
  "upgrade_0003_requests =
     [Drop_constraint ''ck_approval_requests_action_code'' ''approval_requests'',
      Drop_constraint ''ck_approval_requests_action_target'' ''approval_requests'',
      Add_constraint ''approval_requests'' (Named ''action_code'') (Check_that (Text_in ''action_code''
        [''development_plan'', ''merge_pr'', ''production_deploy'', ''rollback_production''])),
      Add_constraint ''approval_requests'' (Named ''action_target'') (Check_that (Either (Either (Both
        (Text_is ''action_code'' ''development_plan'') (Text_is ''target_environment''
        ''development'')) (Both (Both (Text_is ''action_code'' ''merge_pr'') (Text_is
        ''target_environment'' ''staging'')) (Is_not_null ''pull_request_number''))) (Both (Text_in
        ''action_code'' [''production_deploy'', ''rollback_production'']) (Text_is
        ''target_environment'' ''production'')))),
      Create_table deployment_intents_0003,
      Create_index ''deployment_intents'' (plain_index ''ix_deployment_intents_target''
        [''repository'', ''target_sha'', ''created_at'']),
      Add_column ''approval_requests'' (nullable ''deployment_id'' Uuid_type),
      Add_column ''approval_requests'' (nullable ''artifact_digest'' (String_type 71)),
      Add_constraint ''approval_requests'' (Final
        ''fk_approval_requests_deployment_id_deployment_intents'') (Refers_to [''deployment_id'']
        ''deployment_intents'' [''id''] ''RESTRICT''),
      Add_constraint ''approval_requests'' (Named ''deployment_binding'') (Check_that (Either (Both
        (Is_null ''deployment_id'') (Is_null ''artifact_digest'')) (Both (Is_not_null
        ''deployment_id'') (Fits_regex ''artifact_digest'' DIGEST_REGEX))))]"

definition upgrade_0003_records :: "ddl list" where
  "upgrade_0003_records =
     [Create_table deployment_artifacts_0003,
      Create_index ''deployment_artifacts'' (plain_index ''ix_deployment_artifacts_digest''
        [''digest'']),
      Create_table deployment_state_events_0003,
      Create_index ''deployment_state_events'' (plain_index
        ''ix_deployment_state_events_deployment_occurred'' [''deployment_id'', ''occurred_at'']),
      Create_table staging_acceptances_0003,
      Create_table staging_acceptance_invalidations_0003]"

definition upgrade_0003_executions :: "ddl list" where
  "upgrade_0003_executions =
     [Create_table deployment_approval_bindings_0003,
      Create_table deployment_approval_consumptions_0003,
      Create_table deployment_locks_0003,
      Create_table deployment_execution_attempts_0003,
      Create_table deployment_evidence_0003,
      Create_index ''deployment_evidence'' (plain_index ''ix_deployment_evidence_deployment_occurred''
        [''deployment_id'', ''occurred_at'']),
      Create_table deployment_rollbacks_0003]"

definition upgrade_0003_audit :: "ddl list" where
  "upgrade_0003_audit =
     [Create_function ''reject_deployment_audit_mutation''] @
     map (\<lambda>t. Create_trigger (''trg_'' @ t @ ''_append_only'') t ''reject_deployment_audit_mutation'')
       AUDIT_TABLES"

definition upgrade_0003 :: "ddl list" where
  "upgrade_0003 = upgrade_0003_identities @ upgrade_0003_requests @ upgrade_0003_records @
    upgrade_0003_executions @ upgrade_0003_audit"

definition downgrade_0003 :: "ddl list" where
  "downgrade_0003 =
     map (\<lambda>t. Drop_trigger (''trg_'' @ t @ ''_append_only'') t)
       (rev AUDIT_TABLES) @
     [Drop_function ''reject_deployment_audit_mutation'',
      Drop_table ''deployment_rollbacks'',
      Drop_index ''ix_deployment_evidence_deployment_occurred'' ''deployment_evidence'',
      Drop_table ''deployment_evidence'',
      Drop_table ''deployment_execution_attempts'',
      Drop_table ''deployment_locks'',
      Drop_table ''deployment_approval_consumptions'',
      Drop_table ''deployment_approval_bindings'',
      Drop_table ''staging_acceptance_invalidations'',
      Drop_table ''staging_acceptances'',
      Drop_index ''ix_deployment_state_events_deployment_occurred'' ''deployment_state_events'',
      Drop_table ''deployment_state_events'',
      Drop_index ''ix_deployment_artifacts_digest'' ''deployment_artifacts'',
      Drop_table ''deployment_artifacts'',
      Drop_trigger ''trg_external_identities_history'' ''external_identities'',
      Drop_function ''protect_external_identity_history'',
      Drop_constraint ''fk_approval_decisions_actor_external_identity_id_external_identities''
        ''approval_decisions'',
      Drop_column ''approval_decisions'' ''actor_external_identity_id'',
      Drop_table ''external_identities'',
      Drop_table ''principals'',
      Drop_constraint ''ck_approval_requests_deployment_binding'' ''approval_requests'',
      Drop_constraint ''fk_approval_requests_deployment_id_deployment_intents'' ''approval_requests'',
      Drop_column ''approval_requests'' ''artifact_digest'',
      Drop_column ''approval_requests'' ''deployment_id'',
      Drop_index ''ix_deployment_intents_target'' ''deployment_intents'',
      Drop_table ''deployment_intents'',
      Drop_constraint ''ck_approval_requests_action_target'' ''approval_requests'',
      Drop_constraint ''ck_approval_requests_action_code'' ''approval_requests'',
      Add_constraint ''approval_requests'' (Named ''action_code'') (Check_that (Text_in ''action_code''
        [''development_plan'', ''merge_pr'', ''production_deploy''])),
      Add_constraint ''approval_requests'' (Named ''action_target'') (Check_that (Either (Either (Both
        (Text_is ''action_code'' ''development_plan'') (Text_is ''target_environment''
        ''development'')) (Both (Both (Text_is ''action_code'' ''merge_pr'') (Text_is
        ''target_environment'' ''staging'')) (Is_not_null ''pull_request_number''))) (Both (Text_is
        ''action_code'' ''production_deploy'') (Text_is ''target_environment'' ''production''))))]"

section \<open>The identifier of the card\<close>

definition upgrade_0004 :: "ddl list" where
  "upgrade_0004 =
     [Add_column ''approval_requests'' (nullable ''card_message_id'' (String_type 200))]"

definition downgrade_0004 :: "ddl list" where
  "downgrade_0004 =
     [Drop_column ''approval_requests'' ''card_message_id'']"

section \<open>The catalogue after each upgrade\<close>

lemmas migration_tables =
  users_0001_def entities_0001_def raw_inputs_0001_def approval_requests_0002_def
    approval_decisions_0002_def principals_0003_def external_identities_0003_def
    deployment_intents_0003_def deployment_artifacts_0003_def deployment_state_events_0003_def
    staging_acceptances_0003_def staging_acceptance_invalidations_0003_def
    deployment_approval_bindings_0003_def deployment_approval_consumptions_0003_def
    deployment_locks_0003_def deployment_execution_attempts_0003_def deployment_evidence_0003_def
    deployment_rollbacks_0003_def

definition entities_at_0001 :: table_def where
  "entities_at_0001 = with_index (plain_index ''ix_entities_user_type_status'' [''user_id'',
    ''entity_type'', ''status_code'']) entities_0001"

definition raw_inputs_at_0001 :: table_def where
  "raw_inputs_at_0001 = with_index (plain_index ''ix_raw_inputs_user_received'' [''user_id'',
    ''received_at'']) raw_inputs_0001"

definition catalogue_0001 :: catalogue where
  "catalogue_0001 =
     \<lparr>ca_schema = True,
      ca_tables = [users_0001, entities_at_0001, raw_inputs_at_0001],
      ca_functions = [],
      ca_triggers = []\<rparr>"

definition approval_requests_at_0002 :: table_def where
  "approval_requests_at_0002 = with_index (plain_index ''ix_approval_requests_target''
    [''action_code'', ''target_sha'', ''expires_at'']) (with_index (plain_index
    ''ix_approval_requests_user_requested'' [''user_id'', ''requested_at'']) approval_requests_0002)"

definition approval_decisions_at_0002 :: table_def where
  "approval_decisions_at_0002 = with_index (plain_index ''ix_approval_decisions_actor_decided''
    [''actor_user_id'', ''decided_at'']) approval_decisions_0002"

definition catalogue_0002 :: catalogue where
  "catalogue_0002 =
     \<lparr>ca_schema = True,
      ca_tables = [users_0001, entities_at_0001, raw_inputs_at_0001, approval_requests_at_0002,
        approval_decisions_at_0002],
      ca_functions = [''reject_approval_decision_mutation''],
      ca_triggers = [(''trg_approval_decisions_append_only'', ''approval_decisions'',
        ''reject_approval_decision_mutation'')]\<rparr>"

definition approval_decisions_at_0003_identities :: table_def where
  "approval_decisions_at_0003_identities = with_constraint
    ''fk_approval_decisions_actor_external_identity_id_external_identities'' (Refers_to
    [''actor_external_identity_id''] ''external_identities'' [''id''] ''RESTRICT'') (with_column
    (nullable ''actor_external_identity_id'' Uuid_type) approval_decisions_at_0002)"

definition external_identities_at_0003_identities :: table_def where
  "external_identities_at_0003_identities = with_index (\<lparr>ix_name =
    ''uq_external_identities_active_subject'', ix_columns = [''provider'', ''tenant_fingerprint'',
    ''subject_fingerprint''], ix_unique = True, ix_where = Some (Is_null ''valid_to'')\<rparr>)
    external_identities_0003"

definition catalogue_0003_identities :: catalogue where
  "catalogue_0003_identities =
     \<lparr>ca_schema = True,
      ca_tables = [users_0001, entities_at_0001, raw_inputs_at_0001, approval_requests_at_0002,
        approval_decisions_at_0003_identities, principals_0003, external_identities_at_0003_identities],
      ca_functions = [''reject_approval_decision_mutation'', ''protect_external_identity_history''],
      ca_triggers = [(''trg_approval_decisions_append_only'', ''approval_decisions'',
        ''reject_approval_decision_mutation'')] @ [(''trg_external_identities_history'',
        ''external_identities'', ''protect_external_identity_history'')]\<rparr>"

definition approval_requests_at_0003_requests :: table_def where
  "approval_requests_at_0003_requests = with_constraint ''ck_approval_requests_deployment_binding''
    (Check_that (Either (Both (Is_null ''deployment_id'') (Is_null ''artifact_digest'')) (Both
    (Is_not_null ''deployment_id'') (Fits_regex ''artifact_digest'' DIGEST_REGEX)))) (with_constraint
    ''fk_approval_requests_deployment_id_deployment_intents'' (Refers_to [''deployment_id'']
    ''deployment_intents'' [''id''] ''RESTRICT'') (with_column (nullable ''artifact_digest''
    (String_type 71)) (with_column (nullable ''deployment_id'' Uuid_type) (with_constraint
    ''ck_approval_requests_action_target'' (Check_that (Either (Either (Both (Text_is ''action_code''
    ''development_plan'') (Text_is ''target_environment'' ''development'')) (Both (Both (Text_is
    ''action_code'' ''merge_pr'') (Text_is ''target_environment'' ''staging'')) (Is_not_null
    ''pull_request_number''))) (Both (Text_in ''action_code'' [''production_deploy'',
    ''rollback_production'']) (Text_is ''target_environment'' ''production'')))) (with_constraint
    ''ck_approval_requests_action_code'' (Check_that (Text_in ''action_code'' [''development_plan'',
    ''merge_pr'', ''production_deploy'', ''rollback_production''])) (without_constraint
    ''ck_approval_requests_action_target'' (without_constraint ''ck_approval_requests_action_code''
    approval_requests_at_0002)))))))"

definition deployment_intents_at_0003_requests :: table_def where
  "deployment_intents_at_0003_requests = with_index (plain_index ''ix_deployment_intents_target''
    [''repository'', ''target_sha'', ''created_at'']) deployment_intents_0003"

definition catalogue_0003_requests :: catalogue where
  "catalogue_0003_requests =
     \<lparr>ca_schema = True,
      ca_tables = [users_0001, entities_at_0001, raw_inputs_at_0001,
        approval_requests_at_0003_requests, approval_decisions_at_0003_identities, principals_0003,
        external_identities_at_0003_identities, deployment_intents_at_0003_requests],
      ca_functions = [''reject_approval_decision_mutation'', ''protect_external_identity_history''],
      ca_triggers = [(''trg_approval_decisions_append_only'', ''approval_decisions'',
        ''reject_approval_decision_mutation'')] @ [(''trg_external_identities_history'',
        ''external_identities'', ''protect_external_identity_history'')]\<rparr>"

definition deployment_artifacts_at_0003_records :: table_def where
  "deployment_artifacts_at_0003_records = with_index (plain_index ''ix_deployment_artifacts_digest''
    [''digest'']) deployment_artifacts_0003"

definition deployment_state_events_at_0003_records :: table_def where
  "deployment_state_events_at_0003_records = with_index (plain_index
    ''ix_deployment_state_events_deployment_occurred'' [''deployment_id'', ''occurred_at''])
    deployment_state_events_0003"

definition catalogue_0003_records :: catalogue where
  "catalogue_0003_records =
     \<lparr>ca_schema = True,
      ca_tables = [users_0001, entities_at_0001, raw_inputs_at_0001,
        approval_requests_at_0003_requests, approval_decisions_at_0003_identities, principals_0003,
        external_identities_at_0003_identities, deployment_intents_at_0003_requests,
        deployment_artifacts_at_0003_records, deployment_state_events_at_0003_records,
        staging_acceptances_0003, staging_acceptance_invalidations_0003],
      ca_functions = [''reject_approval_decision_mutation'', ''protect_external_identity_history''],
      ca_triggers = [(''trg_approval_decisions_append_only'', ''approval_decisions'',
        ''reject_approval_decision_mutation'')] @ [(''trg_external_identities_history'',
        ''external_identities'', ''protect_external_identity_history'')]\<rparr>"

definition deployment_evidence_at_0003_executions :: table_def where
  "deployment_evidence_at_0003_executions = with_index (plain_index
    ''ix_deployment_evidence_deployment_occurred'' [''deployment_id'', ''occurred_at''])
    deployment_evidence_0003"

definition catalogue_0003_executions :: catalogue where
  "catalogue_0003_executions =
     \<lparr>ca_schema = True,
      ca_tables = [users_0001, entities_at_0001, raw_inputs_at_0001,
        approval_requests_at_0003_requests, approval_decisions_at_0003_identities, principals_0003,
        external_identities_at_0003_identities, deployment_intents_at_0003_requests,
        deployment_artifacts_at_0003_records, deployment_state_events_at_0003_records,
        staging_acceptances_0003, staging_acceptance_invalidations_0003,
        deployment_approval_bindings_0003, deployment_approval_consumptions_0003,
        deployment_locks_0003, deployment_execution_attempts_0003,
        deployment_evidence_at_0003_executions, deployment_rollbacks_0003],
      ca_functions = [''reject_approval_decision_mutation'', ''protect_external_identity_history''],
      ca_triggers = [(''trg_approval_decisions_append_only'', ''approval_decisions'',
        ''reject_approval_decision_mutation'')] @ [(''trg_external_identities_history'',
        ''external_identities'', ''protect_external_identity_history'')]\<rparr>"

definition catalogue_0003 :: catalogue where
  "catalogue_0003 =
     \<lparr>ca_schema = True,
      ca_tables = [users_0001, entities_at_0001, raw_inputs_at_0001,
        approval_requests_at_0003_requests, approval_decisions_at_0003_identities, principals_0003,
        external_identities_at_0003_identities, deployment_intents_at_0003_requests,
        deployment_artifacts_at_0003_records, deployment_state_events_at_0003_records,
        staging_acceptances_0003, staging_acceptance_invalidations_0003,
        deployment_approval_bindings_0003, deployment_approval_consumptions_0003,
        deployment_locks_0003, deployment_execution_attempts_0003,
        deployment_evidence_at_0003_executions, deployment_rollbacks_0003],
      ca_functions = [''reject_approval_decision_mutation'', ''protect_external_identity_history'',
        ''reject_deployment_audit_mutation''],
      ca_triggers = [(''trg_approval_decisions_append_only'', ''approval_decisions'',
        ''reject_approval_decision_mutation'')] @ [(''trg_external_identities_history'',
        ''external_identities'', ''protect_external_identity_history'')] @ map (\<lambda>t. (''trg_'' @
        t @ ''_append_only'', t, ''reject_deployment_audit_mutation'')) AUDIT_TABLES\<rparr>"

definition approval_requests_at_0004 :: table_def where
  "approval_requests_at_0004 = with_column (nullable ''card_message_id'' (String_type 200))
    approval_requests_at_0003_requests"

definition catalogue_0004 :: catalogue where
  "catalogue_0004 =
     \<lparr>ca_schema = True,
      ca_tables = [users_0001, entities_at_0001, raw_inputs_at_0001, approval_requests_at_0004,
        approval_decisions_at_0003_identities, principals_0003, external_identities_at_0003_identities,
        deployment_intents_at_0003_requests, deployment_artifacts_at_0003_records,
        deployment_state_events_at_0003_records, staging_acceptances_0003,
        staging_acceptance_invalidations_0003, deployment_approval_bindings_0003,
        deployment_approval_consumptions_0003, deployment_locks_0003,
        deployment_execution_attempts_0003, deployment_evidence_at_0003_executions,
        deployment_rollbacks_0003],
      ca_functions = [''reject_approval_decision_mutation'', ''protect_external_identity_history'',
        ''reject_deployment_audit_mutation''],
      ca_triggers = [(''trg_approval_decisions_append_only'', ''approval_decisions'',
        ''reject_approval_decision_mutation'')] @ [(''trg_external_identities_history'',
        ''external_identities'', ''protect_external_identity_history'')] @ map (\<lambda>t. (''trg_'' @
        t @ ''_append_only'', t, ''reject_deployment_audit_mutation'')) AUDIT_TABLES\<rparr>"

lemmas changed_tables =
  entities_at_0001_def raw_inputs_at_0001_def approval_requests_at_0002_def
    approval_decisions_at_0002_def approval_decisions_at_0003_identities_def
    external_identities_at_0003_identities_def approval_requests_at_0003_requests_def
    deployment_intents_at_0003_requests_def deployment_artifacts_at_0003_records_def
    deployment_state_events_at_0003_records_def deployment_evidence_at_0003_executions_def
    approval_requests_at_0004_def

lemmas migration_parts =
  migration_tables [THEN table_parts(1)] migration_tables [THEN table_parts(2)]
  migration_tables [THEN table_parts(3)] migration_tables [THEN table_parts(4)]
  migration_tables [THEN table_parts(5)]

lemmas malformed_parts = malformed_def columns_exist_def constraint_name_def migration_parts

lemma well_formed_first [simp]:
  "malformed users_0001 = None" "malformed entities_0001 = None" "malformed raw_inputs_0001 = None"
  "malformed approval_requests_0002 = None" "malformed approval_decisions_0002 = None"
  "malformed principals_0003 = None" "malformed external_identities_0003 = None"
  by (simp_all add: malformed_parts)

lemma well_formed_intents [simp]:
  "malformed deployment_intents_0003 = None" "malformed deployment_state_events_0003 = None"
  by (simp_all add: malformed_parts)

lemma well_formed_artifacts [simp]:
  "malformed deployment_artifacts_0003 = None" "malformed staging_acceptances_0003 = None"
  "malformed staging_acceptance_invalidations_0003 = None"
  by (simp_all add: malformed_parts)

lemma well_formed_approvals [simp]:
  "malformed deployment_approval_bindings_0003 = None" "malformed deployment_approval_consumptions_0003 = None"
  "malformed deployment_locks_0003 = None"
  by (simp_all add: malformed_parts)

lemma well_formed_executions [simp]:
  "malformed deployment_execution_attempts_0003 = None" "malformed deployment_evidence_0003 = None"
  "malformed deployment_rollbacks_0003 = None"
  by (simp_all add: malformed_parts)

lemmas ddl_eval = constraint_name_def create_table_def relation_names_def columns_exist_def referent_ok_def
  find_table_def keys_of_def create_index_def on_table_def index_uses_def plain_index_def add_column_def
  add_constraint_def drop_constraint_def Let_def migration_parts changed_tables AUDIT_TABLES_def

lemma upgraded_0001: "run_ddl upgrade_0001 empty_catalogue = Inr catalogue_0001"
  by (simp add: upgrade_0001_def empty_catalogue_def catalogue_0001_def ddl_eval)

lemma upgraded_0002: "run_ddl upgrade_0002 catalogue_0001 = Inr catalogue_0002"
  by (simp add: upgrade_0002_def catalogue_0001_def catalogue_0002_def ddl_eval)

lemma upgraded_0003_identities: "run_ddl upgrade_0003_identities catalogue_0002 = Inr catalogue_0003_identities"
  by (simp add: upgrade_0003_identities_def catalogue_0002_def catalogue_0003_identities_def ddl_eval)

lemma upgraded_0003_requests: "run_ddl upgrade_0003_requests catalogue_0003_identities = Inr catalogue_0003_requests"
  by (simp add: upgrade_0003_requests_def catalogue_0003_identities_def catalogue_0003_requests_def ddl_eval)

lemma upgraded_0003_records: "run_ddl upgrade_0003_records catalogue_0003_requests = Inr catalogue_0003_records"
  by (simp add: upgrade_0003_records_def catalogue_0003_requests_def catalogue_0003_records_def ddl_eval)

lemma upgraded_0003_executions: "run_ddl upgrade_0003_executions catalogue_0003_records = Inr catalogue_0003_executions"
  by (simp add: upgrade_0003_executions_def catalogue_0003_records_def catalogue_0003_executions_def ddl_eval)

lemma upgraded_0003_audit: "run_ddl upgrade_0003_audit catalogue_0003_executions = Inr catalogue_0003"
  by (simp add: upgrade_0003_audit_def catalogue_0003_executions_def catalogue_0003_def ddl_eval)

lemma upgraded_0003: "run_ddl upgrade_0003 catalogue_0002 = Inr catalogue_0003"
  by (simp add: upgrade_0003_def run_ddl_append upgraded_0003_identities upgraded_0003_requests
      upgraded_0003_records upgraded_0003_executions upgraded_0003_audit)

lemma upgraded_0004: "run_ddl upgrade_0004 catalogue_0003 = Inr catalogue_0004"
  by (simp add: upgrade_0004_def catalogue_0003_def catalogue_0004_def ddl_eval)

end
