(* ===== verification/Versions.thy ===== *)
theory Versions
  imports Migrations
begin

text \<open>
  The chain of the revisions, the schema at its head against the tables that the models declare, and the
  way back.
\<close>

section \<open>The chain\<close>

record revision =
  rv_id :: string
  rv_down :: "string option"
  rv_upgrade :: "ddl list"
  rv_downgrade :: "ddl list"

definition revision_0001 :: revision where
  "revision_0001 =
     \<lparr>rv_id = ''0001_core_foundation'', rv_down = None, rv_upgrade = upgrade_0001, rv_downgrade = downgrade_0001\<rparr>"

definition revision_0002 :: revision where
  "revision_0002 =
     \<lparr>rv_id = ''0002_phase_1d_e_approvals'', rv_down = Some ''0001_core_foundation'',
      rv_upgrade = upgrade_0002, rv_downgrade = downgrade_0002\<rparr>"

definition revision_0003 :: revision where
  "revision_0003 =
     \<lparr>rv_id = ''0003_phase_1d_f_deployment'', rv_down = Some ''0002_phase_1d_e_approvals'',
      rv_upgrade = upgrade_0003, rv_downgrade = downgrade_0003\<rparr>"

definition revision_0004 :: revision where
  "revision_0004 =
     \<lparr>rv_id = ''0004_approval_card_message_id'', rv_down = Some ''0003_phase_1d_f_deployment'',
      rv_upgrade = upgrade_0004, rv_downgrade = downgrade_0004\<rparr>"

text \<open>The files in any order; a revision follows the one that it names.\<close>

definition revisions :: "revision list" where
  "revisions = [revision_0001, revision_0002, revision_0003, revision_0004]"

definition the_next :: "string option \<Rightarrow> revision option" where
  "the_next v = List.find (\<lambda>r. rv_down r = v) revisions"

fun revisions_from :: "nat \<Rightarrow> string option \<Rightarrow> revision list" where
  "revisions_from 0 v = []"
| "revisions_from (Suc k) v =
     (case the_next v of None \<Rightarrow> [] | Some r \<Rightarrow> r # revisions_from k (Some (rv_id r)))"

text \<open>All revisions above the version, in one transaction as \<^verbatim>\<open>env.py\<close> has it.\<close>

definition upgrade_head :: "string option \<Rightarrow> catalogue \<Rightarrow> unit result \<times> catalogue" where
  "upgrade_head v = migrate (concat (map rv_upgrade (revisions_from (length revisions) v)))"

lemmas revision_defs = revision_0001_def revision_0002_def revision_0003_def revision_0004_def

lemma chain:
  "revisions_from (length revisions) None = [revision_0001, revision_0002, revision_0003, revision_0004]"
  by (simp add: revisions_def revision_defs the_next_def)

section \<open>The head and the models\<close>

definition column_shape :: "column_def \<Rightarrow> string \<times> sql_type \<times> bool" where
  "column_shape k = (cl_name k, cl_type k, cl_nullable k)"

text \<open>
  The same columns, constraints and indexes under the same names; a server default that the class declares
  is in the table, which may have more of them.
\<close>

definition agrees :: "table_def \<Rightarrow> table_def \<Rightarrow> bool" where
  "agrees m t \<longleftrightarrow>
     tb_name m = tb_name t \<and>
     set (map column_shape (tb_columns m)) = set (map column_shape (tb_columns t)) \<and>
     list_all (\<lambda>k. cl_default k = None \<or> k \<in> set (tb_columns t)) (tb_columns m) \<and>
     set (tb_constraints m) = set (tb_constraints t) \<and>
     set (tb_indexes m) = set (tb_indexes t)"

lemma same_set: "list_all (\<lambda>x. x \<in> set ys) xs \<Longrightarrow> list_all (\<lambda>y. y \<in> set xs) ys \<Longrightarrow> set xs = set ys"
  by (auto simp: list_all_iff)

lemma shapes [simp]:
  "column_shape (required n t) = (n, t, False)" "column_shape (nullable n t) = (n, t, True)"
  "column_shape (defaulted n t v) = (n, t, False)"
  "required n t = required n' t' \<longleftrightarrow> n = n' \<and> t = t'"
  "defaulted n t v = defaulted n' t' v' \<longleftrightarrow> n = n' \<and> t = t' \<and> v = v'"
  "defaulted n t v \<noteq> required n' t'" "defaulted n t v \<noteq> nullable n' t'"
  by (simp_all add: column_shape_def required_def nullable_def defaulted_def)

lemmas agrees_eval = metadata_parts migration_parts changed_tables constraint_name_def plain_index_def

lemma first_agree:
  "agrees User_table users_0001"
  "agrees ExternalIdentity_table external_identities_at_0003_identities"
  "agrees Principal_table principals_0003"
  "agrees Entity_table entities_at_0001"
  "agrees RawInput_table raw_inputs_at_0001"
  unfolding agrees_def by (intro conjI same_set; simp add: agrees_eval)+

lemma approvals_agree:
  "agrees ApprovalRequest_table approval_requests_at_0004"
  "agrees ApprovalDecision_table approval_decisions_at_0003_identities"
  "agrees DeploymentIntent_table deployment_intents_at_0003_requests"
  "agrees DeploymentArtifact_table deployment_artifacts_at_0003_records"
  unfolding agrees_def by (intro conjI same_set; simp add: agrees_eval)+

lemma records_agree:
  "agrees DeploymentStateEvent_table deployment_state_events_at_0003_records"
  "agrees StagingAcceptance_table staging_acceptances_0003"
  "agrees StagingAcceptanceInvalidation_table staging_acceptance_invalidations_0003"
  "agrees DeploymentApprovalBinding_table deployment_approval_bindings_0003"
  unfolding agrees_def by (intro conjI same_set; simp add: agrees_eval)+

lemma executions_agree:
  "agrees DeploymentApprovalConsumption_table deployment_approval_consumptions_0003"
  "agrees DeploymentLock_table deployment_locks_0003"
  "agrees DeploymentExecutionAttempt_table deployment_execution_attempts_0003"
  "agrees DeploymentEvidence_table deployment_evidence_at_0003_executions"
  "agrees DeploymentRollback_table deployment_rollbacks_0003"
  unfolding agrees_def by (intro conjI same_set; simp add: agrees_eval)+

lemmas all_agree = first_agree approvals_agree records_agree executions_agree

lemma head_catalogue: "upgrade_head None empty_catalogue = (Inr (), catalogue_0004)"
  by (simp add: upgrade_head_def chain migrate_def revision_defs run_ddl_append bindE_def
      upgraded_0001 upgraded_0002 upgraded_0003 upgraded_0004)

text \<open>C25. On an empty database the upgrade to the head succeeds, and it leaves exactly one table for each class
  of the models, with the columns, the types, the nullability, the constraints and the indexes that the
  class declares and every server default of it. The decisions, the ten audit tables and the external
  identities have their triggers.
\<close>

theorem migrations_match_models:
  "\<exists>c. upgrade_head None empty_catalogue = (Inr (), c) \<and>
       length (ca_tables c) = length metadata \<and>
       distinct (map tb_name (ca_tables c)) \<and>
       list_all (\<lambda>m. list_ex (agrees m) (ca_tables c)) metadata \<and>
       ca_triggers c =
         (''trg_approval_decisions_append_only'', ''approval_decisions'', ''reject_approval_decision_mutation'') #
         (''trg_external_identities_history'', ''external_identities'', ''protect_external_identity_history'') #
         map (\<lambda>t. (''trg_'' @ t @ ''_append_only'', t, ''reject_deployment_audit_mutation'')) AUDIT_TABLES"
proof (intro exI conjI)
  show "upgrade_head None empty_catalogue = (Inr (), catalogue_0004)"
    by (rule head_catalogue)
  show "length (ca_tables catalogue_0004) = length metadata"
    by (simp add: catalogue_0004_def metadata_def)
  show "distinct (map tb_name (ca_tables catalogue_0004))"
    by (simp add: catalogue_0004_def migration_parts changed_tables)
  show "list_all (\<lambda>m. list_ex (agrees m) (ca_tables catalogue_0004)) metadata"
    by (simp add: catalogue_0004_def metadata_def all_agree)
qed (simp add: catalogue_0004_def)

section \<open>The way back\<close>

lemma undo_column:
  assumes "cl_name k \<notin> set (column_names t)"
    and "list_all (\<lambda>(_, b). columns_exist t b) (tb_constraints t)"
    and "list_all (\<lambda>i. list_all (\<lambda>n. n \<in> set (column_names t)) (index_uses i)) (tb_indexes t)"
  shows "without_column (cl_name k) (with_column k t) = t"
proof -
  have "filter (\<lambda>x. cl_name x \<noteq> cl_name k) (tb_columns t) = tb_columns t"
    using assms(1) by (auto simp: filter_id_conv column_names_def) (metis imageI)
  moreover have "filter (\<lambda>(_, b). cl_name k \<notin> set (constraint_columns b)) (tb_constraints t) = tb_constraints t"
    using assms(1,2) by (auto simp: filter_id_conv list_all_iff columns_exist_def)
  moreover have "filter (\<lambda>i. cl_name k \<notin> set (index_uses i)) (tb_indexes t) = tb_indexes t"
    using assms(1,3) by (auto simp: filter_id_conv list_all_iff)
  ultimately show ?thesis
    by (simp add: without_column_def with_column_def)
qed

text \<open>The names of the tables, and the tables to which each of them refers.\<close>

lemma table_names [simp]:
  "tb_name users_0001 = ''users''"
  "tb_name entities_at_0001 = ''entities''"
  "tb_name raw_inputs_at_0001 = ''raw_inputs''"
  "tb_name approval_requests_at_0004 = ''approval_requests''"
  "tb_name approval_decisions_at_0003_identities = ''approval_decisions''"
  "tb_name principals_0003 = ''principals''"
  "tb_name external_identities_at_0003_identities = ''external_identities''"
  "tb_name deployment_intents_at_0003_requests = ''deployment_intents''"
  "tb_name deployment_artifacts_at_0003_records = ''deployment_artifacts''"
  "tb_name deployment_state_events_at_0003_records = ''deployment_state_events''"
  "tb_name staging_acceptances_0003 = ''staging_acceptances''"
  "tb_name staging_acceptance_invalidations_0003 = ''staging_acceptance_invalidations''"
  "tb_name deployment_approval_bindings_0003 = ''deployment_approval_bindings''"
  "tb_name deployment_approval_consumptions_0003 = ''deployment_approval_consumptions''"
  "tb_name deployment_locks_0003 = ''deployment_locks''"
  "tb_name deployment_execution_attempts_0003 = ''deployment_execution_attempts''"
  "tb_name deployment_evidence_at_0003_executions = ''deployment_evidence''"
  "tb_name deployment_rollbacks_0003 = ''deployment_rollbacks''"
  "tb_name approval_requests_at_0003_requests = ''approval_requests''"
  "tb_name approval_decisions_at_0002 = ''approval_decisions''"
  "tb_name approval_requests_at_0002 = ''approval_requests''"
  by (simp_all add: migration_parts changed_tables)

definition referents :: "table_def \<Rightarrow> string list" where
  "referents t = concat (map (\<lambda>(_, b). case b of Refers_to _ n _ _ \<Rightarrow> [n] | _ \<Rightarrow> []) (tb_constraints t))"

lemma refers_to_referents [simp]: "refers_to_table n t \<longleftrightarrow> n \<in> set (referents t)"
  by (auto simp: refers_to_table_def referents_def list_ex_iff split: constraint.splits) force+

lemma refers_to_column_of: "n \<notin> set (referents t) \<Longrightarrow> refers_to_column n k t \<longleftrightarrow> False"
  by (auto simp: referents_def refers_to_column_def list_ex_iff split: constraint.splits)

lemma table_referents [simp]:
  "referents users_0001 = []"
  "referents entities_at_0001 = [''users'']"
  "referents raw_inputs_at_0001 = [''users'']"
  "referents approval_requests_at_0004 = [''users'', ''deployment_intents'']"
  "referents approval_decisions_at_0003_identities =
     [''users'', ''approval_requests'', ''external_identities'']"
  "referents principals_0003 = [''users'']"
  "referents external_identities_at_0003_identities = [''principals'']"
  "referents deployment_intents_at_0003_requests = [''users'', ''principals'', ''external_identities'']"
  "referents deployment_artifacts_at_0003_records = [''deployment_intents'']"
  "referents deployment_state_events_at_0003_records = [''deployment_intents'']"
  "referents staging_acceptances_0003 = [''deployment_intents'']"
  "referents staging_acceptance_invalidations_0003 = [''staging_acceptances'']"
  "referents deployment_approval_bindings_0003 = [''deployment_intents'', ''approval_requests'', ''users'']"
  "referents deployment_approval_consumptions_0003 =
     [''deployment_intents'', ''approval_requests'', ''approval_decisions'', ''deployment_state_events'']"
  "referents deployment_locks_0003 = [''deployment_intents'']"
  "referents deployment_execution_attempts_0003 = [''deployment_intents'']"
  "referents deployment_evidence_at_0003_executions = [''deployment_intents'']"
  "referents deployment_rollbacks_0003 = [''deployment_intents'', ''deployment_intents'']"
  by (simp_all add: referents_def constraint_name_def migration_parts changed_tables)

definition index_names :: "table_def \<Rightarrow> string list" where
  "index_names t = map ix_name (tb_indexes t)"

lemma table_index_names [simp]:
  "index_names entities_at_0001 = [''ix_entities_user_type_status'']"
  "index_names raw_inputs_at_0001 = [''ix_raw_inputs_user_received'']"
  "index_names approval_requests_at_0002 =
     [''ix_approval_requests_user_requested'', ''ix_approval_requests_target'']"
  "index_names approval_decisions_at_0002 = [''ix_approval_decisions_actor_decided'']"
  "index_names deployment_intents_at_0003_requests = [''ix_deployment_intents_target'']"
  "index_names deployment_artifacts_at_0003_records = [''ix_deployment_artifacts_digest'']"
  "index_names deployment_state_events_at_0003_records = [''ix_deployment_state_events_deployment_occurred'']"
  "index_names deployment_evidence_at_0003_executions = [''ix_deployment_evidence_deployment_occurred'']"
  by (simp_all add: index_names_def migration_parts changed_tables plain_index_def)

lemma more_referents [simp]:
  "referents approval_requests_at_0002 = [''users'']"
  "referents approval_decisions_at_0002 = [''users'', ''approval_requests'']"
  "referents approval_requests_at_0003_requests = [''users'', ''deployment_intents'']"
  by (simp_all add: referents_def constraint_name_def migration_parts changed_tables)

lemma without_index_parts [simp]:
  "referents (without_index n t) = referents t"
  "index_names (without_index n t) = filter (\<lambda>i. i \<noteq> n) (index_names t)"
  by (simp_all add: referents_def index_names_def filter_map o_def)

lemma drop_index_named:
  "drop_index i n =
     on_table n (\<lambda>t. if i \<notin> set (index_names t) then refused ''UndefinedObject'' else Inr (without_index i t))"
  by (simp add: drop_index_def index_names_def fun_eq_iff)

lemmas drop_eval = drop_table_def drop_index_named on_table_def find_table_def

lemma downgraded_0001: "run_ddl downgrade_0001 catalogue_0001 = Inr empty_catalogue"
  by (simp add: downgrade_0001_def catalogue_0001_def empty_catalogue_def drop_eval)

lemma downgraded_0002: "run_ddl downgrade_0002 catalogue_0002 = Inr catalogue_0001"
  by (simp add: downgrade_0002_def catalogue_0002_def catalogue_0001_def drop_eval)

lemma card_column:
  "column_names approval_requests_at_0004 = column_names approval_requests_at_0003_requests @ [''card_message_id'']"
  "without_column ''card_message_id'' approval_requests_at_0004 = approval_requests_at_0003_requests"
  using undo_column [of "nullable ''card_message_id'' (String_type 200)" approval_requests_at_0003_requests]
  by (simp_all add: columns_exist_def index_uses_def plain_index_def constraint_name_def
      migration_parts changed_tables)

lemma refers_to_identifiers:
  "refers_to_column n ''card_message_id'' approval_decisions_at_0003_identities \<longleftrightarrow> False"
  "refers_to_column n ''card_message_id'' deployment_approval_bindings_0003 \<longleftrightarrow> False"
  "refers_to_column n ''card_message_id'' deployment_approval_consumptions_0003 \<longleftrightarrow> False"
  by (simp_all add: refers_to_column_def migration_parts changed_tables)

lemma downgraded_0004: "run_ddl downgrade_0004 catalogue_0004 = Inr catalogue_0003"
  by (simp add: downgrade_0004_def catalogue_0004_def catalogue_0003_def drop_column_def drop_eval
      refers_to_column_of refers_to_identifiers card_column)

lemma decision_parts:
  "''fk_approval_decisions_actor_external_identity_id_external_identities''
     \<in> fst ` set (tb_constraints approval_decisions_at_0003_identities)"
  "''actor_external_identity_id'' \<in> set (column_names approval_decisions_at_0003_identities)"
  by (simp_all add: migration_parts changed_tables)

lemma bind_refused [simp]: "bindE (refused n) f = refused n"
  by (simp add: refused_def)

lemma refused_0003: "run_ddl downgrade_0003 catalogue_0003 = refused ''DependentObjectsStillExist''"
  by (simp add: downgrade_0003_def catalogue_0003_def AUDIT_TABLES_def drop_column_def drop_constraint_def drop_eval
      refers_to_column_of decision_parts)

text \<open>The database after the first revisions.\<close>

definition upgraded :: "nat \<Rightarrow> catalogue" where
  "upgraded k = snd (migrate (concat (map rv_upgrade (take k revisions))) empty_catalogue)"

lemma upgraded_catalogues:
  "upgraded 0 = empty_catalogue" "upgraded (Suc 0) = catalogue_0001" "upgraded 2 = catalogue_0002"
  "upgraded 3 = catalogue_0003" "upgraded 4 = catalogue_0004"
  by (simp_all add: upgraded_def revisions_def revision_defs migrate_def run_ddl_append bindE_def
      numeral_eq_Suc upgraded_0001 upgraded_0002 upgraded_0003 upgraded_0004)

text \<open>C26. The downgrades of the first, the second and the fourth revision succeed on the schema that the
  upgrade left, and restore exactly the schema from before it: no table, column, constraint, index,
  function or trigger is left over or lost, and below the first revision the database is empty. That of
  the third revision never succeeds: it drops \<open>external_identities\<close> while the foreign key of
  \<open>deployment_intents\<close> still refers to it, so PostgreSQL refuses the statement, even with no row stored,
  and the transaction leaves the schema as it is.
\<close>

theorem downgrades_exact:
  "migrate downgrade_0001 (upgraded 1) = (Inr (), empty_catalogue) \<and>
   migrate downgrade_0002 (upgraded 2) = (Inr (), upgraded 1) \<and>
   migrate downgrade_0003 (upgraded 3) = (Inl (OtherException ''DependentObjectsStillExist''), upgraded 3) \<and>
   migrate downgrade_0004 (upgraded 4) = (Inr (), upgraded 3)"
  by (simp add: upgraded_catalogues migrate_def downgraded_0001 downgraded_0002 downgraded_0004
      refused_0003 refused_def)

end
