(* ===== verification/Declared.thy ===== *)
theory Declared
  imports Metadata
begin

text \<open>
  The inserts of the model against the tables that the classes declare. A row is read as its columns, and
  what PostgreSQL makes of an \<open>INSERT\<close> is computed from the declaration alone: the types of the columns,
  the \<open>CHECK\<close>s with their three-valued conditions, the unique constraints and unique indexes, and the
  foreign keys. Each typed insert of \<open>Database\<close> gives exactly that, errors included.
\<close>

section \<open>What a declared table makes of a row\<close>

definition row_of :: "(string \<times> sql_value) list \<Rightarrow> row" where
  "row_of kvs c = (case map_of kvs c of None \<Rightarrow> Null | Some v \<Rightarrow> v)"

definition opt_value :: "('a \<Rightarrow> sql_value) \<Rightarrow> 'a option \<Rightarrow> sql_value" where
  "opt_value f x = (case x of None \<Rightarrow> Null | Some v \<Rightarrow> f v)"

fun fits_type :: "sql_type \<Rightarrow> sql_value \<Rightarrow> bool" where
  "fits_type t Null \<longleftrightarrow> True"
| "fits_type Uuid_type (Uuid_value _) \<longleftrightarrow> True"
| "fits_type (String_type n) (Text_value s) \<longleftrightarrow> varchar n s"
| "fits_type Text_type (Text_value _) \<longleftrightarrow> True"
| "fits_type Integer_type (Int_value i) \<longleftrightarrow> int4 i"
| "fits_type BigInteger_type (Int_value i) \<longleftrightarrow> int8 i"
| "fits_type Boolean_type (Bool_value _) \<longleftrightarrow> True"
| "fits_type DateTime_type (Time_value _) \<longleftrightarrow> True"
| "fits_type JSONB_type Json_value \<longleftrightarrow> True"
| "fits_type _ _ \<longleftrightarrow> False"

definition types_fit :: "table_def \<Rightarrow> row \<Rightarrow> bool" where
  "types_fit t row \<longleftrightarrow> list_all (\<lambda>k. fits_type (cl_type k) (row (cl_name k))) (tb_columns t)"

definition nulls_allowed :: "table_def \<Rightarrow> row \<Rightarrow> bool" where
  "nulls_allowed t row \<longleftrightarrow> list_all (\<lambda>k. cl_nullable k \<or> row (cl_name k) \<noteq> Null) (tb_columns t)"

text \<open>A key with a null in it clashes with no other.\<close>

definition key_values :: "string list \<Rightarrow> row \<Rightarrow> sql_value list option" where
  "key_values cs row = (if list_ex (\<lambda>c. row c = Null) cs then None else Some (map row cs))"

definition index_key :: "index_def \<Rightarrow> row \<Rightarrow> sql_value list option" where
  "index_key i row =
     (case ix_where i of
        None \<Rightarrow> key_values (ix_columns i) row
      | Some c \<Rightarrow> if holds row c = Some True then key_values (ix_columns i) row else None)"

definition declared_keys :: "table_def \<Rightarrow> (row \<Rightarrow> sql_value list option) list" where
  "declared_keys t = map key_values (keys_of t) @ map index_key (filter ix_unique (tb_indexes t))"

text \<open>The rows of a table by its name; nothing is stored in \<open>entities\<close>.\<close>

definition user_row :: "user \<Rightarrow> row" where
  "user_row r = row_of
     [(''id'', Uuid_value (u_id r)), (''display_name'', Text_value (u_display_name r)),
      (''timezone'', Text_value (u_timezone r)), (''locale'', Text_value (u_locale r)),
      (''default_units'', Json_value), (''privacy_settings'', Json_value),
      (''created_at'', Time_value (u_created_at r)), (''updated_at'', Time_value (u_updated_at r))]"

definition principal_row :: "principal \<Rightarrow> row" where
  "principal_row r = row_of
     [(''id'', Uuid_value (p_id r)), (''principal_type'', Text_value (p_principal_type r)),
      (''user_id'', opt_value Uuid_value (p_user_id r)),
      (''identity_key'', Text_value (p_identity_key r)),
      (''created_at'', Time_value (p_created_at r))]"

definition external_identity_row :: "external_identity \<Rightarrow> row" where
  "external_identity_row r = row_of
     [(''id'', Uuid_value (x_id r)), (''provider'', Text_value (x_provider r)),
      (''tenant_fingerprint'', Text_value (x_tenant_fingerprint r)),
      (''subject_fingerprint'', Text_value (x_subject_fingerprint r)),
      (''principal_id'', Uuid_value (x_principal_id r)),
      (''mapping_version'', Int_value (x_mapping_version r)),
      (''valid_from'', Time_value (x_valid_from r)),
      (''valid_to'', opt_value Time_value (x_valid_to r)),
      (''audit_event_id'', Uuid_value (x_audit_event_id r))]"

definition raw_input_row :: "raw_input \<Rightarrow> row" where
  "raw_input_row r = row_of
     [(''id'', Uuid_value (r_id r)), (''user_id'', Uuid_value (r_user_id r)),
      (''channel_code'', Text_value (r_channel_code r)),
      (''external_message_id'', opt_value Text_value (r_external_message_id r)),
      (''input_type'', Text_value (r_input_type r)),
      (''text_content'', opt_value Text_value (r_text_content r)),
      (''received_at'', Time_value (r_received_at r)),
      (''processing_status'', Text_value (r_processing_status r)), (''metadata'', Json_value),
      (''created_at'', Time_value (r_created_at r))]"

definition approval_request_row :: "approval_request \<Rightarrow> row" where
  "approval_request_row r = row_of
     [(''id'', Uuid_value (q_id r)), (''user_id'', Uuid_value (q_user_id r)),
      (''action_code'', Text_value (q_action_code r)), (''repository'', Text_value (q_repository r)),
      (''pull_request_number'', opt_value Int_value (q_pull_request_number r)),
      (''target_sha'', Text_value (q_target_sha r)),
      (''target_environment'', Text_value (q_target_environment r)),
      (''deployment_id'', opt_value Uuid_value (q_deployment_id r)),
      (''artifact_digest'', opt_value Text_value (q_artifact_digest r)),
      (''idempotency_key'', Text_value (q_idempotency_key r)),
      (''requested_at'', Time_value (q_requested_at r)),
      (''expires_at'', Time_value (q_expires_at r)),
      (''card_message_id'', opt_value Text_value (q_card_message_id r))]"

definition approval_decision_row :: "approval_decision \<Rightarrow> row" where
  "approval_decision_row r = row_of
     [(''id'', Uuid_value (d_id r)), (''request_id'', Uuid_value (d_request_id r)),
      (''decision_code'', Text_value (d_decision_code r)),
      (''actor_user_id'', Uuid_value (d_actor_user_id r)),
      (''actor_external_identity_id'', opt_value Uuid_value (d_actor_external_identity_id r)),
      (''approver_identity_fingerprint'', Text_value (d_approver_identity_fingerprint r)),
      (''feishu_event_id'', Text_value (d_feishu_event_id r)),
      (''decided_at'', Time_value (d_decided_at r))]"

definition deployment_intent_row :: "deployment_intent \<Rightarrow> row" where
  "deployment_intent_row r = row_of
     [(''id'', Uuid_value (di_id r)), (''user_id'', Uuid_value (di_user_id r)),
      (''requester_principal_id'', Uuid_value (di_requester_principal_id r)),
      (''requester_external_identity_id'', Uuid_value (di_requester_external_identity_id r)),
      (''intent_kind'', Text_value (di_intent_kind r)),
      (''action_code'', Text_value (di_action_code r)),
      (''repository'', Text_value (di_repository r)), (''target_sha'', Text_value (di_target_sha r)),
      (''target_environment'', Text_value (di_target_environment r)),
      (''artifact_digest'', Text_value (di_artifact_digest r)),
      (''requested_by_identity_fingerprint'', Text_value (di_requested_by_identity_fingerprint r)),
      (''service_set'', Json_value), (''migration_risk'', Text_value (di_migration_risk r)),
      (''migration_revision'', opt_value Text_value (di_migration_revision r)),
      (''rollback_runbook_ref'', opt_value Text_value (di_rollback_runbook_ref r)),
      (''config_fingerprint'', Text_value (di_config_fingerprint r)),
      (''idempotency_key'', Text_value (di_idempotency_key r)),
      (''created_at'', Time_value (di_created_at r))]"

definition deployment_artifact_row :: "deployment_artifact \<Rightarrow> row" where
  "deployment_artifact_row r = row_of
     [(''id'', Uuid_value (da_id r)), (''deployment_id'', Uuid_value (da_deployment_id r)),
      (''repository'', Text_value (da_repository r)), (''target_sha'', Text_value (da_target_sha r)),
      (''digest'', Text_value (da_digest r)),
      (''image_reference'', Text_value (da_image_reference r)), (''service_images'', Json_value),
      (''ci_run_id'', Int_value (da_ci_run_id r)), (''ci_event'', Text_value (da_ci_event r)),
      (''ci_status'', Text_value (da_ci_status r)),
      (''ci_conclusion'', Text_value (da_ci_conclusion r)),
      (''ci_head_sha'', Text_value (da_ci_head_sha r)),
      (''quality_gate_conclusion'', Text_value (da_quality_gate_conclusion r)),
      (''protected_main_verified'', Bool_value (da_protected_main_verified r)),
      (''ci_workflow_name'', Text_value (da_ci_workflow_name r)),
      (''ci_repository'', Text_value (da_ci_repository r)),
      (''ci_verified_at'', Time_value (da_ci_verified_at r)),
      (''ci_provenance_source'', Text_value (da_ci_provenance_source r)),
      (''provenance'', Json_value), (''created_at'', Time_value (da_created_at r))]"

definition deployment_state_event_row :: "deployment_state_event \<Rightarrow> row" where
  "deployment_state_event_row r = row_of
     [(''id'', Uuid_value (se_id r)), (''deployment_id'', Uuid_value (se_deployment_id r)),
      (''sequence'', Int_value (se_sequence r)),
      (''from_state'', opt_value Text_value (se_from_state r)),
      (''to_state'', Text_value (se_to_state r)), (''event_code'', Text_value (se_event_code r)),
      (''actor_identity_fingerprint'', Text_value (se_actor_identity_fingerprint r)),
      (''evidence'', Json_value), (''occurred_at'', Time_value (se_occurred_at r))]"

definition staging_acceptance_row :: "staging_acceptance \<Rightarrow> row" where
  "staging_acceptance_row r = row_of
     [(''id'', Uuid_value (sa_id r)), (''deployment_id'', Uuid_value (sa_deployment_id r)),
      (''repository'', Text_value (sa_repository r)), (''target_sha'', Text_value (sa_target_sha r)),
      (''artifact_digest'', Text_value (sa_artifact_digest r)),
      (''environment'', Text_value (sa_environment r)),
      (''validation_suite_version'', Text_value (sa_validation_suite_version r)),
      (''config_fingerprint'', Text_value (sa_config_fingerprint r)),
      (''accepted_by_identity_fingerprint'', Text_value (sa_accepted_by_identity_fingerprint r)),
      (''completed_at'', Time_value (sa_completed_at r)),
      (''valid_until'', Time_value (sa_valid_until r))]"

definition staging_acceptance_invalidation_row :: "staging_acceptance_invalidation \<Rightarrow> row" where
  "staging_acceptance_invalidation_row r = row_of
     [(''id'', Uuid_value (si_id r)), (''acceptance_id'', Uuid_value (si_acceptance_id r)),
      (''reason_code'', Text_value (si_reason_code r)),
      (''invalidated_at'', Time_value (si_invalidated_at r))]"

definition deployment_approval_binding_row :: "deployment_approval_binding \<Rightarrow> row" where
  "deployment_approval_binding_row r = row_of
     [(''id'', Uuid_value (ab_id r)), (''deployment_id'', Uuid_value (ab_deployment_id r)),
      (''approval_request_id'', Uuid_value (ab_approval_request_id r)),
      (''repository'', Text_value (ab_repository r)), (''target_sha'', Text_value (ab_target_sha r)),
      (''target_environment'', Text_value (ab_target_environment r)),
      (''action_code'', Text_value (ab_action_code r)),
      (''artifact_digest'', Text_value (ab_artifact_digest r)),
      (''requester_identity_fingerprint'', Text_value (ab_requester_identity_fingerprint r)),
      (''requester_user_id'', Uuid_value (ab_requester_user_id r)),
      (''bound_at'', Time_value (ab_bound_at r))]"

definition deployment_approval_consumption_row :: "deployment_approval_consumption \<Rightarrow> row" where
  "deployment_approval_consumption_row r = row_of
     [(''id'', Uuid_value (ac_id r)), (''deployment_id'', Uuid_value (ac_deployment_id r)),
      (''approval_request_id'', Uuid_value (ac_approval_request_id r)),
      (''approval_decision_id'', Uuid_value (ac_approval_decision_id r)),
      (''state_event_id'', Uuid_value (ac_state_event_id r)),
      (''consumed_at'', Time_value (ac_consumed_at r))]"

definition deployment_lock_row :: "deployment_lock \<Rightarrow> row" where
  "deployment_lock_row r = row_of
     [(''conflict_domain'', Text_value (dl_conflict_domain r)),
      (''environment'', Text_value (dl_environment r)),
      (''deployment_id'', Uuid_value (dl_deployment_id r)),
      (''owner_identity'', Text_value (dl_owner_identity r)),
      (''fencing_token'', Int_value (dl_fencing_token r)),
      (''acquired_at'', Time_value (dl_acquired_at r)),
      (''renewed_at'', Time_value (dl_renewed_at r)),
      (''lease_expires_at'', Time_value (dl_lease_expires_at r)),
      (''stale_reconciled_at'', opt_value Time_value (dl_stale_reconciled_at r)),
      (''stale_reconciled_token'', opt_value Int_value (dl_stale_reconciled_token r)),
      (''stale_reconciliation_evidence_key'',
        opt_value Text_value (dl_stale_reconciliation_evidence_key r))]"

definition deployment_execution_attempt_row :: "deployment_execution_attempt \<Rightarrow> row" where
  "deployment_execution_attempt_row r = row_of
     [(''id'', Uuid_value (ea_id r)), (''deployment_id'', Uuid_value (ea_deployment_id r)),
      (''execution_key'', Text_value (ea_execution_key r)),
      (''executor_identity'', Text_value (ea_executor_identity r)),
      (''fencing_token'', Int_value (ea_fencing_token r)),
      (''intent_hash'', Text_value (ea_intent_hash r)),
      (''created_at'', Time_value (ea_created_at r))]"

definition deployment_evidence_row :: "deployment_evidence \<Rightarrow> row" where
  "deployment_evidence_row r = row_of
     [(''id'', Uuid_value (ev_id r)), (''deployment_id'', Uuid_value (ev_deployment_id r)),
      (''evidence_type'', Text_value (ev_evidence_type r)),
      (''evidence_key'', Text_value (ev_evidence_key r)),
      (''status_code'', Text_value (ev_status_code r)), (''payload'', Json_value),
      (''occurred_at'', Time_value (ev_occurred_at r))]"

definition deployment_rollback_row :: "deployment_rollback \<Rightarrow> row" where
  "deployment_rollback_row r = row_of
     [(''id'', Uuid_value (rb_id r)), (''deployment_id'', Uuid_value (rb_deployment_id r)),
      (''failed_deployment_id'', Uuid_value (rb_failed_deployment_id r)),
      (''current_production_sha'', Text_value (rb_current_production_sha r)),
      (''rollback_target_sha'', Text_value (rb_rollback_target_sha r)),
      (''rollback_artifact_digest'', Text_value (rb_rollback_artifact_digest r)),
      (''created_at'', Time_value (rb_created_at r))]"

definition rows_of :: "db \<Rightarrow> string \<Rightarrow> row list" where
  "rows_of d n =
     (if n = ''users'' then map user_row (t_users d)
      else if n = ''principals'' then map principal_row (t_principals d)
      else if n = ''external_identities'' then map external_identity_row (t_external_identities d)
      else if n = ''raw_inputs'' then map raw_input_row (t_raw_inputs d)
      else if n = ''approval_requests'' then map approval_request_row (t_requests d)
      else if n = ''approval_decisions'' then map approval_decision_row (t_decisions d)
      else if n = ''deployment_intents'' then map deployment_intent_row (t_intents d)
      else if n = ''deployment_artifacts'' then map deployment_artifact_row (t_artifacts d)
      else if n = ''deployment_state_events'' then map deployment_state_event_row (t_events d)
      else if n = ''staging_acceptances'' then map staging_acceptance_row (t_acceptances d)
      else if n = ''staging_acceptance_invalidations'' then
        map staging_acceptance_invalidation_row (t_invalidations d)
      else if n = ''deployment_approval_bindings'' then map deployment_approval_binding_row (t_bindings d)
      else if n = ''deployment_approval_consumptions'' then
        map deployment_approval_consumption_row (t_consumptions d)
      else if n = ''deployment_locks'' then map deployment_lock_row (t_locks d)
      else if n = ''deployment_execution_attempts'' then map deployment_execution_attempt_row (t_attempts d)
      else if n = ''deployment_evidence'' then map deployment_evidence_row (t_evidence d)
      else if n = ''deployment_rollbacks'' then map deployment_rollback_row (t_rollbacks d)
      else [])"

text \<open>A row satisfies a check or a foreign key; its own row may be the one that it refers to.\<close>

definition satisfies :: "string \<Rightarrow> db \<Rightarrow> row \<Rightarrow> constraint \<Rightarrow> bool" where
  "satisfies n d row b =
     (case b of
        Check_that c \<Rightarrow> check_passes (holds row c)
      | Refers_to cs n' ks _ \<Rightarrow>
          (case key_values cs row of
             None \<Rightarrow> True
           | Some vs \<Rightarrow> list_ex (\<lambda>s. map s ks = vs) (rows_of d n' @ (if n' = n then [row] else [])))
      | _ \<Rightarrow> True)"

definition declared_insert :: "table_def \<Rightarrow> db \<Rightarrow> row \<Rightarrow> unit result" where
  "declared_insert t d row =
     (if \<not> types_fit t row then Inl SQLAlchemyError
      else if \<not> nulls_allowed t row \<or> list_ex (\<lambda>k. clash k (rows_of d (tb_name t)) row) (declared_keys t) \<or>
        \<not> list_all (\<lambda>(_, b). satisfies (tb_name t) d row b) (tb_constraints t)
      then Inl IntegrityError
      else Inr ())"

definition store_declared ::
  "table_def \<Rightarrow> ('r \<Rightarrow> row) \<Rightarrow> (('r list \<Rightarrow> 'r list) \<Rightarrow> db \<Rightarrow> db) \<Rightarrow> 'r \<Rightarrow> db \<Rightarrow> db result" where
  "store_declared t f upd r d = bindE (declared_insert t d (f r)) (\<lambda>_. Inr (upd (\<lambda>rs. rs @ [r]) d))"

section \<open>The typed inserts give the same\<close>

lemma opt_value_simps [simp]:
  "opt_value f None = Null" "opt_value f (Some w) = f w"
  "opt_value Uuid_value x = Null \<longleftrightarrow> x = None" "opt_value Text_value s = Null
    \<longleftrightarrow> s = None"
  "opt_value Int_value i = Null \<longleftrightarrow> i = None" "opt_value Time_value t = Null
    \<longleftrightarrow> t = None"
  "opt_value Uuid_value x = Uuid_value u \<longleftrightarrow> x = Some u" "opt_value Text_value s = Text_value
    v \<longleftrightarrow> s = Some v"
  "opt_value Uuid_value x = opt_value Uuid_value y \<longleftrightarrow> x = y"
  "opt_value Text_value s = opt_value Text_value s' \<longleftrightarrow> s = s'"
  by (auto simp: opt_value_def split: option.splits)

lemma fits_opt [simp]:
  "fits_type Uuid_type (opt_value Uuid_value x)"
  "fits_type (String_type n) (opt_value Text_value s) \<longleftrightarrow> varchar_opt n s"
  "fits_type Text_type (opt_value Text_value s)"
  "fits_type Integer_type (opt_value Int_value i) \<longleftrightarrow> int4_opt i"
  "fits_type BigInteger_type (opt_value Int_value i) \<longleftrightarrow> int8_opt i"
  "fits_type DateTime_type (opt_value Time_value t)"
  by (auto simp: opt_value_def varchar_opt_def int4_opt_def int8_opt_def split: option.splits)

lemma three_valued [simp]:
  "sql_and (Some a) (Some b) = Some (a \<and> b)" "sql_or (Some a) (Some b) = Some (a \<or> b)"
  "check_passes (Some a) = a" "check_passes None" "sql_or (Some True) c = Some True" "sql_and (Some False) c =
    Some False"
  "sql_or (Some False) c = c" "sql_and (Some True) c = c"
  by (cases c; auto simp: sql_and_def sql_or_def check_passes_def)+

lemma list_ex_rows [simp]: "list_ex P (map f rs) \<longleftrightarrow> list_ex (\<lambda>r. P (f r)) rs"
  by (simp add: list_ex_iff)

lemma guarded [simp]:
  "P \<and> (P \<longrightarrow> Q) \<longleftrightarrow> P \<and> Q" "(\<exists>y. x = Some y) \<and> x = Some
    v \<longleftrightarrow> x = Some v"
  "(\<exists>y. x = Some y) \<and> R \<and> x = Some v \<longleftrightarrow> R \<and> x = Some v"
  by auto

lemma optional_atoms:
  "map_option (\<lambda>u. [AU u]) x = map_option (\<lambda>u. [AU u]) y \<longleftrightarrow> x = y"
  "map_option (\<lambda>m. [AS c, AS m]) a = map_option (\<lambda>m. [AS c', AS m]) b \<longleftrightarrow> a =
    b \<and> (a \<noteq> None \<longrightarrow> c = c')"
  by (cases x; cases y; simp) (cases a; cases b; auto)

lemmas declared_eval = metadata_parts types_fit_def nulls_allowed_def declared_keys_def keys_of_def
  key_values_def index_key_def satisfies_def plain_index_def rows_of_def row_of_def clash_def
  SHA_matches FINGERPRINT_matches DIGEST_matches text_in_def int_in_def time_in_def optional_atoms
  exists_row_def exists_opt_def

lemma declared_insert_row:
  assumes "types_fit t (f r) \<longleftrightarrow> fits r" "nulls_allowed t (f r)"
    and "list_ex (\<lambda>k. clash k (rows_of d (tb_name t)) (f r)) (declared_keys t) \<longleftrightarrow>
      list_ex (\<lambda>k. clash k (rows d) r) keys"
    and "list_all (\<lambda>(_, b). satisfies (tb_name t) d (f r) b) (tb_constraints t) \<longleftrightarrow>
      checks r \<and> refs d r"
  shows "insert_row rows upd fits checks keys refs r d = store_declared t f upd r d"
  using assms by (auto simp: insert_row_def store_declared_def declared_insert_def bindE_def)

lemma insert_user_declared:
  "insert_user r d = store_declared User_table user_row t_users_update r d"
  unfolding insert_user_def
  by (rule declared_insert_row;
      simp add: declared_eval user_row_def user_fits_def user_keys_def;
      (auto simp: list_ex_iff exists_row_def split: option.splits)?)

lemma insert_principal_declared:
  "insert_principal r d = store_declared Principal_table principal_row t_principals_update r d"
  unfolding insert_principal_def
  by (rule declared_insert_row;
      simp add: declared_eval principal_row_def user_row_def principal_fits_def principal_checks_def
        principal_keys_def;
      (auto simp: list_ex_iff exists_row_def split: option.splits)?)

lemma insert_external_identity_declared:
  "insert_external_identity r d = store_declared ExternalIdentity_table external_identity_row t_external_identities_update r d"
  unfolding insert_external_identity_def
  by (rule declared_insert_row;
      simp add: declared_eval external_identity_row_def principal_row_def external_identity_fits_def
        external_identity_checks_def external_identity_keys_def external_identity_refs_def subject_atoms_def;
      (auto simp: list_ex_iff exists_row_def split: option.splits)?)

lemma insert_raw_input_declared:
  "insert_raw_input r d = store_declared RawInput_table raw_input_row t_raw_inputs_update r d"
  unfolding insert_raw_input_def
  by (rule declared_insert_row;
      simp add: declared_eval raw_input_row_def user_row_def raw_input_fits_def raw_input_keys_def;
      (auto simp: list_ex_iff exists_row_def split: option.splits)?)

text \<open>The conditions of the approval requests are taken one by one.\<close>

lemma request_checks_declared:
  "list_all (\<lambda>(_, b). satisfies (tb_name ApprovalRequest_table) d (approval_request_row r) b)
     (tb_constraints ApprovalRequest_table) \<longleftrightarrow> approval_request_checks r \<and>
       approval_request_refs d r"
  by (cases "q_pull_request_number r"; cases "q_deployment_id r"; cases "q_artifact_digest r";
      simp add: declared_eval approval_request_row_def user_row_def deployment_intent_row_def
        approval_request_checks_def approval_request_refs_def deployment_binding_condition_def)

lemma insert_request_declared:
  "insert_request r d = store_declared ApprovalRequest_table approval_request_row t_requests_update r d"
  unfolding insert_request_def
  by (rule declared_insert_row; (rule request_checks_declared)?;
      simp add: declared_eval approval_request_row_def approval_request_fits_def approval_request_keys_def;
      (auto simp: list_ex_iff)?)

lemma insert_decision_declared:
  "insert_decision r d = store_declared ApprovalDecision_table approval_decision_row t_decisions_update r d"
  unfolding insert_decision_def
  by (rule declared_insert_row;
      simp add: declared_eval approval_decision_row_def approval_request_row_def user_row_def
        external_identity_row_def approval_decision_fits_def approval_decision_checks_def
        approval_decision_keys_def approval_decision_refs_def;
      (auto simp: list_ex_iff exists_row_def split: option.splits)?)

lemma insert_intent_declared:
  "insert_intent r d = store_declared DeploymentIntent_table deployment_intent_row t_intents_update r d"
  unfolding insert_intent_def
  by (rule declared_insert_row;
      simp add: declared_eval deployment_intent_row_def user_row_def principal_row_def
        external_identity_row_def deployment_intent_fits_def deployment_intent_checks_def
        deployment_intent_keys_def deployment_intent_refs_def;
      (auto simp: list_ex_iff exists_row_def split: option.splits)?)

lemma insert_artifact_declared:
  "insert_artifact r d = store_declared DeploymentArtifact_table deployment_artifact_row t_artifacts_update r d"
  unfolding insert_artifact_def
  by (rule declared_insert_row;
      simp add: declared_eval deployment_artifact_row_def deployment_intent_row_def
        deployment_artifact_fits_def deployment_artifact_checks_def deployment_artifact_keys_def;
      (auto simp: list_ex_iff exists_row_def split: option.splits)?)

lemma insert_event_declared:
  "insert_event r d = store_declared DeploymentStateEvent_table deployment_state_event_row t_events_update r d"
  unfolding insert_event_def
  by (rule declared_insert_row;
      simp add: declared_eval deployment_state_event_row_def deployment_intent_row_def state_event_fits_def
        deployment_state_event_checks_def state_event_keys_def;
      (auto simp: list_ex_iff exists_row_def split: option.splits)?)

lemma insert_acceptance_declared:
  "insert_acceptance r d = store_declared StagingAcceptance_table staging_acceptance_row t_acceptances_update r d"
  unfolding insert_acceptance_def
  by (rule declared_insert_row;
      simp add: declared_eval staging_acceptance_row_def deployment_intent_row_def acceptance_fits_def
        staging_acceptance_checks_def acceptance_keys_def;
      (auto simp: list_ex_iff exists_row_def split: option.splits)?)

lemma insert_invalidation_declared:
  "insert_invalidation r d = store_declared StagingAcceptanceInvalidation_table staging_acceptance_invalidation_row t_invalidations_update r d"
  unfolding insert_invalidation_def
  by (rule declared_insert_row;
      simp add: declared_eval staging_acceptance_invalidation_row_def staging_acceptance_row_def
        invalidation_keys_def;
      (auto simp: list_ex_iff exists_row_def split: option.splits)?)

lemma insert_binding_declared:
  "insert_binding r d = store_declared DeploymentApprovalBinding_table deployment_approval_binding_row t_bindings_update r d"
  unfolding insert_binding_def
  by (rule declared_insert_row;
      simp add: declared_eval deployment_approval_binding_row_def deployment_intent_row_def
        approval_request_row_def user_row_def binding_fits_def deployment_approval_binding_checks_def
        binding_keys_def binding_refs_def;
      (auto simp: list_ex_iff exists_row_def split: option.splits)?)

lemma insert_consumption_declared:
  "insert_consumption r d = store_declared DeploymentApprovalConsumption_table deployment_approval_consumption_row t_consumptions_update r d"
  unfolding insert_consumption_def
  by (rule declared_insert_row;
      simp add: declared_eval deployment_approval_consumption_row_def deployment_intent_row_def
        approval_request_row_def approval_decision_row_def deployment_state_event_row_def consumption_keys_def
        consumption_refs_def;
      (auto simp: list_ex_iff exists_row_def split: option.splits)?)

lemma insert_lock_declared:
  "insert_lock r d = store_declared DeploymentLock_table deployment_lock_row t_locks_update r d"
  unfolding insert_lock_def
  by (rule declared_insert_row;
      simp add: declared_eval deployment_lock_row_def deployment_intent_row_def lock_fits_def
        deployment_lock_checks_def lock_keys_def lock_refs_def;
      (auto simp: list_ex_iff exists_row_def split: option.splits)?)

lemma insert_attempt_declared:
  "insert_attempt r d = store_declared DeploymentExecutionAttempt_table deployment_execution_attempt_row t_attempts_update r d"
  unfolding insert_attempt_def
  by (rule declared_insert_row;
      simp add: declared_eval deployment_execution_attempt_row_def deployment_intent_row_def attempt_fits_def
        deployment_execution_attempt_checks_def attempt_keys_def;
      (auto simp: list_ex_iff exists_row_def split: option.splits)?)

lemma insert_evidence_declared:
  "insert_evidence r d = store_declared DeploymentEvidence_table deployment_evidence_row t_evidence_update r d"
  unfolding insert_evidence_def
  by (rule declared_insert_row;
      simp add: declared_eval deployment_evidence_row_def deployment_intent_row_def evidence_fits_def
        deployment_evidence_checks_def evidence_keys_def;
      (auto simp: list_ex_iff exists_row_def split: option.splits)?)

lemma insert_rollback_declared:
  "insert_rollback r d = store_declared DeploymentRollback_table deployment_rollback_row t_rollbacks_update r d"
  unfolding insert_rollback_def
  by (rule declared_insert_row;
      simp add: declared_eval deployment_rollback_row_def deployment_intent_row_def rollback_fits_def
        deployment_rollback_checks_def rollback_keys_def rollback_refs_def;
      (auto simp: list_ex_iff exists_row_def split: option.splits)?)

text \<open>C24. Every insert of the model does what the declaration of its table says: the row is stored exactly when
  its values fit the types of the declared columns and every declared check, unique constraint, unique
  index and foreign key admits it; a value that does not fit is an \<open>SQLAlchemyError\<close>, any other refusal an
  \<open>IntegrityError\<close>, and the database is then as before.
\<close>

theorem inserts_as_declared:
  "insert_user = store_declared User_table user_row t_users_update \<and>
   insert_principal = store_declared Principal_table principal_row t_principals_update \<and>
   insert_external_identity = store_declared ExternalIdentity_table external_identity_row t_external_identities_update \<and>
   insert_raw_input = store_declared RawInput_table raw_input_row t_raw_inputs_update \<and>
   insert_request = store_declared ApprovalRequest_table approval_request_row t_requests_update \<and>
   insert_decision = store_declared ApprovalDecision_table approval_decision_row t_decisions_update \<and>
   insert_intent = store_declared DeploymentIntent_table deployment_intent_row t_intents_update \<and>
   insert_artifact = store_declared DeploymentArtifact_table deployment_artifact_row t_artifacts_update \<and>
   insert_event = store_declared DeploymentStateEvent_table deployment_state_event_row t_events_update \<and>
   insert_acceptance = store_declared StagingAcceptance_table staging_acceptance_row t_acceptances_update \<and>
   insert_invalidation = store_declared StagingAcceptanceInvalidation_table staging_acceptance_invalidation_row t_invalidations_update \<and>
   insert_binding = store_declared DeploymentApprovalBinding_table deployment_approval_binding_row t_bindings_update \<and>
   insert_consumption = store_declared DeploymentApprovalConsumption_table deployment_approval_consumption_row t_consumptions_update \<and>
   insert_lock = store_declared DeploymentLock_table deployment_lock_row t_locks_update \<and>
   insert_attempt = store_declared DeploymentExecutionAttempt_table deployment_execution_attempt_row t_attempts_update \<and>
   insert_evidence = store_declared DeploymentEvidence_table deployment_evidence_row t_evidence_update \<and>
   insert_rollback = store_declared DeploymentRollback_table deployment_rollback_row t_rollbacks_update"
  by (intro conjI ext;
      rule insert_user_declared insert_principal_declared insert_external_identity_declared
        insert_raw_input_declared insert_request_declared insert_decision_declared
        insert_intent_declared insert_artifact_declared insert_event_declared
        insert_acceptance_declared insert_invalidation_declared insert_binding_declared
        insert_consumption_declared insert_lock_declared insert_attempt_declared
        insert_evidence_declared insert_rollback_declared)

end
