(* ===== verification/Spec2Isabelle.thy ===== *)
theory Spec2Isabelle
  imports Rehearsal Versions Declared
begin

text \<open>
  Maoxx OS records what its user sends to it, over an HTTP API and a Feishu bot, and it governs the
  deployment of itself: a deployment passes through a state machine with evidence of its CI run, its
  staging acceptance, its resources and its backup, needs an approval by a second human that is given
  on a Feishu card or by a text, and is carried out on Docker by a supervisor that must not act twice.
  This development models the Python programs under \<^verbatim>\<open>src/app\<close> and proves what makes them correct.

  \<^bold>\<open>How the parts fit.\<close> All state that is shared is the PostgreSQL schema \<^verbatim>\<open>core\<close>. The services
  (\<^verbatim>\<open>app/services\<close>) are transactions on it. Four programs call them: the API (\<^verbatim>\<open>app/main.py\<close>,
  \<^verbatim>\<open>app/api/inputs.py\<close>), the Feishu worker (\<^verbatim>\<open>app/feishu_worker.py\<close>), the supervision command line
  (\<^verbatim>\<open>app/supervision_cli.py\<close>) and the deployment command line (\<^verbatim>\<open>app/deployment_cli.py\<close>), which also
  starts the supervisor (\<^verbatim>\<open>app/services/production_supervisor.py\<close>). The supervisor owns two more kinds
  of state: a journal file for each attempt, and what Docker was told.

  \<^bold>\<open>The theories and the code.\<close>

  \<^item> \<open>Prelude\<close>, \<open>Patterns\<close>, \<open>Sha256\<close>, \<open>Uuid\<close>: exceptions and results (\<open>exn + 'a\<close>), time as an integer
    number of microseconds, UUIDs as 128-bit words, texts as their UTF-8 bytes; the regular expressions,
    SHA-256 on 32-bit words, and the printing and parsing of UUIDs.
  \<^item> \<open>Tables\<close>, \<open>Database\<close>, \<open>Schema\<close>: the rows of \<^verbatim>\<open>app/models/core.py\<close>. A record per table, its
    \<open>CHECK\<close>s, the inserts with every constraint PostgreSQL enforces, and the triggers of the audit
    tables. The locales \<open>partial_keyed_table\<close> and \<open>keyed_table\<close> are the contract of a unique key; they are
    interpreted for each constraint that the proofs use.
  \<^item> \<open>Ddl\<close>, \<open>Metadata\<close>, \<open>Migrations\<close>, \<open>Versions\<close>, \<open>Declared\<close>: the statements that define data, on a catalogue of
    tables; what the classes of \<^verbatim>\<open>app/models/core.py\<close> declare; the four revisions, with the schema they
    lead to and back from; and what PostgreSQL makes of a row by the declaration of its table alone.
    \<open>Database\<close> is proved to be that for every insert.
  \<^item> \<open>Policy\<close> (\<^verbatim>\<open>deployment_policy.py\<close>), \<open>Authority\<close> (\<^verbatim>\<open>deployment_authority.py\<close>, \<^verbatim>\<open>identity_authority.py\<close>,
    \<^verbatim>\<open>feishu_authorization.py\<close>), \<open>Approval\<close> (\<^verbatim>\<open>approval_service.py\<close>), \<open>IntentHash\<close>, \<open>Deployment\<close>
    (\<^verbatim>\<open>deployment_service.py\<close>): the operations of the services. An operation takes a database, fresh
    identifiers and clock readings, and gives an exception or a value with the database it commits.
  \<^item> \<open>Lifecycle\<close>, \<open>Reach\<close>, \<open>Steady\<close>, \<open>Guarantees\<close>, \<open>Scenario\<close>: the relation \<open>runs\<close> of all sequences of these
    operations, its invariants, what a reached database guarantees, and one deployment from its intent to
    its start at which the theorems are applied.
  \<^item> \<open>Resources\<close> (\<^verbatim>\<open>resource_authority.py\<close>) and \<open>Backup\<close> (\<^verbatim>\<open>backup_authority.py\<close>): the two collectors of
    evidence, over the commands they run.
  \<^item> \<open>Snapshot\<close>, \<open>Attempt\<close>, \<open>Supervisor\<close>, \<open>Durability\<close>, \<open>Recovery\<close>, \<open>Outcomes\<close>, \<open>Drill\<close>: the supervisor.
    An effect is a function of an environment and a world; it ends with a value, an exception or the
    death of the process, and the world outlives it. The locale \<open>world_relation\<close> is the logic of
    relations that every effect respects, \<open>before_submission\<close> that of what precedes a submission, and
    \<open>outcome_logic\<close> that of what a result rests on.
  \<^item> \<open>Json\<close>, \<open>JsonText\<close>, \<open>Runtime\<close>, \<open>Contract\<close>, \<open>Dock\<close>: \<open>json.loads\<close>, and the Docker Compose runtime of the
    supervisor on top of it. The locale \<open>runtime_contract\<close> is what the supervisor relies on; the Docker
    runtime interprets it.
  \<^item> \<open>Notice\<close> (\<^verbatim>\<open>supervision_notifications.py\<close>, \<^verbatim>\<open>approval_cards.py\<close>, the replies), \<open>Delivery\<close>
    (\<^verbatim>\<open>feishu_delivery.py\<close>, \<^verbatim>\<open>feishu_messaging.py\<close>), \<open>Announce\<close> (\<^verbatim>\<open>deployment_notifications.py\<close>,
    \<^verbatim>\<open>deployment_executor.py\<close>): what is shown to people, and how it is sent.
  \<^item> \<open>Inbox\<close>, \<open>Intake\<close> (\<^verbatim>\<open>feishu_worker.py\<close>, \<^verbatim>\<open>worker_health.py\<close>, \<^verbatim>\<open>config.py\<close>): the handlers of the worker,
    and the inbox that they implement.
  \<^item> \<open>Commands\<close> (\<^verbatim>\<open>supervision_cli.py\<close>), \<open>Orchestration\<close> (\<^verbatim>\<open>deployment_cli.py\<close>), \<open>Programs\<close> (\<^verbatim>\<open>api/inputs.py\<close>,
    \<^verbatim>\<open>schemas/raw_input.py\<close>, and all programs together), \<open>Rehearsal\<close>: the command lines from their parsed
    arguments to the exit status, the relation \<open>programs\<close> of everything the programs do in any order, and
    the concrete inputs of these theorems.
\<close>

text \<open>
  \<^bold>\<open>What is shown.\<close> The migrations build exactly the tables that the classes declare, their downgrades
  restore the schema from before except that of the third, which PostgreSQL refuses, and each insert of
  the model does what the declaration of its table says. In every database that is reached, an attempt exists only for a deployment whose
  whole chain of evidence and approvals is there, and the history of a deployment is a beginning of one
  of three. A start of Production is done once and only under its lock. The supervisor submits an attempt
  at most once, with crashes anywhere, as long as journals survive, and executions alone even when they
  are lost; a healthy result rests on a health cycle that passed in a window that restarts do not move, or on a
  snapshot that was healthy already, which the Docker runtime never reports, so that on Docker it rests on
  a running container of the attempt's own image for every service. The text under a snapshot's fingerprint
  shows the fields it is meant to cover. Backup and resource evidence mean what they
  say. The worker implements an inbox that replaces no text and keeps what is offered to it as long as the
  database takes it, says that a message was recorded only when it was, and shows every decision it stores
  in the state that was decided. The buttons of a card are read back as they were
  meant, deliveries are bounded, the announcement of a passed pipeline rests on GitHub, and the key of a
  deployment notification settles one reference, though overlapping sends may each call the sink. All programs
  together refine the services; from this follows that they never start Production, because no program
  acquires the lock that a start needs.

  \<^bold>\<open>Interleaving.\<close> Row locks make the operations on one deployment follow one another, so each is one
  step. An operation that reads without a lock and commits later takes two databases, with any run of the
  services between them, and three when it reads twice, as a deployment notification does around the call of
  its sink; commands and handlers take what other sessions committed before each of their
  transactions. A commit may fail, or take effect and raise.

  \<^bold>\<open>Bounds and fuel.\<close> No loop needs fuel. The delivery counts its attempts up to the configured number; the
  polling of the runtime stops when the clock passes the deadline, for which a clock that reaches it is
  the only assumption of its theorem; JSON is decoded by recursion on a text that gets shorter.

  \<^bold>\<open>What is an input.\<close> What Docker, \<^verbatim>\<open>gh\<close>, PostgreSQL's tools, \<^verbatim>\<open>/proc\<close> and the Feishu client answer, clocks,
  random numbers and fresh identifiers are arguments of the definitions; theorems that need something of
  them state it. A JSONB object is the list of its entries; where it matters that PostgreSQL keeps its keys
  distinct, a theorem says so.

  \<^bold>\<open>What is not modelled.\<close> The floats of delays, of Docker's percentages and of JSON are exact decimals.
  \<open>split\<close> and \<open>int\<close>, on what commands print and \<^verbatim>\<open>/proc/meminfo\<close>, know the blanks and digits of ASCII only.
  \<open>str(datetime)\<close> is that of an instant in UTC. The fields of an event are strings or absent. Python's
  limits on the nesting and the digits of JSON, logging, the parsers of argparse beyond their choices,
  the set-up of the Feishu client and its threads, pydantic's reading of the environment and the engine of
  SQLAlchemy are left out. A migration is run on a schema without rows, so that what it does to stored
  rows, such as the check of a new constraint, is not modelled; neither are the names that PostgreSQL cuts
  at 63 characters, nor texts with the character NUL, which it refuses. Tests, scripts and documents have
  no model.
\<close>

end
